(* ===== verification/Bridge_Prelude.thy ===== *)
theory Bridge_Prelude
  imports Main "HOL-Library.Word"
begin

text \<open>
  Shared vocabulary of the development: the machine types of the Go code, the
  three ways a Go function ends (a value, an \<open>error\<close>, a run-time panic), the
  parts of \<open>math/big\<close> and of slicing that the bridge uses, and the decimal
  rendering of numbers that builds the database keys.

  Conventions used everywhere:
  \<^item> \<open>[n]byte\<close> arrays (\<open>common.Address\<close>, \<open>common.Hash\<close>, \<open>types.ResourceID\<close>) are
    words of \<open>8 * n\<close> bits, read big-endian, so their length is in the type;
  \<^item> \<open>*big.Int\<close> values are \<open>int\<close>, with \<open>option\<close> where the code passes \<open>nil\<close>;
  \<^item> a Go function that returns \<open>(T, error)\<close> returns a \<^typ>\<open>'a\<close> result: \<open>Ok\<close> the
    value when the error is nil, \<open>Err\<close> otherwise, \<open>Panic\<close> where the code panics;
  \<^item> a function with effects takes the state it works on and returns the result
    together with the state it leaves, also on the error paths.
\<close>

section \<open>Machine types\<close>

type_synonym byte = "8 word"
type_synonym bytes = "byte list"
type_synonym u8 = "8 word"
type_synonym u64 = "64 word"
type_synonym address = "160 word"
type_synonym hash = "256 word"

named_theorems big_bytes "conversions between natural numbers and big-endian bytes"
named_theorems result_laws "how results propagate through the sequencing combinators"

section \<open>Results: values, errors, panics\<close>

text \<open>
  An \<open>error\<close> keeps its text, the error it wraps (\<open>%w\<close> in \<open>fmt.Errorf\<close>, with the
  text before and after it), or is the sentinel \<open>leveldb.ErrNotFound\<close>, which the
  code recognises by identity.
\<close>

datatype error =
    Error string
  | Wrap string error string
  | NotFound

datatype panic =
    SliceBounds
  | IndexRange
  | NilDereference
  | BadTypeAssertion
  | DivideByZero
  | Raised

datatype 'a result = Ok 'a | Err error | Panic panic

fun error_text :: "error \<Rightarrow> string" where
  "error_text (Error s) = s"
| "error_text (Wrap pre e suf) = pre @ error_text e @ suf"
| "error_text NotFound = ''leveldb: not found''"

text \<open>\<open>errors.Is(err, leveldb.ErrNotFound)\<close> looks through the chain of wrapped errors.\<close>

fun is_not_found :: "error \<Rightarrow> bool" where
  "is_not_found (Error s) = False"
| "is_not_found (Wrap pre e suf) = is_not_found e"
| "is_not_found NotFound = True"

definition is_ok :: "'a result \<Rightarrow> bool" where
  "is_ok r = (case r of Ok _ \<Rightarrow> True | _ \<Rightarrow> False)"

lemma is_ok_simps [simp]:
  "is_ok (Ok x)" "\<not> is_ok (Err e)" "\<not> is_ok (Panic p)"
  by (simp_all add: is_ok_def)

text \<open>Sequencing: the next call runs only when the previous one returned a value.\<close>

fun r_bind :: "'a result \<Rightarrow> ('a \<Rightarrow> 'b result) \<Rightarrow> 'b result" where
  "r_bind (Ok x) f = f x"
| "r_bind (Err e) f = Err e"
| "r_bind (Panic p) f = Panic p"

text \<open>The same with a state threaded through: a panic also leaves the state as it stands.\<close>

definition s_bind ::
  "('s \<Rightarrow> 'a result \<times> 's) \<Rightarrow> ('a \<Rightarrow> 's \<Rightarrow> 'b result \<times> 's) \<Rightarrow> 's \<Rightarrow> 'b result \<times> 's" where
  "s_bind m f s =
     (case m s of
        (Ok x, s') \<Rightarrow> f x s'
      | (Err e, s') \<Rightarrow> (Err e, s')
      | (Panic p, s') \<Rightarrow> (Panic p, s'))"

definition s_return :: "'a \<Rightarrow> 's \<Rightarrow> 'a result \<times> 's" where
  "s_return x s = (Ok x, s)"

definition s_lift :: "'a result \<Rightarrow> 's \<Rightarrow> 'a result \<times> 's" where
  "s_lift r s = (r, s)"

lemma r_bind_Ok_iff [result_laws]:
  "r_bind r f = Ok y \<longleftrightarrow> (\<exists>x. r = Ok x \<and> f x = Ok y)"
  by (cases r) auto

lemma s_bind_Ok_iff [result_laws]:
  "s_bind m f s = (Ok y, s') \<longleftrightarrow> (\<exists>x t. m s = (Ok x, t) \<and> f x t = (Ok y, s'))"
  by (auto simp: s_bind_def split: prod.splits result.splits)

lemma s_bind_simps [simp]:
  "m s = (Ok x, t) \<Longrightarrow> s_bind m f s = f x t"
  "m s = (Err e, t) \<Longrightarrow> s_bind m f s = (Err e, t)"
  "m s = (Panic p, t) \<Longrightarrow> s_bind m f s = (Panic p, t)"
  by (simp_all add: s_bind_def)

lemma s_return_apply [simp]: "s_return x s = (Ok x, s)"
  by (simp add: s_return_def)

lemma s_lift_apply [simp]: "s_lift r s = (r, s)"
  by (simp add: s_lift_def)

section \<open>Big-endian bytes and big integers\<close>

text \<open>\<open>big.Int.SetBytes\<close> and \<open>big.Int.Bytes\<close>: the latter has no leading zero byte.\<close>

fun bytes_nat_acc :: "nat \<Rightarrow> bytes \<Rightarrow> nat" where
  "bytes_nat_acc acc [] = acc"
| "bytes_nat_acc acc (b # bs) = bytes_nat_acc (acc * 256 + unat b) bs"

definition bytes_nat :: "bytes \<Rightarrow> nat" where
  "bytes_nat bs = bytes_nat_acc 0 bs"

fun nat_bytes :: "nat \<Rightarrow> bytes" where
  "nat_bytes n = (if n = 0 then [] else nat_bytes (n div 256) @ [word_of_nat (n mod 256)])"

declare nat_bytes.simps [simp del]

definition big_set_bytes :: "bytes \<Rightarrow> int" where
  "big_set_bytes bs = int (bytes_nat bs)"

definition big_bytes_of :: "int \<Rightarrow> bytes" where
  "big_bytes_of x = nat_bytes (nat \<bar>x\<bar>)"

text \<open>
  \<open>big.Int.Int64\<close> keeps the low 64 bits of the two's complement, \<open>big.Int.Uint64\<close>
  the low 64 bits of the absolute value.
\<close>

definition big_int64 :: "int \<Rightarrow> 64 word" where
  "big_int64 x = word_of_int x"

definition big_uint64 :: "int \<Rightarrow> u64" where
  "big_uint64 x = word_of_int \<bar>x\<bar>"

text \<open>Fixed-length big-endian bytes of a word: \<open>h[:]\<close> for an array value.\<close>

fun be_bytes :: "nat \<Rightarrow> nat \<Rightarrow> bytes" where
  "be_bytes 0 n = []"
| "be_bytes (Suc k) n = be_bytes k (n div 256) @ [word_of_nat (n mod 256)]"

definition address_bytes :: "address \<Rightarrow> bytes" where
  "address_bytes a = be_bytes 20 (unat a)"

definition hash_bytes :: "hash \<Rightarrow> bytes" where
  "hash_bytes h = be_bytes 32 (unat h)"

lemma bytes_nat_acc_append: "bytes_nat_acc acc (xs @ ys) = bytes_nat_acc (bytes_nat_acc acc xs) ys"
  by (induction xs arbitrary: acc) auto

lemma bytes_nat_acc_eq: "bytes_nat_acc acc bs = acc * 256 ^ length bs + bytes_nat_acc 0 bs"
proof (induction bs arbitrary: acc)
  case Nil
  show ?case by simp
next
  case (Cons b bs)
  show ?case
    using Cons.IH [of "acc * 256 + unat b"] Cons.IH [of "unat b"]
    by (simp add: algebra_simps)
qed

lemma bytes_nat_Nil [simp, big_bytes]: "bytes_nat [] = 0"
  by (simp add: bytes_nat_def)

lemma bytes_nat_append [big_bytes]:
  "bytes_nat (xs @ ys) = bytes_nat xs * 256 ^ length ys + bytes_nat ys"
  unfolding bytes_nat_def bytes_nat_acc_append by (rule bytes_nat_acc_eq)

lemma bytes_nat_snoc [simp, big_bytes]: "bytes_nat (xs @ [b]) = bytes_nat xs * 256 + unat b"
  by (simp add: bytes_nat_def bytes_nat_acc_append)

lemma bytes_nat_Cons [big_bytes]: "bytes_nat (b # bs) = unat b * 256 ^ length bs + bytes_nat bs"
  using bytes_nat_append [of "[b]" bs] by (simp add: bytes_nat_def)

lemma unat_byte_less [simp]: "unat (b :: byte) < 256"
  using unsigned_less [of b] by simp

lemma bytes_nat_less: "bytes_nat bs < 256 ^ length bs"
proof (induction bs rule: rev_induct)
  case Nil
  show ?case by simp
next
  case (snoc b bs)
  have "bytes_nat bs * 256 + unat b < (bytes_nat bs + 1) * 256"
    using unat_byte_less [of b] by simp
  also have "\<dots> \<le> 256 ^ length bs * 256"
    using snoc.IH by (intro mult_right_mono) auto
  finally show ?case by (simp add: mult.commute)
qed

lemma bytes_nat_zeros [simp, big_bytes]: "bytes_nat (replicate k 0 @ bs) = bytes_nat bs"
  by (induction k) (simp_all add: bytes_nat_def)

lemma unat_byte_of_mod [simp]: "unat (word_of_nat (n mod 256) :: byte) = n mod 256"
  by (simp add: unat_of_nat)

lemma bytes_nat_nat_bytes [simp, big_bytes]: "bytes_nat (nat_bytes n) = n"
proof (induction n rule: nat_bytes.induct)
  case (1 n)
  then show ?case
    by (subst nat_bytes.simps) (auto simp: mult.commute)
qed

lemma nat_bytes_0 [simp, big_bytes]: "nat_bytes 0 = []"
  by (subst nat_bytes.simps) simp

lemma nat_bytes_eq_Nil [simp]: "nat_bytes n = [] \<longleftrightarrow> n = 0"
  by (subst nat_bytes.simps) simp

lemma nat_bytes_inject [simp]: "nat_bytes m = nat_bytes n \<longleftrightarrow> m = n"
  by (metis bytes_nat_nat_bytes)

lemma length_nat_bytes_le: "n < 256 ^ k \<Longrightarrow> length (nat_bytes n) \<le> k"
proof (induction n arbitrary: k rule: nat_bytes.induct)
  case (1 n)
  show ?case
  proof (cases "n = 0")
    case True
    then show ?thesis by simp
  next
    case False
    with "1.prems" obtain j where k: "k = Suc j" by (cases k) auto
    from "1.prems" k have "n div 256 < 256 ^ j" by (simp add: less_mult_imp_div_less mult.commute)
    with "1.IH" [OF False] have "length (nat_bytes (n div 256)) \<le> j" by blast
    with False k show ?thesis by (subst nat_bytes.simps) simp
  qed
qed

lemma be_bytes_length [simp]: "length (be_bytes k n) = k"
  by (induction k arbitrary: n) auto

lemma bytes_nat_be_bytes [big_bytes]: "bytes_nat (be_bytes k n) = n mod 256 ^ k"
proof (induction k arbitrary: n)
  case 0
  show ?case by simp
next
  case (Suc k)
  have "n mod (256 * 256 ^ k) = 256 * (n div 256 mod 256 ^ k) + n mod 256"
    by (rule mod_mult2_eq)
  with Suc.IH [of "n div 256"] show ?case by (simp add: mult.commute)
qed

lemma be_bytes_bytes_nat [big_bytes]: "be_bytes (length bs) (bytes_nat bs) = bs"
proof (induction bs rule: rev_induct)
  case Nil
  show ?case by simp
next
  case (snoc b bs)
  have "(bytes_nat bs * 256 + unat b) div 256 = bytes_nat bs"
    using unat_byte_less [of b] by (simp add: div_mult_self3)
  moreover have "(bytes_nat bs * 256 + unat b) mod 256 = unat b"
    using unat_byte_less [of b] by (simp add: mod_mult_self3)
  ultimately show ?case using snoc.IH by simp
qed

lemma be_bytes_eq: "length bs = k \<Longrightarrow> bytes_nat bs = n \<Longrightarrow> be_bytes k n = bs"
  using be_bytes_bytes_nat [of bs] by simp

lemma be_bytes_inject: "m < 256 ^ k \<Longrightarrow> n < 256 ^ k \<Longrightarrow> be_bytes k m = be_bytes k n \<longleftrightarrow> m = n"
  by (metis bytes_nat_be_bytes mod_less)

text \<open>Left padding of the minimal bytes gives the fixed-length bytes.\<close>

lemma pad_nat_bytes [big_bytes]:
  assumes "n < 256 ^ k"
  shows "replicate (k - length (nat_bytes n)) 0 @ nat_bytes n = be_bytes k n"
proof -
  have "length (replicate (k - length (nat_bytes n)) 0 @ nat_bytes n) = k"
    using length_nat_bytes_le [OF assms] by simp
  then show ?thesis
    by (intro be_bytes_eq [symmetric]) simp_all
qed

lemma hash_bytes_length [simp]: "length (hash_bytes h) = 32"
  by (simp add: hash_bytes_def)

lemma address_bytes_length [simp]: "length (address_bytes a) = 20"
  by (simp add: address_bytes_def)

lemma hash_bytes_inject [simp]: "hash_bytes g = hash_bytes h \<longleftrightarrow> g = h"
proof -
  have "unat (w :: hash) < 256 ^ 32" for w
    using unsigned_less [of w] by simp
  then show ?thesis
    unfolding hash_bytes_def by (metis be_bytes_inject word_unat_eq_iff)
qed

lemma big_set_bytes_of [simp, big_bytes]: "big_set_bytes (big_bytes_of x) = \<bar>x\<bar>"
  by (simp add: big_set_bytes_def big_bytes_of_def)

lemma big_bytes_of_nat [simp]: "big_bytes_of (int n) = nat_bytes n"
  by (simp add: big_bytes_of_def)

lemma big_set_bytes_nonneg [simp]: "0 \<le> big_set_bytes bs"
  by (simp add: big_set_bytes_def)

section \<open>Slices\<close>

text \<open>
  \<open>s[i:j]\<close> on a slice whose visible bytes are \<open>xs\<close> and whose backing array goes on
  with \<open>spare\<close> (up to the capacity): Go checks \<open>0 \<le> i \<le> j \<le> cap(s)\<close> and panics
  otherwise, so a bound past \<open>len(s)\<close> but within the capacity reads the spare bytes.
\<close>

definition reslice :: "bytes \<Rightarrow> bytes \<Rightarrow> int \<Rightarrow> int \<Rightarrow> bytes result" where
  "reslice xs spare i j =
     (if 0 \<le> i \<and> i \<le> j \<and> j \<le> int (length xs + length spare)
      then Ok (take (nat j - nat i) (drop (nat i) (xs @ spare)))
      else Panic SliceBounds)"

definition index_at :: "'a list \<Rightarrow> nat \<Rightarrow> 'a result" where
  "index_at xs i = (if i < length xs then Ok (xs ! i) else Panic IndexRange)"

lemma index_at_simps [simp]:
  "index_at [] i = Panic IndexRange"
  "index_at (x # xs) 0 = Ok x"
  "index_at (x # xs) (Suc i) = index_at xs i"
  by (simp_all add: index_at_def)

section \<open>Decimal text\<close>

text \<open>\<open>%d\<close> of a non-negative number.\<close>

fun show_nat :: "nat \<Rightarrow> string" where
  "show_nat n = (if n < 10 then [char_of (48 + n)] else show_nat (n div 10) @ [char_of (48 + n mod 10)])"

declare show_nat.simps [simp del]

fun digits_value :: "nat \<Rightarrow> string \<Rightarrow> nat" where
  "digits_value acc [] = acc"
| "digits_value acc (c # cs) = digits_value (acc * 10 + (of_char c - 48)) cs"

definition show_int :: "int \<Rightarrow> string" where
  "show_int x = (if x < 0 then ''-'' @ show_nat (nat (- x)) else show_nat (nat x))"

lemma digits_value_append: "digits_value acc (xs @ ys) = digits_value (digits_value acc xs) ys"
  by (induction xs arbitrary: acc) auto

lemma digits_value_show_nat: "digits_value 0 (show_nat n) = n"
proof (induction n rule: show_nat.induct)
  case (1 n)
  show ?case
  proof (cases "n < 10")
    case True
    then show ?thesis by (subst show_nat.simps) (simp add: of_char_of)
  next
    case False
    with "1.IH" have "digits_value 0 (show_nat (n div 10)) = n div 10" by blast
    with False show ?thesis
      by (subst show_nat.simps) (simp add: digits_value_append of_char_of)
  qed
qed

lemma show_nat_inject [simp]: "show_nat m = show_nat n \<longleftrightarrow> m = n"
  by (metis digits_value_show_nat)

lemma show_nat_digits: "c \<in> set (show_nat n) \<Longrightarrow> 48 \<le> (of_char c :: nat) \<and> (of_char c :: nat) \<le> 57"
proof (induction n rule: show_nat.induct)
  case (1 n)
  show ?case
  proof (cases "n < 10")
    case True
    with "1.prems" show ?thesis by (subst (asm) show_nat.simps) (auto simp: of_char_of)
  next
    case False
    with "1.prems" have "c \<in> set (show_nat (n div 10)) \<or> c = char_of (48 + n mod 10)"
      by (subst (asm) show_nat.simps) auto
    with "1.IH" [OF False] show ?thesis by (auto simp: of_char_of)
  qed
qed

lemma show_nat_not_Nil [simp]: "show_nat n \<noteq> []"
  by (subst show_nat.simps) simp

lemma show_int_inject [simp]: "show_int x = show_int y \<longleftrightarrow> x = y"
proof -
  have minus: "''-'' @ s \<noteq> show_nat n" for s n
  proof
    assume "''-'' @ s = show_nat n"
    then have "CHR ''-'' \<in> set (show_nat n)" by (metis append_Cons list.set_intros(1))
    from show_nat_digits [OF this] show False by simp
  qed
  show ?thesis
    using minus minus [symmetric] by (auto simp: show_int_def)
qed

text \<open>Text as the bytes Go writes for it.\<close>

definition string_bytes :: "string \<Rightarrow> bytes" where
  "string_bytes s = map (\<lambda>c. word_of_nat (of_char c)) s"

lemma string_bytes_inject [simp]: "string_bytes s = string_bytes t \<longleftrightarrow> s = t"
proof -
  have "inj (\<lambda>c. word_of_nat (of_char c) :: byte)"
  proof (rule injI)
    fix c d :: char
    assume "(word_of_nat (of_char c) :: byte) = word_of_nat (of_char d)"
    then have "(of_char c :: nat) = of_char d"
      by (simp add: word_of_nat_eq_iff take_bit_eq_mod) 
    then show "c = d" by simp
  qed
  then show ?thesis by (simp add: string_bytes_def inj_map_eq_map)
qed

end
