(* ===== verification/Handler_Registry.thy ===== *)
theory Handler_Registry
  imports Bridge_Prelude
begin

text \<open>
  The interface of a handler registry. Five components keep one: the EVM event
  handler, the EVM message handler, the substrate listener, the substrate writer
  and the relayer. Each registers entries under a key, later entries replacing
  earlier ones, and looks keys up; an entry whose key is \<open>None\<close> is ignored (an
  empty address string). The provider promises \<open>lookup_register\<close>; the lemmas about
  runs of registrations are proved here once and reach the components through
  their interpretations.
\<close>

locale handler_registry =
  fixes empty :: 'r
    and register :: "'e \<Rightarrow> 'r \<Rightarrow> 'r"
    and lookup :: "'r \<Rightarrow> 'k \<Rightarrow> 'h option"
    and key :: "'e \<Rightarrow> 'k option"
    and handler :: "'e \<Rightarrow> 'h"
  assumes lookup_empty: "lookup empty k = None"
    and lookup_register:
      "lookup (register e r) k = (if key e = Some k then Some (handler e) else lookup r k)"
begin

lemma register_same: "key e = Some k \<Longrightarrow> lookup (register e r) k = Some (handler e)"
  by (simp add: lookup_register)

lemma register_other: "key e \<noteq> Some k \<Longrightarrow> lookup (register e r) k = lookup r k"
  by (simp add: lookup_register)

lemma register_ignored: "key e = None \<Longrightarrow> lookup (register e r) = lookup r"
  by (rule ext) (simp add: lookup_register)

lemma register_all_unregistered:
  "(\<forall>e \<in> set es. key e \<noteq> Some k) \<Longrightarrow> lookup (fold register es r) k = lookup r k"
  by (induction es arbitrary: r) (simp_all add: lookup_register)

text \<open>The last entry registered under a key is the one that is found.\<close>

lemma register_all_last:
  assumes "key e = Some k" and "\<forall>e' \<in> set es'. key e' \<noteq> Some k"
  shows "lookup (fold register (es @ e # es') r) k = Some (handler e)"
  using assms by (simp add: register_all_unregistered register_same)

lemma register_all_SomeD:
  assumes "lookup (fold register es r) k = Some h"
  shows "(\<exists>e \<in> set es. key e = Some k \<and> handler e = h) \<or> lookup r k = Some h"
  using assms
  by (induction es arbitrary: r) (force simp: lookup_register split: if_splits)+

text \<open>The last entry with a given key splits the list of registrations.\<close>

lemma last_with_key:
  assumes "\<exists>e \<in> set es. key e = Some k"
  obtains ys x zs where "es = ys @ x # zs" "key x = Some k" "\<forall>z \<in> set zs. key z \<noteq> Some k"
  using split_list_last_prop [OF assms] by blast

lemma register_all_agree:
  assumes "e \<in> set es" and "key e = Some k"
    and "\<forall>e' \<in> set es. key e' = Some k \<longrightarrow> handler e' = handler e"
  shows "lookup (fold register es r) k = Some (handler e)"
proof -
  from assms(1,2) have "\<exists>e \<in> set es. key e = Some k" by blast
  then obtain ys x zs where es: "es = ys @ x # zs" and x: "key x = Some k"
    and zs: "\<forall>z \<in> set zs. key z \<noteq> Some k"
    by (rule last_with_key)
  from register_all_last [OF x zs] have "lookup (fold register es r) k = Some (handler x)"
    by (simp add: es)
  with assms(3) x es show ?thesis by simp
qed

lemma register_all_None_iff:
  "lookup (fold register es empty) k = None \<longleftrightarrow> (\<forall>e \<in> set es. key e \<noteq> Some k)"
proof
  show "\<forall>e \<in> set es. key e \<noteq> Some k" if none: "lookup (fold register es empty) k = None"
  proof (rule ccontr)
    assume "\<not> (\<forall>e \<in> set es. key e \<noteq> Some k)"
    then have "\<exists>e \<in> set es. key e = Some k" by blast
    then obtain ys x zs where es: "es = ys @ x # zs" and x: "key x = Some k"
      and zs: "\<forall>z \<in> set zs. key z \<noteq> Some k"
      by (rule last_with_key)
    from register_all_last [OF x zs] none show False by (simp add: es)
  qed
qed (simp add: register_all_unregistered lookup_empty)

text \<open>A lookup after a run of registrations searches the run from its end.\<close>

lemma register_all_find:
  "lookup (fold register es empty) k = map_option handler (find (\<lambda>e. key e = Some k) (rev es))"
  by (induction es rule: rev_induct) (simp_all add: lookup_empty lookup_register)

lemma register_commute:
  assumes "key e = Some k" "key e' = Some k'" "k \<noteq> k'"
  shows "lookup (register e (register e' r)) = lookup (register e' (register e r))"
  using assms by (auto simp: lookup_register fun_eq_iff)

end

end
