(* ===== verification/Ethereum_Lib.thy ===== *)
theory Ethereum_Lib
  imports Bridge_Prelude
begin

text \<open>
  The functions of go-ethereum that the bridge calls. Their code is not part of
  the repository, so they are a parameter of the model: a record of functions that
  every definition using them takes as its argument \<open>L\<close>. What the code relies on is
  stated as named predicates, one per documented behaviour. \<open>reference_lib\<close> is a
  concrete record that satisfies all of them; witnesses evaluate with it.
\<close>

record eth_lib =
  left_pad_bytes :: "bytes \<Rightarrow> nat \<Rightarrow> bytes"     \<comment> \<open>\<open>common.LeftPadBytes\<close>\<close>
  padded_big_bytes :: "int \<Rightarrow> nat \<Rightarrow> bytes"     \<comment> \<open>\<open>math.PaddedBigBytes\<close>\<close>
  keccak256 :: "bytes \<Rightarrow> hash"                  \<comment> \<open>\<open>crypto.Keccak256Hash\<close>\<close>
  hex_to_address :: "string \<Rightarrow> address"         \<comment> \<open>\<open>common.HexToAddress\<close>\<close>
  address_hex :: "address \<Rightarrow> string"            \<comment> \<open>\<open>Address.Hex\<close>, \<open>Address.String\<close>\<close>
  is_hex_address :: "string \<Rightarrow> bool"            \<comment> \<open>\<open>common.IsHexAddress\<close>\<close>
  create_address :: "address \<Rightarrow> u64 \<Rightarrow> address" \<comment> \<open>\<open>crypto.CreateAddress\<close>\<close>

text \<open>\<open>LeftPadBytes\<close> zero-pads a slice on the left up to the given length.\<close>

definition left_pad_documented :: "eth_lib \<Rightarrow> bool" where
  "left_pad_documented L \<longleftrightarrow>
     (\<forall>bs n. left_pad_bytes L bs n = replicate (n - length bs) 0 @ bs)"

text \<open>
  \<open>PaddedBigBytes\<close> encodes a big integer as a big-endian slice of at least the given
  length.
\<close>

definition padded_big_documented :: "eth_lib \<Rightarrow> bool" where
  "padded_big_documented L \<longleftrightarrow>
     (\<forall>x n. 0 \<le> x \<longrightarrow>
        padded_big_bytes L x n = replicate (n - length (nat_bytes (nat x))) 0 @ nat_bytes (nat x))"

text \<open>No two of the given inputs collide under the hash.\<close>

definition collision_free_on :: "eth_lib \<Rightarrow> bytes set \<Rightarrow> bool" where
  "collision_free_on L A \<longleftrightarrow> inj_on (keccak256 L) A"

definition reference_lib :: eth_lib where
  "reference_lib =
     \<lparr> left_pad_bytes = (\<lambda>bs n. replicate (n - length bs) 0 @ bs),
       padded_big_bytes = (\<lambda>x n. replicate (n - length (big_bytes_of x)) 0 @ big_bytes_of x),
       keccak256 = (\<lambda>bs. word_of_nat (length bs * 256 ^ 24 + bytes_nat bs)),
       hex_to_address = (\<lambda>s. word_of_nat (bytes_nat (string_bytes s))),
       address_hex = (\<lambda>a. show_nat (unat a)),
       is_hex_address = (\<lambda>s. length s = 42),
       create_address = (\<lambda>a n. a + ucast n) \<rparr>"

lemma reference_left_pad [simp]: "left_pad_documented reference_lib"
  by (simp add: left_pad_documented_def reference_lib_def)

lemma reference_padded_big [simp]: "padded_big_documented reference_lib"
  by (simp add: padded_big_documented_def reference_lib_def big_bytes_of_def)

lemma left_pad_be_bytes:
  assumes "left_pad_documented L" and "n < 256 ^ k"
  shows "left_pad_bytes L (nat_bytes n) k = be_bytes k n"
  using assms by (simp add: left_pad_documented_def pad_nat_bytes)

lemma left_pad_full:
  assumes "left_pad_documented L" and "k \<le> length bs"
  shows "left_pad_bytes L bs k = bs"
  using assms by (simp add: left_pad_documented_def)

lemma left_pad_length:
  assumes "left_pad_documented L"
  shows "length (left_pad_bytes L bs k) = max k (length bs)"
  using assms by (simp add: left_pad_documented_def)

lemma padded_big_be_bytes:
  assumes "padded_big_documented L" and "n < 256 ^ k"
  shows "padded_big_bytes L (int n) k = be_bytes k n"
  using assms by (simp add: padded_big_documented_def pad_nat_bytes)

lemma left_pad_value:
  assumes "left_pad_documented L"
  shows "bytes_nat (left_pad_bytes L bs k) = bytes_nat bs"
  using assms by (simp add: left_pad_documented_def)

end
