(* ===== verification/Message.thy ===== *)
theory Message
  imports Bridge_Prelude
begin

text \<open>
  The cross-chain message of \<open>relayer/message/message.go\<close>, the statuses of a
  proposal, and the status tests of \<open>util/events.go\<close>. A payload is a list of
  \<open>interface{}\<close> values; the code only ever asserts that one is a \<open>[]byte\<close>, so any
  other dynamic type is kept apart by its name alone.
\<close>

datatype iface = Bytes_val bytes | Other_val string

fun as_bytes :: "iface \<Rightarrow> bytes option" where
  "as_bytes (Bytes_val bs) = Some bs"
| "as_bytes (Other_val _) = None"

type_synonym transfer_type = string

definition FungibleTransfer :: transfer_type where
  "FungibleTransfer = ''FungibleTransfer''"

definition NonFungibleTransfer :: transfer_type where
  "NonFungibleTransfer = ''NonFungibleTransfer''"

definition GenericTransfer :: transfer_type where
  "GenericTransfer = ''GenericTransfer''"

record message =
  DepositTxHash :: hash
  DepositBlock :: u64
  Source :: u8
  Destination :: u8
  DepositNonce :: u64
  ResourceId :: hash
  Payload :: "iface list"
  Type :: transfer_type

record proposal_status =
  Status :: u8
  YesVotes :: int
  YesVotesTotal :: u8
  ProposedBlock :: int

definition ProposalStatusInactive :: u8 where "ProposalStatusInactive = 0"
definition ProposalStatusActive :: u8 where "ProposalStatusActive = 1"
definition ProposalStatusPassed :: u8 where "ProposalStatusPassed = 2"
definition ProposalStatusExecuted :: u8 where "ProposalStatusExecuted = 3"
definition ProposalStatusCanceled :: u8 where "ProposalStatusCanceled = 4"

lemmas proposal_status_defs =
  ProposalStatusInactive_def ProposalStatusActive_def ProposalStatusPassed_def
  ProposalStatusExecuted_def ProposalStatusCanceled_def

definition StatusMap :: "u8 \<rightharpoonup> string" where
  "StatusMap =
     [ProposalStatusInactive \<mapsto> ''inactive'', ProposalStatusActive \<mapsto> ''active'',
      ProposalStatusPassed \<mapsto> ''passed'', ProposalStatusExecuted \<mapsto> ''executed'',
      ProposalStatusCanceled \<mapsto> ''canceled'']"

text \<open>\<open>util/events.go\<close>: the event signatures and the tests on a status byte.\<close>

definition Deposit_sig :: string where
  "Deposit_sig = ''Deposit(uint8,bytes32,uint64,address,bytes,bytes)''"

definition ProposalEvent_sig :: string where
  "ProposalEvent_sig = ''ProposalEvent(uint8,uint64,uint8,bytes32)''"

definition ProposalVote_sig :: string where
  "ProposalVote_sig = ''ProposalVote(uint8,uint64,uint8,bytes32)''"

definition IsActive :: "u8 \<Rightarrow> bool" where "IsActive s \<longleftrightarrow> s = 1"
definition IsFinalized :: "u8 \<Rightarrow> bool" where "IsFinalized s \<longleftrightarrow> s = 2"
definition IsExecuted :: "u8 \<Rightarrow> bool" where "IsExecuted s \<longleftrightarrow> s = 3"

lemma status_tests_agree:
  "IsActive s \<longleftrightarrow> StatusMap s = Some ''active''"
  "IsFinalized s \<longleftrightarrow> StatusMap s = Some ''passed''"
  "IsExecuted s \<longleftrightarrow> StatusMap s = Some ''executed''"
  by (auto simp: IsActive_def IsFinalized_def IsExecuted_def StatusMap_def proposal_status_defs)

text \<open>
  \<open>extractAmountTransferred\<close> up to the final conversion to \<open>float64\<close>: the amount is
  the first payload entry, read as a big-endian number. An empty payload panics.
\<close>

definition extract_amount :: "message \<Rightarrow> int result" where
  "extract_amount m =
     r_bind (index_at (Payload m) 0) (\<lambda>v.
       case as_bytes v of
         None \<Rightarrow> Err (Error ''could not cast interface to byte slice'')
       | Some bs \<Rightarrow> Ok (big_set_bytes bs))"

end
