(* ===== verification/Deposit_Codec.thy ===== *)
theory Deposit_Codec
  imports Ethereum_Lib Message
begin

text \<open>
  The path of a deposit through an EVM relayer, as pure functions on bytes:
  \<open>contracts/deposit/deposit.go\<close> builds the calldata a user deposits with, the
  event handlers of \<open>listener/event-handler.go\<close> turn the logged calldata into a
  message, the message handlers of \<open>voter/message-handler.go\<close> turn the message into
  a proposal (\<open>voter/proposal/proposal.go\<close>) whose data the relayers vote on.
  The lemmas give the exact bytes each stage produces; the properties say that what
  is voted on is what was deposited.
\<close>

section \<open>Deposit data\<close>

definition ConstructErc20DepositData :: "eth_lib \<Rightarrow> bytes \<Rightarrow> int \<Rightarrow> bytes" where
  "ConstructErc20DepositData L destRecipient amount =
     padded_big_bytes L amount 32
     @ padded_big_bytes L (int (length destRecipient)) 32
     @ destRecipient"

definition ConstructErc721DepositData :: "eth_lib \<Rightarrow> bytes \<Rightarrow> int \<Rightarrow> bytes \<Rightarrow> bytes" where
  "ConstructErc721DepositData L destRecipient tokenId metadata =
     padded_big_bytes L tokenId 32
     @ padded_big_bytes L (int (length destRecipient)) 32
     @ destRecipient
     @ padded_big_bytes L (int (length metadata)) 32
     @ metadata"

definition ConstructGenericDepositData :: "eth_lib \<Rightarrow> bytes \<Rightarrow> bytes" where
  "ConstructGenericDepositData L metadata =
     padded_big_bytes L (int (length metadata)) 32 @ metadata"

section \<open>Event handlers: calldata to message\<close>

text \<open>
  The calldata argument is a slice: its visible bytes and the spare bytes of its
  backing array. An event handler gets the source and destination domain, the nonce,
  the resource id, the calldata, the handler response, and the transaction hash and
  block of the deposit.
\<close>

type_synonym event_handler =
  "u8 \<Rightarrow> u8 \<Rightarrow> u64 \<Rightarrow> hash \<Rightarrow> bytes \<times> bytes \<Rightarrow> bytes \<Rightarrow> hash \<Rightarrow> u64 \<Rightarrow> message result"

definition Erc20EventHandler :: event_handler where
  "Erc20EventHandler sourceID destId nonce resourceID calldata handlerResponse txHash block =
     (case calldata of (cd, spare) \<Rightarrow>
       if length cd < 84 then Err (Error ''invalid calldata length: less than 84 bytes'')
       else
         r_bind (reslice cd spare 0 32) (\<lambda>amount0.
         r_bind (if length handlerResponse = 32 then reslice handlerResponse [] 0 32 else Ok amount0)
           (\<lambda>amount.
         r_bind (reslice cd spare 64 (int (length cd))) (\<lambda>recipientAddress.
         Ok \<lparr> DepositTxHash = txHash, DepositBlock = block, Source = sourceID,
              Destination = destId, DepositNonce = nonce, ResourceId = resourceID,
              Payload = [Bytes_val amount, Bytes_val recipientAddress],
              Type = FungibleTransfer \<rparr>))))"

definition GenericEventHandler :: event_handler where
  "GenericEventHandler sourceID destId nonce resourceID calldata handlerResponse txHash block =
     (case calldata of (cd, spare) \<Rightarrow>
       if length cd < 32 then Err (Error ''invalid calldata length: less than 32 bytes'')
       else
         r_bind (reslice cd spare 32 (int (length cd))) (\<lambda>metadata.
         Ok \<lparr> DepositTxHash = txHash, DepositBlock = block, Source = sourceID,
              Destination = destId, DepositNonce = nonce, ResourceId = resourceID,
              Payload = [Bytes_val metadata],
              Type = GenericTransfer \<rparr>))"

text \<open>
  The ERC721 handler computes its offsets in \<open>int64\<close>: the lengths read from the
  calldata are cut to 64 bits and the sums wrap around.
\<close>

definition Erc721EventHandler :: event_handler where
  "Erc721EventHandler sourceID destId nonce resourceID calldata handlerResponse txHash block =
     (case calldata of (cd, spare) \<Rightarrow>
       if length cd < 64 then Err (Error ''invalid calldata length: less than 84 bytes'')
       else
         r_bind (reslice cd spare 0 32) (\<lambda>tokenId.
         r_bind (reslice cd spare 32 64) (\<lambda>lenBytes.
         let recipientLen = big_int64 (big_set_bytes lenBytes);
             recipientEnd = 64 + recipientLen
         in
         r_bind (reslice cd spare 64 (sint recipientEnd)) (\<lambda>recipientAddress.
         r_bind (reslice cd spare (sint recipientEnd) (sint (recipientEnd + 32))) (\<lambda>metaLenBytes.
         let metadataLength = big_set_bytes metaLenBytes;
             metadataStart = recipientEnd + 32
         in
         r_bind (if metadataLength > 0
                 then reslice cd spare (sint metadataStart)
                        (sint (metadataStart + big_int64 metadataLength))
                 else Ok []) (\<lambda>metadata.
         Ok \<lparr> DepositTxHash = txHash, DepositBlock = block, Source = sourceID,
              Destination = destId, DepositNonce = nonce, ResourceId = resourceID,
              Payload = [Bytes_val tokenId, Bytes_val recipientAddress, Bytes_val metadata],
              Type = NonFungibleTransfer \<rparr>))))))"

section \<open>Proposals\<close>

record proposal =
  p_DepositTxHash :: hash
  p_DepositBlock :: u64
  p_Source :: u8
  p_DepositNonce :: u64
  p_ResourceId :: hash
  p_Payload :: "iface list"
  p_Data :: bytes
  p_HandlerAddress :: address
  p_BridgeAddress :: address

definition NewProposal ::
  "u8 \<Rightarrow> u64 \<Rightarrow> hash \<Rightarrow> bytes \<Rightarrow> address \<Rightarrow> address \<Rightarrow> hash \<Rightarrow> u64 \<Rightarrow> proposal" where
  "NewProposal source depositNonce resourceId data handlerAddress bridgeAddress txHash block =
     \<lparr> p_DepositTxHash = txHash, p_DepositBlock = block, p_Source = source,
       p_DepositNonce = depositNonce, p_ResourceId = resourceId, p_Payload = [],
       p_Data = data, p_HandlerAddress = handlerAddress, p_BridgeAddress = bridgeAddress \<rparr>"

definition GetDataHash :: "eth_lib \<Rightarrow> proposal \<Rightarrow> hash" where
  "GetDataHash L p = keccak256 L (hash_bytes (p_ResourceId p) @ p_Data p)"

text \<open>The identifier hashes the source byte and \<open>byte(DepositNonce)\<close>, the nonce's low byte.\<close>

definition GetID :: "eth_lib \<Rightarrow> proposal \<Rightarrow> hash" where
  "GetID L p = keccak256 L ([p_Source p] @ [ucast (p_DepositNonce p)])"

section \<open>Message handlers: message to proposal\<close>

type_synonym message_handler = "message \<Rightarrow> address \<Rightarrow> address \<Rightarrow> proposal result"

definition payload_bytes :: "message \<Rightarrow> nat \<Rightarrow> string \<Rightarrow> bytes result" where
  "payload_bytes m i msg =
     r_bind (index_at (Payload m) i) (\<lambda>v.
       case as_bytes v of None \<Rightarrow> Err (Error msg) | Some bs \<Rightarrow> Ok bs)"

definition ERC20MessageHandler :: "eth_lib \<Rightarrow> message_handler" where
  "ERC20MessageHandler L msg handlerAddr bridgeAddress =
     (if length (Payload msg) \<noteq> 2
      then Err (Error ''malformed payload. Len  of payload should be 2'')
      else
        r_bind (payload_bytes msg 0 ''wrong payloads amount format'') (\<lambda>amount.
        r_bind (payload_bytes msg 1 ''wrong payloads recipient format'') (\<lambda>recipient.
        let data = left_pad_bytes L amount 32
                   @ left_pad_bytes L (big_bytes_of (int (length recipient))) 32
                   @ recipient
        in Ok (NewProposal (Source msg) (DepositNonce msg) (ResourceId msg) data
                 handlerAddr bridgeAddress (DepositTxHash msg) (DepositBlock msg)))))"

definition ERC721MessageHandler :: "eth_lib \<Rightarrow> message_handler" where
  "ERC721MessageHandler L msg handlerAddr bridgeAddress =
     (if length (Payload msg) \<noteq> 3
      then Err (Error ''malformed payload. Len  of payload should be 3'')
      else
        r_bind (payload_bytes msg 0 ''wrong payloads tokenID format'') (\<lambda>tokenID.
        r_bind (payload_bytes msg 1 ''wrong payloads recipient format'') (\<lambda>recipient.
        r_bind (payload_bytes msg 2 ''wrong payloads metadata format'') (\<lambda>metadata.
        let data = left_pad_bytes L tokenID 32
                   @ left_pad_bytes L (big_bytes_of (int (length recipient))) 32
                   @ recipient
                   @ left_pad_bytes L (big_bytes_of (int (length metadata))) 32
                   @ metadata
        in Ok (NewProposal (Source msg) (DepositNonce msg) (ResourceId msg) data
                 handlerAddr bridgeAddress (DepositTxHash msg) (DepositBlock msg))))))"

definition GenericMessageHandler :: "eth_lib \<Rightarrow> message_handler" where
  "GenericMessageHandler L msg handlerAddr bridgeAddress =
     (if length (Payload msg) \<noteq> 1
      then Err (Error ''malformed payload. Len  of payload should be 1'')
      else
        r_bind (payload_bytes msg 0 ''unable to convert metadata to []byte'') (\<lambda>metadata.
        let data = left_pad_bytes L (big_bytes_of (int (length metadata))) 32 @ metadata
        in Ok (NewProposal (Source msg) (DepositNonce msg) (ResourceId msg) data
                 handlerAddr bridgeAddress (DepositTxHash msg) (DepositBlock msg))))"

section \<open>What each stage produces\<close>

lemmas codec_defs = Erc20EventHandler_def Erc721EventHandler_def GenericEventHandler_def
  ERC20MessageHandler_def ERC721MessageHandler_def GenericMessageHandler_def

lemma reslice_prefix [simp]:
  "k \<le> length xs \<Longrightarrow> reslice xs spare 0 (int k) = Ok (take k xs)"
  by (simp add: reslice_def)

lemma reslice_suffix [simp]:
  "k \<le> length xs \<Longrightarrow> reslice xs spare (int k) (int (length xs)) = Ok (drop k xs)"
  by (simp add: reslice_def)

lemma reslice_middle:
  "reslice (xs @ ys @ zs) spare (int (length xs)) (int (length xs) + int (length ys)) = Ok ys"
  by (simp add: reslice_def nat_add_distrib)

lemma reslice_numerals [simp]:
  "32 \<le> length xs \<Longrightarrow> reslice xs spare 0 32 = Ok (take 32 xs)"
  "64 \<le> length xs \<Longrightarrow> reslice xs spare 64 (int (length xs)) = Ok (drop 64 xs)"
  "32 \<le> length xs \<Longrightarrow> reslice xs spare 32 (int (length xs)) = Ok (drop 32 xs)"
  using reslice_prefix [of 32 xs spare] reslice_suffix [of 64 xs spare]
    reslice_suffix [of 32 xs spare] by simp_all

lemma payload_bytes_Bytes [simp]:
  "Payload m = Bytes_val bs # vs \<Longrightarrow> payload_bytes m 0 msg = Ok bs"
  "Payload m = v # Bytes_val bs # vs \<Longrightarrow> payload_bytes m (Suc 0) msg = Ok bs"
  "Payload m = v # u # Bytes_val bs # vs \<Longrightarrow> payload_bytes m (Suc (Suc 0)) msg = Ok bs"
  by (simp_all add: payload_bytes_def)

lemma Erc20EventHandler_Ok:
  assumes "84 \<le> length cd"
  shows "Erc20EventHandler src dst n rid (cd, spare) resp tx blk =
    Ok \<lparr> DepositTxHash = tx, DepositBlock = blk, Source = src, Destination = dst,
         DepositNonce = n, ResourceId = rid,
         Payload = [Bytes_val (if length resp = 32 then resp else take 32 cd),
                    Bytes_val (drop 64 cd)],
         Type = FungibleTransfer \<rparr>"
  using assms by (auto simp: Erc20EventHandler_def)

lemma GenericEventHandler_Ok:
  assumes "32 \<le> length cd"
  shows "GenericEventHandler src dst n rid (cd, spare) resp tx blk =
    Ok \<lparr> DepositTxHash = tx, DepositBlock = blk, Source = src, Destination = dst,
         DepositNonce = n, ResourceId = rid, Payload = [Bytes_val (drop 32 cd)],
         Type = GenericTransfer \<rparr>"
  using assms by (auto simp: GenericEventHandler_def)

lemma Erc20EventHandler_ResourceId:
  "Erc20EventHandler src dst n rid cd resp tx blk = Ok m \<Longrightarrow> ResourceId m = rid"
  by (cases cd) (auto simp: Erc20EventHandler_def Let_def result_laws split: if_splits)

lemma ERC20MessageHandler_Ok:
  assumes "Payload m = [Bytes_val amount, Bytes_val recipient]"
  shows "ERC20MessageHandler L m h b =
    Ok (NewProposal (Source m) (DepositNonce m) (ResourceId m)
          (left_pad_bytes L amount 32
           @ left_pad_bytes L (nat_bytes (length recipient)) 32 @ recipient)
          h b (DepositTxHash m) (DepositBlock m))"
  using assms by (simp add: ERC20MessageHandler_def)

lemma ERC721MessageHandler_Ok:
  assumes "Payload m = [Bytes_val tokenID, Bytes_val recipient, Bytes_val metadata]"
  shows "ERC721MessageHandler L m h b =
    Ok (NewProposal (Source m) (DepositNonce m) (ResourceId m)
          (left_pad_bytes L tokenID 32
           @ left_pad_bytes L (nat_bytes (length recipient)) 32 @ recipient
           @ left_pad_bytes L (nat_bytes (length metadata)) 32 @ metadata)
          h b (DepositTxHash m) (DepositBlock m))"
  using assms by (simp add: ERC721MessageHandler_def numeral_2_eq_2)

lemma GenericMessageHandler_Ok:
  assumes "Payload m = [Bytes_val metadata]"
  shows "GenericMessageHandler L m h b =
    Ok (NewProposal (Source m) (DepositNonce m) (ResourceId m)
          (left_pad_bytes L (nat_bytes (length metadata)) 32 @ metadata)
          h b (DepositTxHash m) (DepositBlock m))"
  using assms by (simp add: GenericMessageHandler_def)

text \<open>Offsets below \<open>2 ^ 63\<close> survive the \<open>int64\<close> arithmetic of the ERC721 handler.\<close>

lemma sint_word_of_int_64:
  assumes "- (2 ^ 63) \<le> x" and "x < 2 ^ 63"
  shows "sint (word_of_int x :: 64 word) = x"
  using assms by (simp add: signed_of_int signed_take_bit_int_eq_self)

lemma int64_offset:
  assumes "n + k < 2 ^ 63"
  shows "sint (word_of_int (int n) + word_of_int (int k) :: 64 word) = int n + int k"
proof -
  have "int n + int k < 2 ^ 63"
    using assms by (metis of_nat_add of_nat_less_iff of_nat_numeral of_nat_power)
  then show ?thesis
    using sint_word_of_int_64 [of "int n + int k"] by simp
qed

definition erc721_layout :: "bytes \<Rightarrow> bytes \<Rightarrow> bytes \<Rightarrow> bytes" where
  "erc721_layout tokenId recipient metadata =
     tokenId @ be_bytes 32 (length recipient) @ recipient
     @ be_bytes 32 (length metadata) @ metadata"

lemma small_length_less: "n < 2 ^ 62 \<Longrightarrow> n < (256 :: nat) ^ 32"
  by (erule less_trans) simp

lemma erc721_layout_slices:
  assumes len: "length tok = 32" and small: "length r + length meta < 2 ^ 62"
  defines "cd \<equiv> erc721_layout tok r meta"
  shows "64 \<le> length cd"
    and "reslice cd spare 0 32 = Ok tok"
    and "reslice cd spare 32 64 = Ok (be_bytes 32 (length r))"
    and "reslice cd spare 64 (64 + int (length r)) = Ok r"
    and "reslice cd spare (64 + int (length r)) (96 + int (length r))
         = Ok (be_bytes 32 (length meta))"
    and "reslice cd spare (96 + int (length r)) (96 + int (length r) + int (length meta)) = Ok meta"
proof -
  show "64 \<le> length cd" by (simp add: cd_def erc721_layout_def len)
  have cd1: "cd = tok @ be_bytes 32 (length r) @ r @ be_bytes 32 (length meta) @ meta"
    and cd2: "cd = (tok @ be_bytes 32 (length r)) @ r @ be_bytes 32 (length meta) @ meta"
    and cd3: "cd = (tok @ be_bytes 32 (length r) @ r) @ be_bytes 32 (length meta) @ meta"
    and cd4: "cd = (tok @ be_bytes 32 (length r) @ r @ be_bytes 32 (length meta)) @ meta @ []"
    by (simp_all add: cd_def erc721_layout_def)
  show "reslice cd spare 0 32 = Ok tok"
    by (simp add: cd1 len)
  show "reslice cd spare 32 64 = Ok (be_bytes 32 (length r))"
    using reslice_middle [of tok "be_bytes 32 (length r)" "r @ be_bytes 32 (length meta) @ meta",
        folded cd1] len by simp
  show "reslice cd spare 64 (64 + int (length r)) = Ok r"
    using reslice_middle [of "tok @ be_bytes 32 (length r)" r "be_bytes 32 (length meta) @ meta",
        folded cd2] len by simp
  show "reslice cd spare (64 + int (length r)) (96 + int (length r))
      = Ok (be_bytes 32 (length meta))"
    using reslice_middle [of "tok @ be_bytes 32 (length r) @ r" "be_bytes 32 (length meta)" meta,
        folded cd3] len
    by (simp add: ac_simps)
  show "reslice cd spare (96 + int (length r)) (96 + int (length r) + int (length meta)) = Ok meta"
    using reslice_middle [of "tok @ be_bytes 32 (length r) @ r @ be_bytes 32 (length meta)" meta "[]",
        folded cd4] len
    by (simp add: ac_simps)
qed

lemma erc721_offsets:
  assumes "length r + length meta < 2 ^ 62"
  shows "sint (64 + big_int64 (int (length r))) = 64 + int (length r)"
    and "sint (96 + big_int64 (int (length r))) = 96 + int (length r)"
    and "sint (96 + big_int64 (int (length r)) + big_int64 (int (length meta)))
         = 96 + int (length r) + int (length meta)"
proof -
  have small: "int (length r) + int (length meta) < 2 ^ 62"
    using assms by (simp flip: of_nat_add add: nat_less_iff)
  have words: "64 + big_int64 (int (length r)) = word_of_int (64 + int (length r))"
    "96 + big_int64 (int (length r)) = word_of_int (96 + int (length r))"
    "96 + big_int64 (int (length r)) + big_int64 (int (length meta))
     = word_of_int (96 + int (length r) + int (length meta))"
    by (simp_all add: big_int64_def)
  show "sint (64 + big_int64 (int (length r))) = 64 + int (length r)"
    unfolding words(1) by (rule sint_word_of_int_64) (use small in simp_all)
  show "sint (96 + big_int64 (int (length r))) = 96 + int (length r)"
    unfolding words(2) by (rule sint_word_of_int_64) (use small in simp_all)
  show "sint (96 + big_int64 (int (length r)) + big_int64 (int (length meta)))
      = 96 + int (length r) + int (length meta)"
    unfolding words(3) by (rule sint_word_of_int_64) (use small in simp_all)
qed

lemma Erc721EventHandler_layout:
  assumes "length tok = 32" and "length r + length meta < 2 ^ 62"
  shows "Erc721EventHandler src dst n rid (erc721_layout tok r meta, spare) resp tx blk =
    Ok \<lparr> DepositTxHash = tx, DepositBlock = blk, Source = src, Destination = dst,
         DepositNonce = n, ResourceId = rid,
         Payload = [Bytes_val tok, Bytes_val r, Bytes_val meta], Type = NonFungibleTransfer \<rparr>"
proof -
  note slices = erc721_layout_slices [OF assms]
  note offsets = erc721_offsets [OF assms(2)]
  have lens: "big_set_bytes (be_bytes 32 (length r)) = int (length r)"
    "big_set_bytes (be_bytes 32 (length meta)) = int (length meta)"
    using assms(2) by (simp_all add: big_set_bytes_def bytes_nat_be_bytes small_length_less)
  show ?thesis
    using slices(1)
    by (simp add: Erc721EventHandler_def Let_def slices(2-) offsets lens not_less)
qed

section \<open>From deposit to vote\<close>

lemma erc20_relayed:
  assumes "left_pad_documented L" and "84 \<le> length cd" and "length cd < 2 ^ 62"
  shows "r_bind (Erc20EventHandler src dst n rid (cd, spare) resp tx blk)
           (\<lambda>m. ERC20MessageHandler L m h b) =
         Ok (NewProposal src n rid
               ((if length resp = 32 then resp else take 32 cd)
                @ be_bytes 32 (length cd - 64) @ drop 64 cd) h b tx blk)"
proof -
  have "length cd - 64 < 2 ^ 62" using assms(3) by simp
  then have pad: "left_pad_bytes L (nat_bytes (length cd - 64)) 32 = be_bytes 32 (length cd - 64)"
    using assms(1) by (intro left_pad_be_bytes small_length_less)
  have "left_pad_bytes L amount 32 = amount" if "length amount = 32" for amount
    using assms(1) that by (simp add: left_pad_full)
  then show ?thesis
    using assms(2) by (simp add: Erc20EventHandler_Ok ERC20MessageHandler_Ok pad)
qed

lemma erc20_layout:
  assumes "padded_big_documented L" and "amount < 2 ^ 256" and "length recipient < 2 ^ 62"
  shows "ConstructErc20DepositData L recipient (int amount) =
    be_bytes 32 amount @ be_bytes 32 (length recipient) @ recipient"
proof -
  have "amount < 256 ^ 32" using assms(2) by simp
  note pads = this [THEN padded_big_be_bytes [OF assms(1)]]
    small_length_less [OF assms(3), THEN padded_big_be_bytes [OF assms(1)]]
  show ?thesis by (simp add: ConstructErc20DepositData_def pads)
qed

lemma erc20_deposit_message:
  assumes "padded_big_documented L" and "amount < 2 ^ 256"
    and "20 \<le> length recipient" and "length recipient < 2 ^ 62" and "length resp \<noteq> 32"
  shows "Erc20EventHandler src dst n rid (ConstructErc20DepositData L recipient (int amount), spare) resp
      tx blk =
    Ok \<lparr> DepositTxHash = tx, DepositBlock = blk, Source = src, Destination = dst,
         DepositNonce = n, ResourceId = rid,
         Payload = [Bytes_val (be_bytes 32 amount), Bytes_val recipient], Type = FungibleTransfer \<rparr>"
  unfolding erc20_layout [OF assms(1,2,4)] using assms(3,5) by (subst Erc20EventHandler_Ok) simp_all

lemma erc20_deposit_voted:
  assumes "left_pad_documented L" and "padded_big_documented L"
    and "0 \<le> amount" and "amount < 2 ^ 256"
    and "20 \<le> length recipient" and "length recipient < 2 ^ 61"
    and "length resp \<noteq> 32"
  shows "r_bind (Erc20EventHandler src dst n rid
                   (ConstructErc20DepositData L recipient amount, spare) resp tx blk)
           (\<lambda>m. ERC20MessageHandler L m h b) =
         Ok (NewProposal src n rid (ConstructErc20DepositData L recipient amount) h b tx blk)"
proof -
  obtain a where a: "amount = int a" using assms(3) nonneg_int_cases by blast
  have "a < 2 ^ 256" using assms(4) by (simp add: a)
  note cd = erc20_layout [OF assms(2) this, of recipient]
  show ?thesis
    using assms(5-7) by (simp add: a cd erc20_relayed [OF assms(1)])
qed

lemma erc721_deposit_voted:
  assumes "left_pad_documented L" and "padded_big_documented L"
    and "0 \<le> tokenId" and "tokenId < 2 ^ 256"
    and "length recipient + length metadata < 2 ^ 62"
  shows "r_bind (Erc721EventHandler src dst n rid
                   (ConstructErc721DepositData L recipient tokenId metadata, spare) resp tx blk)
           (\<lambda>m. ERC721MessageHandler L m h b) =
         Ok (NewProposal src n rid
               (ConstructErc721DepositData L recipient tokenId metadata) h b tx blk)"
proof -
  obtain t where t: "tokenId = int t" using assms(3) nonneg_int_cases by blast
  then have "t < 256 ^ 32" using assms(4) by (simp add: nat_less_iff)
  moreover have small: "length recipient < (256 :: nat) ^ 32" "length metadata < (256 :: nat) ^ 32"
    using assms(5) by (auto intro: small_length_less)
  ultimately have cd: "ConstructErc721DepositData L recipient tokenId metadata =
      erc721_layout (be_bytes 32 t) recipient metadata"
    by (simp add: ConstructErc721DepositData_def erc721_layout_def
        padded_big_be_bytes [OF assms(2)] t)
  show ?thesis
    unfolding cd using assms(5) small
    by (simp add: Erc721EventHandler_layout ERC721MessageHandler_Ok
        left_pad_be_bytes [OF assms(1)] left_pad_full [OF assms(1)])
      (simp add: erc721_layout_def)
qed

lemma generic_deposit_voted:
  assumes "left_pad_documented L" and "padded_big_documented L" and "length metadata < 2 ^ 62"
  shows "r_bind (GenericEventHandler src dst n rid
                   (ConstructGenericDepositData L metadata, spare) resp tx blk)
           (\<lambda>m. GenericMessageHandler L m h b) =
         Ok (NewProposal src n rid (ConstructGenericDepositData L metadata) h b tx blk)"
  using assms(3)
  by (simp add: ConstructGenericDepositData_def GenericEventHandler_Ok GenericMessageHandler_Ok
      small_length_less padded_big_be_bytes [OF assms(2)] left_pad_be_bytes [OF assms(1)])

section \<open>The contract of an asset type\<close>

text \<open>
  What an event handler and a message handler promise together, for the calldata and
  handler response their asset type accepts: the calldata comes through unchanged, under
  the same resource.
\<close>

locale asset_codec =
  fixes event_h :: event_handler and message_h :: message_handler
    and deposited :: "bytes \<Rightarrow> bytes \<Rightarrow> bool"
  assumes relayed: "deposited cd resp \<Longrightarrow>
      r_bind (event_h src dst n rid (cd, spare) resp tx blk) (\<lambda>m. message_h m h b)
      = Ok (NewProposal src n rid cd h b tx blk)"
    and same_resource: "event_h src dst n rid calldata resp tx blk = Ok m \<Longrightarrow> ResourceId m = rid"
begin

lemma handlers_agree:
  assumes "deposited cd resp"
  obtains m where "event_h src dst n rid (cd, spare) resp tx blk = Ok m" and "ResourceId m = rid"
    and "message_h m h b = Ok (NewProposal src n rid cd h b tx blk)"
  using relayed [OF assms, of src dst n rid spare tx blk h b] same_resource
  by (auto simp: r_bind_Ok_iff)

end

definition erc20_deposited :: "eth_lib \<Rightarrow> bytes \<Rightarrow> bytes \<Rightarrow> bool" where
  "erc20_deposited L cd resp \<longleftrightarrow>
     left_pad_documented L \<and> padded_big_documented L \<and> length resp \<noteq> 32 \<and>
     (\<exists>recipient amount. 0 \<le> amount \<and> amount < 2 ^ 256 \<and> 20 \<le> length recipient \<and>
        length recipient < 2 ^ 61 \<and> cd = ConstructErc20DepositData L recipient amount)"

definition erc721_deposited :: "eth_lib \<Rightarrow> bytes \<Rightarrow> bytes \<Rightarrow> bool" where
  "erc721_deposited L cd resp \<longleftrightarrow>
     left_pad_documented L \<and> padded_big_documented L \<and>
     (\<exists>recipient tokenId metadata. 0 \<le> tokenId \<and> tokenId < 2 ^ 256 \<and>
        length recipient + length metadata < 2 ^ 62 \<and>
        cd = ConstructErc721DepositData L recipient tokenId metadata)"

definition generic_deposited :: "eth_lib \<Rightarrow> bytes \<Rightarrow> bytes \<Rightarrow> bool" where
  "generic_deposited L cd resp \<longleftrightarrow>
     left_pad_documented L \<and> padded_big_documented L \<and>
     (\<exists>metadata. length metadata < 2 ^ 62 \<and> cd = ConstructGenericDepositData L metadata)"

lemma Erc721EventHandler_ResourceId:
  "Erc721EventHandler src dst n rid cd resp tx blk = Ok m \<Longrightarrow> ResourceId m = rid"
  by (cases cd) (auto simp: Erc721EventHandler_def Let_def result_laws split: if_splits)

lemma GenericEventHandler_ResourceId:
  "GenericEventHandler src dst n rid cd resp tx blk = Ok m \<Longrightarrow> ResourceId m = rid"
  by (cases cd) (auto simp: GenericEventHandler_def result_laws split: if_splits)

interpretation erc20_codec: asset_codec Erc20EventHandler "ERC20MessageHandler L" "erc20_deposited L"
  for L
  by unfold_locales (auto simp: erc20_deposited_def erc20_deposit_voted dest: Erc20EventHandler_ResourceId)

interpretation erc721_codec: asset_codec Erc721EventHandler "ERC721MessageHandler L" "erc721_deposited L"
  for L
  by unfold_locales (auto simp: erc721_deposited_def erc721_deposit_voted dest: Erc721EventHandler_ResourceId)

interpretation generic_codec: asset_codec GenericEventHandler "GenericMessageHandler L" "generic_deposited L"
  for L
  by unfold_locales (auto simp: generic_deposited_def generic_deposit_voted dest: GenericEventHandler_ResourceId)

section \<open>Round trips\<close>

text \<open>
  C8: what the relayers vote on for a fungible transfer is byte for byte what was
  deposited: calldata built by \<open>ConstructErc20DepositData\<close>, logged, turned into a
  message and then into a proposal gives a proposal whose data is that calldata, with
  the source, nonce, resource, transaction and block of the log. It holds for every
  amount of at most 256 bits and every recipient of 20 bytes or more, when the handler
  response does not carry a replacement amount.
\<close>

theorem erc20_deposit_roundtrip:
  assumes "left_pad_documented L" and "padded_big_documented L"
    and "0 \<le> amount" and "amount < 2 ^ 256"
    and "20 \<le> length recipient" and "length recipient < 2 ^ 61"
    and "length resp \<noteq> 32"
  shows "r_bind (Erc20EventHandler src dst n rid
                   (ConstructErc20DepositData L recipient amount, spare) resp tx blk)
           (\<lambda>m. ERC20MessageHandler L m h b) =
         Ok (NewProposal src n rid (ConstructErc20DepositData L recipient amount) h b tx blk)"
  using assms by (rule erc20_deposit_voted)

theorem erc20_deposit_roundtrip_witness:
  "r_bind (Erc20EventHandler 1 2 7 5
             (ConstructErc20DepositData reference_lib (replicate 20 9) 1000, []) [] 3 4)
     (\<lambda>m. ERC20MessageHandler reference_lib m 11 12) =
   Ok (NewProposal 1 7 5 (ConstructErc20DepositData reference_lib (replicate 20 9) 1000) 11 12 3 4)"
  by (rule erc20_deposit_roundtrip) simp_all

text \<open>
  A 32-byte handler response replaces the amount (the amount after fees): the
  proposal carries the response in place of the first 32 bytes of the calldata, and
  nothing else changes.
\<close>

theorem erc20_fee_response:
  assumes "left_pad_documented L" and "padded_big_documented L"
    and "0 \<le> amount" and "amount < 2 ^ 256" and "0 \<le> net" and "net < 2 ^ 256"
    and "20 \<le> length recipient" and "length recipient < 2 ^ 61"
  shows "r_bind (Erc20EventHandler src dst n rid
                   (ConstructErc20DepositData L recipient amount, spare)
                   (padded_big_bytes L net 32) tx blk)
           (\<lambda>m. ERC20MessageHandler L m h b) =
         Ok (NewProposal src n rid (ConstructErc20DepositData L recipient net) h b tx blk)"
proof -
  obtain a where a: "amount = int a" using assms(3) nonneg_int_cases by blast
  obtain f where f: "net = int f" using assms(5) nonneg_int_cases by blast
  have "a < 256 ^ 32" "f < 256 ^ 32"
    using assms(4,6) a f by (simp_all add: nat_less_iff)
  moreover have "length recipient < (256 :: nat) ^ 32"
    using assms(8) by (intro small_length_less) simp
  ultimately have bytes: "padded_big_bytes L amount 32 = be_bytes 32 a"
    "padded_big_bytes L net 32 = be_bytes 32 f"
    "padded_big_bytes L (int (length recipient)) 32 = be_bytes 32 (length recipient)"
    by (simp_all add: padded_big_be_bytes [OF assms(2)] a f)
  show ?thesis
    unfolding ConstructErc20DepositData_def bytes using assms(7,8)
    by (subst erc20_relayed [OF assms(1)]) simp_all
qed

theorem erc20_fee_response_witness:
  "r_bind (Erc20EventHandler 1 2 7 5
             (ConstructErc20DepositData reference_lib (replicate 20 9) 1000, [])
             (padded_big_bytes reference_lib 990 32) 3 4)
     (\<lambda>m. ERC20MessageHandler reference_lib m 11 12) =
   Ok (NewProposal 1 7 5 (ConstructErc20DepositData reference_lib (replicate 20 9) 990) 11 12 3 4)"
  by (rule erc20_fee_response) simp_all

text \<open>
  C9: the same end-to-end identity for a non-fungible transfer, metadata included,
  for every token id of at most 256 bits; the spare bytes behind the calldata and the
  handler response do not matter.
\<close>

theorem erc721_deposit_roundtrip:
  assumes "left_pad_documented L" and "padded_big_documented L"
    and "0 \<le> tokenId" and "tokenId < 2 ^ 256"
    and "length recipient + length metadata < 2 ^ 62"
  shows "r_bind (Erc721EventHandler src dst n rid
                   (ConstructErc721DepositData L recipient tokenId metadata, spare) resp tx blk)
           (\<lambda>m. ERC721MessageHandler L m h b) =
         Ok (NewProposal src n rid
               (ConstructErc721DepositData L recipient tokenId metadata) h b tx blk)"
  by (rule erc721_deposit_voted [OF assms])

theorem erc721_deposit_roundtrip_witness:
  "r_bind (Erc721EventHandler 1 2 7 5
             (ConstructErc721DepositData reference_lib (replicate 20 9) 1000 [1, 2, 3], [8]) [] 3 4)
     (\<lambda>m. ERC721MessageHandler reference_lib m 11 12) =
   Ok (NewProposal 1 7 5
         (ConstructErc721DepositData reference_lib (replicate 20 9) 1000 [1, 2, 3]) 11 12 3 4)"
  by (rule erc721_deposit_roundtrip) simp_all

text \<open>C10: the same end-to-end identity for a generic transfer, for every metadata.\<close>

theorem generic_deposit_roundtrip:
  assumes "left_pad_documented L" and "padded_big_documented L" and "length metadata < 2 ^ 62"
  shows "r_bind (GenericEventHandler src dst n rid
                   (ConstructGenericDepositData L metadata, spare) resp tx blk)
           (\<lambda>m. GenericMessageHandler L m h b) =
         Ok (NewProposal src n rid (ConstructGenericDepositData L metadata) h b tx blk)"
  by (rule generic_deposit_voted [OF assms])

theorem generic_deposit_roundtrip_witness:
  "r_bind (GenericEventHandler 1 2 7 5
             (ConstructGenericDepositData reference_lib [1, 2, 3], []) [] 3 4)
     (\<lambda>m. GenericMessageHandler reference_lib m 11 12) =
   Ok (NewProposal 1 7 5 (ConstructGenericDepositData reference_lib [1, 2, 3]) 11 12 3 4)"
  by (rule generic_deposit_roundtrip) simp_all

section \<open>Malformed calldata\<close>

text \<open>
  The ERC20 and the generic event handler never panic; they return an error
  exactly when the calldata is shorter than 84 and 32 bytes.
\<close>

theorem event_handlers_reject_short_calldata:
  "(is_ok (Erc20EventHandler src dst n rid (cd, spare) resp tx blk) \<longleftrightarrow> 84 \<le> length cd) \<and>
   (is_ok (GenericEventHandler src dst n rid (cd, spare) resp tx blk) \<longleftrightarrow> 32 \<le> length cd) \<and>
   Erc20EventHandler src dst n rid (cd, spare) resp tx blk \<noteq> Panic p \<and>
   GenericEventHandler src dst n rid (cd, spare) resp tx blk \<noteq> Panic p"
proof -
  have "Erc20EventHandler src dst n rid (cd, spare) resp tx blk =
      Err (Error ''invalid calldata length: less than 84 bytes'')" if "length cd < 84"
    using that by (simp add: Erc20EventHandler_def)
  moreover have "GenericEventHandler src dst n rid (cd, spare) resp tx blk =
      Err (Error ''invalid calldata length: less than 32 bytes'')" if "length cd < 32"
    using that by (simp add: GenericEventHandler_def)
  ultimately show ?thesis
    by (cases "84 \<le> length cd"; cases "32 \<le> length cd")
      (simp_all add: Erc20EventHandler_Ok GenericEventHandler_Ok not_le)
qed

lemma reslice_Ok_bounds:
  "reslice xs spare i j = Ok ys \<Longrightarrow> 0 \<le> i \<and> i \<le> j \<and> j \<le> int (length xs + length spare)"
  by (simp add: reslice_def split: if_splits)

lemma reslice_not_Err [simp]: "reslice xs spare i j \<noteq> Err e"
  by (simp add: reslice_def)

lemma reslice_panics:
  "int (length xs + length spare) < j \<Longrightarrow> reslice xs spare i j = Panic SliceBounds"
  by (simp add: reslice_def)

text \<open>
  The ERC721 event handler checks for 64 bytes only, although it needs 96: a
  log whose calldata has between 64 and 95 bytes, with nothing behind it in its
  backing array, makes it panic with a slice bounds error instead of returning the
  error it has for short calldata.
\<close>

theorem erc721_short_calldata_panics:
  assumes "64 \<le> length cd" and "length cd < 96"
  shows "Erc721EventHandler src dst n rid (cd, []) resp tx blk = Panic SliceBounds"
proof -
  obtain lb where lb: "reslice cd [] 32 64 = Ok lb"
    using assms(1) by (simp add: reslice_def)
  define w where "w = big_int64 (big_set_bytes lb)"
  have tail: "r_bind (reslice cd [] (sint (64 + w)) (sint (96 + w))) f = Panic SliceBounds"
    if r: "reslice cd [] 64 (sint (64 + w)) = Ok r" for r and f :: "bytes \<Rightarrow> message result"
  proof -
    from reslice_Ok_bounds [OF r] have e: "64 \<le> sint (64 + w)" "sint (64 + w) \<le> 95"
      using assms(2) by auto
    have "96 + w = word_of_int (sint (64 + w) + 32)" by simp
    then have "sint (96 + w) = sint (64 + w) + 32"
      using e sint_word_of_int_64 [of "sint (64 + w) + 32"] by simp
    then show ?thesis using e assms(2) by (simp add: reslice_panics)
  qed
  have "reslice cd [] 64 (sint (64 + w)) = Panic SliceBounds \<or>
      (\<exists>r. reslice cd [] 64 (sint (64 + w)) = Ok r)"
    by (simp add: reslice_def)
  then show ?thesis
    using assms(1) tail
    by (auto simp: Erc721EventHandler_def Let_def lb not_less simp flip: w_def)
qed

theorem erc721_short_calldata_panics_witness:
  "Erc721EventHandler 1 2 7 5 (replicate 64 0, []) [] 3 4 = Panic SliceBounds"
  by (rule erc721_short_calldata_panics) simp_all

section \<open>Proposal identity\<close>

text \<open>
  Two proposals have the same data hash only when resource id and data agree,
  unless the hash collides on these two inputs: a vote cannot be counted for a proposal
  with other content.
\<close>

theorem data_hash_binds:
  assumes "collision_free_on L {hash_bytes (p_ResourceId p) @ p_Data p,
                                hash_bytes (p_ResourceId q) @ p_Data q}"
  shows "GetDataHash L p = GetDataHash L q \<longleftrightarrow>
         p_ResourceId p = p_ResourceId q \<and> p_Data p = p_Data q"
proof -
  have "GetDataHash L p = GetDataHash L q \<longleftrightarrow>
      hash_bytes (p_ResourceId p) @ p_Data p = hash_bytes (p_ResourceId q) @ p_Data q"
    using assms unfolding collision_free_on_def GetDataHash_def
    by (auto dest: inj_onD)
  then show ?thesis by simp
qed

theorem data_hash_binds_witness:
  "GetDataHash reference_lib (NewProposal 1 7 5 [1] 11 12 3 4) \<noteq>
   GetDataHash reference_lib (NewProposal 1 7 5 [2] 11 12 3 4)"
proof -
  have "collision_free_on reference_lib {hash_bytes 5 @ [1], hash_bytes 5 @ [2]}"
    by (simp add: collision_free_on_def reference_lib_def hash_bytes_def bytes_nat_be_bytes)
  then show ?thesis
    using data_hash_binds [of reference_lib "NewProposal 1 7 5 [1] 11 12 3 4"
        "NewProposal 1 7 5 [2] 11 12 3 4"]
    by (simp add: NewProposal_def)
qed

text \<open>
  The proposal identifier that keys the pending votes distinguishes deposits of
  one source only by the low byte of their nonce: nonces that agree modulo 256 share
  an identifier, and only those do as long as the hash does not collide.
\<close>

theorem get_id_nonce_low_byte:
  assumes "collision_free_on L {[p_Source p, ucast (p_DepositNonce p)],
                                [p_Source q, ucast (p_DepositNonce q)]}"
  shows "GetID L p = GetID L q \<longleftrightarrow>
         p_Source p = p_Source q \<and>
         unat (p_DepositNonce p) mod 256 = unat (p_DepositNonce q) mod 256"
proof -
  have "GetID L p = GetID L q \<longleftrightarrow>
      [p_Source p, ucast (p_DepositNonce p)] = [p_Source q, ucast (p_DepositNonce q)]"
    using assms unfolding collision_free_on_def GetID_def
    by (auto dest: inj_onD)
  moreover have "(ucast x :: byte) = ucast y \<longleftrightarrow> unat x mod 256 = unat y mod 256" for x y :: u64
    by (simp add: word_unat_eq_iff unsigned_ucast_eq unsigned_take_bit_eq take_bit_eq_mod)
  ultimately show ?thesis by simp
qed

theorem get_id_nonce_low_byte_witness:
  "GetID reference_lib (NewProposal 1 3 5 [] 11 12 3 4) =
   GetID reference_lib (NewProposal 1 259 6 [] 11 12 3 4)"
proof -
  have "collision_free_on reference_lib {[1, ucast (3 :: u64)], [1, ucast (259 :: u64)]}"
    by (simp add: collision_free_on_def)
  then show ?thesis
    using get_id_nonce_low_byte [of reference_lib "NewProposal 1 3 5 [] 11 12 3 4"
        "NewProposal 1 259 6 [] 11 12 3 4"]
    by (simp add: NewProposal_def)
qed

end
