(* ===== verification/Store.thy ===== *)
theory Store
  imports Bridge_Prelude
begin

text \<open>
  Persistence: the key-value interface of \<open>store/store.go\<close>, its LevelDB provider in
  \<open>lvldb/lvldb.go\<close>, and its two clients \<open>store/blockstore.go\<close> and
  \<open>store/noncestore.go\<close>. LevelDB itself is a parameter. The locale \<open>kv_store\<close> is the
  contract the clients rely on; the locale \<open>leveldb\<close> is LevelDB's documented
  behaviour, and a \<open>sublocale\<close> shows that the provider turns the second into the
  first.
\<close>

section \<open>The interface and its provider\<close>

record 's key_value =
  GetByKey :: "bytes \<Rightarrow> 's \<Rightarrow> bytes result \<times> 's"
  SetByKey :: "bytes \<Rightarrow> bytes \<Rightarrow> 's \<Rightarrow> unit result \<times> 's"

text \<open>The operations of \<open>leveldb.DB\<close> the provider calls, with their nil options.\<close>

record 's leveldb_db =
  db_Get :: "bytes \<Rightarrow> 's \<Rightarrow> bytes result \<times> 's"
  db_Put :: "bytes \<Rightarrow> bytes \<Rightarrow> 's \<Rightarrow> unit result \<times> 's"
  db_Close :: "'s \<Rightarrow> unit result \<times> 's"

definition LVLDB_GetByKey :: "'s leveldb_db \<Rightarrow> bytes \<Rightarrow> 's \<Rightarrow> bytes result \<times> 's" where
  "LVLDB_GetByKey db key s = db_Get db key s"

definition LVLDB_SetByKey :: "'s leveldb_db \<Rightarrow> bytes \<Rightarrow> bytes \<Rightarrow> 's \<Rightarrow> unit result \<times> 's" where
  "LVLDB_SetByKey db key v s = db_Put db key v s"

definition LVLDB_Close :: "'s leveldb_db \<Rightarrow> 's \<Rightarrow> unit result \<times> 's" where
  "LVLDB_Close db s = db_Close db s"

text \<open>\<open>NewLvlDB\<close>: \<open>open_file\<close> stands for \<open>leveldb.OpenFile\<close>.\<close>

definition NewLvlDB ::
  "(string \<Rightarrow> 's \<Rightarrow> 's leveldb_db result \<times> 's) \<Rightarrow> string \<Rightarrow> 's \<Rightarrow> 's key_value result \<times> 's" where
  "NewLvlDB open_file path s =
     (case open_file path s of
        (Ok db, s') \<Rightarrow> (Ok \<lparr> GetByKey = LVLDB_GetByKey db, SetByKey = LVLDB_SetByKey db \<rparr>, s')
      | (Err e, s') \<Rightarrow> (Err (Wrap ''levelDB.OpenFile fail: '' e ''''), s')
      | (Panic p, s') \<Rightarrow> (Panic p, s'))"

definition LVLDB :: "'s leveldb_db \<Rightarrow> 's key_value" where
  "LVLDB db = \<lparr> GetByKey = LVLDB_GetByKey db, SetByKey = LVLDB_SetByKey db \<rparr>"

section \<open>Block store\<close>

definition block_key :: "u8 \<Rightarrow> bytes" where
  "block_key domainID = string_bytes (''chain:'' @ show_nat (unat domainID) @ '':block'')"

definition StoreBlock :: "'s key_value \<Rightarrow> int \<Rightarrow> u8 \<Rightarrow> 's \<Rightarrow> unit result \<times> 's" where
  "StoreBlock db block domainID s = SetByKey db (block_key domainID) (big_bytes_of block) s"

definition GetLastStoredBlock :: "'s key_value \<Rightarrow> u8 \<Rightarrow> 's \<Rightarrow> int result \<times> 's" where
  "GetLastStoredBlock db domainID s =
     (case GetByKey db (block_key domainID) s of
        (Ok v, s') \<Rightarrow> (Ok (big_set_bytes v), s')
      | (Err e, s') \<Rightarrow> (if is_not_found e then Ok 0 else Err e, s')
      | (Panic p, s') \<Rightarrow> (Panic p, s'))"

text \<open>The result is \<open>nil\<close> when the chain is to start at the head.\<close>

definition GetStartBlock ::
  "'s key_value \<Rightarrow> u8 \<Rightarrow> int \<Rightarrow> bool \<Rightarrow> bool \<Rightarrow> 's \<Rightarrow> int option result \<times> 's" where
  "GetStartBlock db domainID startBlock latest fresh s =
     (if latest then (Ok None, s)
      else if fresh then (Ok (Some startBlock), s)
      else s_bind (GetLastStoredBlock db domainID)
             (\<lambda>latestBlock. s_return (Some (if latestBlock > startBlock then latestBlock else startBlock))) s)"

section \<open>Nonce store\<close>

definition nonce_key :: "int \<Rightarrow> bytes" where
  "nonce_key chainID = string_bytes (''chain:'' @ show_int (sint (big_int64 chainID)) @ '':nonce'')"

text \<open>The nonce is a pointer: \<open>nonce.Bytes()\<close> on \<open>nil\<close> panics before the store is touched.\<close>

definition StoreNonce :: "'s key_value \<Rightarrow> int \<Rightarrow> int option \<Rightarrow> 's \<Rightarrow> unit result \<times> 's" where
  "StoreNonce db chainID nonce s =
     (case nonce of
        None \<Rightarrow> (Panic NilDereference, s)
      | Some n \<Rightarrow> SetByKey db (nonce_key chainID) (big_bytes_of n) s)"

definition GetNonce :: "'s key_value \<Rightarrow> int \<Rightarrow> 's \<Rightarrow> int result \<times> 's" where
  "GetNonce db chainID s =
     (case GetByKey db (nonce_key chainID) s of
        (Ok v, s') \<Rightarrow> (Ok (big_set_bytes v), s')
      | (Err e, s') \<Rightarrow> (if is_not_found e then Ok 0 else Err e, s')
      | (Panic p, s') \<Rightarrow> (Panic p, s'))"

section \<open>The keys do not overlap\<close>

lemma block_key_inject [simp]: "block_key d = block_key d' \<longleftrightarrow> d = d'"
  by (simp add: block_key_def word_unat_eq_iff)

lemma nonce_key_inject:
  "nonce_key c = nonce_key c' \<longleftrightarrow> sint (big_int64 c) = sint (big_int64 c')"
  by (simp add: nonce_key_def)

lemma block_key_not_nonce_key [simp]: "block_key d \<noteq> nonce_key c"
proof
  assume "block_key d = nonce_key c"
  then have eq: "''chain:'' @ show_nat (unat d) @ '':block'' =
      ''chain:'' @ show_int (sint (big_int64 c)) @ '':nonce''"
    by (simp add: block_key_def nonce_key_def)
  have "last (xs @ '':block'') = CHR ''k''" "last (xs @ '':nonce'') = CHR ''e''" for xs
    by simp_all
  then have "last (''chain:'' @ show_nat (unat d) @ '':block'') = CHR ''k''"
    "last (''chain:'' @ show_int (sint (big_int64 c)) @ '':nonce'') = CHR ''e''"
    by (metis append.assoc)+
  with eq show False by simp
qed

section \<open>The contract\<close>

text \<open>
  \<open>content s\<close> is what the store holds in state \<open>s\<close>. A read may fail, but it answers
  truthfully when it answers; a successful write changes its own key only. Nothing is
  said about a failed write.
\<close>

definition stored_number :: "(bytes \<rightharpoonup> bytes) \<Rightarrow> bytes \<Rightarrow> int" where
  "stored_number m k = (case m k of None \<Rightarrow> 0 | Some v \<Rightarrow> big_set_bytes v)"

locale kv_store =
  fixes db :: "'s key_value"
    and content :: "'s \<Rightarrow> bytes \<rightharpoonup> bytes"
  assumes get_no_change: "GetByKey db k s = (r, s') \<Longrightarrow> content s' = content s"
    and get_value: "GetByKey db k s = (Ok v, s') \<Longrightarrow> content s k = Some v"
    and get_missing: "GetByKey db k s = (Err e, s') \<Longrightarrow> is_not_found e \<Longrightarrow> content s k = None"
    and get_no_panic: "GetByKey db k s \<noteq> (Panic p, s')"
    and set_value: "SetByKey db k v s = (Ok u, s') \<Longrightarrow> content s' = (content s)(k \<mapsto> v)"
begin

lemma GetLastStoredBlock_cases:
  assumes "GetLastStoredBlock db d s = (r, s')"
  shows "content s' = content s \<and>
    (r = Ok (stored_number (content s) (block_key d)) \<or> (\<exists>e. r = Err e \<and> \<not> is_not_found e))"
proof (cases "GetByKey db (block_key d) s")
  case (Pair q t)
  then show ?thesis
    using assms get_no_change [OF Pair] get_value get_missing get_no_panic
    by (cases q) (auto simp: GetLastStoredBlock_def stored_number_def split: if_splits)
qed

lemma GetNonce_cases:
  assumes "GetNonce db c s = (r, s')"
  shows "content s' = content s \<and>
    (r = Ok (stored_number (content s) (nonce_key c)) \<or> (\<exists>e. r = Err e \<and> \<not> is_not_found e))"
proof (cases "GetByKey db (nonce_key c) s")
  case (Pair q t)
  then show ?thesis
    using assms get_no_change [OF Pair] get_value get_missing get_no_panic
    by (cases q) (auto simp: GetNonce_def stored_number_def split: if_splits)
qed

lemma StoreBlock_stored:
  assumes "StoreBlock db b d s = (Ok u, s')"
  shows "stored_number (content s') k = (if k = block_key d then \<bar>b\<bar> else stored_number (content s) k)"
  using assms set_value by (auto simp: StoreBlock_def stored_number_def)

lemma StoreNonce_stored:
  assumes "StoreNonce db c (Some n) s = (Ok u, s')"
  shows "stored_number (content s') k = (if k = nonce_key c then \<bar>n\<bar> else stored_number (content s) k)"
  using assms set_value by (auto simp: StoreNonce_def stored_number_def)

lemma block_read_back:
  assumes "StoreBlock db b d s = (Ok u, s1)" and "GetLastStoredBlock db d' s1 = (r, s2)"
  shows "r = Ok (if d' = d then \<bar>b\<bar> else stored_number (content s) (block_key d')) \<or>
         (\<exists>e. r = Err e \<and> \<not> is_not_found e)"
  using GetLastStoredBlock_cases [OF assms(2)] StoreBlock_stored [OF assms(1)]
  by (auto split: if_splits)

lemma start_block_after_store:
  assumes "StoreBlock db b d s = (Ok u, s1)" and "0 \<le> b"
    and "GetStartBlock db d start False False s1 = (Ok r, s2)"
  shows "r = Some (max b start)"
proof -
  obtain q t where q: "GetLastStoredBlock db d s1 = (q, t)" by (cases "GetLastStoredBlock db d s1")
  from block_read_back [OF assms(1) q] assms(2,3) q show ?thesis
    by (auto simp: GetStartBlock_def s_bind_def split: result.splits)
qed

lemma nonce_read_back:
  assumes "StoreNonce db c (Some n) s = (Ok u, s1)" and "GetNonce db c s1 = (r, s2)"
  shows "r = Ok \<bar>n\<bar> \<or> (\<exists>e. r = Err e \<and> \<not> is_not_found e)"
  using GetNonce_cases [OF assms(2)] StoreNonce_stored [OF assms(1)]
  by (auto split: if_splits)

lemma StoreBlock_keeps_nonces:
  assumes "StoreBlock db b d s = (Ok u, s1)" and "GetNonce db c s1 = (r, s2)"
  shows "r = Ok (stored_number (content s) (nonce_key c)) \<or> (\<exists>e. r = Err e \<and> \<not> is_not_found e)"
proof -
  have "nonce_key c \<noteq> block_key d" by (metis block_key_not_nonce_key)
  then show ?thesis
    using GetNonce_cases [OF assms(2)] StoreBlock_stored [OF assms(1)] by auto
qed

end

text \<open>
  LevelDB's documentation of \<open>Get\<close> (the value of the key, or \<open>ErrNotFound\<close>) and \<open>Put\<close>
  (sets the value for the given key, overwriting any previous one).
\<close>

locale leveldb =
  fixes ldb :: "'s leveldb_db"
    and content :: "'s \<Rightarrow> bytes \<rightharpoonup> bytes"
  assumes Get_no_change: "db_Get ldb k s = (r, s') \<Longrightarrow> content s' = content s"
    and Get_value: "db_Get ldb k s = (Ok v, s') \<Longrightarrow> content s k = Some v"
    and Get_missing: "db_Get ldb k s = (Err e, s') \<Longrightarrow> is_not_found e \<Longrightarrow> content s k = None"
    and Get_no_panic: "db_Get ldb k s \<noteq> (Panic p, s')"
    and Put_value: "db_Put ldb k v s = (Ok u, s') \<Longrightarrow> content s' = (content s)(k \<mapsto> v)"

sublocale leveldb \<subseteq> kv: kv_store "LVLDB ldb" content
  by unfold_locales
    (auto simp: LVLDB_def LVLDB_GetByKey_def LVLDB_SetByKey_def Get_no_panic
      dest: Get_no_change Get_value Get_missing Put_value)

text \<open>An in-memory database that behaves as documented; witnesses run on it.\<close>

definition memory_db :: "(bytes \<rightharpoonup> bytes) leveldb_db" where
  "memory_db =
     \<lparr> db_Get = (\<lambda>k s. (case s k of None \<Rightarrow> Err NotFound | Some v \<Rightarrow> Ok v, s)),
       db_Put = (\<lambda>k v s. (Ok (), s(k \<mapsto> v))),
       db_Close = (\<lambda>s. (Ok (), s)) \<rparr>"

interpretation memory: leveldb memory_db "\<lambda>s. s"
  by unfold_locales (auto simp: memory_db_def split: option.splits)

context leveldb begin

lemma provides_kv_store: "kv_store (LVLDB ldb) content"
  by (rule kv.kv_store_axioms)

end

lemma memory_leveldb: "leveldb memory_db (\<lambda>s. s)"
  by (rule memory.leveldb_axioms)

lemmas kv_of_leveldb = leveldb.provides_kv_store

lemmas memory_defs = LVLDB_def LVLDB_SetByKey_def LVLDB_GetByKey_def memory_db_def

section \<open>Properties\<close>

text \<open>
  A block that was stored successfully is the block read back for its domain,
  whatever its size: the read either gives exactly that block or fails with an error
  other than \<open>ErrNotFound\<close>; it never falls back to 0. What other domains read is
  unchanged.
\<close>

theorem block_store_roundtrip:
  assumes "leveldb ldb content" and "0 \<le> b"
    and "StoreBlock (LVLDB ldb) b d s = (Ok u, s1)"
    and "GetLastStoredBlock (LVLDB ldb) d' s1 = (r, s2)"
  shows "r = Ok (if d' = d then b else stored_number (content s) (block_key d')) \<or>
         (\<exists>e. r = Err e \<and> \<not> is_not_found e)"
  using kv_store.block_read_back [OF kv_of_leveldb [OF assms(1)] assms(3,4)] assms(2)
  by (auto split: if_splits)

theorem block_store_roundtrip_witness:
  "fst (GetLastStoredBlock (LVLDB memory_db) 1
          (snd (StoreBlock (LVLDB memory_db) 1000 1 Map.empty))) = Ok 1000"
proof -
  define s where "s = snd (StoreBlock (LVLDB memory_db) 1000 1 Map.empty)"
  have st: "StoreBlock (LVLDB memory_db) 1000 1 Map.empty = (Ok (), s)"
    by (simp add: s_def StoreBlock_def memory_defs)
  obtain r t where r: "GetLastStoredBlock (LVLDB memory_db) 1 s = (r, t)" by fastforce
  from r have "r \<noteq> Err e" for e
    by (auto simp: s_def GetLastStoredBlock_def StoreBlock_def memory_defs)
  with block_store_roundtrip [OF memory_leveldb _ st r] r show ?thesis
    by (simp flip: s_def)
qed

text \<open>
  A listener that stored a block and is restarted resumes no later than that
  block and no earlier than its configured start: \<open>GetStartBlock\<close> gives the larger
  of the two.
\<close>

theorem restart_resumes_at_stored_block:
  assumes "leveldb ldb content" and "0 \<le> b"
    and "StoreBlock (LVLDB ldb) b d s = (Ok u, s1)"
    and "GetStartBlock (LVLDB ldb) d start False False s1 = (Ok r, s2)"
  shows "r = Some (max b start)"
  by (rule kv_store.start_block_after_store [OF kv_of_leveldb [OF assms(1)] assms(3,2,4)])

theorem restart_resumes_at_stored_block_witness:
  "fst (GetStartBlock (LVLDB memory_db) 1 400 False False
          (snd (StoreBlock (LVLDB memory_db) 1000 1 Map.empty))) = Ok (Some 1000)"
proof -
  define s where "s = snd (StoreBlock (LVLDB memory_db) 1000 1 Map.empty)"
  have st: "StoreBlock (LVLDB memory_db) 1000 1 Map.empty = (Ok (), s)"
    by (simp add: s_def StoreBlock_def memory_defs)
  have "\<exists>r t. GetStartBlock (LVLDB memory_db) 1 400 False False s = (Ok r, t)"
    by (simp add: s_def GetStartBlock_def GetLastStoredBlock_def StoreBlock_def memory_defs
        s_bind_def)
  then obtain r t where "GetStartBlock (LVLDB memory_db) 1 400 False False s = (Ok r, t)"
    by blast
  with restart_resumes_at_stored_block [OF memory_leveldb _ st this] show ?thesis
    by (simp flip: s_def)
qed

text \<open>
  Nonces and blocks share one database without touching each other: storing a
  block leaves the nonce of every chain as it was.
\<close>

theorem block_store_keeps_nonces:
  assumes "leveldb ldb content"
    and "StoreBlock (LVLDB ldb) b d s = (Ok u, s1)"
    and "GetNonce (LVLDB ldb) c s1 = (r, s2)"
  shows "r = Ok (stored_number (content s) (nonce_key c)) \<or>
         (\<exists>e. r = Err e \<and> \<not> is_not_found e)"
  by (rule kv_store.StoreBlock_keeps_nonces [OF kv_of_leveldb [OF assms(1)] assms(2,3)])

theorem block_store_keeps_nonces_witness:
  "fst (GetNonce (LVLDB memory_db) 1
          (snd (StoreBlock (LVLDB memory_db) 1000 1
             (snd (StoreNonce (LVLDB memory_db) 1 (Some 5) Map.empty))))) = Ok 5"
proof -
  define s where "s = snd (StoreNonce (LVLDB memory_db) 1 (Some 5) Map.empty)"
  define s1 where "s1 = snd (StoreBlock (LVLDB memory_db) 1000 1 s)"
  have st: "StoreBlock (LVLDB memory_db) 1000 1 s = (Ok (), s1)"
    by (simp add: s1_def StoreBlock_def memory_defs)
  obtain r t where r: "GetNonce (LVLDB memory_db) 1 s1 = (r, t)" by fastforce
  have "stored_number s (nonce_key 1) = 5"
    by (simp add: s_def StoreNonce_def memory_defs stored_number_def)
  moreover from r have "r \<noteq> Err e \<or> is_not_found e" for e
    by (auto simp: s1_def s_def GetNonce_def StoreBlock_def StoreNonce_def memory_defs
        split: option.splits if_splits)
  ultimately show ?thesis
    using block_store_keeps_nonces [OF memory_leveldb st r] r by (auto simp flip: s_def s1_def)
qed

end
