(* ===== verification/Evm_Client.thy ===== *)
theory Evm_Client
  imports Ethereum_Lib Message
begin

text \<open>
  The EVM node client of \<open>chains/evm/calls/evmclient/evm-client.go\<close>. The RPC calls it
  makes are a parameter, a record of operations on a world of type \<open>'w\<close>: each answers
  with a value or an error and leaves a new world, so a node may answer differently
  every time. The client's own logic is modelled: the block-number argument, the header
  decoding, the receipt and nonce retry loops, the unpacking of deposit logs and the
  order of signing and sending.
\<close>

section \<open>Data\<close>

record deposit_logs =
  DestinationDomainID :: u8
  ResourceID :: hash
  LogDepositNonce :: u64
  SenderAddress :: address
  LogData :: "bytes \<times> bytes"   \<comment> \<open>a slice: visible bytes and spare capacity\<close>
  HandlerResponse :: bytes

record deposit_logs_enriched = deposit_logs +
  LogDepositTxHash :: hash
  LogDepositBlock :: u64

record filter_query =
  FromBlock :: int
  ToBlock :: int
  Addresses :: "address list"
  Topics :: "hash list list"

record eth_log =
  log_Address :: address
  log_Data :: bytes
  log_TxHash :: hash
  log_BlockNumber :: u64

record receipt =
  ReceiptStatus :: u64
  ReceiptTxHash :: hash

text \<open>\<open>common.Address\<close>-keyed call arguments as built by \<open>ToCallArg\<close>; absent keys are \<open>None\<close>.\<close>

record call_args =
  arg_from :: address
  arg_to :: "address option"
  arg_data :: "bytes option"
  arg_value :: "int option"
  arg_gas :: "u64 option"
  arg_gasPrice :: "int option"

text \<open>What \<open>eth_getBlockByNumber\<close> can decode to: JSON null, or a header with or without a number.\<close>

datatype header_json = Null_header | Header "int option"

record 'w rpc =
  rpc_getBlock :: "string \<Rightarrow> bool \<Rightarrow> 'w \<Rightarrow> header_json result \<times> 'w"
  rpc_receipt :: "hash \<Rightarrow> 'w \<Rightarrow> receipt result \<times> 'w"
  rpc_filterLogs :: "filter_query \<Rightarrow> 'w \<Rightarrow> eth_log list result \<times> 'w"
  rpc_pendingNonceAt :: "address \<Rightarrow> 'w \<Rightarrow> u64 result \<times> 'w"
  rpc_chainID :: "'w \<Rightarrow> int result \<times> 'w"
  rpc_baseFee :: "'w \<Rightarrow> int option result \<times> 'w"   \<comment> \<open>\<open>HeaderByNumber(nil)\<close>, its \<open>BaseFee\<close>\<close>
  rpc_call :: "call_args \<Rightarrow> string \<Rightarrow> 'w \<Rightarrow> bytes result \<times> 'w"
  rpc_sendRaw :: "bytes \<Rightarrow> 'w \<Rightarrow> unit result \<times> 'w"

record client_state =
  ClientFrom :: address
  ClientNonce :: "int option"
  NonceLocked :: bool

section \<open>Blocks\<close>

text \<open>\<open>encode_big\<close> stands for \<open>hexutil.EncodeBig\<close>.\<close>

definition toBlockNumArg :: "(int \<Rightarrow> string) \<Rightarrow> int option \<Rightarrow> string" where
  "toBlockNumArg encode_big number =
     (case number of None \<Rightarrow> ''latest'' | Some n \<Rightarrow> encode_big n)"

fun unmarshalHeader :: "int option \<Rightarrow> int result" where
  "unmarshalHeader None = Err (Error ''missing required field 'number' for Header'')"
| "unmarshalHeader (Some n) = Ok n"

definition LatestBlock :: "(int \<Rightarrow> string) \<Rightarrow> 'w rpc \<Rightarrow> 'w \<Rightarrow> int result \<times> 'w" where
  "LatestBlock encode_big c w =
     (case rpc_getBlock c (toBlockNumArg encode_big None) False w of
        (Ok Null_header, w') \<Rightarrow> (Err (Error ''not found''), w')
      | (Ok (Header n), w') \<Rightarrow> (unmarshalHeader n, w')
      | (Err e, w') \<Rightarrow> (Err e, w')
      | (Panic p, w') \<Rightarrow> (Panic p, w'))"

definition BaseFee :: "'w rpc \<Rightarrow> 'w \<Rightarrow> int option result \<times> 'w" where
  "BaseFee c w = rpc_baseFee c w"

definition CallContract ::
  "(int \<Rightarrow> string) \<Rightarrow> 'w rpc \<Rightarrow> call_args \<Rightarrow> int option \<Rightarrow> 'w \<Rightarrow> bytes result \<times> 'w" where
  "CallContract encode_big c args blockNumber w =
     rpc_call c args (toBlockNumArg encode_big blockNumber) w"

definition PendingCallContract :: "'w rpc \<Rightarrow> call_args \<Rightarrow> 'w \<Rightarrow> bytes result \<times> 'w" where
  "PendingCallContract c args w = rpc_call c args ''pending'' w"

section \<open>Waiting for a receipt\<close>

text \<open>The loop counts \<open>retry\<close> down from 50, once for every failed query.\<close>

fun wait_receipt :: "'w rpc \<Rightarrow> hash \<Rightarrow> nat \<Rightarrow> 'w \<Rightarrow> receipt result \<times> 'w" where
  "wait_receipt c h 0 w = (Err (Error ''tx did not appear''), w)"
| "wait_receipt c h (Suc retry) w =
     (case rpc_receipt c h w of
        (Ok r, w') \<Rightarrow>
          (if ReceiptStatus r \<noteq> 1
           then Err (Error (''transaction failed on chain. Receipt status ''
                            @ show_nat (unat (ReceiptStatus r))))
           else Ok r, w')
      | (Err e, w') \<Rightarrow> wait_receipt c h retry w'
      | (Panic p, w') \<Rightarrow> (Panic p, w'))"

definition WaitAndReturnTxReceipt :: "'w rpc \<Rightarrow> hash \<Rightarrow> 'w \<Rightarrow> receipt result \<times> 'w" where
  "WaitAndReturnTxReceipt c h w = wait_receipt c h 50 w"

section \<open>Nonce\<close>

definition LockNonce :: "client_state \<Rightarrow> client_state" where
  "LockNonce st = st\<lparr>NonceLocked := True\<rparr>"

definition UnlockNonce :: "client_state \<Rightarrow> client_state" where
  "UnlockNonce st = st\<lparr>NonceLocked := False\<rparr>"

text \<open>
  The loop asks for the pending nonce up to eleven times. The \<open>err\<close> it assigns is
  declared inside the loop, so the function's last line returns the outer \<open>err\<close>,
  which is still nil: when every attempt fails the result is a nil nonce and no error.
\<close>

fun unsafe_nonce_loop ::
  "'w rpc \<Rightarrow> nat \<Rightarrow> client_state \<times> 'w \<Rightarrow> int option result \<times> (client_state \<times> 'w)" where
  "unsafe_nonce_loop c 0 (st, w) = (Ok None, (st, w))"
| "unsafe_nonce_loop c (Suc i) (st, w) =
     (case rpc_pendingNonceAt c (ClientFrom st) w of
        (Ok n, w') \<Rightarrow>
          (Ok (Some (uint n)), (st\<lparr>ClientNonce := Some (uint n)\<rparr>, w'))
      | (Err e, w') \<Rightarrow> unsafe_nonce_loop c i (st, w')
      | (Panic p, w') \<Rightarrow> (Panic p, (st, w')))"

definition UnsafeNonce ::
  "'w rpc \<Rightarrow> client_state \<times> 'w \<Rightarrow> int option result \<times> (client_state \<times> 'w)" where
  "UnsafeNonce c s = unsafe_nonce_loop c 11 s"

definition UnsafeIncreaseNonce :: "client_state \<Rightarrow> unit result \<times> client_state" where
  "UnsafeIncreaseNonce st = (Err (Error ''nonce not incremented manually anymore''), st)"

section \<open>Deposit logs\<close>

definition buildQuery :: "eth_lib \<Rightarrow> address \<Rightarrow> string \<Rightarrow> int \<Rightarrow> int \<Rightarrow> filter_query" where
  "buildQuery L contract sig startBlock endBlock =
     \<lparr> FromBlock = startBlock, ToBlock = endBlock, Addresses = [contract],
       Topics = [[keccak256 L (string_bytes sig)]] \<rparr>"

text \<open>
  \<open>unpack\<close> stands for \<open>abi.UnpackIntoInterface\<close> on the \<open>Deposit\<close> event of the bridge
  ABI. A log that does not unpack is logged and skipped.
\<close>

definition UnpackDepositEventLog :: "(bytes \<Rightarrow> deposit_logs result) \<Rightarrow> bytes \<Rightarrow> deposit_logs result" where
  "UnpackDepositEventLog unpack data = unpack data"

definition enrich :: "deposit_logs \<Rightarrow> eth_log \<Rightarrow> deposit_logs_enriched" where
  "enrich dl l =
     \<lparr> DestinationDomainID = DestinationDomainID dl, ResourceID = ResourceID dl,
       LogDepositNonce = LogDepositNonce dl, SenderAddress = SenderAddress dl,
       LogData = LogData dl, HandlerResponse = HandlerResponse dl,
       LogDepositTxHash = log_TxHash l, LogDepositBlock = log_BlockNumber l \<rparr>"

fun unpack_logs ::
  "(bytes \<Rightarrow> deposit_logs result) \<Rightarrow> eth_log list \<Rightarrow> deposit_logs_enriched list result" where
  "unpack_logs unpack [] = Ok []"
| "unpack_logs unpack (l # ls) =
     (case UnpackDepositEventLog unpack (log_Data l) of
        Ok dl \<Rightarrow> r_bind (unpack_logs unpack ls) (\<lambda>ds. Ok (enrich dl l # ds))
      | Err e \<Rightarrow> unpack_logs unpack ls
      | Panic p \<Rightarrow> Panic p)"

definition FetchDepositLogs ::
  "eth_lib \<Rightarrow> (bytes \<Rightarrow> deposit_logs result) \<Rightarrow> 'w rpc \<Rightarrow> address \<Rightarrow> int \<Rightarrow> int \<Rightarrow> 'w
   \<Rightarrow> deposit_logs_enriched list result \<times> 'w" where
  "FetchDepositLogs L unpack c contractAddress startBlock endBlock =
     s_bind (rpc_filterLogs c (buildQuery L contractAddress Deposit_sig startBlock endBlock))
       (\<lambda>logs. s_lift (unpack_logs unpack logs))"

definition FetchEventLogs ::
  "eth_lib \<Rightarrow> 'w rpc \<Rightarrow> address \<Rightarrow> string \<Rightarrow> int \<Rightarrow> int \<Rightarrow> 'w \<Rightarrow> eth_log list result \<times> 'w" where
  "FetchEventLogs L c contractAddress event startBlock endBlock =
     rpc_filterLogs c (buildQuery L contractAddress event startBlock endBlock)"

section \<open>Signing and sending\<close>

text \<open>
  A \<open>CommonTransaction\<close> is a value with a hash and a signing step that returns the raw
  bytes and the signed transaction it has become.
\<close>

record 'tx common_tx =
  TxHash :: "'tx \<Rightarrow> hash"
  RawWithSignature :: "'tx \<Rightarrow> int option \<Rightarrow> (bytes \<times> 'tx) result"

definition SendRawTransaction :: "'w rpc \<Rightarrow> bytes \<Rightarrow> 'w \<Rightarrow> unit result \<times> 'w" where
  "SendRawTransaction c tx w = rpc_sendRaw c tx w"

definition SignAndSendTransaction ::
  "'tx common_tx \<Rightarrow> 'w rpc \<Rightarrow> 'tx \<Rightarrow> 'w \<Rightarrow> hash result \<times> 'w" where
  "SignAndSendTransaction T c tx w =
     (case rpc_chainID c w of
        (Panic p, w1) \<Rightarrow> (Panic p, w1)
      | (r, w1) \<Rightarrow>
         let cid = (case r of Ok i \<Rightarrow> Some i | _ \<Rightarrow> None) in
         s_bind (s_lift (RawWithSignature T tx cid))
           (\<lambda>(raw, tx'). s_bind (SendRawTransaction c raw) (\<lambda>_. s_return (TxHash T tx'))) w1)"

section \<open>Lemmas\<close>

lemma wait_receipt_status:
  "wait_receipt c h n w = (Ok r, w') \<Longrightarrow> ReceiptStatus r = 1"
  by (induction n arbitrary: w) (auto split: prod.splits result.splits if_splits)

text \<open>The queries of a client whose node never answers: \<open>n\<close> of them, each from the last world.\<close>

fun failing_queries :: "('w \<Rightarrow> 'a result \<times> 'w) \<Rightarrow> nat \<Rightarrow> 'w \<Rightarrow> bool" where
  "failing_queries q 0 w = True"
| "failing_queries q (Suc n) w =
     (case q w of (Err e, w') \<Rightarrow> failing_queries q n w' | _ \<Rightarrow> False)"

lemma wait_receipt_gives_up:
  "failing_queries (rpc_receipt c h) n w \<Longrightarrow>
   fst (wait_receipt c h n w) = Err (Error ''tx did not appear'')"
  by (induction n arbitrary: w) (auto split: prod.splits result.splits)

lemma unsafe_nonce_loop_cases:
  "unsafe_nonce_loop c n (st, w) = (r, (st', w')) \<Longrightarrow>
   (r = Ok None \<and> st' = st \<and> failing_queries (rpc_pendingNonceAt c (ClientFrom st)) n w) \<or>
   (\<exists>x. r = Ok (Some x) \<and> st' = st\<lparr>ClientNonce := Some x\<rparr>) \<or>
   (\<exists>p. r = Panic p \<and> st' = st)"
  by (induction n arbitrary: w) (auto split: prod.splits result.splits)

lemma unsafe_nonce_loop_gives_up:
  "failing_queries (rpc_pendingNonceAt c (ClientFrom st)) n w \<Longrightarrow>
   fst (unsafe_nonce_loop c n (st, w)) = Ok None"
  by (induction n arbitrary: w) (auto split: prod.splits result.splits)

lemma unpack_logs_keeps:
  assumes "unpack_logs unpack ls = Ok ds"
  shows "ds = map (\<lambda>l. enrich (case unpack (log_Data l) of Ok dl \<Rightarrow> dl) l)
                (filter (\<lambda>l. is_ok (unpack (log_Data l))) ls)"
  using assms
  by (induction ls arbitrary: ds)
    (auto simp: UnpackDepositEventLog_def result_laws split: result.splits)

section \<open>Properties\<close>

text \<open>
  \<open>WaitAndReturnTxReceipt\<close> returns a receipt only for a transaction that the chain
  executed with status 1.
\<close>

theorem receipt_only_on_success:
  assumes "WaitAndReturnTxReceipt c h w = (Ok r, w')"
  shows "ReceiptStatus r = 1"
  using assms wait_receipt_status by (simp add: WaitAndReturnTxReceipt_def)

definition flaky_rpc :: "nat rpc" where
  "flaky_rpc =
     \<lparr> rpc_getBlock = (\<lambda>_ _ n. (Ok (Header (Some (int n))), Suc n)),
       rpc_receipt = (\<lambda>h n. (if n < 3 then Err (Error ''not found'')
                              else Ok \<lparr>ReceiptStatus = 1, ReceiptTxHash = h\<rparr>, Suc n)),
       rpc_filterLogs = (\<lambda>_ n. (Ok [], Suc n)),
       rpc_pendingNonceAt = (\<lambda>_ n. (Err (Error ''connection refused''), Suc n)),
       rpc_chainID = (\<lambda>n. (Ok 5, Suc n)),
       rpc_baseFee = (\<lambda>n. (Ok None, Suc n)),
       rpc_call = (\<lambda>_ _ n. (Ok [], Suc n)),
       rpc_sendRaw = (\<lambda>_ n. (Ok (), Suc n)) \<rparr>"

theorem receipt_only_on_success_witness:
  "fst (WaitAndReturnTxReceipt flaky_rpc 9 0) = Ok \<lparr>ReceiptStatus = 1, ReceiptTxHash = 9\<rparr> \<and>
   ReceiptStatus \<lparr>ReceiptStatus = 1, ReceiptTxHash = (9 :: hash)\<rparr> = 1"
proof -
  have "WaitAndReturnTxReceipt flaky_rpc 9 0 = (Ok \<lparr>ReceiptStatus = 1, ReceiptTxHash = 9\<rparr>, 4)"
    by (simp add: WaitAndReturnTxReceipt_def flaky_rpc_def eval_nat_numeral)
  then show ?thesis using receipt_only_on_success [of flaky_rpc 9 0] by simp
qed

text \<open>
  \<open>UnsafeNonce\<close> never reports an error. When all eleven queries of the pending
  nonce fail, and only then, it returns a nil nonce with a nil error.
\<close>

theorem unsafe_nonce_never_errs:
  "\<not> (\<exists>e s'. UnsafeNonce c (st, w) = (Err e, s')) \<and>
   (fst (UnsafeNonce c (st, w)) = Ok None \<longleftrightarrow>
    failing_queries (rpc_pendingNonceAt c (ClientFrom st)) 11 w)"
proof
  obtain r st' w' where run: "UnsafeNonce c (st, w) = (r, (st', w'))" by (metis surj_pair)
  note cases = unsafe_nonce_loop_cases [OF run [unfolded UnsafeNonce_def]]
  from cases show "\<not> (\<exists>e s'. UnsafeNonce c (st, w) = (Err e, s'))"
    by (auto simp: run)
  show "fst (UnsafeNonce c (st, w)) = Ok None \<longleftrightarrow>
      failing_queries (rpc_pendingNonceAt c (ClientFrom st)) 11 w"
    using cases unsafe_nonce_loop_gives_up [of c st 11 w]
    by (auto simp: run UnsafeNonce_def simp flip: UnsafeNonce_def)
qed

text \<open>
  Fetching deposit logs keeps the order of the node's logs, drops exactly those that
  do not unpack, and gives every kept log its own transaction hash and block number.
\<close>

theorem fetched_logs_are_the_unpackable_ones:
  assumes "FetchDepositLogs L unpack c a s e w = (Ok ds, w')"
  shows "\<exists>ls. rpc_filterLogs c (buildQuery L a Deposit_sig s e) w = (Ok ls, w') \<and>
     ds = map (\<lambda>l. enrich (case unpack (log_Data l) of Ok dl \<Rightarrow> dl) l)
            (filter (\<lambda>l. is_ok (unpack (log_Data l))) ls)"
  using assms unpack_logs_keeps
  by (auto simp: FetchDepositLogs_def result_laws)

theorem fetched_logs_are_the_unpackable_ones_witness:
  "\<exists>ls. rpc_filterLogs flaky_rpc (buildQuery reference_lib 7 Deposit_sig 1 2) 0 = (Ok ls, 1) \<and>
     [] = map (\<lambda>l. enrich (case Err (Error '''') of Ok dl \<Rightarrow> dl) l)
            (filter (\<lambda>l. is_ok (Err (Error '''') :: deposit_logs result)) ls)"
  by (rule fetched_logs_are_the_unpackable_ones)
    (simp add: FetchDepositLogs_def s_bind_def flaky_rpc_def)

end
