(* ===== verification/Evm_Listener.thy ===== *)
theory Evm_Listener
  imports Handler_Registry Deposit_Codec Store Evm_Client
begin

text \<open>
  The EVM listener: \<open>ETHEventHandler\<close> of \<open>listener/event-handler.go\<close>, which finds the
  handler of a deposit by the handler contract its resource is registered with, and the
  polling loop \<open>ListenToEvents\<close> of \<open>listener/listener.go\<close>. One iteration of the loop is
  a function on the loop's state; a run is any number of iterations against an
  environment that may answer every call differently.
\<close>

section \<open>Event handler registry\<close>

record 'w eth_event_handler =
  bridgeContract :: "hash \<Rightarrow> 'w \<Rightarrow> address result \<times> 'w"  \<comment> \<open>\<open>GetHandlerAddressForResourceID\<close>\<close>
  eventHandlers :: "(address \<rightharpoonup> event_handler) option"     \<comment> \<open>a nil map at first\<close>

definition NewETHEventHandler :: "(hash \<Rightarrow> 'w \<Rightarrow> address result \<times> 'w) \<Rightarrow> 'w eth_event_handler" where
  "NewETHEventHandler b = \<lparr> bridgeContract = b, eventHandlers = None \<rparr>"

definition RegisterEventHandler ::
  "eth_lib \<Rightarrow> string \<Rightarrow> event_handler \<Rightarrow> 'w eth_event_handler \<Rightarrow> 'w eth_event_handler" where
  "RegisterEventHandler L handlerAddress h e =
     (if handlerAddress = [] then e
      else
        let m = (case eventHandlers e of None \<Rightarrow> Map.empty | Some m \<Rightarrow> m)
        in e\<lparr>eventHandlers := Some (m(hex_to_address L handlerAddress \<mapsto> h))\<rparr>)"

definition event_handler_at :: "'w eth_event_handler \<Rightarrow> address \<Rightarrow> event_handler option" where
  "event_handler_at e a = (case eventHandlers e of None \<Rightarrow> None | Some m \<Rightarrow> m a)"

definition match_event_handler :: "'w eth_event_handler \<Rightarrow> address \<Rightarrow> event_handler result" where
  "match_event_handler e a =
     (case event_handler_at e a of
        None \<Rightarrow> Err (Error ''no corresponding event handler for this address exists'')
      | Some h \<Rightarrow> Ok h)"

definition HandleEvent ::
  "'w eth_event_handler \<Rightarrow> u8 \<Rightarrow> u8 \<Rightarrow> u64 \<Rightarrow> hash \<Rightarrow> bytes \<times> bytes \<Rightarrow> bytes \<Rightarrow> hash \<Rightarrow> u64
   \<Rightarrow> 'w \<Rightarrow> message result \<times> 'w" where
  "HandleEvent e sourceID destID nonce rid calldata resp tx blk =
     s_bind (bridgeContract e rid) (\<lambda>handlerAddr.
       s_lift (r_bind (match_event_handler e handlerAddr) (\<lambda>h.
                 h sourceID destID nonce rid calldata resp tx blk)))"

lemma event_handler_at_New [simp]: "event_handler_at (NewETHEventHandler b) a = None"
  by (simp add: event_handler_at_def NewETHEventHandler_def)

lemma event_handler_at_Register:
  "event_handler_at (RegisterEventHandler L s h e) a =
     (if s \<noteq> [] \<and> a = hex_to_address L s then Some h else event_handler_at e a)"
  by (simp add: event_handler_at_def RegisterEventHandler_def Let_def split: option.split)

lemma bridgeContract_register:
  "bridgeContract (fold (\<lambda>(s, h). RegisterEventHandler L s h) regs e) = bridgeContract e"
  by (induction regs arbitrary: e) (auto simp: RegisterEventHandler_def Let_def)

interpretation event_registry: handler_registry
  "NewETHEventHandler b"
  "\<lambda>(a, h). RegisterEventHandler L a h"
  event_handler_at
  "\<lambda>(a, h). if a = [] then None else Some (hex_to_address L a)"
  snd
  for b :: "hash \<Rightarrow> 'w \<Rightarrow> address result \<times> 'w" and L
  by unfold_locales (auto simp: event_handler_at_Register split: if_splits)

lemma key_is_address:
  "((case e of (s, h) \<Rightarrow> if s = [] then None else Some (hex_to_address L s)) = Some a) =
   (case e of (s, h) \<Rightarrow> s \<noteq> [] \<and> hex_to_address L s = a)"
  by (auto split: if_splits)

section \<open>The polling loop\<close>

text \<open>
  An \<open>EVMListener\<close> is what the loop calls: the chain reader, the event handler and the
  address it filters by. The loop's state is \<open>startBlock\<close> (nil until the first head is
  known), the messages sent on the channel so far, and the world.
\<close>

record 'w evm_listener =
  chain_LatestBlock :: "'w \<Rightarrow> int result \<times> 'w"
  chain_FetchDepositLogs :: "address \<Rightarrow> int \<Rightarrow> int \<Rightarrow> 'w \<Rightarrow> deposit_logs_enriched list result \<times> 'w"
  eventHandler :: "u8 \<Rightarrow> u8 \<Rightarrow> u64 \<Rightarrow> hash \<Rightarrow> bytes \<times> bytes \<Rightarrow> bytes \<Rightarrow> hash \<Rightarrow> u64
                   \<Rightarrow> 'w \<Rightarrow> message result \<times> 'w"
  bridgeAddress :: address

record 'w listen_state =
  startBlock :: "int option"
  sent :: "message list"
  world :: 'w

text \<open>
  The block range of one iteration, from the head, the start and the delay: nothing
  while the head is less than the delay ahead, else up to the head minus the delay and
  at most 100 blocks.
\<close>

definition block_window :: "int \<Rightarrow> int \<Rightarrow> int \<Rightarrow> int option" where
  "block_window head start blockDelay =
     (if head - start < blockDelay then None
      else
        let endBlock = head - blockDelay
        in Some (if endBlock - start > 99 then start + 99 else endBlock))"

fun handle_logs ::
  "'w evm_listener \<Rightarrow> u8 \<Rightarrow> deposit_logs_enriched list \<Rightarrow> 'w listen_state \<Rightarrow> unit result \<times> 'w listen_state"
where
  "handle_logs l domainID [] st = (Ok (), st)"
| "handle_logs l domainID (x # xs) st =
     (case eventHandler l domainID (DestinationDomainID x) (LogDepositNonce x) (ResourceID x)
             (LogData x) (HandlerResponse x) (LogDepositTxHash x) (LogDepositBlock x) (world st) of
        (Ok m, w) \<Rightarrow> handle_logs l domainID xs (st\<lparr>sent := sent st @ [m], world := w\<rparr>)
      | (Err e, w) \<Rightarrow> handle_logs l domainID xs (st\<lparr>world := w\<rparr>)
      | (Panic p, w) \<Rightarrow> (Panic p, st\<lparr>world := w\<rparr>))"

text \<open>After the logs: write the block store, whose error is ignored, and move on.\<close>

definition finish_range ::
  "'w key_value \<Rightarrow> u8 \<Rightarrow> int \<Rightarrow> int \<Rightarrow> 'w listen_state
   \<Rightarrow> (int \<times> int) option result \<times> 'w listen_state" where
  "finish_range db domainID start endBlock st =
     (case StoreBlock db endBlock domainID (world st) of
        (Panic p, w) \<Rightarrow> (Panic p, st\<lparr>world := w\<rparr>)
      | (_, w) \<Rightarrow>
         (Ok (Some (start, endBlock)), st\<lparr>startBlock := Some (endBlock + 1), world := w\<rparr>))"

text \<open>
  The body of the loop after the sleep. Its result is the range of blocks it queried, if
  it got that far; errors are logged and the next iteration starts again, only a panic
  ends the loop. A failed write to the block store is ignored.
\<close>

definition listen_iteration ::
  "'w evm_listener \<Rightarrow> 'w key_value \<Rightarrow> int \<Rightarrow> u8 \<Rightarrow> 'w listen_state
   \<Rightarrow> (int \<times> int) option result \<times> 'w listen_state" where
  "listen_iteration l db blockDelay domainID st =
     (case chain_LatestBlock l (world st) of
        (Panic p, w) \<Rightarrow> (Panic p, st\<lparr>world := w\<rparr>)
      | (Err e, w) \<Rightarrow> (Ok None, st\<lparr>world := w\<rparr>)
      | (Ok head, w) \<Rightarrow>
         let start = (case startBlock st of None \<Rightarrow> head | Some s \<Rightarrow> s);
             st1 = st\<lparr>startBlock := Some start, world := w\<rparr>
         in
         (case block_window head start blockDelay of
            None \<Rightarrow> (Ok None, st1)
          | Some endBlock \<Rightarrow>
             (case chain_FetchDepositLogs l (bridgeAddress l) start endBlock w of
                (Panic p, w2) \<Rightarrow> (Panic p, st1\<lparr>world := w2\<rparr>)
              | (Err e, w2) \<Rightarrow> (Ok None, st1\<lparr>world := w2\<rparr>)
              | (Ok logs, w2) \<Rightarrow>
                 s_bind (handle_logs l domainID logs)
                   (\<lambda>_. finish_range db domainID start endBlock)
                   (st1\<lparr>world := w2\<rparr>))))"

text \<open>
  \<open>ListenToEvents\<close> until it is told to stop, after \<open>n\<close> iterations, or panics: the
  ranges queried and the state at the end.
\<close>

fun ListenToEvents ::
  "'w evm_listener \<Rightarrow> 'w key_value \<Rightarrow> int \<Rightarrow> u8 \<Rightarrow> nat \<Rightarrow> 'w listen_state
   \<Rightarrow> (int \<times> int) list \<times> 'w listen_state" where
  "ListenToEvents l db blockDelay domainID 0 st = ([], st)"
| "ListenToEvents l db blockDelay domainID (Suc n) st =
     (case listen_iteration l db blockDelay domainID st of
        (Panic p, st') \<Rightarrow> ([], st')
      | (Err e, st') \<Rightarrow> ([], st')
      | (Ok r, st') \<Rightarrow>
         let (rs, st'') = ListenToEvents l db blockDelay domainID n st'
         in ((case r of None \<Rightarrow> rs | Some x \<Rightarrow> x # rs), st''))"

section \<open>Lemmas\<close>

lemma block_window_bounds:
  assumes "block_window head start delay = Some e"
  shows "start \<le> e" and "e \<le> start + 99" and "e \<le> head - delay"
    and "e = min (head - delay) (start + 99)"
  using assms by (auto simp: block_window_def Let_def split: if_splits)

lemma handle_logs_startBlock:
  "handle_logs l d xs st = (r, st') \<Longrightarrow> startBlock st' = startBlock st"
  by (induction xs arbitrary: st) (fastforce split: prod.splits result.splits)+

lemma handle_logs_sent:
  "handle_logs l d xs st = (r, st') \<Longrightarrow> \<exists>ms. sent st' = sent st @ ms"
  by (induction xs arbitrary: st) (fastforce split: prod.splits result.splits)+

text \<open>The start of the iteration: the known start, or the head it just read.\<close>

definition effective_start :: "'w listen_state \<Rightarrow> int \<Rightarrow> int" where
  "effective_start st head = (case startBlock st of None \<Rightarrow> head | Some s \<Rightarrow> s)"

lemma finish_range_Ok:
  "finish_range db d start e st = (Ok r, st') \<Longrightarrow>
   r = Some (start, e) \<and> startBlock st' = Some (e + 1) \<and> sent st' = sent st"
  by (auto simp: finish_range_def split: prod.splits result.splits)

lemma finish_range_not_Err [simp]: "finish_range db d start e st \<noteq> (Err x, st')"
  by (auto simp: finish_range_def split: prod.splits result.splits)

lemma finish_range_Panic:
  "finish_range db d start e st = (Panic p, st') \<Longrightarrow> startBlock st' = startBlock st"
  by (auto simp: finish_range_def split: prod.splits result.splits)

lemma handle_logs_not_Err [simp]: "handle_logs l d xs st \<noteq> (Err e, st')"
  by (induction xs arbitrary: st) (auto split: prod.splits result.splits)

text \<open>The three ways an iteration ends.\<close>

lemma listen_iteration_cases:
  assumes "listen_iteration l db delay d st = (r, st')"
  obtains (fetched) head w e w2 logs st2 where
      "chain_LatestBlock l (world st) = (Ok head, w)"
      "block_window head (effective_start st head) delay = Some e"
      "chain_FetchDepositLogs l (bridgeAddress l) (effective_start st head) e w = (Ok logs, w2)"
      "handle_logs l d logs (st\<lparr>startBlock := Some (effective_start st head), world := w2\<rparr>)
       = (Ok (), st2)"
      "finish_range db d (effective_start st head) e st2 = (r, st')"
  | (stayed) "r = Ok None" "sent st' = sent st"
      "\<And>s. startBlock st = Some s \<Longrightarrow> startBlock st' = Some s"
  | (panicked) p where "r = Panic p"
      "\<And>s. startBlock st = Some s \<Longrightarrow> startBlock st' = Some s"
proof -
  obtain h w where head: "chain_LatestBlock l (world st) = (h, w)" by fastforce
  show thesis
  proof (cases h)
    case (Ok head)
    note h = Ok
    let ?start = "effective_start st head"
    let ?st1 = "\<lambda>w. st\<lparr>startBlock := Some ?start, world := w\<rparr>"
    show thesis
    proof (cases "block_window head ?start delay")
      case None
      with assms Ok head that(2) show thesis
        by (auto simp: listen_iteration_def effective_start_def Let_def)
    next
      case (Some e)
      obtain f w2 where fetch: "chain_FetchDepositLogs l (bridgeAddress l) ?start e w = (f, w2)"
        by fastforce
      note run = assms [unfolded listen_iteration_def head Ok prod.case result.case Let_def,
          folded effective_start_def, unfolded Some fetch option.case prod.case]
      show thesis
      proof (cases f)
        case (Ok logs)
        obtain g st2 where hl: "handle_logs l d logs (?st1 w2) = (g, st2)" by fastforce
        with run h Ok head Some fetch that(1,3) handle_logs_startBlock [OF hl] show thesis
          by (cases g) (auto simp: s_bind_def effective_start_def split: option.splits)
      qed (use run that(2,3) in \<open>auto simp: effective_start_def split: option.splits\<close>)
    qed
  qed (use assms head that(2,3) in \<open>auto simp: listen_iteration_def\<close>)
qed

lemma listen_iteration_advance:
  assumes "listen_iteration l db delay d st = (Ok (Some (s, e)), st')"
  shows "\<exists>head w. chain_LatestBlock l (world st) = (Ok head, w) \<and>
           s = effective_start st head \<and> block_window head s delay = Some e \<and>
           startBlock st' = Some (e + 1)"
  using assms
proof (cases rule: listen_iteration_cases)
  case fetched
  from finish_range_Ok [OF fetched(5)] fetched show ?thesis by auto
qed auto

lemma listen_iteration_stay:
  assumes "listen_iteration l db delay d st = (Ok None, st')"
  shows "sent st' = sent st \<and> (\<forall>s. startBlock st = Some s \<longrightarrow> startBlock st' = Some s)"
  using assms
  by (cases rule: listen_iteration_cases) (auto dest: finish_range_Ok)

lemma listen_iteration_not_Err [simp]: "listen_iteration l db delay d st \<noteq> (Err e, st')"
proof
  assume "listen_iteration l db delay d st = (Err e, st')"
  then show False by (cases rule: listen_iteration_cases) auto
qed

lemma listen_iteration_panic:
  assumes "listen_iteration l db delay d st = (Panic p, st')" and "startBlock st = Some s"
  shows "startBlock st' = Some s"
  using assms(1)
proof (cases rule: listen_iteration_cases)
  case fetched
  with assms(2) show ?thesis
    by (auto dest!: finish_range_Panic handle_logs_startBlock simp: effective_start_def)
qed (use assms(2) in auto)

lemma listen_run_start:
  assumes "startBlock st = Some s0" and "ListenToEvents l db delay d n st = (rs, st')"
  shows "\<exists>s1. startBlock st' = Some s1 \<and> s0 \<le> s1 \<and>
              concat (map (\<lambda>(a, b). [a..b]) rs) = [s0..s1 - 1]"
  using assms
proof (induction n arbitrary: st s0 rs)
  case 0
  then show ?case by simp
next
  case (Suc n)
  obtain r st1 where it: "listen_iteration l db delay d st = (r, st1)" by fastforce
  show ?case
  proof (cases r)
    case (Ok range)
    from Suc.prems it Ok obtain rs' where run: "ListenToEvents l db delay d n st1 = (rs', st')"
      and rs: "rs = (case range of None \<Rightarrow> rs' | Some x \<Rightarrow> x # rs')"
      by (auto split: prod.splits)
    show ?thesis
    proof (cases range)
      case None
      with it Ok Suc.prems(1) have "startBlock st1 = Some s0"
        using listen_iteration_stay by blast
      with Suc.IH [OF this run] rs None show ?thesis by simp
    next
      case (Some ab)
      obtain a b where ab: "ab = (a, b)" by fastforce
      from it Ok Some ab obtain head where
        a: "a = effective_start st head" and win: "block_window head a delay = Some b"
        and st1: "startBlock st1 = Some (b + 1)"
        using listen_iteration_advance by blast
      from a Suc.prems(1) have a: "a = s0" by (simp add: effective_start_def)
      from block_window_bounds(1) [OF win] a have le: "s0 \<le> b" by simp
      from Suc.IH [OF st1 run] obtain s1 where s1: "startBlock st' = Some s1" "b + 1 \<le> s1"
        "concat (map (\<lambda>(a, b). [a..b]) rs') = [b + 1..s1 - 1]" by blast
      have "[s0..b] @ [b + 1..s1 - 1] = [s0..s1 - 1]"
      proof (cases "b \<le> s1 - 1")
        case True
        then show ?thesis using le by (simp add: upto_split2 [of s0 b "s1 - 1"])
      qed (use s1(2) in simp)
      with s1 le rs Some ab a show ?thesis by auto
    qed
  next
    case (Panic p)
    with Suc.prems it listen_iteration_panic [of l db delay d st p st1 s0] show ?thesis by auto
  qed (use it in simp)
qed

section \<open>What a run leaves in the block store\<close>

text \<open>
  LevelDB writes are atomic: a failed \<open>Put\<close> has either taken effect or not. The node and
  the handlers of a listener do not touch the stored block of its domain.
\<close>

definition put_documented :: "'w leveldb_db \<Rightarrow> ('w \<Rightarrow> bytes \<rightharpoonup> bytes) \<Rightarrow> bool" where
  "put_documented ldb content \<longleftrightarrow>
     (\<forall>k v s r s'. db_Put ldb k v s = (r, s') \<longrightarrow>
        (\<forall>p. r \<noteq> Panic p) \<and> (content s' = content s \<or> content s' = (content s)(k \<mapsto> v)))"

definition keeps_stored_block :: "'w evm_listener \<Rightarrow> ('w \<Rightarrow> bytes \<rightharpoonup> bytes) \<Rightarrow> u8 \<Rightarrow> bool" where
  "keeps_stored_block l content d \<longleftrightarrow>
     (\<forall>w r w'. chain_LatestBlock l w = (r, w') \<longrightarrow>
        content w' (block_key d) = content w (block_key d)) \<and>
     (\<forall>a s e w r w'. chain_FetchDepositLogs l a s e w = (r, w') \<longrightarrow>
        content w' (block_key d) = content w (block_key d)) \<and>
     (\<forall>i dst n rid x resp tx blk w r w'. eventHandler l i dst n rid x resp tx blk w = (r, w') \<longrightarrow>
        content w' (block_key d) = content w (block_key d))"

definition stored_block :: "('w \<Rightarrow> bytes \<rightharpoonup> bytes) \<Rightarrow> u8 \<Rightarrow> 'w listen_state \<Rightarrow> int" where
  "stored_block content d st = stored_number (content (world st)) (block_key d)"

lemma handle_logs_store:
  assumes "keeps_stored_block l content d" and "handle_logs l i xs st = (r, st')"
  shows "content (world st') (block_key d) = content (world st) (block_key d)"
  using assms(2)
proof (induction xs arbitrary: st)
  case (Cons x xs)
  obtain h w where h: "eventHandler l i (DestinationDomainID x) (LogDepositNonce x) (ResourceID x)
      (LogData x) (HandlerResponse x) (LogDepositTxHash x) (LogDepositBlock x) (world st) = (h, w)"
    by fastforce
  with assms(1) have "content w (block_key d) = content (world st) (block_key d)"
    unfolding keeps_stored_block_def by metis
  with Cons h show ?case by (cases h) fastforce+
qed simp

lemma finish_range_store:
  assumes "put_documented ldb content" and "finish_range (LVLDB ldb) d s e st = (r, st')"
  shows "r = Ok (Some (s, e)) \<and>
    (stored_block content d st' = stored_block content d st \<or> stored_block content d st' = \<bar>e\<bar>)"
proof -
  obtain q w where q: "db_Put ldb (block_key d) (big_bytes_of e) (world st) = (q, w)" by fastforce
  with assms(1) have "\<forall>p. q \<noteq> Panic p"
    and "content w = content (world st) \<or> content w = (content (world st))(block_key d \<mapsto> big_bytes_of e)"
    unfolding put_documented_def by metis+
  with assms(2) q show ?thesis
    by (auto simp: finish_range_def StoreBlock_def LVLDB_def LVLDB_SetByKey_def stored_block_def
        stored_number_def split: result.splits)
qed

lemma listen_iteration_store:
  assumes "put_documented ldb content" and "keeps_stored_block l content d"
    and "listen_iteration l (LVLDB ldb) delay d st = (r, st')"
  shows "stored_block content d st' = stored_block content d st \<or>
    (\<exists>s e. r = Ok (Some (s, e)) \<and> stored_block content d st' = \<bar>e\<bar>)"
proof -
  let ?S = "\<lambda>w. stored_number (content w) (block_key d)"
  have kept: "chain_LatestBlock l w = (q, w') \<Longrightarrow> ?S w' = ?S w"
    "chain_FetchDepositLogs l a b c w = (f, w') \<Longrightarrow> ?S w' = ?S w" for w q w' a b c f
    using assms(2) unfolding keeps_stored_block_def stored_number_def by metis+
  have logs: "handle_logs l d xs s = (q, s') \<Longrightarrow> ?S (world s') = ?S (world s)" for xs s q s'
    using handle_logs_store [OF assms(2)] by (simp add: stored_number_def)
  show ?thesis
    using assms(3)
    by (auto simp: listen_iteration_def Let_def s_bind_def stored_block_def
        split: prod.splits result.splits option.splits
        dest!: kept logs finish_range_store [OF assms(1)])
qed

lemma listen_run_store:
  assumes "put_documented ldb content" and "keeps_stored_block l content d"
    and "startBlock st = Some s0" and "0 \<le> s0" and "stored_block content d st \<le> s0"
    and "ListenToEvents l (LVLDB ldb) delay d n st = (rs, st')"
  shows "\<exists>s1. startBlock st' = Some s1 \<and> stored_block content d st' \<le> s1"
  using assms(3-)
proof (induction n arbitrary: st s0 rs)
  case (Suc n)
  obtain r st1 where it: "listen_iteration l (LVLDB ldb) delay d st = (r, st1)" by fastforce
  note store = listen_iteration_store [OF assms(1,2) it]
  show ?case
  proof (cases r)
    case (Ok range)
    with Suc.prems(4) it obtain rs' where run: "ListenToEvents l (LVLDB ldb) delay d n st1 = (rs', st')"
      by (auto split: prod.splits)
    have "\<exists>t. startBlock st1 = Some t \<and> 0 \<le> t \<and> stored_block content d st1 \<le> t"
    proof (cases range)
      case None
      with it Ok Suc.prems(1-3) store show ?thesis using listen_iteration_stay by fastforce
    next
      case (Some ab)
      obtain a b where ab: "ab = (a, b)" by fastforce
      from it Ok Some ab obtain head where
        a: "a = effective_start st head" and win: "block_window head a delay = Some b"
        and st1: "startBlock st1 = Some (b + 1)"
        using listen_iteration_advance by blast
      from block_window_bounds(1) [OF win] a Suc.prems(1) have "s0 \<le> b"
        by (simp add: effective_start_def)
      with st1 store Ok Some ab Suc.prems(2,3) show ?thesis by auto
    qed
    with Suc.IH [OF _ _ _ run] show ?thesis by blast
  next
    case (Panic p)
    with it Suc.prems store listen_iteration_panic [of l "LVLDB ldb" delay d st p st1 s0] show ?thesis
      by auto
  qed (use it in simp)
qed simp

section \<open>Properties\<close>

text \<open>
  The listener scans every block exactly once and in order. Whatever the node, the
  handlers and the database answer over any number of iterations, the queried ranges put
  end to end are all blocks from the first start to the block before the next start,
  with no gap and no overlap.
\<close>

theorem listener_scans_every_block_once:
  assumes "startBlock st = Some s0" and "ListenToEvents l db delay d n st = (rs, st')"
  shows "\<exists>s1. startBlock st' = Some s1 \<and> s0 \<le> s1 \<and>
              concat (map (\<lambda>(a, b). [a..b]) rs) = [s0..s1 - 1]"
  by (rule listen_run_start [OF assms])

definition example_message :: message where
  "example_message =
     \<lparr> DepositTxHash = 3, DepositBlock = 4, Source = 1, Destination = 2, DepositNonce = 7,
       ResourceId = 5, Payload = [], Type = GenericTransfer \<rparr>"

definition example_log :: "u8 \<Rightarrow> deposit_logs_enriched" where
  "example_log dst =
     \<lparr> DestinationDomainID = dst, ResourceID = 5, LogDepositNonce = 7, SenderAddress = 8,
       LogData = ([], []), HandlerResponse = [], LogDepositTxHash = 3, LogDepositBlock = 4 \<rparr>"

text \<open>A chain whose head is always 250, with one good and one bad log per query.\<close>

definition example_listener :: "(bytes \<rightharpoonup> bytes) evm_listener" where
  "example_listener =
     \<lparr> chain_LatestBlock = (\<lambda>w. (Ok 250, w)),
       chain_FetchDepositLogs = (\<lambda>_ _ _ w. (Ok [example_log 2, example_log 9], w)),
       eventHandler = (\<lambda>_ dst _ _ _ _ _ _ w.
         (if dst = 2 then Ok example_message else Err (Error ''no handler''), w)),
       bridgeAddress = 6 \<rparr>"

definition example_start :: "(bytes \<rightharpoonup> bytes) listen_state" where
  "example_start = \<lparr> startBlock = Some 100, sent = [], world = Map.empty \<rparr>"

lemmas example_defs = example_listener_def example_start_def example_message_def example_log_def

lemma example_iteration:
  "listen_iteration example_listener (LVLDB memory_db) 10 1 example_start =
     (Ok (Some (100, 199)),
      \<lparr> startBlock = Some 200, sent = [example_message],
        world = [block_key 1 \<mapsto> big_bytes_of 199] \<rparr>)"
  by (simp add: listen_iteration_def example_defs block_window_def Let_def s_bind_def
      finish_range_def StoreBlock_def memory_defs)

theorem listener_scans_every_block_once_witness:
  "fst (ListenToEvents example_listener (LVLDB memory_db) 10 1 1 example_start) = [(100, 199)] \<and>
   concat (map (\<lambda>(a, b). [a..b]) [(100, 199)]) = [100..199 :: int]"
proof -
  have run: "ListenToEvents example_listener (LVLDB memory_db) 10 1 1 example_start =
      ([(100, 199)], \<lparr> startBlock = Some 200, sent = [example_message],
        world = [block_key 1 \<mapsto> big_bytes_of 199] \<rparr>)"
    by (simp add: example_iteration)
  have "startBlock example_start = Some 100" by (simp add: example_start_def)
  from listener_scans_every_block_once [OF this run] run show ?thesis by simp
qed

text \<open>
  C21: every range an iteration queries is non-empty, spans at most 100 blocks, and ends
  at least \<open>blockDelay\<close> blocks before the head the node reported in that iteration: a
  deposit is only relayed once it has its confirmations.
\<close>

theorem scanned_range_is_confirmed:
  assumes "listen_iteration l db delay d st = (Ok (Some (s, e)), st')"
  shows "\<exists>head w. chain_LatestBlock l (world st) = (Ok head, w) \<and>
           s \<le> e \<and> e - s < 100 \<and> e + delay \<le> head \<and> startBlock st' = Some (e + 1)"
proof -
  from listen_iteration_advance [OF assms] obtain head w where
    it: "chain_LatestBlock l (world st) = (Ok head, w)" "block_window head s delay = Some e"
      "startBlock st' = Some (e + 1)" by blast
  from block_window_bounds [OF it(2)] it show ?thesis by fastforce
qed

theorem scanned_range_is_confirmed_witness:
  "\<exists>head w. chain_LatestBlock example_listener (world example_start) = (Ok head, w) \<and>
     (100 :: int) \<le> 199 \<and> (199 - 100 :: int) < 100 \<and> 199 + 10 \<le> head"
  using scanned_range_is_confirmed [OF example_iteration] by auto

text \<open>
  C20: a restart loses no block. After any run that began at a block not before the one
  stored, whatever writes of the block store failed, a relayer restarted from its
  database with the same or a smaller configured start begins at the latest at the first
  block the run did not scan.
\<close>

theorem restart_loses_no_block:
  assumes "leveldb ldb content" and "put_documented ldb content" and "keeps_stored_block l content d"
    and "startBlock st = Some s0" and "0 \<le> s0" and "stored_block content d st \<le> s0"
    and "ListenToEvents l (LVLDB ldb) delay d n st = (rs, st')"
    and "GetStartBlock (LVLDB ldb) d configured False False (world st') = (Ok r, w2)"
    and "configured \<le> s0"
  shows "\<exists>s1 start. r = Some start \<and> start \<le> s1 \<and> startBlock st' = Some s1 \<and>
    concat (map (\<lambda>(a, b). [a..b]) rs) = [s0..s1 - 1]"
proof -
  note kv = kv_of_leveldb [OF assms(1)]
  obtain q t where q: "GetLastStoredBlock (LVLDB ldb) d (world st') = (q, t)" by fastforce
  from kv_store.GetLastStoredBlock_cases [OF kv q] assms(8) q
  have "r = Some (max (stored_block content d st') configured)"
    by (auto simp: GetStartBlock_def s_bind_def stored_block_def split: result.splits)
  moreover from listen_run_start [OF assms(4,7)] obtain s1 where
    "startBlock st' = Some s1" "s0 \<le> s1" "concat (map (\<lambda>(a, b). [a..b]) rs) = [s0..s1 - 1]" by blast
  moreover from this(1) listen_run_store [OF assms(2-7)] have "stored_block content d st' \<le> s1" by auto
  ultimately show ?thesis using assms(9) by auto
qed

lemma example_keeps: "keeps_stored_block example_listener (\<lambda>w. w) d"
  by (auto simp: keeps_stored_block_def example_defs)

lemma memory_put_documented: "put_documented memory_db (\<lambda>w. w)"
  by (simp add: put_documented_def memory_db_def)

theorem restart_loses_no_block_witness:
  "\<exists>start. fst (GetStartBlock (LVLDB memory_db) 1 100 False False
     (world (snd (ListenToEvents example_listener (LVLDB memory_db) 10 1 1 example_start))))
   = Ok (Some start) \<and> start \<le> 200"
proof -
  have run: "ListenToEvents example_listener (LVLDB memory_db) 10 1 1 example_start =
      ([(100, 199)], \<lparr> startBlock = Some 200, sent = [example_message],
        world = [block_key 1 \<mapsto> big_bytes_of 199] \<rparr>)"
    by (simp add: example_iteration)
  obtain r w where r: "GetStartBlock (LVLDB memory_db) 1 100 False False
      [block_key 1 \<mapsto> big_bytes_of 199] = (Ok r, w)"
    by (simp add: GetStartBlock_def GetLastStoredBlock_def memory_defs s_bind_def)
  have "startBlock example_start = Some 100" "stored_block (\<lambda>w. w) 1 example_start \<le> 100"
    by (simp_all add: example_start_def stored_block_def stored_number_def)
  from restart_loses_no_block [OF memory_leveldb memory_put_documented example_keeps this(1) _ this(2) run,
      of 100 r w] r run show ?thesis by auto
qed

text \<open>
  The messages of a range are those of the logs its handler accepts, one each and in
  the order of the logs; a log whose handling fails is dropped and does not stop the
  others.
\<close>

theorem messages_of_accepted_logs:
  assumes "\<And>x w. x \<in> set logs \<Longrightarrow>
      fst (eventHandler l d (DestinationDomainID x) (LogDepositNonce x) (ResourceID x)
             (LogData x) (HandlerResponse x) (LogDepositTxHash x) (LogDepositBlock x) w) = f x"
    and "\<And>x p. x \<in> set logs \<Longrightarrow> f x \<noteq> Panic p"
  shows "\<exists>w. handle_logs l d logs st =
    (Ok (), st\<lparr>sent := sent st @ concat (map (\<lambda>x. case f x of Ok m \<Rightarrow> [m] | _ \<Rightarrow> []) logs),
               world := w\<rparr>)"
  using assms
proof (induction logs arbitrary: st)
  case Nil
  have "st = st\<lparr>sent := sent st, world := world st\<rparr>" by simp
  then show ?case by (metis append_Nil2 concat.simps(1) handle_logs.simps(1) list.simps(8))
next
  case (Cons x xs)
  obtain r w where hx: "eventHandler l d (DestinationDomainID x) (LogDepositNonce x) (ResourceID x)
      (LogData x) (HandlerResponse x) (LogDepositTxHash x) (LogDepositBlock x) (world st) = (r, w)"
    by fastforce
  with Cons.prems(1) [of x "world st"] have r: "r = f x" by simp
  have tail: "\<exists>w. handle_logs l d xs st1 =
      (Ok (), st1\<lparr>sent := sent st1 @ concat (map (\<lambda>x. case f x of Ok m \<Rightarrow> [m] | _ \<Rightarrow> []) xs),
                  world := w\<rparr>)" for st1
    using Cons.prems by (intro Cons.IH) auto
  show ?case
  proof (cases "f x")
    case (Ok m)
    with hx r tail [of "st\<lparr>sent := sent st @ [m], world := w\<rparr>"] show ?thesis by simp
  next
    case (Err e)
    with hx r tail [of "st\<lparr>world := w\<rparr>"] show ?thesis by simp
  next
    case (Panic p)
    with Cons.prems(2) [of x p] show ?thesis by simp
  qed
qed

theorem messages_of_accepted_logs_witness:
  "\<exists>w. handle_logs example_listener 1 [example_log 2, example_log 9] example_start =
    (Ok (), example_start\<lparr>sent := [example_message], world := w\<rparr>)"
proof -
  let ?f = "\<lambda>x. if DestinationDomainID x = 2 then Ok example_message else Err (Error ''no handler'')"
  have "\<exists>w. handle_logs example_listener 1 [example_log 2, example_log 9] example_start =
    (Ok (), example_start\<lparr>sent := sent example_start @
       concat (map (\<lambda>x. case ?f x of Ok m \<Rightarrow> [m] | _ \<Rightarrow> []) [example_log 2, example_log 9]),
       world := w\<rparr>)"
    by (rule messages_of_accepted_logs) (auto simp: example_listener_def split: if_splits)
  then show ?thesis by (simp add: example_log_def example_start_def)
qed

text \<open>
  C18: a deposit is handled by the handler that was registered last for the handler
  contract of its resource; if none was registered for that contract, or only under an
  empty address, it is an error and no message is produced.
\<close>

theorem event_dispatch:
  assumes "b rid w = (Ok a, w')"
  shows "HandleEvent (fold (\<lambda>(s, h). RegisterEventHandler L s h) regs (NewETHEventHandler b))
           src dst n rid cd resp tx blk w =
         (case find (\<lambda>(s, h). s \<noteq> [] \<and> hex_to_address L s = a) (rev regs) of
            None \<Rightarrow> Err (Error ''no corresponding event handler for this address exists'')
          | Some (s, h) \<Rightarrow> h src dst n rid cd resp tx blk, w')"
proof -
  let ?e = "fold (\<lambda>(s, h). RegisterEventHandler L s h) regs (NewETHEventHandler b)"
  have bridge: "bridgeContract ?e = b" by (simp add: bridgeContract_register) (simp add: NewETHEventHandler_def)
  have "event_handler_at ?e a =
      map_option snd (find (\<lambda>(s, h). s \<noteq> [] \<and> hex_to_address L s = a) (rev regs))"
    unfolding event_registry.register_all_find by (simp add: key_is_address cong: find_cong)
  with bridge assms show ?thesis
    by (auto simp: HandleEvent_def match_event_handler_def s_bind_def split: option.splits)
qed

theorem event_dispatch_witness:
  "HandleEvent (fold (\<lambda>(s, h). RegisterEventHandler reference_lib s h)
       [(''0x1'', GenericEventHandler), ('''', Erc20EventHandler)]
       (NewETHEventHandler (\<lambda>rid w. (Ok (hex_to_address reference_lib ''0x1''), Suc w))))
     1 2 7 5 (replicate 40 0, []) [] 3 4 (0 :: nat)
   = (GenericEventHandler 1 2 7 5 (replicate 40 0, []) [] 3 4, 1)"
  by (subst event_dispatch [where a = "hex_to_address reference_lib ''0x1''" and w' = 1]) simp_all

end
