(* ===== verification/Evm_Contracts.thy ===== *)
theory Evm_Contracts
  imports Deposit_Codec Evm_Client
begin

text \<open>
  The contract wrappers under \<open>chains/evm/calls/contracts\<close>: the generic \<open>Contract\<close>
  (packing, calling, executing, deploying) and the methods of the bridge, token, handler,
  asset store and forwarder contracts. ABI encoding, which go-ethereum does from the ABI
  text in \<open>consts\<close>, is a parameter; so are the node client and the transactor, as
  operations on a world.
\<close>

section \<open>Parameters\<close>

text \<open>The ABI (and byte code) constants of \<open>consts\<close>, by name.\<close>

datatype abi =
    BridgeABI
  | ERC20HandlerABI
  | ERC20PresetMinterPauserABI
  | ERC721HandlerABI
  | ERC721PresetMinterPauserABI
  | GenericHandlerABI
  | CentrifugeAssetStoreABI
  | MinimalForwarderABI

record forward_request =
  fr_From :: address
  fr_To :: address
  fr_Value :: "int option"
  fr_Gas :: int
  fr_Nonce :: "int option"
  fr_Data :: bytes

text \<open>The Go values that are packed into calldata or unpacked from a result.\<close>

datatype abi_val =
    A_address address
  | A_uint8 u8
  | A_uint64 u64
  | A_big int
  | A_bytes bytes
  | A_bytes4 "32 word"
  | A_bytes32 hash
  | A_bool bool
  | A_string string
  | A_status proposal_status
  | A_request forward_request
  | A_addresses "address list"

text \<open>
  \<open>abi.Pack\<close>, \<open>abi.Unpack\<close>, the byte code of a constant, and \<open>abi.ConvertType\<close>
  followed by the type assertion at each type the code uses it with.
\<close>

record abi_lib =
  abi_Pack :: "abi \<Rightarrow> string \<Rightarrow> abi_val list \<Rightarrow> bytes result"
  abi_Unpack :: "abi \<Rightarrow> string \<Rightarrow> bytes \<Rightarrow> abi_val list result"
  abi_bytecode :: "abi \<Rightarrow> bytes"
  convert_uint8 :: "abi_val \<Rightarrow> u8 result"
  convert_bool :: "abi_val \<Rightarrow> bool result"
  convert_address :: "abi_val \<Rightarrow> address result"
  convert_bytes32 :: "abi_val \<Rightarrow> hash result"
  convert_big :: "abi_val \<Rightarrow> int result"
  convert_status :: "abi_val \<Rightarrow> proposal_status result"

record transact_options =
  GasLimit :: u64
  GasPrice :: "int option"
  Value :: "int option"
  Nonce :: "int option"
  ChainID :: "int option"
  Priority :: string

definition no_options :: transact_options where
  "no_options = \<lparr> GasLimit = 0, GasPrice = None, Value = None, Nonce = None, ChainID = None,
                  Priority = [] \<rparr>"

type_synonym 'w transactor =
  "address option \<Rightarrow> bytes \<Rightarrow> transact_options \<Rightarrow> 'w \<Rightarrow> hash result \<times> 'w"

record eth_tx =
  tx_To :: "address option"
  tx_Gas :: u64
  tx_GasPrice :: "int option"
  tx_Value :: "int option"
  tx_Data :: bytes
  tx_Nonce :: u64

record 'w contract_client =
  cc_From :: address
  cc_CallContract :: "call_args \<Rightarrow> int option \<Rightarrow> 'w \<Rightarrow> bytes result \<times> 'w"
  cc_CodeAt :: "address \<Rightarrow> 'w \<Rightarrow> bytes result \<times> 'w"
  cc_TransactionByHash :: "hash \<Rightarrow> 'w \<Rightarrow> eth_tx result \<times> 'w"

section \<open>Call arguments and simulation\<close>

record call_msg =
  msg_From :: address
  msg_To :: "address option"
  msg_Data :: bytes
  msg_Value :: "int option"
  msg_Gas :: u64
  msg_GasPrice :: "int option"

definition ToCallArg :: "call_msg \<Rightarrow> call_args" where
  "ToCallArg msg =
     \<lparr> arg_from = msg_From msg,
       arg_to = msg_To msg,
       arg_data = (if length (msg_Data msg) > 0 then Some (msg_Data msg) else None),
       arg_value = msg_Value msg,
       arg_gas = (if msg_Gas msg \<noteq> 0 then Some (msg_Gas msg) else None),
       arg_gasPrice = msg_GasPrice msg \<rparr>"

text \<open>
  \<open>Simulate\<close> re-runs a transaction as a call. Its last step encodes the result in hex
  and decodes it again; \<open>hex_again\<close> stands for that pair of library calls.
\<close>

definition Simulate ::
  "(bytes \<Rightarrow> bytes result) \<Rightarrow> 'w contract_client \<Rightarrow> int option \<Rightarrow> hash \<Rightarrow> address \<Rightarrow> 'w
   \<Rightarrow> bytes result \<times> 'w" where
  "Simulate hex_again c block txHash from =
     s_bind (cc_TransactionByHash c txHash) (\<lambda>tx.
     s_bind (cc_CallContract c
               (ToCallArg \<lparr> msg_From = from, msg_To = tx_To tx, msg_Data = tx_Data tx,
                            msg_Value = tx_Value tx, msg_Gas = tx_Gas tx,
                            msg_GasPrice = tx_GasPrice tx \<rparr>) block)
       (\<lambda>res. s_lift (hex_again res)))"

section \<open>The generic contract\<close>

record 'w contract =
  contractAddress :: address
  ABI :: abi
  bytecode :: bytes
  client :: "'w contract_client"
  transactor :: "'w transactor option"   \<comment> \<open>nil for the forwarder\<close>

definition NewContract ::
  "address \<Rightarrow> abi \<Rightarrow> bytes \<Rightarrow> 'w contract_client \<Rightarrow> 'w transactor option \<Rightarrow> 'w contract" where
  "NewContract a i b c t =
     \<lparr> contractAddress = a, ABI = i, bytecode = b, client = c, transactor = t \<rparr>"

definition PackMethod :: "abi_lib \<Rightarrow> 'w contract \<Rightarrow> string \<Rightarrow> abi_val list \<Rightarrow> bytes result" where
  "PackMethod A c method args = abi_Pack A (ABI c) method args"

definition UnpackResult :: "abi_lib \<Rightarrow> 'w contract \<Rightarrow> string \<Rightarrow> bytes \<Rightarrow> abi_val list result" where
  "UnpackResult A c method output = abi_Unpack A (ABI c) method output"

definition Transact ::
  "'w contract \<Rightarrow> address option \<Rightarrow> bytes \<Rightarrow> transact_options \<Rightarrow> 'w \<Rightarrow> hash result \<times> 'w" where
  "Transact c to data opts w =
     (case transactor c of None \<Rightarrow> (Panic NilDereference, w) | Some t \<Rightarrow> t to data opts w)"

definition ExecuteTransaction ::
  "abi_lib \<Rightarrow> 'w contract \<Rightarrow> string \<Rightarrow> transact_options \<Rightarrow> abi_val list \<Rightarrow> 'w \<Rightarrow> hash result \<times> 'w" where
  "ExecuteTransaction A c method opts args =
     s_bind (s_lift (PackMethod A c method args)) (\<lambda>input.
       Transact c (Some (contractAddress c)) input opts)"

definition call_msg_for :: "'w contract \<Rightarrow> bytes \<Rightarrow> call_msg" where
  "call_msg_for c input =
     \<lparr> msg_From = cc_From (client c), msg_To = Some (contractAddress c), msg_Data = input,
       msg_Value = None, msg_Gas = 0, msg_GasPrice = None \<rparr>"

text \<open>An empty output is only unpacked after the node confirmed code at the address.\<close>

definition contract_call ::
  "eth_lib \<Rightarrow> abi_lib \<Rightarrow> 'w contract \<Rightarrow> string \<Rightarrow> abi_val list \<Rightarrow> 'w \<Rightarrow> abi_val list result \<times> 'w" where
  "contract_call L A c method args =
     s_bind (s_lift (PackMethod A c method args)) (\<lambda>input.
     s_bind (cc_CallContract (client c) (ToCallArg (call_msg_for c input)) None) (\<lambda>out.
       if length out = 0 then
         s_bind (cc_CodeAt (client c) (contractAddress c)) (\<lambda>code.
           if length code = 0
           then s_lift (Err (Error (''no code at provided address ''
                                    @ address_hex L (contractAddress c))))
           else s_lift (UnpackResult A c method out))
       else s_lift (UnpackResult A c method out)))"

definition DefaultDeployGasLimit :: u64 where "DefaultDeployGasLimit = 6000000"

text \<open>\<open>DeployContract\<close> also returns the contract with its new address.\<close>

definition DeployContract ::
  "eth_lib \<Rightarrow> abi_lib \<Rightarrow> 'w contract \<Rightarrow> abi_val list \<Rightarrow> 'w \<Rightarrow> (address \<times> 'w contract) result \<times> 'w" where
  "DeployContract L A c params =
     s_bind (s_lift (PackMethod A c '''' params)) (\<lambda>input.
     s_bind (Transact c None (bytecode c @ input) (no_options\<lparr>GasLimit := DefaultDeployGasLimit\<rparr>))
       (\<lambda>h.
     s_bind (cc_TransactionByHash (client c) h) (\<lambda>tx.
       let address = create_address L (cc_From (client c)) (tx_Nonce tx)
       in s_return (address, c\<lparr>contractAddress := address\<rparr>))))"

text \<open>The result of a call at the type the code converts it to: \<open>res[0]\<close>, then the conversion.\<close>

definition call_for ::
  "eth_lib \<Rightarrow> abi_lib \<Rightarrow> (abi_val \<Rightarrow> 'a result) \<Rightarrow> 'w contract \<Rightarrow> string \<Rightarrow> abi_val list \<Rightarrow> 'w
   \<Rightarrow> 'a result \<times> 'w" where
  "call_for L A conv c method args =
     s_bind (contract_call L A c method args) (\<lambda>res. s_lift (r_bind (index_at res 0) conv))"

section \<open>Bridge contract\<close>

definition NewBridgeContract ::
  "abi_lib \<Rightarrow> 'w contract_client \<Rightarrow> address \<Rightarrow> 'w transactor option \<Rightarrow> 'w contract" where
  "NewBridgeContract A c a t = NewContract a BridgeABI (abi_bytecode A BridgeABI) c t"

definition AddRelayer :: "abi_lib \<Rightarrow> 'w contract \<Rightarrow> address \<Rightarrow> transact_options \<Rightarrow> 'w \<Rightarrow> hash result \<times> 'w" where
  "AddRelayer A c relayerAddr opts =
     ExecuteTransaction A c ''adminAddRelayer'' opts [A_address relayerAddr]"

definition AdminSetGenericResource ::
  "abi_lib \<Rightarrow> 'w contract \<Rightarrow> address \<Rightarrow> hash \<Rightarrow> address \<Rightarrow> 32 word \<Rightarrow> int \<Rightarrow> 32 word \<Rightarrow> transact_options
   \<Rightarrow> 'w \<Rightarrow> hash result \<times> 'w" where
  "AdminSetGenericResource A c hdl rID addr depositFunctionSig depositerOffset executeFunctionSig opts =
     ExecuteTransaction A c ''adminSetGenericResource'' opts
       [A_address hdl, A_bytes32 rID, A_address addr, A_bytes4 depositFunctionSig,
        A_big depositerOffset, A_bytes4 executeFunctionSig]"

definition AdminSetResource ::
  "abi_lib \<Rightarrow> 'w contract \<Rightarrow> address \<Rightarrow> hash \<Rightarrow> address \<Rightarrow> transact_options \<Rightarrow> 'w \<Rightarrow> hash result \<times> 'w" where
  "AdminSetResource A c handlerAddr rID targetContractAddr opts =
     ExecuteTransaction A c ''adminSetResource'' opts
       [A_address handlerAddr, A_bytes32 rID, A_address targetContractAddr]"

definition SetDepositNonce ::
  "abi_lib \<Rightarrow> 'w contract \<Rightarrow> u8 \<Rightarrow> u64 \<Rightarrow> transact_options \<Rightarrow> 'w \<Rightarrow> hash result \<times> 'w" where
  "SetDepositNonce A c domainId depositNonce opts =
     ExecuteTransaction A c ''adminSetDepositNonce'' opts [A_uint8 domainId, A_uint64 depositNonce]"

definition SetThresholdInput ::
  "abi_lib \<Rightarrow> 'w contract \<Rightarrow> u64 \<Rightarrow> transact_options \<Rightarrow> 'w \<Rightarrow> hash result \<times> 'w" where
  "SetThresholdInput A c threshold opts =
     ExecuteTransaction A c ''adminChangeRelayerThreshold'' opts [A_big (uint threshold)]"

definition SetBurnableInput ::
  "abi_lib \<Rightarrow> 'w contract \<Rightarrow> address \<Rightarrow> address \<Rightarrow> transact_options \<Rightarrow> 'w \<Rightarrow> hash result \<times> 'w" where
  "SetBurnableInput A c handlerAddr tokenContractAddr opts =
     ExecuteTransaction A c ''adminSetBurnable'' opts [A_address handlerAddr, A_address tokenContractAddr]"

definition bridge_deposit ::
  "abi_lib \<Rightarrow> 'w contract \<Rightarrow> hash \<Rightarrow> u8 \<Rightarrow> bytes \<Rightarrow> transact_options \<Rightarrow> 'w \<Rightarrow> hash result \<times> 'w" where
  "bridge_deposit A c resourceID destDomainID data opts =
     ExecuteTransaction A c ''deposit'' opts [A_uint8 destDomainID, A_bytes32 resourceID, A_bytes data]"

definition Erc20Deposit ::
  "eth_lib \<Rightarrow> abi_lib \<Rightarrow> 'w contract \<Rightarrow> address \<Rightarrow> int \<Rightarrow> hash \<Rightarrow> u8 \<Rightarrow> transact_options
   \<Rightarrow> 'w \<Rightarrow> hash result \<times> 'w" where
  "Erc20Deposit L A c recipient amount resourceID destDomainID opts =
     bridge_deposit A c resourceID destDomainID
       (ConstructErc20DepositData L (address_bytes recipient) amount) opts"

definition Erc721Deposit ::
  "eth_lib \<Rightarrow> abi_lib \<Rightarrow> 'w contract \<Rightarrow> int \<Rightarrow> string \<Rightarrow> address \<Rightarrow> hash \<Rightarrow> u8 \<Rightarrow> transact_options
   \<Rightarrow> 'w \<Rightarrow> hash result \<times> 'w" where
  "Erc721Deposit L A c tokenId metadata recipient resourceID destDomainID opts =
     bridge_deposit A c resourceID destDomainID
       (ConstructErc721DepositData L (address_bytes recipient) tokenId (string_bytes metadata)) opts"

definition GenericDeposit ::
  "eth_lib \<Rightarrow> abi_lib \<Rightarrow> 'w contract \<Rightarrow> bytes \<Rightarrow> hash \<Rightarrow> u8 \<Rightarrow> transact_options \<Rightarrow> 'w \<Rightarrow> hash result \<times> 'w" where
  "GenericDeposit L A c metadata resourceID destDomainID opts =
     bridge_deposit A c resourceID destDomainID (ConstructGenericDepositData L metadata) opts"

definition ExecuteProposal ::
  "abi_lib \<Rightarrow> 'w contract \<Rightarrow> proposal \<Rightarrow> transact_options \<Rightarrow> 'w \<Rightarrow> hash result \<times> 'w" where
  "ExecuteProposal A c p opts =
     ExecuteTransaction A c ''executeProposal'' opts
       [A_uint8 (p_Source p), A_uint64 (p_DepositNonce p), A_bytes (p_Data p),
        A_bytes32 (p_ResourceId p), A_bool True]"

definition VoteProposal ::
  "abi_lib \<Rightarrow> 'w contract \<Rightarrow> proposal \<Rightarrow> transact_options \<Rightarrow> 'w \<Rightarrow> hash result \<times> 'w" where
  "VoteProposal A c p opts =
     ExecuteTransaction A c ''voteProposal'' opts
       [A_uint8 (p_Source p), A_uint64 (p_DepositNonce p), A_bytes32 (p_ResourceId p),
        A_bytes (p_Data p)]"

definition SimulateVoteProposal ::
  "eth_lib \<Rightarrow> abi_lib \<Rightarrow> 'w contract \<Rightarrow> proposal \<Rightarrow> 'w \<Rightarrow> unit result \<times> 'w" where
  "SimulateVoteProposal L A c p =
     s_bind (contract_call L A c ''voteProposal''
               [A_uint8 (p_Source p), A_uint64 (p_DepositNonce p), A_bytes32 (p_ResourceId p),
                A_bytes (p_Data p)])
       (\<lambda>_. s_return ())"

definition Pause :: "abi_lib \<Rightarrow> 'w contract \<Rightarrow> transact_options \<Rightarrow> 'w \<Rightarrow> hash result \<times> 'w" where
  "Pause A c opts = ExecuteTransaction A c ''adminPauseTransfers'' opts []"

definition Unpause :: "abi_lib \<Rightarrow> 'w contract \<Rightarrow> transact_options \<Rightarrow> 'w \<Rightarrow> hash result \<times> 'w" where
  "Unpause A c opts = ExecuteTransaction A c ''adminUnpauseTransfers'' opts []"

definition Withdraw ::
  "eth_lib \<Rightarrow> abi_lib \<Rightarrow> 'w contract \<Rightarrow> address \<Rightarrow> address \<Rightarrow> address \<Rightarrow> int \<Rightarrow> transact_options
   \<Rightarrow> 'w \<Rightarrow> hash result \<times> 'w" where
  "Withdraw L A c handlerAddress tokenAddress recipientAddress amountOrTokenId opts =
     (let data = left_pad_bytes L (address_bytes tokenAddress) 32
                 @ left_pad_bytes L (address_bytes recipientAddress) 32
                 @ left_pad_bytes L (big_bytes_of amountOrTokenId) 32
      in ExecuteTransaction A c ''adminWithdraw'' opts [A_address handlerAddress, A_bytes data])"

definition GetThreshold :: "eth_lib \<Rightarrow> abi_lib \<Rightarrow> 'w contract \<Rightarrow> 'w \<Rightarrow> u8 result \<times> 'w" where
  "GetThreshold L A c = call_for L A (convert_uint8 A) c ''_relayerThreshold'' []"

definition IsRelayer :: "eth_lib \<Rightarrow> abi_lib \<Rightarrow> 'w contract \<Rightarrow> address \<Rightarrow> 'w \<Rightarrow> bool result \<times> 'w" where
  "IsRelayer L A c relayerAddress =
     call_for L A (convert_bool A) c ''isRelayer'' [A_address relayerAddress]"

definition ProposalStatus ::
  "eth_lib \<Rightarrow> abi_lib \<Rightarrow> 'w contract \<Rightarrow> proposal \<Rightarrow> 'w \<Rightarrow> proposal_status result \<times> 'w" where
  "ProposalStatus L A c p =
     call_for L A (convert_status A) c ''getProposal''
       [A_uint8 (p_Source p), A_uint64 (p_DepositNonce p), A_bytes32 (GetDataHash L p)]"

text \<open>
  The key of a proposal in the contract's vote table: the bytes of \<open>int64(nonce)\<close>
  followed by the source byte, read as one number.
\<close>

definition idAndNonce :: "u8 \<Rightarrow> u64 \<Rightarrow> int" where
  "idAndNonce srcId nonce = big_set_bytes (big_bytes_of (sint nonce) @ [srcId])"

definition IsProposalVotedBy ::
  "eth_lib \<Rightarrow> abi_lib \<Rightarrow> 'w contract \<Rightarrow> address \<Rightarrow> proposal \<Rightarrow> 'w \<Rightarrow> bool result \<times> 'w" where
  "IsProposalVotedBy L A c b p =
     call_for L A (convert_bool A) c ''_hasVotedOnProposal''
       [A_big (idAndNonce (p_Source p) (p_DepositNonce p)), A_bytes32 (GetDataHash L p), A_address b]"

definition GetHandlerAddressForResourceID ::
  "eth_lib \<Rightarrow> abi_lib \<Rightarrow> 'w contract \<Rightarrow> hash \<Rightarrow> 'w \<Rightarrow> address result \<times> 'w" where
  "GetHandlerAddressForResourceID L A c resourceID =
     call_for L A (convert_address A) c ''_resourceIDToHandlerAddress'' [A_bytes32 resourceID]"

section \<open>Token, handler, asset store and forwarder contracts\<close>

definition NewERC20HandlerContract ::
  "abi_lib \<Rightarrow> 'w contract_client \<Rightarrow> address \<Rightarrow> 'w transactor option \<Rightarrow> 'w contract" where
  "NewERC20HandlerContract A c a t = NewContract a ERC20HandlerABI (abi_bytecode A ERC20HandlerABI) c t"

definition ResourceIdToTokenContractAddress ::
  "eth_lib \<Rightarrow> abi_lib \<Rightarrow> 'w contract \<Rightarrow> hash \<Rightarrow> 'w \<Rightarrow> address result \<times> 'w" where
  "ResourceIdToTokenContractAddress L A c resourceID =
     call_for L A (convert_address A) c ''_resourceIDToTokenContractAddress'' [A_bytes32 resourceID]"

definition NewERC20Contract ::
  "abi_lib \<Rightarrow> 'w contract_client \<Rightarrow> address \<Rightarrow> 'w transactor option \<Rightarrow> 'w contract" where
  "NewERC20Contract A c a t =
     NewContract a ERC20PresetMinterPauserABI (abi_bytecode A ERC20PresetMinterPauserABI) c t"

definition GetBalance :: "eth_lib \<Rightarrow> abi_lib \<Rightarrow> 'w contract \<Rightarrow> address \<Rightarrow> 'w \<Rightarrow> int result \<times> 'w" where
  "GetBalance L A c a = call_for L A (convert_big A) c ''balanceOf'' [A_address a]"

text \<open>The address \<open>0x00..01\<close> stands for the native currency, with 18 decimals.\<close>

definition GetDecimals :: "eth_lib \<Rightarrow> abi_lib \<Rightarrow> 'w contract \<Rightarrow> 'w \<Rightarrow> u8 result \<times> 'w" where
  "GetDecimals L A c =
     (if contractAddress c = 1 then s_return 18
      else call_for L A (convert_uint8 A) c ''decimals'' [])"

definition MintTokens ::
  "abi_lib \<Rightarrow> 'w contract \<Rightarrow> address \<Rightarrow> int \<Rightarrow> transact_options \<Rightarrow> 'w \<Rightarrow> hash result \<times> 'w" where
  "MintTokens A c to amount opts = ExecuteTransaction A c ''mint'' opts [A_address to, A_big amount]"

definition ApproveTokens ::
  "abi_lib \<Rightarrow> 'w contract \<Rightarrow> address \<Rightarrow> int \<Rightarrow> transact_options \<Rightarrow> 'w \<Rightarrow> hash result \<times> 'w" where
  "ApproveTokens A c target amount opts =
     ExecuteTransaction A c ''approve'' opts [A_address target, A_big amount]"

definition MinterRole :: "eth_lib \<Rightarrow> abi_lib \<Rightarrow> 'w contract \<Rightarrow> 'w \<Rightarrow> hash result \<times> 'w" where
  "MinterRole L A c = call_for L A (convert_bytes32 A) c ''MINTER_ROLE'' []"

definition AddMinter ::
  "eth_lib \<Rightarrow> abi_lib \<Rightarrow> 'w contract \<Rightarrow> address \<Rightarrow> transact_options \<Rightarrow> 'w \<Rightarrow> hash result \<times> 'w" where
  "AddMinter L A c minter opts =
     s_bind (MinterRole L A c) (\<lambda>role.
       ExecuteTransaction A c ''grantRole'' opts [A_bytes32 role, A_address minter])"

definition NewErc721Contract ::
  "abi_lib \<Rightarrow> 'w contract_client \<Rightarrow> address \<Rightarrow> 'w transactor option \<Rightarrow> 'w contract" where
  "NewErc721Contract A c a t =
     NewContract a ERC721PresetMinterPauserABI (abi_bytecode A ERC721PresetMinterPauserABI) c t"

definition erc721_MinterRole :: "eth_lib \<Rightarrow> abi_lib \<Rightarrow> 'w contract \<Rightarrow> 'w \<Rightarrow> hash result \<times> 'w" where
  "erc721_MinterRole L A c = call_for L A (convert_bytes32 A) c ''MINTER_ROLE'' []"

definition erc721_AddMinter ::
  "eth_lib \<Rightarrow> abi_lib \<Rightarrow> 'w contract \<Rightarrow> address \<Rightarrow> transact_options \<Rightarrow> 'w \<Rightarrow> hash result \<times> 'w" where
  "erc721_AddMinter L A c minter opts =
     s_bind (erc721_MinterRole L A c) (\<lambda>role.
       ExecuteTransaction A c ''grantRole'' opts [A_bytes32 role, A_address minter])"

definition erc721_Approve ::
  "abi_lib \<Rightarrow> 'w contract \<Rightarrow> int \<Rightarrow> address \<Rightarrow> transact_options \<Rightarrow> 'w \<Rightarrow> hash result \<times> 'w" where
  "erc721_Approve A c tokenId recipient opts =
     ExecuteTransaction A c ''approve'' opts [A_address recipient, A_big tokenId]"

definition erc721_Mint ::
  "abi_lib \<Rightarrow> 'w contract \<Rightarrow> int \<Rightarrow> string \<Rightarrow> address \<Rightarrow> transact_options \<Rightarrow> 'w \<Rightarrow> hash result \<times> 'w" where
  "erc721_Mint A c tokenId metadata destination opts =
     ExecuteTransaction A c ''mint'' opts [A_address destination, A_big tokenId, A_string metadata]"

definition erc721_Owner :: "eth_lib \<Rightarrow> abi_lib \<Rightarrow> 'w contract \<Rightarrow> int \<Rightarrow> 'w \<Rightarrow> address result \<times> 'w" where
  "erc721_Owner L A c tokenId = call_for L A (convert_address A) c ''ownerOf'' [A_big tokenId]"

definition NewERC721HandlerContract ::
  "abi_lib \<Rightarrow> 'w contract_client \<Rightarrow> address \<Rightarrow> 'w transactor option \<Rightarrow> 'w contract" where
  "NewERC721HandlerContract A c a t = NewContract a ERC721HandlerABI (abi_bytecode A ERC721HandlerABI) c t"

definition NewGenericHandlerContract ::
  "abi_lib \<Rightarrow> 'w contract_client \<Rightarrow> address \<Rightarrow> 'w transactor option \<Rightarrow> 'w contract" where
  "NewGenericHandlerContract A c a t =
     NewContract a GenericHandlerABI (abi_bytecode A GenericHandlerABI) c t"

definition NewAssetStoreContract ::
  "abi_lib \<Rightarrow> 'w contract_client \<Rightarrow> address \<Rightarrow> 'w transactor option \<Rightarrow> 'w contract" where
  "NewAssetStoreContract A c a t =
     NewContract a CentrifugeAssetStoreABI (abi_bytecode A CentrifugeAssetStoreABI) c t"

definition IsCentrifugeAssetStored ::
  "eth_lib \<Rightarrow> abi_lib \<Rightarrow> 'w contract \<Rightarrow> hash \<Rightarrow> 'w \<Rightarrow> bool result \<times> 'w" where
  "IsCentrifugeAssetStored L A c h = call_for L A (convert_bool A) c ''_assetsStored'' [A_bytes32 h]"

definition NewForwarderContract :: "abi_lib \<Rightarrow> 'w contract_client \<Rightarrow> address \<Rightarrow> 'w contract" where
  "NewForwarderContract A c a =
     NewContract a MinimalForwarderABI (abi_bytecode A MinimalForwarderABI) c None"

definition forwarder_GetNonce :: "eth_lib \<Rightarrow> abi_lib \<Rightarrow> 'w contract \<Rightarrow> address \<Rightarrow> 'w \<Rightarrow> int result \<times> 'w" where
  "forwarder_GetNonce L A c from = call_for L A (convert_big A) c ''getNonce'' [A_address from]"

definition PrepareExecute :: "abi_lib \<Rightarrow> 'w contract \<Rightarrow> forward_request \<Rightarrow> bytes \<Rightarrow> bytes result" where
  "PrepareExecute A c forwardReq sig = abi_Pack A (ABI c) ''execute'' [A_request forwardReq, A_bytes sig]"

section \<open>Properties\<close>

lemma idAndNonce_eq: "idAndNonce s n = \<bar>sint n\<bar> * 256 + uint s"
proof -
  have "idAndNonce s n = int (nat \<bar>sint n\<bar> * 256 + unat s)"
    by (simp add: idAndNonce_def big_set_bytes_def big_bytes_of_def)
  also have "\<dots> = \<bar>sint n\<bar> * 256 + int (unat s)" by simp
  also have "int (unat s) = uint s" by simp
  finally show ?thesis .
qed

lemma sint_small: "unat (n :: u64) < 2 ^ 63 \<Longrightarrow> sint n = uint n"
proof -
  assume "unat n < 2 ^ 63"
  then have "int (unat n) < int (2 ^ 63)" by (simp only: of_nat_less_iff)
  then have "uint n < 2 ^ 63" by simp
  then have "sint (word_of_int (uint n) :: u64) = uint n"
    by (intro sint_word_of_int_64) (simp_all add: order_trans [OF _ uint_ge_0])
  then show ?thesis by simp
qed

lemma base_256_unique:
  fixes a b x y :: int
  assumes "0 \<le> x" "x < 256" "0 \<le> y" "y < 256"
  shows "a * 256 + x = b * 256 + y \<longleftrightarrow> a = b \<and> x = y"
  using assms by (cases a b rule: linorder_cases) auto

lemma min_int64_self_inverse: "- (9223372036854775808 :: u64) = 9223372036854775808"
  by (subst neg_eq_iff_add_eq_0) simp

text \<open>
  C38: the key under which the bridge contract records votes is \<open>nonce * 256 + source\<close>,
  and it identifies source and nonce, for all nonces below \<open>2 ^ 63\<close>.
\<close>

theorem vote_key_identifies_deposit:
  assumes "unat n < 2 ^ 63" and "unat m < 2 ^ 63"
  shows "idAndNonce s n = uint n * 256 + uint s \<and>
         (idAndNonce s n = idAndNonce t m \<longleftrightarrow> s = t \<and> n = m)"
proof -
  have val: "idAndNonce s n = uint n * 256 + uint s" "idAndNonce t m = uint m * 256 + uint t"
    using assms by (simp_all add: idAndNonce_eq sint_small)
  have bound: "0 \<le> uint s" "uint s < 256" "0 \<le> uint t" "uint t < 256"
    using uint_lt2p [of s] uint_lt2p [of t] by simp_all
  have "uint n * 256 + uint s = uint m * 256 + uint t \<longleftrightarrow> uint n = uint m \<and> uint s = uint t"
    by (rule base_256_unique [OF bound])
  then show ?thesis
    using val by (auto simp: word_uint_eq_iff)
qed

theorem vote_key_identifies_deposit_witness:
  "idAndNonce 3 513 = uint (513 :: u64) * 256 + uint (3 :: u8) \<and> idAndNonce 3 513 \<noteq> idAndNonce 4 513"
  using vote_key_identifies_deposit [of 513 513 3 4] by simp

text \<open>
  Beyond \<open>int64\<close> the key no longer does: the nonce is read as a signed number and its
  sign is lost, so a nonce and its two's complement negation share a vote key, for every
  nonce and source.
\<close>

theorem vote_key_collides_beyond_int64:
  "idAndNonce s (- n) = idAndNonce s n"
proof (cases "sint n = - (2 ^ 63)")
  case True
  moreover have "n = word_of_int (sint n)" by simp
  ultimately have "n = word_of_int (- (2 ^ 63))" by simp
  then have "n = 9223372036854775808" by simp
  then show ?thesis by (simp only: min_int64_self_inverse)
next
  case False
  have range: "- (2 ^ 63) \<le> sint n" "sint n < 2 ^ 63"
    using sint_ge [of n] sint_lt [of n] by simp_all
  have "sint (word_of_int (- sint n) :: u64) = - sint n"
    using range False by (intro sint_word_of_int_64) auto
  then have "sint (- n) = - sint n" by simp
  then show ?thesis by (simp add: idAndNonce_eq)
qed

text \<open>
  A contract read gives a value only when the call succeeded and its output unpacks,
  and an empty output is accepted only after the node reported code at the address.
\<close>

theorem contract_call_checks_code:
  assumes "contract_call L A c method args w = (Ok res, w')"
  shows "\<exists>input out w1. abi_Pack A (ABI c) method args = Ok input \<and>
     cc_CallContract (client c) (ToCallArg (call_msg_for c input)) None w = (Ok out, w1) \<and>
     abi_Unpack A (ABI c) method out = Ok res \<and>
     (out = [] \<longrightarrow> (\<exists>code. cc_CodeAt (client c) (contractAddress c) w1 = (Ok code, w') \<and> code \<noteq> []))"
  using assms
  by (auto simp: contract_call_def PackMethod_def UnpackResult_def result_laws split: if_splits)

definition example_abi :: abi_lib where
  "example_abi =
     \<lparr> abi_Pack = (\<lambda>_ method args. Ok (string_bytes method)),
       abi_Unpack = (\<lambda>_ _ out. Ok [A_uint8 (if out = [] then 0 else hd out)]),
       abi_bytecode = (\<lambda>_. []),
       convert_uint8 = (\<lambda>v. case v of A_uint8 x \<Rightarrow> Ok x | _ \<Rightarrow> Panic BadTypeAssertion),
       convert_bool = (\<lambda>v. case v of A_bool x \<Rightarrow> Ok x | _ \<Rightarrow> Panic BadTypeAssertion),
       convert_address = (\<lambda>v. case v of A_address x \<Rightarrow> Ok x | _ \<Rightarrow> Panic BadTypeAssertion),
       convert_bytes32 = (\<lambda>v. case v of A_bytes32 x \<Rightarrow> Ok x | _ \<Rightarrow> Panic BadTypeAssertion),
       convert_big = (\<lambda>v. case v of A_big x \<Rightarrow> Ok x | _ \<Rightarrow> Panic BadTypeAssertion),
       convert_status = (\<lambda>v. case v of A_status x \<Rightarrow> Ok x | _ \<Rightarrow> Panic BadTypeAssertion) \<rparr>"

definition example_client :: "nat contract_client" where
  "example_client =
     \<lparr> cc_From = 1, cc_CallContract = (\<lambda>_ _ n. (Ok [], Suc n)),
       cc_CodeAt = (\<lambda>_ n. (Ok [96], Suc n)),
       cc_TransactionByHash = (\<lambda>_ n. (Err (Error ''not found''), Suc n)) \<rparr>"

lemmas example_contract_defs = example_abi_def example_client_def NewBridgeContract_def NewContract_def

theorem contract_call_checks_code_witness:
  "\<exists>input out w1. abi_Pack example_abi BridgeABI ''_relayerThreshold'' [] = Ok input \<and>
     cc_CallContract example_client
       (ToCallArg (call_msg_for (NewBridgeContract example_abi example_client 7 None) input)) None 0
       = (Ok out, w1) \<and>
     abi_Unpack example_abi BridgeABI ''_relayerThreshold'' out = Ok [A_uint8 0] \<and>
     (out = [] \<longrightarrow> (\<exists>code. cc_CodeAt example_client 7 w1 = (Ok code, 2) \<and> code \<noteq> []))"
proof -
  have "contract_call reference_lib example_abi (NewBridgeContract example_abi example_client 7 None)
      ''_relayerThreshold'' [] 0 = (Ok [A_uint8 0], 2)"
    by (simp add: contract_call_def PackMethod_def UnpackResult_def example_contract_defs s_bind_def)
  from contract_call_checks_code [OF this] show ?thesis
    by (simp add: NewBridgeContract_def NewContract_def)
qed

end
