(* ===== verification/Evm_Voter.thy ===== *)
theory Evm_Voter
  imports Handler_Registry Deposit_Codec Evm_Contracts "HOL-Library.Multiset"
begin

text \<open>
  The EVM voter, \<open>chains/evm/voter\<close>: the registry of message handlers that turn a
  message into a proposal (\<open>message-handler.go\<close>), and \<open>EVMVoter\<close> (\<open>voter.go\<close>), which
  decides whether to vote and keeps a count of the votes it sees pending. The counter
  map is shared with goroutines that run whenever a call blocks, so every blocking call
  of the model works on the whole voter state, the map included.
\<close>

section \<open>Message handler registry\<close>

record 'w evm_message_handler =
  mh_GetHandlerAddress :: "hash \<Rightarrow> 'w \<Rightarrow> address result \<times> 'w" \<comment> \<open>of the bridge contract\<close>
  mh_ContractAddress :: address
  mh_handlers :: "(address \<rightharpoonup> message_handler) option"

definition NewEVMMessageHandler ::
  "(hash \<Rightarrow> 'w \<Rightarrow> address result \<times> 'w) \<Rightarrow> address \<Rightarrow> 'w evm_message_handler" where
  "NewEVMMessageHandler b a =
     \<lparr> mh_GetHandlerAddress = b, mh_ContractAddress = a, mh_handlers = None \<rparr>"

definition RegisterMessageHandler ::
  "eth_lib \<Rightarrow> string \<Rightarrow> message_handler \<Rightarrow> 'w evm_message_handler \<Rightarrow> 'w evm_message_handler" where
  "RegisterMessageHandler L addr h e =
     (if addr = [] then e
      else
        let m = (case mh_handlers e of None \<Rightarrow> Map.empty | Some m \<Rightarrow> m)
        in e\<lparr>mh_handlers := Some (m(hex_to_address L addr \<mapsto> h))\<rparr>)"

definition message_handler_at :: "'w evm_message_handler \<Rightarrow> address \<Rightarrow> message_handler option" where
  "message_handler_at e a = (case mh_handlers e of None \<Rightarrow> None | Some m \<Rightarrow> m a)"

definition MatchAddressWithHandlerFunc ::
  "eth_lib \<Rightarrow> 'w evm_message_handler \<Rightarrow> address \<Rightarrow> message_handler result" where
  "MatchAddressWithHandlerFunc L e a =
     (case message_handler_at e a of
        None \<Rightarrow> Err (Error (''no corresponding message handler for this address ''
                            @ address_hex L a @ '' exists''))
      | Some h \<Rightarrow> Ok h)"

definition HandleMessage ::
  "eth_lib \<Rightarrow> 'w evm_message_handler \<Rightarrow> message \<Rightarrow> 'w \<Rightarrow> proposal result \<times> 'w" where
  "HandleMessage L e m =
     s_bind (mh_GetHandlerAddress e (ResourceId m)) (\<lambda>addr.
       s_lift (r_bind (MatchAddressWithHandlerFunc L e addr) (\<lambda>handleMessage.
                 handleMessage m addr (mh_ContractAddress e))))"

lemma message_handler_at_New [simp]: "message_handler_at (NewEVMMessageHandler b ba) a = None"
  by (simp add: message_handler_at_def NewEVMMessageHandler_def)

lemma message_handler_at_Register:
  "message_handler_at (RegisterMessageHandler L s h e) a =
     (if s \<noteq> [] \<and> a = hex_to_address L s then Some h else message_handler_at e a)"
  by (simp add: message_handler_at_def RegisterMessageHandler_def Let_def split: option.split)

lemma RegisterMessageHandler_keeps:
  "mh_GetHandlerAddress (fold (\<lambda>(s, h). RegisterMessageHandler L s h) regs e) = mh_GetHandlerAddress e"
  "mh_ContractAddress (fold (\<lambda>(s, h). RegisterMessageHandler L s h) regs e) = mh_ContractAddress e"
  by (induction regs arbitrary: e) (auto simp: RegisterMessageHandler_def Let_def)

interpretation message_registry: handler_registry
  "NewEVMMessageHandler b ba"
  "\<lambda>(a, h). RegisterMessageHandler L a h"
  message_handler_at
  "\<lambda>(a, h). if a = [] then None else Some (hex_to_address L a)"
  snd
  for b :: "hash \<Rightarrow> 'w \<Rightarrow> address result \<times> 'w" and ba L
  by unfold_locales (auto simp: message_handler_at_Register split: if_splits)

section \<open>The voter\<close>

definition maxSimulateVoteChecks :: nat where "maxSimulateVoteChecks = 5"
definition maxShouldVoteChecks :: nat where "maxShouldVoteChecks = 40"

record 'w voter_state =
  pendingProposalVotes :: "hash \<rightharpoonup> u8"
  outside :: 'w

text \<open>
  What a voter calls. \<open>v_Sleep\<close> is the random delay before a status check; its duration
  is part of the environment.
\<close>

record 'w evm_voter =
  v_HandleMessage :: "message \<Rightarrow> 'w voter_state \<Rightarrow> proposal result \<times> 'w voter_state"
  v_RelayerAddress :: address
  v_IsProposalVotedBy :: "address \<Rightarrow> proposal \<Rightarrow> 'w voter_state \<Rightarrow> bool result \<times> 'w voter_state"
  v_ProposalStatus :: "proposal \<Rightarrow> 'w voter_state \<Rightarrow> proposal_status result \<times> 'w voter_state"
  v_GetThreshold :: "'w voter_state \<Rightarrow> u8 result \<times> 'w voter_state"
  v_SimulateVoteProposal :: "proposal \<Rightarrow> 'w voter_state \<Rightarrow> unit result \<times> 'w voter_state"
  v_CastVote :: "proposal \<Rightarrow> transact_options \<Rightarrow> 'w voter_state \<Rightarrow> hash result \<times> 'w voter_state"
  v_Sleep :: "'w voter_state \<Rightarrow> 'w voter_state"

text \<open>Reading a missing key of a Go map gives zero.\<close>

definition pending_votes :: "(hash \<rightharpoonup> u8) \<Rightarrow> hash \<Rightarrow> u8" where
  "pending_votes m i = (case m i of None \<Rightarrow> 0 | Some n \<Rightarrow> n)"

text \<open>\<open>NewVoter\<close>, and what \<open>NewVoterWithSubscription\<close> adds to it: it fails when the
  subscription does.\<close>

definition NewVoter :: "'w \<Rightarrow> 'w voter_state" where
  "NewVoter w = \<lparr> pendingProposalVotes = Map.empty, outside = w \<rparr>"

definition NewVoterWithSubscription ::
  "('w \<Rightarrow> unit result \<times> 'w) \<Rightarrow> 'w \<Rightarrow> 'w voter_state result \<times> 'w" where
  "NewVoterWithSubscription subscribe =
     s_bind subscribe (\<lambda>_ w. (Ok (NewVoter w), w))"

text \<open>
  One level of \<open>shouldVoteForProposal\<close>: \<open>Some\<close> the answer, or \<open>None\<close> when it calls
  itself again with one more try. The sum is a \<open>uint8\<close> sum.
\<close>

definition should_vote_check ::
  "eth_lib \<Rightarrow> 'w evm_voter \<Rightarrow> proposal \<Rightarrow> nat \<Rightarrow> 'w voter_state \<Rightarrow> bool option result \<times> 'w voter_state" where
  "should_vote_check L v prop tries st =
     s_bind (v_ProposalStatus v prop) (\<lambda>ps.
       if Status ps = ProposalStatusExecuted \<or> Status ps = ProposalStatusCanceled
       then s_return (Some False)
       else
         s_bind (v_GetThreshold v) (\<lambda>threshold s.
           if YesVotesTotal ps + pending_votes (pendingProposalVotes s) (GetID L prop) \<ge> threshold
              \<and> tries < maxShouldVoteChecks
           then (Ok None, s)
           else (Ok (Some True), s)))
     (v_Sleep v st)"

lemma should_vote_check_retry:
  "should_vote_check L v prop tries st = (Ok None, st') \<Longrightarrow> tries < maxShouldVoteChecks"
  by (auto simp: should_vote_check_def result_laws split: if_splits)

text \<open>The deferred \<open>delete\<close> of each level runs when that level returns, whatever it returns.\<close>

definition forget_votes :: "hash \<Rightarrow> 'w voter_state \<Rightarrow> 'w voter_state" where
  "forget_votes i st = st\<lparr>pendingProposalVotes := (pendingProposalVotes st)(i := None)\<rparr>"

function shouldVoteForProposal ::
  "eth_lib \<Rightarrow> 'w evm_voter \<Rightarrow> proposal \<Rightarrow> nat \<Rightarrow> 'w voter_state \<Rightarrow> bool result \<times> 'w voter_state" where
  "shouldVoteForProposal L v prop tries st =
     (case
        (case should_vote_check L v prop tries st of
           (Ok None, s) \<Rightarrow> shouldVoteForProposal L v prop (tries + 1) s
         | (Ok (Some b), s) \<Rightarrow> (Ok b, s)
         | (Err e, s) \<Rightarrow> (Err e, s)
         | (Panic p, s) \<Rightarrow> (Panic p, s))
      of (r, s) \<Rightarrow> (r, forget_votes (GetID L prop) s))"
  by pat_completeness auto
termination
  by (relation "measure (\<lambda>(L, v, prop, tries, st). maxShouldVoteChecks - tries)")
    (auto dest: should_vote_check_retry [OF sym])

declare shouldVoteForProposal.simps [simp del]

function repetitiveSimulateVote ::
  "'w evm_voter \<Rightarrow> proposal \<Rightarrow> nat \<Rightarrow> 'w voter_state \<Rightarrow> unit result \<times> 'w voter_state" where
  "repetitiveSimulateVote v prop tries st =
     (case v_SimulateVoteProposal v prop st of
        (Ok _, s) \<Rightarrow> (Ok (), s)
      | (Err e, s) \<Rightarrow>
          if tries < maxSimulateVoteChecks then repetitiveSimulateVote v prop (tries + 1) s
          else (Err e, s)
      | (Panic p, s) \<Rightarrow> (Panic p, s))"
  by pat_completeness auto
termination
  by (relation "measure (\<lambda>(v, prop, tries, st). maxSimulateVoteChecks - tries)") auto

declare repetitiveSimulateVote.simps [simp del]

text \<open>\<open>EVMVoter.VoteProposal\<close>; the configuration is read for its gas limit only.\<close>

definition voter_VoteProposal ::
  "eth_lib \<Rightarrow> 'w evm_voter \<Rightarrow> message \<Rightarrow> int \<Rightarrow> 'w voter_state \<Rightarrow> unit result \<times> 'w voter_state" where
  "voter_VoteProposal L v m gasLimit =
     s_bind (v_HandleMessage v m) (\<lambda>prop.
     s_bind (v_IsProposalVotedBy v (v_RelayerAddress v) prop) (\<lambda>voted.
       if voted then s_return ()
       else
         s_bind (shouldVoteForProposal L v prop 0) (\<lambda>shouldVote.
           if \<not> shouldVote then s_return ()
           else
             s_bind (repetitiveSimulateVote v prop 0) (\<lambda>_ s.
               case v_CastVote v prop (no_options\<lparr>GasLimit := big_uint64 gasLimit\<rparr>) s of
                 (Ok _, s') \<Rightarrow> (Ok (), s')
               | (Err e, s') \<Rightarrow> (Err (Wrap ''voting failed. Err: '' e ''''), s')
               | (Panic p, s') \<Rightarrow> (Panic p, s')))))"

section \<open>Tracking the votes of other relayers\<close>

text \<open>
  One round of \<open>trackProposalPendingVotes\<close>: from the hash of a pending transaction to
  the goroutine it starts, if any, given by the hash it waits for and the proposal it
  counts. The ABI library is a parameter: parsing the bridge ABI, finding a method by
  its four bytes, unpacking its arguments.
\<close>

record tracking_lib =
  parse_bridge_abi :: "unit result"
  method_by_id :: "bytes \<Rightarrow> string result"
  unpack_values :: "string \<Rightarrow> bytes \<Rightarrow> abi_val list result"

definition as_uint8 :: "abi_val \<Rightarrow> u8 result" where
  "as_uint8 v = (case v of A_uint8 x \<Rightarrow> Ok x | _ \<Rightarrow> Panic BadTypeAssertion)"

definition as_uint64 :: "abi_val \<Rightarrow> u64 result" where
  "as_uint64 v = (case v of A_uint64 x \<Rightarrow> Ok x | _ \<Rightarrow> Panic BadTypeAssertion)"

text \<open>The proposal of a tracked vote has only its source and nonce set.\<close>

definition tracked_proposal :: "u8 \<Rightarrow> u64 \<Rightarrow> proposal" where
  "tracked_proposal source depositNonce =
     \<lparr> p_DepositTxHash = 0, p_DepositBlock = 0, p_Source = source, p_DepositNonce = depositNonce,
       p_ResourceId = 0, p_Payload = [], p_Data = [], p_HandlerAddress = 0, p_BridgeAddress = 0 \<rparr>"

definition tracked_vote :: "eth_lib \<Rightarrow> tracking_lib \<Rightarrow> hash \<Rightarrow> bytes \<Rightarrow> (hash \<times> hash) option result" where
  "tracked_vote L T h txData =
     (case parse_bridge_abi T of
        Err _ \<Rightarrow> Ok None | Panic p \<Rightarrow> Panic p
      | Ok _ \<Rightarrow>
      if length txData < 4 then Ok None
      else
        (case method_by_id T (take 4 txData) of
           Err _ \<Rightarrow> Ok None | Panic p \<Rightarrow> Panic p
         | Ok name \<Rightarrow>
           (case unpack_values T name (drop 4 txData) of
              Err _ \<Rightarrow> Ok None | Panic p \<Rightarrow> Panic p
            | Ok data \<Rightarrow>
                if name = ''voteProposal'' then
                  r_bind (r_bind (index_at data 0) as_uint8) (\<lambda>source.
                  r_bind (r_bind (index_at data 1) as_uint64) (\<lambda>depositNonce.
                    Ok (Some (h, GetID L (tracked_proposal source depositNonce)))))
                else Ok None)))"

definition track_pending_vote ::
  "eth_lib \<Rightarrow> tracking_lib \<Rightarrow> (hash \<Rightarrow> 's \<Rightarrow> eth_tx result \<times> 's) \<Rightarrow> hash \<Rightarrow> 's
   \<Rightarrow> (hash \<times> hash) option result \<times> 's" where
  "track_pending_vote L T TransactionByHash h st =
     (case TransactionByHash h st of
        (Ok tx, s) \<Rightarrow> (tracked_vote L T h (tx_Data tx), s)
      | (Err e, s) \<Rightarrow> (Ok None, s)
      | (Panic p, s) \<Rightarrow> (Panic p, s))"

text \<open>
  The counter map with the goroutines that share it without a lock. A goroutine
  \<open>increaseProposalVoteCount(hash, propID)\<close> is started, counts its vote, waits for the
  receipt, takes its vote back and ends. Both changes of the counter are a read of the map
  and a write of the changed value, with steps of others possibly in between. \<open>Forget\<close> is
  the deletion at the end of a vote decision. That two accesses at the same moment may also
  end the program is not shown here.
\<close>

datatype tracker_phase = Starting | Counting u8 | Waiting | Discounting u8

record tracker =
  votes :: "hash \<rightharpoonup> u8"
  counters :: "(hash \<times> hash \<times> tracker_phase) multiset"

datatype tracker_event =
    Seen hash hash
  | Read_up hash hash
  | Write_up hash hash
  | Mined hash hash
  | Write_down hash hash
  | Forget hash

inductive tracker_step :: "tracker \<Rightarrow> tracker_event \<Rightarrow> tracker \<Rightarrow> bool" where
  seen: "tracker_step t (Seen h i) (t\<lparr>counters := add_mset (h, i, Starting) (counters t)\<rparr>)"
| read_up: "counters t = add_mset (h, i, Starting) cs \<Longrightarrow>
    tracker_step t (Read_up h i)
      (t\<lparr>counters := add_mset (h, i, Counting (pending_votes (votes t) i)) cs\<rparr>)"
| write_up: "counters t = add_mset (h, i, Counting n) cs \<Longrightarrow>
    tracker_step t (Write_up h i)
      (t\<lparr>counters := add_mset (h, i, Waiting) cs, votes := (votes t)(i \<mapsto> n + 1)\<rparr>)"
| mined: "counters t = add_mset (h, i, Waiting) cs \<Longrightarrow>
    tracker_step t (Mined h i)
      (t\<lparr>counters := add_mset (h, i, Discounting (pending_votes (votes t) i)) cs\<rparr>)"
| write_down: "counters t = add_mset (h, i, Discounting n) cs \<Longrightarrow>
    tracker_step t (Write_down h i) (t\<lparr>counters := cs, votes := (votes t)(i \<mapsto> n - 1)\<rparr>)"
| forget: "tracker_step t (Forget i) (t\<lparr>votes := (votes t)(i := None)\<rparr>)"

inductive tracker_run :: "tracker \<Rightarrow> tracker_event list \<Rightarrow> tracker \<Rightarrow> bool" where
  run_Nil: "tracker_run t [] t"
| run_Cons: "tracker_step t e t' \<Longrightarrow> tracker_run t' es t'' \<Longrightarrow> tracker_run t (e # es) t''"

definition no_votes :: tracker where
  "no_votes = \<lparr> votes = Map.empty, counters = {#} \<rparr>"

lemma pending_votes_update [simp]:
  "pending_votes (m(i \<mapsto> n)) j = (if i = j then n else pending_votes m j)"
  "pending_votes (m(i := None)) j = (if i = j then 0 else pending_votes m j)"
  "pending_votes Map.empty j = 0"
  by (simp_all add: pending_votes_def)

section \<open>The recursions as bounded loops\<close>

text \<open>The state after \<open>n\<close> status checks that all asked for another try.\<close>

fun after_retries ::
  "eth_lib \<Rightarrow> 'w evm_voter \<Rightarrow> proposal \<Rightarrow> nat \<Rightarrow> nat \<Rightarrow> 'w voter_state \<Rightarrow> 'w voter_state option" where
  "after_retries L v p tries 0 st = Some st"
| "after_retries L v p tries (Suc n) st =
     (case should_vote_check L v p tries st of
        (Ok None, s) \<Rightarrow> after_retries L v p (tries + 1) n s
      | _ \<Rightarrow> None)"

fun vote_answer :: "bool option result \<Rightarrow> bool result" where
  "vote_answer (Ok None) = Ok False"
| "vote_answer (Ok (Some b)) = Ok b"
| "vote_answer (Err e) = Err e"
| "vote_answer (Panic p) = Panic p"

lemma forget_votes_idem [simp]: "forget_votes i (forget_votes i st) = forget_votes i st"
  by (simp add: forget_votes_def)

lemma should_vote_loop:
  "\<exists>n s r s'. n \<le> maxShouldVoteChecks - tries \<and>
     after_retries L v p tries n st = Some s \<and>
     should_vote_check L v p (tries + n) s = (r, s') \<and> r \<noteq> Ok None \<and>
     shouldVoteForProposal L v p tries st = (vote_answer r, forget_votes (GetID L p) s')"
proof (induction L v p tries st rule: shouldVoteForProposal.induct)
  case (1 L v p tries st)
  obtain r s where check: "should_vote_check L v p tries st = (r, s)" by fastforce
  show ?case
  proof (cases "r = Ok None")
    case True
    with check have tries: "tries < maxShouldVoteChecks" by (auto dest: should_vote_check_retry)
    from 1 [OF check [symmetric] True refl] obtain n s1 r1 s2
      where "n \<le> maxShouldVoteChecks - (tries + 1)"
        "after_retries L v p (tries + 1) n s = Some s1"
        "should_vote_check L v p (tries + 1 + n) s1 = (r1, s2)" "r1 \<noteq> Ok None"
        "shouldVoteForProposal L v p (tries + 1) s = (vote_answer r1, forget_votes (GetID L p) s2)"
      by blast
    with check True tries show ?thesis
      by (intro exI [of _ "Suc n"]) (simp add: shouldVoteForProposal.simps [of L v p tries st])
  next
    case False
    with check show ?thesis
      by (intro exI [of _ 0])
        (cases r; auto simp: shouldVoteForProposal.simps [of L v p tries st] split: option.splits)
  qed
qed

lemma simulate_vote_loop:
  "(\<exists>e s. repetitiveSimulateVote v p tries st = (Err e, s)) \<longleftrightarrow>
   failing_queries (v_SimulateVoteProposal v p) (Suc (maxSimulateVoteChecks - tries)) st"
proof (induction v p tries st rule: repetitiveSimulateVote.induct)
  case (1 v p tries st)
  show ?case
  proof (cases "tries < maxSimulateVoteChecks")
    case True
    then have "maxSimulateVoteChecks - tries = Suc (maxSimulateVoteChecks - (tries + 1))" by simp
    with 1 True show ?thesis
      by (subst repetitiveSimulateVote.simps) (auto split: prod.splits result.splits)
  next
    case False
    then show ?thesis
      by (subst repetitiveSimulateVote.simps) (auto split: prod.splits result.splits)
  qed
qed

lemma simulate_vote_succeeded:
  "repetitiveSimulateVote v p tries st = (Ok u, s') \<Longrightarrow>
   \<exists>s. v_SimulateVoteProposal v p s = (Ok (), s')"
proof (induction v p tries st rule: repetitiveSimulateVote.induct)
  case (1 v p tries st)
  obtain r s where sim: "v_SimulateVoteProposal v p st = (r, s)" by fastforce
  show ?case
  proof (cases r)
    case err: (Err e)
    with sim 1(2) have "tries < maxSimulateVoteChecks"
      and "repetitiveSimulateVote v p (tries + 1) s = (Ok u, s')"
      by (auto simp: repetitiveSimulateVote.simps [of v p tries st] split: if_splits)
    with 1(1) sim err show ?thesis by auto
  qed (use sim 1(2) in \<open>auto simp: repetitiveSimulateVote.simps [of v p tries st]\<close>)
qed

text \<open>Neither recursion looks at the operation that casts the vote.\<close>

lemma should_vote_check_no_cast:
  "should_vote_check L (v\<lparr>v_CastVote := f\<rparr>) p tries st = should_vote_check L v p tries st"
  by (simp add: should_vote_check_def cong: if_cong)

lemma shouldVote_no_cast:
  "shouldVoteForProposal L (v\<lparr>v_CastVote := f\<rparr>) p tries st = shouldVoteForProposal L v p tries st"
proof (induction L v p tries st rule: shouldVoteForProposal.induct)
  case (1 L v p tries st)
  then show ?case
    by (simp add: shouldVoteForProposal.simps [of L _ p tries st] should_vote_check_no_cast
        split: prod.splits result.splits option.splits)
qed

lemma simulate_no_cast:
  "repetitiveSimulateVote (v\<lparr>v_CastVote := f\<rparr>) p tries st = repetitiveSimulateVote v p tries st"
proof (induction v p tries st rule: repetitiveSimulateVote.induct)
  case (1 v p tries st)
  then show ?case
    by (simp add: repetitiveSimulateVote.simps [of _ p tries st] split: prod.splits result.splits)
qed

lemma vote_check_wants:
  assumes "should_vote_check L v p tries st = (Ok (Some b), s')"
  shows "\<exists>ps s1. v_ProposalStatus v p (v_Sleep v st) = (Ok ps, s1) \<and>
     (b \<longleftrightarrow> Status ps \<noteq> ProposalStatusExecuted \<and> Status ps \<noteq> ProposalStatusCanceled) \<and>
     (b \<longrightarrow> (\<exists>threshold. v_GetThreshold v s1 = (Ok threshold, s') \<and>
        (YesVotesTotal ps + pending_votes (pendingProposalVotes s') (GetID L p) < threshold
         \<or> maxShouldVoteChecks \<le> tries)))"
  using assms
  by (auto simp: should_vote_check_def result_laws not_le not_less split: if_splits)

section \<open>Properties\<close>

text \<open>The stages before the vote is cast; \<open>Ok True\<close> when all of them passed.\<close>

definition vote_stages ::
  "eth_lib \<Rightarrow> 'w evm_voter \<Rightarrow> message \<Rightarrow> 'w voter_state \<Rightarrow> proposal option result \<times> 'w voter_state" where
  "vote_stages L v m =
     s_bind (v_HandleMessage v m) (\<lambda>p.
     s_bind (v_IsProposalVotedBy v (v_RelayerAddress v) p) (\<lambda>voted.
       if voted then s_return None
       else s_bind (shouldVoteForProposal L v p 0) (\<lambda>b.
              if b then s_bind (repetitiveSimulateVote v p 0) (\<lambda>_. s_return (Some p))
              else s_return None)))"

lemma vote_stages_independent:
  assumes "voter_VoteProposal L (v\<lparr>v_CastVote := f\<rparr>) m g st \<noteq> voter_VoteProposal L v m g st"
  obtains p s where "vote_stages L v m st = (Ok (Some p), s)"
    "f p (no_options\<lparr>GasLimit := big_uint64 g\<rparr>) s
     \<noteq> v_CastVote v p (no_options\<lparr>GasLimit := big_uint64 g\<rparr>) s"
  using assms
  by (auto simp: vote_stages_def voter_VoteProposal_def shouldVote_no_cast simulate_no_cast s_bind_def
      split: prod.splits result.splits if_splits)

text \<open>
  C12: casting a vote can only happen, that is, replacing the operation that sends votes
  can only change the outcome, when the message was turned into a proposal, the bridge
  answered that this relayer has not voted on it, the last status check (after at most
  forty retries) found it neither executed nor canceled, with the votes and pending
  votes below the threshold unless all retries were used, and the simulation of the vote
  has just succeeded.
\<close>

theorem vote_only_if_wanted:
  assumes "voter_VoteProposal L (v\<lparr>v_CastVote := f\<rparr>) m g st \<noteq> voter_VoteProposal L v m g st"
  shows "\<exists>p s1 s2 tries s ps s3 threshold s4 s5 s6.
     v_HandleMessage v m st = (Ok p, s1) \<and>
     v_IsProposalVotedBy v (v_RelayerAddress v) p s1 = (Ok False, s2) \<and>
     tries \<le> maxShouldVoteChecks \<and> after_retries L v p 0 tries s2 = Some s \<and>
     v_ProposalStatus v p (v_Sleep v s) = (Ok ps, s3) \<and>
     Status ps \<noteq> ProposalStatusExecuted \<and> Status ps \<noteq> ProposalStatusCanceled \<and>
     v_GetThreshold v s3 = (Ok threshold, s4) \<and>
     (YesVotesTotal ps + pending_votes (pendingProposalVotes s4) (GetID L p) < threshold
      \<or> tries = maxShouldVoteChecks) \<and>
     v_SimulateVoteProposal v p s5 = (Ok (), s6) \<and>
     f p (no_options\<lparr>GasLimit := big_uint64 g\<rparr>) s6
     \<noteq> v_CastVote v p (no_options\<lparr>GasLimit := big_uint64 g\<rparr>) s6"
proof -
  from vote_stages_independent [OF assms] obtain p s6 where
    run: "vote_stages L v m st = (Ok (Some p), s6)" and
    cast: "f p (no_options\<lparr>GasLimit := big_uint64 g\<rparr>) s6
      \<noteq> v_CastVote v p (no_options\<lparr>GasLimit := big_uint64 g\<rparr>) s6" .
  from run obtain s1 s2 s7 u where stages:
    "v_HandleMessage v m st = (Ok p, s1)"
    "v_IsProposalVotedBy v (v_RelayerAddress v) p s1 = (Ok False, s2)"
    "shouldVoteForProposal L v p 0 s2 = (Ok True, s7)"
    "repetitiveSimulateVote v p 0 s7 = (Ok u, s6)"
    by (auto simp: vote_stages_def result_laws split: if_splits)
  obtain n s r' s' where last: "n \<le> maxShouldVoteChecks" "after_retries L v p 0 n s2 = Some s"
    "should_vote_check L v p n s = (r', s')" "r' \<noteq> Ok None" "vote_answer r' = Ok True"
    using should_vote_loop [of 0 L v p s2] stages(3) by auto
  from last(4,5) have "r' = Ok (Some True)" by (cases r' rule: vote_answer.cases) auto
  with vote_check_wants [of L v p n s True s'] last(3) obtain ps s3 threshold where check:
    "v_ProposalStatus v p (v_Sleep v s) = (Ok ps, s3)"
    "Status ps \<noteq> ProposalStatusExecuted" "Status ps \<noteq> ProposalStatusCanceled"
    "v_GetThreshold v s3 = (Ok threshold, s')"
    "YesVotesTotal ps + pending_votes (pendingProposalVotes s') (GetID L p) < threshold
      \<or> maxShouldVoteChecks \<le> n"
    by auto
  from check(5) last(1) have
    "YesVotesTotal ps + pending_votes (pendingProposalVotes s') (GetID L p) < threshold
      \<or> n = maxShouldVoteChecks" by auto
  with simulate_vote_succeeded [OF stages(4)] stages(1,2) check(1-4) last(1,2) cast show ?thesis by blast
qed

definition example_voter :: "bool \<Rightarrow> nat evm_voter" where
  "example_voter voted =
     \<lparr> v_HandleMessage = (\<lambda>m s. (Ok (tracked_proposal (Source m) (DepositNonce m)), s)),
       v_RelayerAddress = 7,
       v_IsProposalVotedBy = (\<lambda>a p s. (Ok voted, s)),
       v_ProposalStatus = (\<lambda>p s. (Ok \<lparr> Status = ProposalStatusActive, YesVotes = 1,
                                        YesVotesTotal = 1, ProposedBlock = 5 \<rparr>, s)),
       v_GetThreshold = (\<lambda>s. (Ok 3, s)),
       v_SimulateVoteProposal = (\<lambda>p s. (Ok (), s)),
       v_CastVote = (\<lambda>p opts s. (Ok 11, s\<lparr>outside := outside s + 1\<rparr>)),
       v_Sleep = (\<lambda>s. s) \<rparr>"

definition example_vote :: message where
  "example_vote =
     \<lparr> DepositTxHash = 1, DepositBlock = 2, Source = 1, Destination = 2, DepositNonce = 3,
       ResourceId = 4, Payload = [], Type = FungibleTransfer \<rparr>"

text \<open>One vote is below the threshold of three: the example voter casts its vote.\<close>

lemma example_vote_run:
  "shouldVoteForProposal L (example_voter voted) p 0 (NewVoter n) = (Ok True, NewVoter n)"
  "repetitiveSimulateVote (example_voter voted) p 0 s = (Ok (), s)"
  by (subst shouldVoteForProposal.simps,
      simp add: should_vote_check_def example_voter_def NewVoter_def forget_votes_def
        proposal_status_defs pending_votes_def word_le_nat_alt)
    (subst repetitiveSimulateVote.simps, simp add: example_voter_def)

lemma example_vote_cast:
  "voter_VoteProposal L (example_voter False) example_vote 100 (NewVoter 0) = (Ok (), NewVoter 1)"
  "voter_VoteProposal L ((example_voter False)\<lparr>v_CastVote := \<lambda>p opts s. (Ok 0, s)\<rparr>) example_vote 100
     (NewVoter 0) = (Ok (), NewVoter 0)"
proof -
  have handled: "v_HandleMessage (example_voter False) example_vote s = (Ok (tracked_proposal 1 3), s)"
    "v_IsProposalVotedBy (example_voter False) a p s = (Ok False, s)"
    "v_CastVote (example_voter False) p opts s = (Ok 11, s\<lparr>outside := outside s + 1\<rparr>)" for s a p opts
    by (simp_all add: example_voter_def example_vote_def)
  show "voter_VoteProposal L (example_voter False) example_vote 100 (NewVoter 0) = (Ok (), NewVoter 1)"
    "voter_VoteProposal L ((example_voter False)\<lparr>v_CastVote := \<lambda>p opts s. (Ok 0, s)\<rparr>) example_vote 100
     (NewVoter 0) = (Ok (), NewVoter 0)"
    by (simp_all add: voter_VoteProposal_def s_bind_def handled shouldVote_no_cast simulate_no_cast
        example_vote_run) (simp add: NewVoter_def)
qed

theorem vote_only_if_wanted_witness:
  "\<exists>p s1 s2 tries s ps s3 threshold s4 s5 s6.
     v_HandleMessage (example_voter False) example_vote (NewVoter 0) = (Ok p, s1) \<and>
     v_IsProposalVotedBy (example_voter False) (v_RelayerAddress (example_voter False)) p s1
       = (Ok False, s2) \<and>
     tries \<le> maxShouldVoteChecks \<and>
     after_retries reference_lib (example_voter False) p 0 tries s2 = Some s \<and>
     v_ProposalStatus (example_voter False) p (v_Sleep (example_voter False) s) = (Ok ps, s3) \<and>
     Status ps \<noteq> ProposalStatusExecuted \<and> Status ps \<noteq> ProposalStatusCanceled \<and>
     v_GetThreshold (example_voter False) s3 = (Ok threshold, s4) \<and>
     (YesVotesTotal ps + pending_votes (pendingProposalVotes s4) (GetID reference_lib p) < threshold
      \<or> tries = maxShouldVoteChecks) \<and>
     v_SimulateVoteProposal (example_voter False) p s5 = (Ok (), s6) \<and>
     (Ok 0, s6) \<noteq> v_CastVote (example_voter False) p (no_options\<lparr>GasLimit := big_uint64 100\<rparr>) s6"
proof -
  have "voter_VoteProposal reference_lib
      ((example_voter False)\<lparr>v_CastVote := \<lambda>p opts s. (Ok 0, s)\<rparr>) example_vote 100 (NewVoter 0)
    \<noteq> voter_VoteProposal reference_lib (example_voter False) example_vote 100 (NewVoter 0)"
    unfolding example_vote_cast by (simp add: NewVoter_def)
  from vote_only_if_wanted [OF this] show ?thesis .
qed

text \<open>
  C39: \<open>shouldVoteForProposal\<close> always returns, after at most 41 status checks; its answer
  is that of the last check, and whatever the outcome the pending-vote count of the
  proposal is deleted.
\<close>

theorem should_vote_polls:
  "\<exists>n s r s'. n \<le> 40 \<and> after_retries L v p 0 n st = Some s \<and>
     should_vote_check L v p n s = (r, s') \<and> r \<noteq> Ok None \<and>
     shouldVoteForProposal L v p 0 st =
       (vote_answer r, s'\<lparr>pendingProposalVotes := (pendingProposalVotes s')(GetID L p := None)\<rparr>)"
  using should_vote_loop [of 0 L v p st] by (simp add: maxShouldVoteChecks_def forget_votes_def)

text \<open>
  \<open>repetitiveSimulateVote\<close> returns an error exactly when six simulations in a row
  fail.
\<close>

theorem simulate_vote_six_tries:
  "(\<exists>e s. repetitiveSimulateVote v p 0 st = (Err e, s)) \<longleftrightarrow>
   failing_queries (v_SimulateVoteProposal v p) 6 st"
  using simulate_vote_loop [of v p 0 st] by (simp add: maxSimulateVoteChecks_def eval_nat_numeral)

text \<open>
  The counter need not be the number of transactions waited for: when two goroutines count
  at the same time one of the votes can be lost, and when a vote is taken back after the
  proposal was forgotten the counter wraps around below zero.
\<close>

lemma pending_vote_lost:
  "\<exists>t. tracker_run no_votes [Seen 1 5, Seen 2 5, Read_up 1 5, Read_up 2 5, Write_up 1 5, Write_up 2 5] t \<and>
     counters t = {#(1, 5, Waiting), (2, 5, Waiting)#} \<and> pending_votes (votes t) 5 = 1"
proof -
  let ?s = "\<lambda>m cs. \<lparr> votes = m, counters = cs \<rparr> :: tracker"
  have "tracker_step no_votes (Seen 1 5) (?s Map.empty {#(1, 5, Starting)#})"
    using seen [of no_votes 1 5] by (simp add: no_votes_def)
  moreover have "tracker_step (?s Map.empty {#(1, 5, Starting)#}) (Seen 2 5)
      (?s Map.empty {#(1, 5, Starting), (2, 5, Starting)#})"
    using seen [of "?s Map.empty {#(1, 5, Starting)#}" 2 5] by (simp add: add_mset_commute)
  moreover have "tracker_step (?s Map.empty {#(1, 5, Starting), (2, 5, Starting)#}) (Read_up 1 5)
      (?s Map.empty {#(1, 5, Counting 0), (2, 5, Starting)#})"
    using read_up [of "?s Map.empty {#(1, 5, Starting), (2, 5, Starting)#}" 1 5] by simp
  moreover have "tracker_step (?s Map.empty {#(1, 5, Counting 0), (2, 5, Starting)#}) (Read_up 2 5)
      (?s Map.empty {#(1, 5, Counting 0), (2, 5, Counting 0)#})"
    using read_up [of "?s Map.empty {#(1, 5, Counting 0), (2, 5, Starting)#}" 2 5 "{#(1, 5, Counting 0)#}"]
    by (simp add: add_mset_commute)
  moreover have "tracker_step (?s Map.empty {#(1, 5, Counting 0), (2, 5, Counting 0)#}) (Write_up 1 5)
      (?s [5 \<mapsto> 1] {#(1, 5, Waiting), (2, 5, Counting 0)#})"
    using write_up [of "?s Map.empty {#(1, 5, Counting 0), (2, 5, Counting 0)#}" 1 5 0] by simp
  moreover have "tracker_step (?s [5 \<mapsto> 1] {#(1, 5, Waiting), (2, 5, Counting 0)#}) (Write_up 2 5)
      (?s [5 \<mapsto> 1] {#(1, 5, Waiting), (2, 5, Waiting)#})"
    using write_up [of "?s [5 \<mapsto> 1] {#(1, 5, Waiting), (2, 5, Counting 0)#}" 2 5 0 "{#(1, 5, Waiting)#}"]
    by (simp add: add_mset_commute)
  ultimately have "tracker_run no_votes
      [Seen 1 5, Seen 2 5, Read_up 1 5, Read_up 2 5, Write_up 1 5, Write_up 2 5]
      (?s [5 \<mapsto> 1] {#(1, 5, Waiting), (2, 5, Waiting)#})" by (blast intro: tracker_run.intros)
  then show ?thesis
    by (rule exI [of _ "?s [5 \<mapsto> 1] {#(1, 5, Waiting), (2, 5, Waiting)#}", OF conjI]) simp
qed

lemma forgotten_votes_wrap:
  "\<exists>t. tracker_run no_votes [Seen 1 5, Read_up 1 5, Write_up 1 5, Forget 5, Mined 1 5, Write_down 1 5] t \<and>
     counters t = {#} \<and> pending_votes (votes t) 5 = 255"
proof -
  let ?s = "\<lambda>m p. \<lparr> votes = m, counters = {#(1, 5, p)#} \<rparr> :: tracker"
  have "tracker_step no_votes (Seen 1 5) (?s Map.empty Starting)"
    using seen [of no_votes 1 5] by (simp add: no_votes_def)
  moreover have "tracker_step (?s Map.empty Starting) (Read_up 1 5) (?s Map.empty (Counting 0))"
    using read_up [of "?s Map.empty Starting" 1 5] by simp
  moreover have "tracker_step (?s Map.empty (Counting 0)) (Write_up 1 5) (?s [5 \<mapsto> 1] Waiting)"
    using write_up [of "?s Map.empty (Counting 0)" 1 5] by simp
  moreover have "tracker_step (?s [5 \<mapsto> 1] Waiting) (Forget 5) (?s Map.empty Waiting)"
    using forget [of "?s [5 \<mapsto> 1] Waiting" 5] by simp
  moreover have "tracker_step (?s Map.empty Waiting) (Mined 1 5) (?s Map.empty (Discounting 0))"
    using mined [of "?s Map.empty Waiting" 1 5] by simp
  moreover have "tracker_step (?s Map.empty (Discounting 0)) (Write_down 1 5)
      \<lparr> votes = [5 \<mapsto> - 1], counters = {#} \<rparr>"
    using write_down [of "?s Map.empty (Discounting 0)" 1 5] by simp
  ultimately have "tracker_run no_votes
      [Seen 1 5, Read_up 1 5, Write_up 1 5, Forget 5, Mined 1 5, Write_down 1 5]
      \<lparr> votes = [5 \<mapsto> - 1], counters = {#} \<rparr>" by (blast intro: tracker_run.intros)
  then show ?thesis
    by (rule exI [of _ "\<lparr> votes = [5 \<mapsto> - 1], counters = {#} \<rparr> :: tracker", OF conjI]) simp
qed

end
