(* ===== verification/Gas_Pricer.thy ===== *)
theory Gas_Pricer
  imports Evm_Client
begin

text \<open>
  The gas pricers of \<open>chains/evm/calls/evmgaspricer\<close>: the static one, the London one,
  and \<open>multiplyGasPrice\<close> with the arithmetic of \<open>math/big\<close>'s \<open>Float\<close>. A finite
  \<open>big.Float\<close> is a dyadic number, kept as its mantissa and binary exponent; infinite
  multipliers are not modelled.
\<close>

section \<open>Floating-point product\<close>

record big_float =
  mant :: int
  expo :: int

fun bit_len :: "nat \<Rightarrow> nat" where
  "bit_len n = (if n = 0 then 0 else Suc (bit_len (n div 2)))"

declare bit_len.simps [simp del]

text \<open>
  Rounding a mantissa to \<open>prec\<close> bits, to nearest with ties to even: the rounded
  mantissa with the number of bits shifted out.
\<close>

definition round_even :: "nat \<Rightarrow> nat \<Rightarrow> nat \<times> nat" where
  "round_even prec n =
     (let s = bit_len n - prec; q = n div 2 ^ s; r = n mod 2 ^ s
      in (if 2 * r < 2 ^ s \<or> (2 * r = 2 ^ s \<and> even q) then q else q + 1, s))"

text \<open>\<open>Float.Int\<close>: the number \<open>m * 2 ^ e\<close> truncated towards zero.\<close>

definition truncate_dyadic :: "nat \<Rightarrow> int \<Rightarrow> nat" where
  "truncate_dyadic m e = (if 0 \<le> e then m * 2 ^ nat e else m div 2 ^ nat (- e))"

text \<open>
  \<open>SetInt\<close> gives the estimate as many bits as it needs, at least 64; \<open>Mul\<close> rounds the
  product to that many.
\<close>

definition multiplyGasPrice :: "int \<Rightarrow> big_float \<Rightarrow> int" where
  "multiplyGasPrice gasEstimate gasMultiplier =
     (let prec = max (bit_len (nat \<bar>gasEstimate\<bar>)) 64;
          product = gasEstimate * mant gasMultiplier;
          (m, s) = round_even prec (nat \<bar>product\<bar>)
      in sgn product * int (truncate_dyadic m (expo gasMultiplier + int s)))"

section \<open>The pricers\<close>

record gas_pricer_opts =
  UpperLimitFeePerGas :: "int option"
  GasPriceFactor :: "big_float option"

text \<open>The client calls of the pricers. A suggested price that comes without an error is not nil.\<close>

record 'w london_gas_client =
  SuggestGasPrice :: "'w \<Rightarrow> int result \<times> 'w"
  gc_BaseFee :: "'w \<Rightarrow> int option result \<times> 'w"
  SuggestGasTipCap :: "'w \<Rightarrow> int result \<times> 'w"

definition static_price :: "gas_pricer_opts option \<Rightarrow> int \<Rightarrow> int" where
  "static_price opts gp =
     (case opts of
        None \<Rightarrow> gp
      | Some o' \<Rightarrow>
          let gp' = (case GasPriceFactor o' of None \<Rightarrow> gp | Some f \<Rightarrow> multiplyGasPrice gp f)
          in (case UpperLimitFeePerGas o' of
                None \<Rightarrow> gp'
              | Some limit \<Rightarrow> if gp' > limit then limit else gp'))"

definition static_GasPrice ::
  "'w london_gas_client \<Rightarrow> gas_pricer_opts option \<Rightarrow> 'w \<Rightarrow> int list result \<times> 'w" where
  "static_GasPrice c opts =
     s_bind (SuggestGasPrice c) (\<lambda>gp. s_return [static_price opts gp])"

definition TwoAndTheHalfGwei :: int where "TwoAndTheHalfGwei = 2500000000"

definition upper_limit :: "gas_pricer_opts option \<Rightarrow> int option" where
  "upper_limit opts = (case opts of None \<Rightarrow> None | Some o' \<Rightarrow> UpperLimitFeePerGas o')"

definition capped_fees :: "int option \<Rightarrow> int \<Rightarrow> int \<Rightarrow> int \<times> int" where
  "capped_fees limit baseFee tip =
     (let maxFeePerGas = tip + baseFee * 2
      in (case limit of
            None \<Rightarrow> (tip, maxFeePerGas)
          | Some l \<Rightarrow> if maxFeePerGas > l then (l - baseFee, l) else (tip, maxFeePerGas)))"

definition estimateGasLondon ::
  "'w london_gas_client \<Rightarrow> gas_pricer_opts option \<Rightarrow> int \<Rightarrow> 'w \<Rightarrow> (int \<times> int) result \<times> 'w" where
  "estimateGasLondon c opts baseFee =
     (if \<exists>limit \<in> set_option (upper_limit opts). limit < baseFee
      then s_return (TwoAndTheHalfGwei, baseFee + TwoAndTheHalfGwei)
      else s_bind (SuggestGasTipCap c) (\<lambda>tip. s_return (capped_fees (upper_limit opts) baseFee tip)))"

definition london_GasPrice ::
  "'w london_gas_client \<Rightarrow> gas_pricer_opts option \<Rightarrow> 'w \<Rightarrow> int list result \<times> 'w" where
  "london_GasPrice c opts =
     s_bind (gc_BaseFee c) (\<lambda>baseFee.
       case baseFee of
         None \<Rightarrow> static_GasPrice c opts
       | Some b \<Rightarrow> s_bind (estimateGasLondon c opts b) (\<lambda>(tip, cap). s_return [tip, cap]))"

text \<open>
  The two pricers as objects: a client and options, which can be replaced, and the price by
  the client and the options of the moment.
\<close>

record 'w gas_price_determinant =
  gd_client :: "'w london_gas_client"
  gd_opts :: "gas_pricer_opts option"

definition NewStaticGasPriceDeterminant ::
  "'w london_gas_client \<Rightarrow> gas_pricer_opts option \<Rightarrow> 'w gas_price_determinant" where
  "NewStaticGasPriceDeterminant c opts = \<lparr> gd_client = c, gd_opts = opts \<rparr>"

definition NewLondonGasPriceClient ::
  "'w london_gas_client \<Rightarrow> gas_pricer_opts option \<Rightarrow> 'w gas_price_determinant" where
  "NewLondonGasPriceClient c opts = \<lparr> gd_client = c, gd_opts = opts \<rparr>"

definition static_SetClient ::
  "'w london_gas_client \<Rightarrow> 'w gas_price_determinant \<Rightarrow> 'w gas_price_determinant" where
  "static_SetClient c d = d\<lparr>gd_client := c\<rparr>"

definition static_SetOpts ::
  "gas_pricer_opts option \<Rightarrow> 'w gas_price_determinant \<Rightarrow> 'w gas_price_determinant" where
  "static_SetOpts opts d = d\<lparr>gd_opts := opts\<rparr>"

definition london_SetClient ::
  "'w london_gas_client \<Rightarrow> 'w gas_price_determinant \<Rightarrow> 'w gas_price_determinant" where
  "london_SetClient c d = d\<lparr>gd_client := c\<rparr>"

definition london_SetOpts ::
  "gas_pricer_opts option \<Rightarrow> 'w gas_price_determinant \<Rightarrow> 'w gas_price_determinant" where
  "london_SetOpts opts d = d\<lparr>gd_opts := opts\<rparr>"

definition static_determinant_GasPrice ::
  "'w gas_price_determinant \<Rightarrow> 'w \<Rightarrow> int list result \<times> 'w" where
  "static_determinant_GasPrice d = static_GasPrice (gd_client d) (gd_opts d)"

definition london_determinant_GasPrice ::
  "'w gas_price_determinant \<Rightarrow> 'w \<Rightarrow> int list result \<times> 'w" where
  "london_determinant_GasPrice d = london_GasPrice (gd_client d) (gd_opts d)"

section \<open>Lemmas\<close>

lemma bit_len_bounds: "n < 2 ^ bit_len n \<and> (n \<noteq> 0 \<longrightarrow> 2 ^ (bit_len n - 1) \<le> n)"
proof (induction n rule: bit_len.induct)
  case (1 n)
  show ?case
  proof (cases "n = 0")
    case False
    with 1 have ih: "n div 2 < 2 ^ bit_len (n div 2)"
      "n div 2 \<noteq> 0 \<Longrightarrow> 2 ^ (bit_len (n div 2) - 1) \<le> n div 2" by auto
    from ih(1) have "n < 2 * 2 ^ bit_len (n div 2)" by linarith
    moreover have "2 ^ bit_len (n div 2) \<le> n"
    proof (cases "n div 2 = 0")
      case True
      then show ?thesis using False by (simp add: bit_len.simps [of 0])
    next
      case half: False
      then have "bit_len (n div 2) \<noteq> 0" by (simp add: bit_len.simps [of "n div 2"])
      then obtain k where "bit_len (n div 2) = Suc k" by (cases "bit_len (n div 2)") auto
      with ih(2) [OF half] show ?thesis by simp
    qed
    ultimately show ?thesis using False by (simp add: bit_len.simps [of n])
  qed (simp add: bit_len.simps)
qed

lemma bit_len_le:
  assumes "n < 2 ^ k"
  shows "bit_len n \<le> k"
proof (rule ccontr)
  assume "\<not> bit_len n \<le> k"
  then have "k \<le> bit_len n - 1" "n \<noteq> 0" by (auto simp: bit_len.simps [of 0] intro: gr0I)
  then have "2 ^ k \<le> (2 :: nat) ^ (bit_len n - 1)" by (simp add: power_increasing)
  also have "\<dots> \<le> n" using bit_len_bounds [of n] \<open>n \<noteq> 0\<close> by blast
  finally have "2 ^ k \<le> n" .
  with assms show False by simp
qed

lemma round_even_exact: "bit_len n \<le> prec \<Longrightarrow> round_even prec n = (n, 0)"
  by (simp add: round_even_def)

text \<open>The rounding error is at most half a unit in the last place that is kept.\<close>

lemma nearest_error:
  fixes n D :: nat
  assumes "0 < D" and "q = n div D \<and> 2 * (n mod D) \<le> D \<or> q = n div D + 1 \<and> D \<le> 2 * (n mod D)"
  shows "2 * \<bar>int q * int D - int n\<bar> \<le> int D"
proof -
  define d r where "d = n div D" and "r = n mod D"
  have "n = d * D + r" by (simp add: d_def r_def)
  then have n: "int n = int d * int D + int r" by simp
  have r: "int r < int D" using assms(1) by (simp add: r_def)
  from assms(2) consider "q = d" "2 * int r \<le> int D" | "int q = int d + 1" "int D \<le> 2 * int r"
    by (force simp: d_def r_def)
  then show ?thesis using n r by cases (auto simp: algebra_simps)
qed

lemma round_even_error:
  assumes "round_even prec n = (q, s)"
  shows "2 * \<bar>int q * 2 ^ s - int n\<bar> \<le> 2 ^ s"
proof -
  from assms have "q = n div 2 ^ s \<and> 2 * (n mod 2 ^ s) \<le> 2 ^ s \<or>
      q = n div 2 ^ s + 1 \<and> 2 ^ s \<le> 2 * (n mod 2 ^ s)"
    by (auto simp: round_even_def Let_def split: if_splits)
  from nearest_error [OF _ this] show ?thesis by simp
qed

lemma bit_len_le_iff: "bit_len n \<le> k \<longleftrightarrow> n < 2 ^ k"
proof
  assume "bit_len n \<le> k"
  then have "2 ^ bit_len n \<le> (2 :: nat) ^ k" by (simp add: power_increasing)
  with bit_len_bounds [of n] show "n < 2 ^ k" by (metis less_le_trans)
qed (rule bit_len_le)

text \<open>The rounding moves a product of more than 64 bits by at most one part in \<open>2 ^ 64\<close>.\<close>

lemma round_even_relative:
  assumes "round_even prec n = (q, s)" and "0 < prec"
  shows "2 ^ prec * \<bar>int q * 2 ^ s - int n\<bar> \<le> int n"
proof (cases "bit_len n \<le> prec")
  case True
  with assms show ?thesis by (simp add: round_even_exact)
next
  case False
  then have s: "bit_len n = prec + s" "0 < s" "n \<noteq> 0"
    using assms(1) by (auto simp: round_even_def Let_def bit_len.simps [of 0] intro: gr0I)
  then obtain k where k: "s = Suc k" by (cases s) auto
  have "2 ^ (prec + k) \<le> n" using bit_len_bounds [of n] s k by auto
  then have "int (2 ^ (prec + k)) \<le> int n" by (simp only: of_nat_le_iff)
  then have low: "2 ^ prec * 2 ^ k \<le> int n" by (simp add: power_add)
  have "\<bar>int q * 2 ^ s - int n\<bar> \<le> 2 ^ k"
    using round_even_error [OF assms(1)] by (simp add: k)
  then have "2 ^ prec * \<bar>int q * 2 ^ s - int n\<bar> \<le> 2 ^ prec * 2 ^ k"
    by (intro mult_left_mono) simp_all
  also note low
  finally show ?thesis .
qed

lemma static_price_le: "\<forall>limit \<in> set_option (upper_limit opts). static_price opts gp \<le> limit"
  by (cases opts) (auto simp: static_price_def upper_limit_def Let_def split: option.splits)

section \<open>Properties\<close>

text \<open>
  Multiplying a gas price gives the exact product, truncated to an integer, whenever
  the product of the price and the multiplier's mantissa has at most 64 bits.
\<close>

theorem multiply_gas_price_exact:
  assumes "0 \<le> g" and "0 \<le> mant f" and "g * mant f < 2 ^ 64"
  shows "multiplyGasPrice g f =
         (if 0 \<le> expo f then g * mant f * 2 ^ nat (expo f) else g * mant f div 2 ^ nat (- expo f))"
proof -
  have prod: "0 \<le> g * mant f" using assms by simp
  have "nat (g * mant f) < 2 ^ 64" using assms(3) prod by (simp add: nat_less_iff)
  then have "bit_len (nat (g * mant f)) \<le> max (bit_len (nat \<bar>g\<bar>)) 64"
    using bit_len_le [of _ 64] by (simp add: le_max_iff_disj)
  then have "multiplyGasPrice g f = sgn (g * mant f) * int (truncate_dyadic (nat (g * mant f)) (expo f))"
    using prod by (simp add: multiplyGasPrice_def Let_def round_even_exact)
  also have "\<dots> = int (truncate_dyadic (nat (g * mant f)) (expo f))"
    using prod by (cases "g * mant f = 0") (auto simp: sgn_1_pos truncate_dyadic_def sgn_if)
  also have "\<dots> = (if 0 \<le> expo f then g * mant f * 2 ^ nat (expo f)
      else g * mant f div 2 ^ nat (- expo f))"
    using prod by (simp add: truncate_dyadic_def zdiv_int)
  finally show ?thesis .
qed

text \<open>Three quarters of 41 wei.\<close>

theorem multiply_gas_price_exact_witness: "multiplyGasPrice 41 \<lparr> mant = 3, expo = - 2 \<rparr> = 30"
  by (subst multiply_gas_price_exact) simp_all

text \<open>A static price is one price, and never above the configured limit.\<close>

theorem static_price_within_limit:
  assumes "static_GasPrice c opts w = (Ok gps, w')"
  shows "\<exists>gp. gps = [gp] \<and> (\<forall>limit \<in> set_option (upper_limit opts). gp \<le> limit)"
  using assms static_price_le [of opts] by (auto simp: static_GasPrice_def result_laws)

definition example_gas_client :: "int option \<Rightarrow> nat london_gas_client" where
  "example_gas_client fee =
     \<lparr> SuggestGasPrice = (\<lambda>n. (Ok 41, n)), gc_BaseFee = (\<lambda>n. (Ok fee, n)),
       SuggestGasTipCap = (\<lambda>n. (Ok 5, n)) \<rparr>"

theorem static_price_within_limit_witness:
  "\<exists>gp. [20] = [gp] \<and>
     (\<forall>limit \<in> set_option (upper_limit (Some \<lparr> UpperLimitFeePerGas = Some 20,
                                             GasPriceFactor = None \<rparr>)). gp \<le> limit)"
  by (rule static_price_within_limit [of "example_gas_client None" _ 0 _ 0])
    (simp add: static_GasPrice_def example_gas_client_def static_price_def s_bind_def)

text \<open>
  C32: the fees of the London pricer always leave room for the base fee: the tip plus
  the base fee never exceeds the fee cap. The cap respects the configured limit
  unless the base fee alone is above it; then the tip is 2.5 gwei.
\<close>

theorem london_fees_cover_base_fee:
  assumes "gc_BaseFee c w = (Ok (Some b), w1)" and "0 \<le> b"
    and "london_GasPrice c opts w = (Ok gps, w')"
  shows "\<exists>tip cap. gps = [tip, cap] \<and> b + tip \<le> cap \<and>
     (\<forall>limit \<in> set_option (upper_limit opts).
        if limit < b then tip = TwoAndTheHalfGwei \<and> cap = b + tip else cap \<le> limit)"
  using assms
  by (auto simp: london_GasPrice_def estimateGasLondon_def capped_fees_def Let_def result_laws
      split: option.splits if_splits)

theorem london_fees_cover_base_fee_witness:
  "\<exists>tip cap. [2, 12] = [tip, cap] \<and> 10 + tip \<le> cap \<and>
     (\<forall>limit \<in> set_option (upper_limit (Some \<lparr> UpperLimitFeePerGas = Some 12,
                                             GasPriceFactor = None \<rparr>)).
        if limit < 10 then tip = TwoAndTheHalfGwei \<and> cap = 10 + tip else cap \<le> limit)"
  by (rule london_fees_cover_base_fee [of "example_gas_client (Some 10)" 0 _ 0 _ _ 0])
    (simp_all add: london_GasPrice_def estimateGasLondon_def capped_fees_def upper_limit_def
      example_gas_client_def s_bind_def)

end
