(* ===== verification/Transactor.thy ===== *)
theory Transactor
  imports Evm_Client Evm_Contracts Gas_Pricer
begin

text \<open>
  The transactors under \<open>chains/evm/calls/transactor\<close> and the transactions of
  \<open>chains/evm/calls/evmtransaction\<close>: signing and sending with the client's own nonce
  (\<open>signAndSend\<close>), relaying through a forwarder contract (\<open>itx\<close>, with the nonce
  bookkeeping of \<open>MinimalForwarder\<close>), and printing only (\<open>prepare\<close>). Deferred unlocks
  run on every path, panics included.
\<close>

section \<open>Transactions\<close>

datatype tx_data =
    DynamicFeeTx (dyn_Nonce: u64) (dyn_To: "address option") (GasFeeCap: int) (GasTipCap: int)
      (dyn_Gas: u64) (dyn_Value: "int option") (dyn_Data: bytes)
  | LegacyTx (leg_Nonce: u64) (leg_To: "address option") (leg_Value: "int option") (leg_Gas: u64)
      (LegacyGasPrice: int) (leg_Data: bytes)

definition newDynamicFeeTransaction ::
  "u64 \<Rightarrow> address option \<Rightarrow> int option \<Rightarrow> u64 \<Rightarrow> int \<Rightarrow> int \<Rightarrow> bytes \<Rightarrow> tx_data" where
  "newDynamicFeeTransaction nonce to amount gasLimit gasTipCap gasFeeCap data =
     DynamicFeeTx nonce to gasFeeCap gasTipCap gasLimit amount data"

definition newTransaction ::
  "u64 \<Rightarrow> address option \<Rightarrow> int option \<Rightarrow> u64 \<Rightarrow> int \<Rightarrow> bytes \<Rightarrow> tx_data" where
  "newTransaction nonce to amount gasLimit gasPrice data =
     LegacyTx nonce to amount gasLimit gasPrice data"

text \<open>More than one gas price means a dynamic fee transaction; none at all panics.\<close>

definition NewTransaction ::
  "u64 \<Rightarrow> address option \<Rightarrow> int option \<Rightarrow> u64 \<Rightarrow> int list \<Rightarrow> bytes \<Rightarrow> tx_data result" where
  "NewTransaction nonce to amount gasLimit gasPrices data =
     (case gasPrices of
        [] \<Rightarrow> Panic IndexRange
      | [gasPrice] \<Rightarrow> Ok (newTransaction nonce to amount gasLimit gasPrice data)
      | gasTipCap # gasFeeCap # _ \<Rightarrow>
          Ok (newDynamicFeeTransaction nonce to amount gasLimit gasTipCap gasFeeCap data))"

text \<open>
  Signing is go-ethereum's: making a signer for a key and a chain, signing, encoding.
  \<open>RawWithSignature\<close> returns the raw bytes with the signed transaction that replaces
  the unsigned one.
\<close>

record ('key, 'tx) signer_lib =
  NewKeyedTransactor :: "'key \<Rightarrow> int option \<Rightarrow> (address \<Rightarrow> 'tx \<Rightarrow> 'tx result) result"
  PubkeyToAddress :: "'key \<Rightarrow> address"
  MarshalBinary :: "'tx \<Rightarrow> bytes result"
  TransactionHash :: "'tx \<Rightarrow> hash"

definition tx_RawWithSignature ::
  "('key, 'tx) signer_lib \<Rightarrow> 'key \<Rightarrow> 'tx \<Rightarrow> int option \<Rightarrow> (bytes \<times> 'tx) result" where
  "tx_RawWithSignature S key tx domainID =
     r_bind (NewKeyedTransactor S key domainID) (\<lambda>sign.
     r_bind (sign (PubkeyToAddress S key) tx) (\<lambda>signed.
     r_bind (MarshalBinary S signed) (\<lambda>data. Ok (data, signed))))"

definition evm_tx :: "('key, 'tx) signer_lib \<Rightarrow> 'key \<Rightarrow> 'tx common_tx" where
  "evm_tx S key = \<lparr> TxHash = TransactionHash S, RawWithSignature = tx_RawWithSignature S key \<rparr>"

section \<open>Merging options\<close>

text \<open>
  \<open>MergeTransactionOptions\<close> calls \<open>mergo.Merge\<close>, documented to fill the fields of its
  first argument that have the zero value of their type from the second.
\<close>

type_synonym merge_options = "transact_options \<Rightarrow> transact_options \<Rightarrow> transact_options result"

definition MergeTransactionOptions :: "merge_options \<Rightarrow> transact_options \<Rightarrow> transact_options
   \<Rightarrow> transact_options result" where
  "MergeTransactionOptions mergo primary additional = mergo primary additional"

definition filled_options :: "transact_options \<Rightarrow> transact_options \<Rightarrow> transact_options" where
  "filled_options p a =
     \<lparr> GasLimit = (if GasLimit p = 0 then GasLimit a else GasLimit p),
       GasPrice = (if GasPrice p = None then GasPrice a else GasPrice p),
       Value = (if Value p = None then Value a else Value p),
       Nonce = (if Nonce p = None then Nonce a else Nonce p),
       ChainID = (if ChainID p = None then ChainID a else ChainID p),
       Priority = (if Priority p = [] then Priority a else Priority p) \<rparr>"

definition merge_documented :: "merge_options \<Rightarrow> bool" where
  "merge_documented mergo \<longleftrightarrow> (\<forall>p a. mergo p a = Ok (filled_options p a))"

section \<open>Sign and send\<close>

definition signAndSend_DefaultTransactionOptions :: transact_options where
  "signAndSend_DefaultTransactionOptions =
     no_options\<lparr>GasLimit := 2000000, GasPrice := Some 0, Value := Some 0\<rparr>"

record ('w, 'tx) sign_and_send =
  TxFabric :: "u64 \<Rightarrow> address option \<Rightarrow> int option \<Rightarrow> u64 \<Rightarrow> int list \<Rightarrow> bytes \<Rightarrow> 'tx result"
  gasPriceClient :: "'w \<Rightarrow> int list result \<times> 'w"
  common :: "'tx common_tx"
  dispatcher :: "'w rpc"

text \<open>An operation on the node only, on a state that also has the client's nonce.\<close>

definition on_world :: "('w \<Rightarrow> 'a result \<times> 'w) \<Rightarrow> 'c \<times> 'w \<Rightarrow> 'a result \<times> 'c \<times> 'w" where
  "on_world m s = (case m (snd s) of (r, w) \<Rightarrow> (r, fst s, w))"

definition gas_prices ::
  "('w, 'tx) sign_and_send \<Rightarrow> int option \<Rightarrow> client_state \<times> 'w \<Rightarrow> int list result \<times> client_state \<times> 'w"
where
  "gas_prices t gasPrice =
     (case gasPrice of
        None \<Rightarrow> s_lift (Panic NilDereference)
      | Some g \<Rightarrow> if g = 0 then on_world (gasPriceClient t) else s_return [g])"

definition nonce_locked_Transact ::
  "merge_options \<Rightarrow> ('w, 'tx) sign_and_send \<Rightarrow> address option \<Rightarrow> bytes \<Rightarrow> transact_options
   \<Rightarrow> client_state \<times> 'w \<Rightarrow> hash result \<times> client_state \<times> 'w" where
  "nonce_locked_Transact mergo t to data opts0 =
     s_bind (UnsafeNonce (dispatcher t)) (\<lambda>n.
     s_bind (s_lift (MergeTransactionOptions mergo opts0 signAndSend_DefaultTransactionOptions)) (\<lambda>opts.
     s_bind (gas_prices t (GasPrice opts)) (\<lambda>gp.
     s_bind (s_lift (case n of None \<Rightarrow> Panic NilDereference | Some k \<Rightarrow> Ok (big_uint64 k))) (\<lambda>nonce.
     s_bind (s_lift (TxFabric t nonce to (Value opts) (GasLimit opts) gp data)) (\<lambda>tx.
     s_bind (on_world (SignAndSendTransaction (common t) (dispatcher t) tx)) (\<lambda>h.
     s_bind (on_world (WaitAndReturnTxReceipt (dispatcher t) h)) (\<lambda>_. s_return h)))))))"

definition signAndSend_Transact ::
  "merge_options \<Rightarrow> ('w, 'tx) sign_and_send \<Rightarrow> address option \<Rightarrow> bytes \<Rightarrow> transact_options
   \<Rightarrow> client_state \<times> 'w \<Rightarrow> hash result \<times> client_state \<times> 'w" where
  "signAndSend_Transact mergo t to data opts s =
     (case nonce_locked_Transact mergo t to data opts (LockNonce (fst s), snd s) of
        (r, st, w) \<Rightarrow> (r, UnlockNonce st, w))"

section \<open>Prepare\<close>

text \<open>
  The \<open>prepare\<close> transactor prints the calldata (\<open>print_out\<close>) and returns the zero hash.
  Its printing of a nil address is \<open>fmt\<close>'s, which recovers from the panic.
\<close>

definition prepare_Transact ::
  "(address option \<Rightarrow> bytes \<Rightarrow> 's \<Rightarrow> 's) \<Rightarrow> address option \<Rightarrow> bytes \<Rightarrow> transact_options
   \<Rightarrow> 's \<Rightarrow> hash result \<times> 's" where
  "prepare_Transact print_out to data opts s = (Ok 0, print_out to data s)"

section \<open>Properties\<close>

lemma on_world_Ok [result_laws]:
  "on_world m s = (Ok x, s') \<longleftrightarrow> (\<exists>w. m (snd s) = (Ok x, w) \<and> s' = (fst s, w))"
  by (auto simp: on_world_def split: prod.splits)

lemma on_world_fst: "fst (snd (on_world m s)) = fst s"
  by (auto simp: on_world_def split: prod.splits)

lemma UnsafeNonce_Some:
  assumes "UnsafeNonce c (st, w) = (Ok (Some n), s')"
  shows "fst s' = st\<lparr>ClientNonce := Some n\<rparr>"
proof -
  obtain st' w' where s': "s' = (st', w')" by fastforce
  from unsafe_nonce_loop_cases [OF assms [unfolded UnsafeNonce_def s']] s' show ?thesis by auto
qed

lemma gas_prices_fst: "fst (snd (gas_prices t g s)) = fst s"
  by (auto simp: gas_prices_def on_world_fst split: option.split)

lemma gas_prices_Ok:
  assumes "gas_prices t g s = (Ok gp, s')"
  shows "fst s' = fst s \<and> g \<noteq> None"
  using gas_prices_fst [of t g s] assms by (auto simp: gas_prices_def split: option.splits)

text \<open>The state after \<open>k\<close> calls of a query that all gave an error.\<close>

fun after_failed_queries :: "('w \<Rightarrow> 'a result \<times> 'w) \<Rightarrow> nat \<Rightarrow> 'w \<Rightarrow> 'w option" where
  "after_failed_queries q 0 w = Some w"
| "after_failed_queries q (Suc k) w = (case q w of (Err e, w') \<Rightarrow> after_failed_queries q k w' | _ \<Rightarrow> None)"

lemma unsafe_nonce_loop_answer:
  "unsafe_nonce_loop c i (st, w) = (Ok (Some n), (st', w')) \<Longrightarrow>
   \<exists>k<i. \<exists>u m. after_failed_queries (rpc_pendingNonceAt c (ClientFrom st)) k w = Some u \<and>
     rpc_pendingNonceAt c (ClientFrom st) u = (Ok m, w') \<and> n = uint m \<and> st' = st\<lparr>ClientNonce := Some n\<rparr>"
proof (induction i arbitrary: w)
  case (Suc i)
  obtain r w1 where q: "rpc_pendingNonceAt c (ClientFrom st) w = (r, w1)" by fastforce
  show ?case
  proof (cases r)
    case (Ok m)
    with Suc.prems q show ?thesis by (intro exI [of _ 0]) auto
  next
    case (Err e)
    with Suc.prems q Suc.IH [of w1] obtain k u m where "k < i"
      "after_failed_queries (rpc_pendingNonceAt c (ClientFrom st)) k w1 = Some u"
      "rpc_pendingNonceAt c (ClientFrom st) u = (Ok m, w')" "n = uint m" "st' = st\<lparr>ClientNonce := Some n\<rparr>"
      by auto
    with q Err show ?thesis by (intro exI [of _ "Suc k"]) auto
  qed (use Suc.prems q in auto)
qed simp

lemma gas_prices_answer:
  assumes "gas_prices t p s = (Ok gp, s')"
  shows "fst s' = fst s \<and> (\<exists>g. p = Some g \<and>
    (if g = 0 then gasPriceClient t (snd s) = (Ok gp, snd s') else gp = [g] \<and> snd s' = snd s))"
  using assms by (auto simp: gas_prices_def on_world_Ok split: option.splits if_splits)

text \<open>
  C24: what \<open>signAndSend\<close> sends. When it returns a hash, the node has answered the query of
  the client's own nonce at one of the first eleven attempts, all before it failing; the
  transaction was built by the fabric from exactly that nonce, now the client's, from the
  merged options, and from their gas price, or if that is zero from what the gas price
  client said next. It was sent next, then waited for, and executed with status 1, and the
  nonce lock is free again.
\<close>

theorem transact_success:
  assumes "signAndSend_Transact mergo t to data opts (st, w) = (Ok h, (st', w'))"
  shows "\<exists>k u n w1 opts' g gp w2 tx w3 r.
     k < 11 \<and> after_failed_queries (rpc_pendingNonceAt (dispatcher t) (ClientFrom st)) k w = Some u \<and>
     rpc_pendingNonceAt (dispatcher t) (ClientFrom st) u = (Ok n, w1) \<and>
     st' = st\<lparr>ClientNonce := Some (uint n), NonceLocked := False\<rparr> \<and>
     mergo opts signAndSend_DefaultTransactionOptions = Ok opts' \<and>
     GasPrice opts' = Some g \<and>
     (if g = 0 then gasPriceClient t w1 = (Ok gp, w2) else gp = [g] \<and> w2 = w1) \<and>
     TxFabric t n to (Value opts') (GasLimit opts') gp data = Ok tx \<and>
     SignAndSendTransaction (common t) (dispatcher t) tx w2 = (Ok h, w3) \<and>
     WaitAndReturnTxReceipt (dispatcher t) h w3 = (Ok r, w') \<and> ReceiptStatus r = 1"
proof -
  from assms obtain st1 where run:
    "nonce_locked_Transact mergo t to data opts (LockNonce st, w) = (Ok h, (st1, w'))"
    and st': "st' = UnlockNonce st1"
    by (auto simp: signAndSend_Transact_def split: prod.splits)
  from run obtain n s1 opts' gp s2 tx s3 r where stages:
    "UnsafeNonce (dispatcher t) (LockNonce st, w) = (Ok (Some n), s1)"
    "mergo opts signAndSend_DefaultTransactionOptions = Ok opts'"
    "gas_prices t (GasPrice opts') s1 = (Ok gp, s2)"
    "TxFabric t (big_uint64 n) to (Value opts') (GasLimit opts') gp data = Ok tx"
    "on_world (SignAndSendTransaction (common t) (dispatcher t) tx) s2 = (Ok h, s3)"
    "on_world (WaitAndReturnTxReceipt (dispatcher t) h) s3 = (Ok r, (st1, w'))"
    by (auto simp: nonce_locked_Transact_def MergeTransactionOptions_def result_laws
        split: option.splits)
  from stages(5,6) obtain w3 where sent:
    "SignAndSendTransaction (common t) (dispatcher t) tx (snd s2) = (Ok h, w3)"
    "WaitAndReturnTxReceipt (dispatcher t) h w3 = (Ok r, w')" "st1 = fst s2"
    by (auto simp: on_world_Ok)
  obtain st2 w1 where s1: "s1 = (st2, w1)" by fastforce
  have lock: "ClientFrom (LockNonce st) = ClientFrom st" by (simp add: LockNonce_def)
  from unsafe_nonce_loop_answer [OF stages(1) [unfolded UnsafeNonce_def s1]] obtain k u m where
    nonce: "k < 11" "after_failed_queries (rpc_pendingNonceAt (dispatcher t) (ClientFrom st)) k w = Some u"
      "rpc_pendingNonceAt (dispatcher t) (ClientFrom st) u = (Ok m, w1)" "n = uint m"
      "st2 = (LockNonce st)\<lparr>ClientNonce := Some n\<rparr>"
    unfolding lock by blast
  from gas_prices_answer [OF stages(3), unfolded s1 fst_conv snd_conv] obtain g where
    "fst s2 = st2" and gas: "GasPrice opts' = Some g"
      "if g = 0 then gasPriceClient t w1 = (Ok gp, snd s2) else gp = [g] \<and> snd s2 = w1"
    by blast
  then have "st' = st\<lparr>ClientNonce := Some (uint m), NonceLocked := False\<rparr>"
    using st' sent(3) nonce(4,5) by (simp add: LockNonce_def UnlockNonce_def)
  moreover have "big_uint64 n = m" by (simp add: nonce(4) big_uint64_def)
  moreover have "ReceiptStatus r = 1"
    using sent(2) wait_receipt_status by (simp add: WaitAndReturnTxReceipt_def)
  ultimately show ?thesis using nonce(1-3) stages(2,4) gas sent(1,2) by blast
qed

definition example_rpc :: "nat rpc" where
  "example_rpc = flaky_rpc\<lparr>rpc_pendingNonceAt := \<lambda>_ n. (Ok 41, Suc n)\<rparr>"

definition example_tx :: "tx_data common_tx" where
  "example_tx =
     \<lparr> TxHash = (\<lambda>tx. case tx of LegacyTx n _ _ _ _ _ \<Rightarrow> ucast n | _ \<Rightarrow> 0),
       RawWithSignature = (\<lambda>tx cid. Ok ([1], tx)) \<rparr>"

definition example_transactor :: "nat rpc \<Rightarrow> (nat, tx_data) sign_and_send" where
  "example_transactor c =
     \<lparr> TxFabric = NewTransaction, gasPriceClient = (\<lambda>n. (Ok [7], n)), common = example_tx,
       dispatcher = c \<rparr>"

definition example_client_state :: client_state where
  "example_client_state = \<lparr> ClientFrom = 1, ClientNonce = None, NonceLocked = False \<rparr>"

definition example_merge :: merge_options where
  "example_merge p a = Ok (filled_options p a)"

lemma example_merge_documented: "merge_documented example_merge"
  by (simp add: merge_documented_def example_merge_def)

lemma example_nonce:
  "UnsafeNonce example_rpc (st, w) = (Ok (Some 41), (st\<lparr>ClientNonce := Some 41\<rparr>, Suc w))"
  using unsafe_nonce_loop.simps(2) [of example_rpc 10 st w]
  by (simp add: UnsafeNonce_def example_rpc_def)

lemma example_receipt:
  "WaitAndReturnTxReceipt example_rpc h 3 = (Ok \<lparr>ReceiptStatus = 1, ReceiptTxHash = h\<rparr>, 4)"
  using wait_receipt.simps(2) [of example_rpc h 49 3]
  by (simp add: WaitAndReturnTxReceipt_def example_rpc_def flaky_rpc_def)

lemma example_send:
  "SignAndSendTransaction example_tx example_rpc (LegacyTx 41 (Some 2) (Some 0) 2000000 7 []) (Suc 0)
   = (Ok 41, 3)"
  by (simp add: SignAndSendTransaction_def SendRawTransaction_def example_rpc_def flaky_rpc_def
      example_tx_def s_bind_def)

lemma example_run:
  "signAndSend_Transact example_merge (example_transactor example_rpc) (Some 2) [] no_options
     (example_client_state, 0)
   = (Ok 41, (example_client_state\<lparr>ClientNonce := Some 41\<rparr>, 4))"
proof -
  let ?st = "LockNonce example_client_state"
  let ?t = "example_transactor example_rpc"
  let ?o = "filled_options no_options signAndSend_DefaultTransactionOptions"
  have merge: "MergeTransactionOptions example_merge no_options signAndSend_DefaultTransactionOptions
      = Ok ?o"
    by (simp add: MergeTransactionOptions_def example_merge_def)
  have o: "Value ?o = Some 0" "GasLimit ?o = 2000000" "GasPrice ?o = Some 0"
    by (simp_all add: filled_options_def no_options_def signAndSend_DefaultTransactionOptions_def)
  have gas: "gas_prices ?t (Some 0) (st, Suc 0) = (Ok [7], (st, Suc 0))" for st
    by (simp add: gas_prices_def on_world_def example_transactor_def)
  have t: "TxFabric ?t = NewTransaction" "common ?t = example_tx" "dispatcher ?t = example_rpc"
    by (simp_all add: example_transactor_def)
  have "nonce_locked_Transact example_merge ?t (Some 2) [] no_options (?st, 0)
      = (Ok 41, (?st\<lparr>ClientNonce := Some 41\<rparr>, 4))"
    by (simp add: nonce_locked_Transact_def t merge o s_bind_def example_nonce gas NewTransaction_def
        newTransaction_def big_uint64_def on_world_def example_send example_receipt)
  then show ?thesis
    by (simp add: signAndSend_Transact_def UnlockNonce_def LockNonce_def example_client_state_def)
qed

theorem transact_success_witness:
  "\<exists>k u n w1 opts' g gp w2 tx w3 r.
     k < 11 \<and> after_failed_queries (rpc_pendingNonceAt example_rpc 1) k 0 = Some u \<and>
     rpc_pendingNonceAt example_rpc 1 u = (Ok n, w1) \<and>
     example_client_state\<lparr>ClientNonce := Some 41\<rparr>
       = example_client_state\<lparr>ClientNonce := Some (uint n), NonceLocked := False\<rparr> \<and>
     example_merge no_options signAndSend_DefaultTransactionOptions = Ok opts' \<and>
     GasPrice opts' = Some g \<and>
     (if g = 0 then (Ok [7], w1) = (Ok gp, w2) else gp = [g] \<and> w2 = w1) \<and>
     NewTransaction n (Some 2) (Value opts') (GasLimit opts') gp [] = Ok tx \<and>
     SignAndSendTransaction example_tx example_rpc tx w2 = (Ok 41, w3) \<and>
     WaitAndReturnTxReceipt example_rpc 41 w3 = (Ok r, 4) \<and> ReceiptStatus r = 1"
  using transact_success [OF example_run]
  by (simp only: example_transactor_def example_client_state_def sign_and_send.simps client_state.simps)

text \<open>
  If the node never answers the nonce query, \<open>signAndSend\<close> does not return an error:
  it panics on the nil nonce, after fetching the gas price, with the lock released by the
  deferred unlock.
\<close>

theorem transact_without_nonce_panics:
  assumes "failing_queries (rpc_pendingNonceAt (dispatcher t) (ClientFrom st)) 11 w"
    and "merge_documented mergo" and "\<And>w. is_ok (fst (gasPriceClient t w))"
  shows "fst (signAndSend_Transact mergo t to data opts (st, w)) = Panic NilDereference \<and>
         \<not> NonceLocked (fst (snd (signAndSend_Transact mergo t to data opts (st, w))))"
proof -
  obtain st1 w1 where nonce: "UnsafeNonce (dispatcher t) (LockNonce st, w) = (Ok None, (st1, w1))"
    using unsafe_nonce_loop_gives_up [of "dispatcher t" "LockNonce st" 11 w] assms(1)
    by (metis LockNonce_def UnsafeNonce_def client_state.select_convs(1) client_state.surjective
        client_state.update_convs(3) prod.collapse)
  obtain g where "GasPrice (filled_options opts signAndSend_DefaultTransactionOptions) = Some g"
    by (cases "GasPrice opts") (auto simp: filled_options_def signAndSend_DefaultTransactionOptions_def)
  moreover have "\<exists>gp s. gas_prices t (Some g) (st1, w1) = (Ok gp, s)"
    using assms(3) [of w1] by (auto simp: gas_prices_def on_world_def is_ok_def split: prod.splits result.splits)
  ultimately obtain gp s where
    "gas_prices t (GasPrice (filled_options opts signAndSend_DefaultTransactionOptions)) (st1, w1)
     = (Ok gp, s)" by auto
  with nonce assms(2) have
    "fst (nonce_locked_Transact mergo t to data opts (LockNonce st, w)) = Panic NilDereference"
    by (simp add: nonce_locked_Transact_def MergeTransactionOptions_def merge_documented_def s_bind_def)
  then show ?thesis
    by (auto simp: signAndSend_Transact_def UnlockNonce_def split: prod.splits)
qed

theorem transact_without_nonce_panics_witness:
  "fst (signAndSend_Transact example_merge (example_transactor flaky_rpc) (Some 2) [] no_options
     (example_client_state, 0)) = Panic NilDereference"
  using transact_without_nonce_panics [of "example_transactor flaky_rpc" example_client_state 0
      example_merge "Some 2" "[]" no_options] example_merge_documented
  by (simp add: example_transactor_def flaky_rpc_def numeral_eq_Suc)

end
