(* ===== verification/Itx.thy ===== *)
theory Itx
  imports Transactor Store
begin

text \<open>
  Relayed transactions, \<open>chains/evm/calls/transactor/itx\<close>: \<open>MinimalForwarder\<close>, which
  keeps the forwarder nonce in memory and in the nonce store, and \<open>ITXTransactor\<close>, which
  wraps a call into a forwarded, signed relay request. Typed-data hashing, ABI packing,
  signing and hexadecimal text are go-ethereum's and parameters here.
\<close>

section \<open>Minimal forwarder\<close>

record fwd_state =
  FwdNonce :: "int option"
  FwdLocked :: bool

datatype typed_val = TV_string string | TV_big int | TV_bytes bytes

record typed_data_domain =
  dom_Name :: string
  dom_Version :: string
  dom_ChainId :: int
  dom_VerifyingContract :: string

record typed_data =
  td_Types :: "(string \<times> (string \<times> string) list) list"
  td_PrimaryType :: string
  td_Domain :: typed_data_domain
  td_Message :: "(string \<times> typed_val) list"

record 's minimal_forwarder =
  kp_Address :: string
  kp_Sign :: "bytes \<Rightarrow> bytes result"                  \<comment> \<open>\<open>crypto.Sign\<close> with the keypair's key\<close>
  fwd_chainID :: int
  fc_GetNonce :: "address \<Rightarrow> 's \<Rightarrow> int result \<times> 's"
  fc_PrepareExecute :: "forward_request \<Rightarrow> bytes \<Rightarrow> bytes result"
  fc_ContractAddress :: address
  nonceStore :: "'s key_value"
  domain_map :: "typed_data_domain \<Rightarrow> (string \<times> typed_val) list"
  hash_struct :: "typed_data \<Rightarrow> string \<Rightarrow> (string \<times> typed_val) list \<Rightarrow> bytes result"

definition fwd_LockNonce :: "fwd_state \<Rightarrow> fwd_state" where
  "fwd_LockNonce st = st\<lparr>FwdLocked := True\<rparr>"

text \<open>A failed write is logged; a panic of the write leaves the mutex locked.\<close>

definition fwd_UnlockNonce ::
  "'s minimal_forwarder \<Rightarrow> fwd_state \<times> 's \<Rightarrow> unit result \<times> fwd_state \<times> 's" where
  "fwd_UnlockNonce F s =
     (case StoreNonce (nonceStore F) (fwd_chainID F) (FwdNonce (fst s)) (snd s) of
        (Panic p, w) \<Rightarrow> (Panic p, fst s, w)
      | (_, w) \<Rightarrow> (Ok (), (fst s)\<lparr>FwdLocked := False\<rparr>, w))"

definition fwd_UnsafeNonce ::
  "eth_lib \<Rightarrow> 's minimal_forwarder \<Rightarrow> fwd_state \<times> 's \<Rightarrow> int result \<times> fwd_state \<times> 's" where
  "fwd_UnsafeNonce L F s =
     (case FwdNonce (fst s) of
        Some n \<Rightarrow> (Ok (sint (big_int64 n)), s)
      | None \<Rightarrow>
          s_bind (on_world (GetNonce (nonceStore F) (fwd_chainID F))) (\<lambda>storedNonce.
          s_bind (on_world (fc_GetNonce F (hex_to_address L (kp_Address F)))) (\<lambda>contractNonce s'.
            let nonce = (if storedNonce \<ge> contractNonce then storedNonce else contractNonce)
            in (Ok (sint (big_int64 nonce)), (fst s')\<lparr>FwdNonce := Some nonce\<rparr>, snd s'))) s)"

definition fwd_UnsafeIncreaseNonce :: "fwd_state \<times> 's \<Rightarrow> unit result \<times> fwd_state \<times> 's" where
  "fwd_UnsafeIncreaseNonce s =
     (case FwdNonce (fst s) of
        None \<Rightarrow> (Panic NilDereference, s)
      | Some n \<Rightarrow> (Ok (), (fst s)\<lparr>FwdNonce := Some (n + 1)\<rparr>, snd s))"

definition ForwarderAddress :: "'s minimal_forwarder \<Rightarrow> address" where
  "ForwarderAddress F = fc_ContractAddress F"

definition ChainId :: "'s minimal_forwarder \<Rightarrow> int" where
  "ChainId F = fwd_chainID F"

definition deref :: "'a option \<Rightarrow> 'a result" where
  "deref x = (case x of None \<Rightarrow> Panic NilDereference | Some y \<Rightarrow> Ok y)"

definition forward_typed_data ::
  "string \<Rightarrow> string \<Rightarrow> bytes \<Rightarrow> int \<Rightarrow> int \<Rightarrow> int \<Rightarrow> int \<Rightarrow> string \<Rightarrow> typed_data" where
  "forward_typed_data from to data value gas nonce chainId verifyingContract =
     \<lparr> td_Types =
         [(''EIP712Domain'',
           [(''name'', ''string''), (''version'', ''string''), (''chainId'', ''uint256''),
            (''verifyingContract'', ''address'')]),
          (''ForwardRequest'',
           [(''from'', ''address''), (''to'', ''address''), (''value'', ''uint256''),
            (''gas'', ''uint256''), (''nonce'', ''uint256''), (''data'', ''bytes'')])],
       td_PrimaryType = ''ForwardRequest'',
       td_Domain =
         \<lparr> dom_Name = ''MinimalForwarder'', dom_Version = ''0.0.1'', dom_ChainId = chainId,
           dom_VerifyingContract = verifyingContract \<rparr>,
       td_Message =
         [(''from'', TV_string from), (''to'', TV_string to), (''value'', TV_big value),
          (''gas'', TV_big gas), (''data'', TV_bytes data), (''nonce'', TV_big nonce)] \<rparr>"

definition typedHash ::
  "eth_lib \<Rightarrow> 's minimal_forwarder \<Rightarrow> string \<Rightarrow> string \<Rightarrow> bytes \<Rightarrow> int \<Rightarrow> int \<Rightarrow> int option \<Rightarrow> string
   \<Rightarrow> hash result" where
  "typedHash L F from to data value gas nonce verifyingContract =
     r_bind (deref nonce) (\<lambda>n.
     let td = forward_typed_data from to data value gas (sint (big_int64 n))
                (sint (big_int64 (fwd_chainID F))) verifyingContract
     in r_bind (hash_struct F td ''EIP712Domain'' (domain_map F (td_Domain td))) (\<lambda>domainSeparator.
        r_bind (hash_struct F td (td_PrimaryType td) (td_Message td)) (\<lambda>typedDataHash.
          Ok (keccak256 L ([0x19, 0x01] @ domainSeparator @ typedDataHash)))))"

text \<open>\<open>sig[64] += 27\<close> is arithmetic on a byte, and panics on a shorter signature.\<close>

definition adjust_signature :: "bytes \<Rightarrow> bytes result" where
  "adjust_signature sig =
     r_bind (index_at sig 64) (\<lambda>v. Ok (sig[64 := v + 27]))"

definition ForwarderData ::
  "eth_lib \<Rightarrow> 's minimal_forwarder \<Rightarrow> address option \<Rightarrow> bytes \<Rightarrow> transact_options \<Rightarrow> bytes result" where
  "ForwarderData L F to data opts =
     r_bind (deref to) (\<lambda>to_addr.
     r_bind (deref (Value opts)) (\<lambda>value.
     r_bind (typedHash L F (kp_Address F) (address_hex L to_addr) data (sint (big_int64 value))
               (sint (GasLimit opts)) (Nonce opts) (address_hex L (ForwarderAddress F))) (\<lambda>forwarderHash.
     r_bind (kp_Sign F (hash_bytes forwarderHash)) (\<lambda>sig.
     r_bind (adjust_signature sig) (\<lambda>sig'.
       fc_PrepareExecute F
         \<lparr> fr_From = hex_to_address L (kp_Address F), fr_To = to_addr, fr_Value = Value opts,
           fr_Gas = sint (GasLimit opts), fr_Nonce = Nonce opts, fr_Data = data \<rparr> sig')))))"

section \<open>ITX transactor\<close>

definition itx_DefaultTransactionOptions :: transact_options where
  "itx_DefaultTransactionOptions =
     no_options\<lparr>GasLimit := 400000, GasPrice := Some 1, Priority := ''slow'', Value := Some 0\<rparr>"

record relay_tx =
  rt_to :: address
  rt_data :: bytes
  rt_opts :: transact_options

record signed_relay_tx = relay_tx +
  rt_txID :: hash
  rt_sig :: bytes

record relay_args =
  ra_to :: address
  ra_data :: string
  ra_gas :: string
  ra_schedule :: string

record 's itx_transactor =
  forwarder :: "'s minimal_forwarder"
  relay_CallContext :: "string \<Rightarrow> relay_args \<Rightarrow> string \<Rightarrow> 's \<Rightarrow> bytes result \<times> 's"
  itx_Sign :: "bytes \<Rightarrow> bytes result"
  arguments_Pack :: "address \<Rightarrow> bytes \<Rightarrow> int \<Rightarrow> int option \<Rightarrow> string \<Rightarrow> bytes result"
  bytes_hex :: "bytes \<Rightarrow> string"                       \<comment> \<open>\<open>common.Bytes2Hex\<close>\<close>
  hash_of_response :: "bytes \<Rightarrow> hash"                   \<comment> \<open>\<open>HexToHash\<close> of a \<open>hexutil.Bytes\<close> string\<close>

definition signRelayTx :: "eth_lib \<Rightarrow> 's itx_transactor \<Rightarrow> relay_tx \<Rightarrow> signed_relay_tx result" where
  "signRelayTx L I tx =
     r_bind (arguments_Pack I (rt_to tx) (rt_data tx) (sint (GasLimit (rt_opts tx)))
               (ChainID (rt_opts tx)) (Priority (rt_opts tx))) (\<lambda>packed.
     let txID = keccak256 L packed;
         msg = [0x19] @ string_bytes (''Ethereum Signed Message:'' @ [CHR 0x0A] @ show_nat 32)
               @ hash_bytes txID;
         h = keccak256 L msg
     in r_bind (itx_Sign I (hash_bytes h)) (\<lambda>sig.
          Ok \<lparr> rt_to = rt_to tx, rt_data = rt_data tx, rt_opts = rt_opts tx, rt_txID = txID,
               rt_sig = sig \<rparr>))"

definition sendTransaction ::
  "'s itx_transactor \<Rightarrow> signed_relay_tx \<Rightarrow> 's \<Rightarrow> hash result \<times> 's" where
  "sendTransaction I signedTx =
     (let txArg =
            \<lparr> ra_to = rt_to signedTx, ra_data = ''0x'' @ bytes_hex I (rt_data signedTx),
              ra_gas = show_nat (unat (GasLimit (rt_opts signedTx))),
              ra_schedule = Priority (rt_opts signedTx) \<rparr>
      in s_bind (relay_CallContext I ''relay_sendTransaction'' txArg (''0x'' @ bytes_hex I (rt_sig signedTx)))
           (\<lambda>resp. s_return (hash_of_response I resp)))"

definition increase_gas :: "u64 \<Rightarrow> u64" where
  "increase_gas g = g * 11 div 10"

definition forward_locked ::
  "eth_lib \<Rightarrow> 's itx_transactor \<Rightarrow> address option \<Rightarrow> bytes \<Rightarrow> transact_options
   \<Rightarrow> fwd_state \<times> 's \<Rightarrow> hash result \<times> fwd_state \<times> 's" where
  "forward_locked L I to data opts =
     s_bind (fwd_UnsafeNonce L (forwarder I)) (\<lambda>nonce.
     s_bind (s_lift (ForwarderData L (forwarder I) to data (opts\<lparr>Nonce := Some nonce\<rparr>))) (\<lambda>forwarderData.
     s_bind (s_lift (signRelayTx L I
               \<lparr> rt_to = ForwarderAddress (forwarder I), rt_data = forwarderData,
                 rt_opts = opts\<lparr>Nonce := Some nonce, GasLimit := increase_gas (GasLimit opts)\<rparr> \<rparr>))
       (\<lambda>signedTx.
     s_bind (on_world (sendTransaction I signedTx)) (\<lambda>h.
     s_bind fwd_UnsafeIncreaseNonce (\<lambda>_. s_return h)))))"

text \<open>A panic of the deferred unlock replaces the result of the function.\<close>

definition ITX_Transact ::
  "merge_options \<Rightarrow> eth_lib \<Rightarrow> 's itx_transactor \<Rightarrow> address option \<Rightarrow> bytes \<Rightarrow> transact_options
   \<Rightarrow> fwd_state \<times> 's \<Rightarrow> hash result \<times> fwd_state \<times> 's" where
  "ITX_Transact mergo L I to data opts0 s =
     (case MergeTransactionOptions mergo opts0 itx_DefaultTransactionOptions of
        Err e \<Rightarrow> (Err e, s)
      | Panic p \<Rightarrow> (Panic p, s)
      | Ok opts \<Rightarrow>
          (case forward_locked L I to data (opts\<lparr>ChainID := Some (ChainId (forwarder I))\<rparr>)
                  (fwd_LockNonce (fst s), snd s) of
             (r, s1) \<Rightarrow>
               (case fwd_UnlockNonce (forwarder I) s1 of
                  (Panic p, s2) \<Rightarrow> (Panic p, s2)
                | (_, s2) \<Rightarrow> (r, s2))))"

section \<open>Nonce bookkeeping\<close>

lemma fwd_UnsafeNonce_known:
  "FwdNonce (fst s) = Some n \<Longrightarrow> fwd_UnsafeNonce L F s = (Ok (sint (big_int64 n)), s)"
  by (simp add: fwd_UnsafeNonce_def)

lemma larger_nonce: "(if (b :: int) \<le> a then a else b) = max a b"
  by simp

lemma forward_locked_nonce:
  assumes "FwdNonce (fst s) = Some n"
    and "forward_locked L I to data opts s = (r, s')"
  shows "(is_ok r \<longrightarrow> FwdNonce (fst s') = Some (n + 1)) \<and> (\<not> is_ok r \<longrightarrow> FwdNonce (fst s') = Some n)"
  using assms
  by (auto simp: forward_locked_def s_bind_def fwd_UnsafeNonce_known on_world_def
      fwd_UnsafeIncreaseNonce_def split: prod.splits result.splits)

lemma fwd_UnlockNonce_Some:
  assumes "FwdNonce (fst s) = Some n" and "fwd_UnlockNonce F s = (r, s')"
  shows "FwdNonce (fst s') = Some n \<and> (is_ok r \<longrightarrow> \<not> FwdLocked (fst s')) \<and>
    (\<exists>q. StoreNonce (nonceStore F) (fwd_chainID F) (Some n) (snd s) = (q, snd s'))"
  using assms by (auto simp: fwd_UnlockNonce_def split: prod.splits result.splits)

text \<open>Success counts the nonce up, failure keeps it, and unless it panics the unlock stores it.\<close>

lemma relay_counts:
  assumes "FwdNonce st = Some n" and "mergo opts itx_DefaultTransactionOptions = Ok opts'"
    and "ITX_Transact mergo L I to data opts (st, w) = (r, (st', w'))"
    and "\<And>p. r \<noteq> Panic p"
  shows "FwdNonce st' = Some (if is_ok r then n + 1 else n) \<and> \<not> FwdLocked st' \<and>
    (\<exists>w1 q. StoreNonce (nonceStore (forwarder I)) (fwd_chainID (forwarder I)) (FwdNonce st') w1 = (q, w'))"
proof -
  obtain q st1 w1 where run:
    "forward_locked L I to data (opts'\<lparr>ChainID := Some (ChainId (forwarder I))\<rparr>) (fwd_LockNonce st, w)
     = (q, (st1, w1))" by (metis surj_pair)
  obtain u st2 w2 where unlock: "fwd_UnlockNonce (forwarder I) (st1, w1) = (u, (st2, w2))"
    by (metis surj_pair)
  have start: "FwdNonce (fst (fwd_LockNonce st, w)) = Some n"
    using assms(1) by (simp add: fwd_LockNonce_def)
  note nonce = forward_locked_nonce [OF start run]
  then have n1: "FwdNonce (fst (st1, w1)) = Some (if is_ok q then n + 1 else n)" by auto
  note store = fwd_UnlockNonce_Some [OF n1 unlock]
  from assms(2,3) run unlock have final: "(st', w') = (st2, w2)"
    and r: "r = (case u of Panic p \<Rightarrow> Panic p | _ \<Rightarrow> q)"
    by (auto simp: ITX_Transact_def MergeTransactionOptions_def split: result.splits)
  have "is_ok u"
  proof (cases u)
    case (Panic p)
    with r assms(4) [of p] show ?thesis by simp
  next
    case (Err e)
    with unlock show ?thesis by (auto simp: fwd_UnlockNonce_def split: prod.splits result.splits)
  qed simp
  then have "r = q" using r by (cases u) auto
  with store final \<open>is_ok u\<close> show ?thesis by (cases "is_ok q") (simp, blast)+
qed

section \<open>Properties\<close>

text \<open>
  The forwarder nonce advances by one exactly when a relay succeeds: a transaction
  that fails at any step keeps it, so the next one reuses it. Unless the call panics, the
  lock is free again and the last thing done was to write the current nonce to the store.
\<close>

theorem relay_nonce_accounting:
  assumes "FwdNonce st = Some n" and "mergo opts itx_DefaultTransactionOptions = Ok opts'"
    and "ITX_Transact mergo L I to data opts (st, w) = (r, (st', w'))"
    and "\<And>p. r \<noteq> Panic p"
  shows "FwdNonce st' = Some (if is_ok r then n + 1 else n) \<and> \<not> FwdLocked st' \<and>
    (\<exists>w1 q. StoreNonce (nonceStore (forwarder I)) (fwd_chainID (forwarder I)) (FwdNonce st') w1 = (q, w'))"
  using assms by (rule relay_counts)

text \<open>
  A nonce written to the store is not used again after a restart: the first nonce of
  a fresh forwarder is at least the stored one (below \<open>2 ^ 63\<close>), and at least the one the
  forwarder contract reports.
\<close>

theorem restart_reuses_no_nonce:
  assumes "leveldb ldb content" and "nonceStore F = LVLDB ldb"
    and "StoreNonce (nonceStore F) (fwd_chainID F) (Some n) w = (Ok u, w1)" and "0 \<le> n" "n < 2 ^ 63"
    and "\<And>a s k s'. fc_GetNonce F a s = (Ok k, s') \<Longrightarrow> k < 2 ^ 63"
    and "fwd_UnsafeNonce L F (st\<lparr>FwdNonce := None\<rparr>, w1) = (Ok m, s')"
  shows "n \<le> m \<and> FwdNonce (fst s') = Some m"
proof -
  from assms(7) obtain stored w2 k w3 where
    stored: "GetNonce (nonceStore F) (fwd_chainID F) w1 = (Ok stored, w2)" and
    contract: "fc_GetNonce F (hex_to_address L (kp_Address F)) w2 = (Ok k, w3)" and
    m: "m = sint (big_int64 (max stored k))" and
    s': "FwdNonce (fst s') = Some (max stored k)"
    by (auto simp: fwd_UnsafeNonce_def result_laws Let_def larger_nonce)
  have "stored = n"
    using kv_store.nonce_read_back [OF kv_of_leveldb [OF assms(1)]] assms(2-4) stored by fastforce
  moreover have "k < 2 ^ 63" using assms(6) contract by blast
  ultimately have "sint (big_int64 (max stored k)) = max stored k"
    unfolding big_int64_def using assms(4,5) by (intro sint_word_of_int_64) auto
  with m s' \<open>stored = n\<close> show ?thesis by simp
qed

text \<open>
  When the stored nonce cannot be read the first time, \<open>Transact\<close> does not return
  that error: its deferred unlock stores a nil nonce, panics, and the nonce stays locked.
\<close>

theorem relay_without_nonce_panics:
  assumes "FwdNonce st = None" and "merge_documented mergo"
    and "GetNonce (nonceStore (forwarder I)) (fwd_chainID (forwarder I)) w = (Err e, w')"
  shows "\<exists>w1. ITX_Transact mergo L I to data opts (st, w)
     = (Panic NilDereference, (st\<lparr>FwdLocked := True\<rparr>, w1))"
proof -
  have "fwd_UnsafeNonce L (forwarder I) (fwd_LockNonce st, w) = (Err e, (fwd_LockNonce st, w'))"
    using assms(1,3) by (simp add: fwd_UnsafeNonce_def fwd_LockNonce_def on_world_def s_bind_def)
  then have "forward_locked L I to data opts' (fwd_LockNonce st, w) = (Err e, (fwd_LockNonce st, w'))"
    for opts' by (simp add: forward_locked_def)
  then show ?thesis
    using assms(1,2)
    by (simp add: ITX_Transact_def MergeTransactionOptions_def merge_documented_def
        fwd_UnlockNonce_def StoreNonce_def fwd_LockNonce_def)
qed

section \<open>Witnesses\<close>

definition example_forwarder :: "'s leveldb_db \<Rightarrow> 's minimal_forwarder" where
  "example_forwarder ldb =
     \<lparr> kp_Address = ''0x2'', kp_Sign = (\<lambda>_. Ok (replicate 65 1)), fwd_chainID = 5,
       fc_GetNonce = (\<lambda>_ s. (Ok 3, s)), fc_PrepareExecute = (\<lambda>_ sig. Ok sig),
       fc_ContractAddress = 8, nonceStore = LVLDB ldb, domain_map = (\<lambda>_. []),
       hash_struct = (\<lambda>_ _ _. Ok []) \<rparr>"

definition example_itx :: "'s leveldb_db \<Rightarrow> 's itx_transactor" where
  "example_itx ldb =
     \<lparr> forwarder = example_forwarder ldb, relay_CallContext = (\<lambda>_ _ _ s. (Ok [9], s)),
       itx_Sign = (\<lambda>_. Ok [1]), arguments_Pack = (\<lambda>_ d _ _ _. Ok d), bytes_hex = (\<lambda>_. ''00''),
       hash_of_response = (\<lambda>bs. word_of_nat (bytes_nat bs)) \<rparr>"

text \<open>A database that answers every read with an I/O error.\<close>

definition broken_db :: "(bytes \<rightharpoonup> bytes) leveldb_db" where
  "broken_db = memory_db\<lparr>db_Get := \<lambda>k s. (Err (Error ''input/output error''), s)\<rparr>"

lemma example_forward:
  "forward_locked L (example_itx ldb) (Some 3) []
     ((filled_options no_options itx_DefaultTransactionOptions)\<lparr>ChainID := c\<rparr>)
     (\<lparr>FwdNonce = Some n, FwdLocked = True\<rparr>, w)
   = (Ok 9, (\<lparr>FwdNonce = Some (n + 1), FwdLocked = True\<rparr>, w))" for w :: 's
proof -
  let ?F = "example_forwarder ldb :: 's minimal_forwarder"
  let ?I = "example_itx ldb :: 's itx_transactor"
  have F: "forwarder ?I = ?F" by (simp add: example_itx_def)
  have opts: "Value (filled_options no_options itx_DefaultTransactionOptions) = Some 0"
    by (simp add: filled_options_def no_options_def itx_DefaultTransactionOptions_def)
  have data: "ForwarderData L ?F (Some 3) []
      ((filled_options no_options itx_DefaultTransactionOptions)\<lparr>ChainID := c, Nonce := Some m\<rparr>)
      = Ok ((replicate 65 1)[64 := 28])" for m
    by (simp add: ForwarderData_def typedHash_def deref_def opts example_forwarder_def
        adjust_signature_def index_at_def Let_def)
  have sig: "signRelayTx L ?I t = Ok \<lparr> rt_to = rt_to t, rt_data = rt_data t, rt_opts = rt_opts t,
      rt_txID = keccak256 L (rt_data t), rt_sig = [1] \<rparr>" for t
    by (simp add: signRelayTx_def example_itx_def Let_def)
  have send: "sendTransaction ?I t w = (Ok 9, w)" for t
    by (simp add: sendTransaction_def example_itx_def Let_def bytes_nat_def)
  show ?thesis
    by (simp add: forward_locked_def F data sig send fwd_UnsafeNonce_def s_bind_def on_world_def
        fwd_UnsafeIncreaseNonce_def)
qed

lemma example_relays:
  "ITX_Transact example_merge L (example_itx memory_db) (Some 3) [] no_options
     (\<lparr>FwdNonce = Some n, FwdLocked = False\<rparr>, w)
   = (Ok 9, (\<lparr>FwdNonce = Some (n + 1), FwdLocked = False\<rparr>, w(nonce_key 5 \<mapsto> big_bytes_of (n + 1))))"
proof -
  have "forward_locked L (example_itx memory_db) (Some 3) []
      ((filled_options no_options itx_DefaultTransactionOptions)\<lparr>ChainID := c\<rparr>)
      (\<lparr>FwdNonce = Some n, FwdLocked = True\<rparr>, w)
    = (Ok 9, (\<lparr>FwdNonce = Some (n + 1), FwdLocked = True\<rparr>, w))" for c
    using example_forward [of L memory_db c n w] by simp
  moreover have "fwd_UnlockNonce (forwarder (example_itx memory_db))
      (\<lparr>FwdNonce = Some (n + 1), FwdLocked = True\<rparr>, w)
    = (Ok (), (\<lparr>FwdNonce = Some (n + 1), FwdLocked = False\<rparr>, w(nonce_key 5 \<mapsto> big_bytes_of (n + 1))))"
    by (simp add: fwd_UnlockNonce_def StoreNonce_def example_itx_def example_forwarder_def memory_defs)
  ultimately show ?thesis
    by (simp add: ITX_Transact_def MergeTransactionOptions_def example_merge_def fwd_LockNonce_def)
qed

lemmas example_relay = example_relays [where n = 7 and w = Map.empty, simplified]

theorem relay_nonce_accounting_witness:
  "\<exists>w1 q. StoreNonce (LVLDB memory_db) 5 (Some 8) w1 = (q, [nonce_key 5 \<mapsto> big_bytes_of 8])"
proof -
  have merge: "example_merge no_options itx_DefaultTransactionOptions
      = Ok (filled_options no_options itx_DefaultTransactionOptions)"
    by (simp add: example_merge_def)
  from relay_nonce_accounting [OF _ merge example_relay [of reference_lib]] show ?thesis
    by (simp add: example_itx_def example_forwarder_def)
qed

theorem restart_reuses_no_nonce_witness:
  "8 \<le> (8 :: int) \<and>
   FwdNonce (fst (\<lparr>FwdNonce = Some 8, FwdLocked = False\<rparr>, [nonce_key 5 \<mapsto> big_bytes_of 8])) = Some 8"
proof (rule restart_reuses_no_nonce [OF memory_leveldb])
  let ?F = "example_forwarder memory_db" and ?w1 = "[nonce_key 5 \<mapsto> big_bytes_of 8]"
  show "nonceStore ?F = LVLDB memory_db" by (simp add: example_forwarder_def)
  show "StoreNonce (nonceStore ?F) (fwd_chainID ?F) (Some 8) Map.empty = (Ok (), ?w1)"
    by (simp add: StoreNonce_def example_forwarder_def memory_defs)
  show "fwd_UnsafeNonce reference_lib ?F
      (\<lparr>FwdNonce = Some 7, FwdLocked = False\<rparr>\<lparr>FwdNonce := None\<rparr>, ?w1)
    = (Ok 8, (\<lparr>FwdNonce = Some 8, FwdLocked = False\<rparr>, ?w1))"
    by (simp add: fwd_UnsafeNonce_def example_forwarder_def on_world_def GetNonce_def memory_defs
        s_bind_def big_int64_def big_set_bytes_def big_bytes_of_def)
qed (simp_all add: example_forwarder_def)

theorem relay_without_nonce_panics_witness:
  "\<exists>w1. ITX_Transact example_merge reference_lib (example_itx broken_db) (Some 3) [] no_options
       (\<lparr>FwdNonce = None, FwdLocked = False\<rparr>, Map.empty)
     = (Panic NilDereference, (\<lparr>FwdNonce = None, FwdLocked = False\<rparr>\<lparr>FwdLocked := True\<rparr>, w1))"
  by (rule relay_without_nonce_panics [OF _ example_merge_documented])
    (simp_all add: GetNonce_def example_itx_def example_forwarder_def broken_db_def memory_defs)

end
