(* ===== verification/Config.thy ===== *)
theory Config
  imports Bridge_Prelude Gas_Pricer
begin

text \<open>
  The configuration of \<open>config/\<close>: the general, EVM and substrate chain configurations
  with their validation and defaults (\<open>config/chain\<close>, \<open>calls/consts\<close>), the relayer's
  (\<open>config/relayer\<close>) and the whole file (\<open>config/config.go\<close>). Decoding a map into a
  struct and reading the command line are \<open>mapstructure\<close>'s and \<open>viper\<close>'s; their results
  are arguments.
\<close>

section \<open>Defaults\<close>

definition DefaultGasLimit :: int where "DefaultGasLimit = 2000000"
definition DefaultGasPrice :: int where "DefaultGasPrice = 20000000000"
definition DefaultGasMultiplier :: big_float where "DefaultGasMultiplier = \<lparr> mant = 1, expo = 0 \<rparr>"
definition DefaultBlockConfirmations :: int where "DefaultBlockConfirmations = 10"

text \<open>A \<open>time.Duration\<close> counts nanoseconds in an \<open>int64\<close>.\<close>

type_synonym duration = "64 word"

definition Second :: duration where "Second = 1000000000"

definition DefaultBlockRetryInterval :: duration where
  "DefaultBlockRetryInterval = 5 * Second"

section \<open>General chain configuration\<close>

record general_chain_config =
  cfg_Name :: string
  cfg_Id :: "u8 option"
  cfg_Endpoint :: string
  cfg_From :: string
  cfg_Type :: string
  cfg_KeystorePath :: string
  cfg_Insecure :: bool
  cfg_BlockstorePath :: string
  cfg_FreshStart :: bool
  cfg_LatestBlock :: bool

definition general_Validate :: "general_chain_config \<Rightarrow> unit result" where
  "general_Validate c =
     (case cfg_Id c of
        None \<Rightarrow> Err (Error ''required field domain.Id empty for chain <nil>'')
      | Some i \<Rightarrow>
          if cfg_Endpoint c = []
          then Err (Error (''required field chain.Endpoint empty for chain '' @ show_nat (unat i)))
          else if cfg_Name c = []
          then Err (Error (''required field chain.Name empty for chain '' @ show_nat (unat i)))
          else if cfg_From c = []
          then Err (Error (''required field chain.From empty for chain '' @ show_nat (unat i)))
          else Ok ())"

text \<open>The values viper has for the flags of \<open>flags/flags.go\<close>.\<close>

record viper_flags =
  TestKeyFlag :: string
  KeystoreFlag :: string
  BlockstoreFlag :: string
  FreshStartFlag :: bool
  LatestBlockFlag :: bool

definition ParseFlags :: "viper_flags \<Rightarrow> general_chain_config \<Rightarrow> general_chain_config" where
  "ParseFlags v c =
     (let c1 = (if TestKeyFlag v \<noteq> []
                then c\<lparr>cfg_KeystorePath := TestKeyFlag v, cfg_Insecure := True\<rparr>
                else c\<lparr>cfg_KeystorePath := KeystoreFlag v\<rparr>)
      in c1\<lparr>cfg_BlockstorePath := BlockstoreFlag v, cfg_FreshStart := FreshStartFlag v,
            cfg_LatestBlock := LatestBlockFlag v\<rparr>)"

section \<open>EVM chains\<close>

record evm_config =
  GeneralChainConfig :: general_chain_config
  Bridge :: string
  Erc20Handlers :: "string list"
  Erc721Handlers :: "string list"
  GenericHandlers :: "string list"
  MaxGasPrice :: int
  GasMultiplier :: big_float
  cfg_GasLimit :: int
  StartBlock :: int
  BlockConfirmations :: int
  BlockRetryInterval :: duration

text \<open>The raw configuration holds \<open>int64\<close> numbers, a finite \<open>float64\<close> and a \<open>uint64\<close>.\<close>

record raw_evm_config =
  raw_General :: general_chain_config
  raw_Bridge :: string
  raw_Erc20Handlers :: "string list"
  raw_Erc721Handlers :: "string list"
  raw_GenericHandlers :: "string list"
  raw_MaxGasPrice :: "64 word"
  raw_GasMultiplier :: big_float
  raw_GasLimit :: "64 word"
  raw_StartBlock :: "64 word"
  raw_BlockConfirmations :: "64 word"
  raw_BlockRetryInterval :: u64

definition evm_Validate :: "raw_evm_config \<Rightarrow> unit result" where
  "evm_Validate c =
     r_bind (general_Validate (raw_General c)) (\<lambda>_.
       if raw_Bridge c = [] then
         (case cfg_Id (raw_General c) of
            None \<Rightarrow> Panic NilDereference
          | Some i \<Rightarrow> Err (Error (''required field chain.Bridge empty for chain '' @ show_nat (unat i))))
       else if raw_BlockConfirmations c \<noteq> 0 \<and> sint (raw_BlockConfirmations c) < 1
       then Err (Error ''blockConfirmations has to be >=1'')
       else Ok ())"

definition evm_config_of :: "viper_flags \<Rightarrow> raw_evm_config \<Rightarrow> evm_config" where
  "evm_config_of v c =
     \<lparr> GeneralChainConfig = ParseFlags v (raw_General c),
       Bridge = raw_Bridge c,
       Erc20Handlers = raw_Erc20Handlers c,
       Erc721Handlers = raw_Erc721Handlers c,
       GenericHandlers = raw_GenericHandlers c,
       MaxGasPrice = (if raw_MaxGasPrice c \<noteq> 0 then sint (raw_MaxGasPrice c) else DefaultGasPrice),
       GasMultiplier =
         (if mant (raw_GasMultiplier c) \<noteq> 0 then raw_GasMultiplier c else DefaultGasMultiplier),
       cfg_GasLimit = (if raw_GasLimit c \<noteq> 0 then sint (raw_GasLimit c) else DefaultGasLimit),
       StartBlock = sint (raw_StartBlock c),
       BlockConfirmations =
         (if raw_BlockConfirmations c \<noteq> 0 then sint (raw_BlockConfirmations c)
          else DefaultBlockConfirmations),
       BlockRetryInterval =
         (if raw_BlockRetryInterval c \<noteq> 0 then raw_BlockRetryInterval c * Second
          else DefaultBlockRetryInterval) \<rparr>"

definition NewEVMConfig :: "viper_flags \<Rightarrow> raw_evm_config result \<Rightarrow> evm_config result" where
  "NewEVMConfig v decoded =
     r_bind decoded (\<lambda>c. r_bind (evm_Validate c) (\<lambda>_. Ok (evm_config_of v c)))"

section \<open>Substrate chains\<close>

record substrate_config =
  sub_General :: general_chain_config
  sub_StartBlock :: int
  sub_UseExtendedCall :: bool

record raw_substrate_config =
  raw_sub_General :: general_chain_config
  raw_sub_StartBlock :: "64 word"
  raw_sub_UseExtendedCall :: bool

definition NewSubstrateConfig :: "viper_flags \<Rightarrow> raw_substrate_config result \<Rightarrow> substrate_config result" where
  "NewSubstrateConfig v decoded =
     r_bind decoded (\<lambda>c. r_bind (general_Validate (raw_sub_General c)) (\<lambda>_.
       Ok \<lparr> sub_General = ParseFlags v (raw_sub_General c),
            sub_StartBlock = sint (raw_sub_StartBlock c),
            sub_UseExtendedCall = raw_sub_UseExtendedCall c \<rparr>))"

section \<open>The configuration file\<close>

text \<open>\<open>parse_level\<close> stands for \<open>zerolog.ParseLevel\<close>.\<close>

record 'level relayer_config =
  OpenTelemetryCollectorURL :: string
  LogLevel :: 'level
  LogFile :: string

definition relayer_Validate :: "string relayer_config \<Rightarrow> unit result" where
  "relayer_Validate c = Ok ()"

definition NewRelayerConfig ::
  "(string \<Rightarrow> 'level result) \<Rightarrow> string relayer_config \<Rightarrow> 'level relayer_config result" where
  "NewRelayerConfig parse_level raw =
     r_bind (relayer_Validate raw) (\<lambda>_.
       case parse_level (LogLevel raw) of
         Ok l \<Rightarrow> Ok \<lparr> OpenTelemetryCollectorURL = OpenTelemetryCollectorURL raw, LogLevel = l,
                     LogFile = LogFile raw \<rparr>
       | Err _ \<Rightarrow> Err (Error (''Unknown log level: '' @ LogLevel raw))
       | Panic p \<Rightarrow> Panic p)"

text \<open>The values of a decoded JSON object, as far as the code tells them apart.\<close>

datatype json_val = J_null | J_string string | J_other

type_synonym json_object = "string \<rightharpoonup> json_val"

record 'level config =
  RelayerConfig :: "'level relayer_config"
  ChainConfigs :: "json_object list"

definition has_chain_type :: "json_object \<Rightarrow> bool" where
  "has_chain_type c =
     (case c ''type'' of
        None \<Rightarrow> False
      | Some J_null \<Rightarrow> False
      | Some (J_string s) \<Rightarrow> s \<noteq> []
      | Some J_other \<Rightarrow> True)"

definition GetConfig ::
  "(string \<Rightarrow> 'level result) \<Rightarrow> unit result \<Rightarrow> string config result \<Rightarrow> 'level config result" where
  "GetConfig parse_level read_file unmarshalled =
     r_bind read_file (\<lambda>_.
     r_bind unmarshalled (\<lambda>raw.
     r_bind (NewRelayerConfig parse_level (RelayerConfig raw)) (\<lambda>rc.
       if \<forall>c \<in> set (ChainConfigs raw). has_chain_type c
       then Ok \<lparr> RelayerConfig = rc, ChainConfigs = ChainConfigs raw \<rparr>
       else Err (Error ''Chain 'type' must be provided for every configured chain''))))"

section \<open>Properties\<close>

lemma general_Validate_Ok_iff:
  "general_Validate c = Ok () \<longleftrightarrow>
   cfg_Id c \<noteq> None \<and> cfg_Endpoint c \<noteq> [] \<and> cfg_Name c \<noteq> [] \<and> cfg_From c \<noteq> []"
  by (auto simp: general_Validate_def split: option.split)

lemma general_Validate_no_panic: "general_Validate c \<noteq> Panic p"
  by (auto simp: general_Validate_def split: option.split)

lemma ParseFlags_keeps [simp]:
  "cfg_Id (ParseFlags v c) = cfg_Id c" "cfg_Endpoint (ParseFlags v c) = cfg_Endpoint c"
  "cfg_Name (ParseFlags v c) = cfg_Name c" "cfg_From (ParseFlags v c) = cfg_From c"
  by (simp_all add: ParseFlags_def Let_def)

lemma evm_Validate_no_panic: "evm_Validate c \<noteq> Panic p"
proof (cases "general_Validate (raw_General c)")
  case validated: (Ok u)
  then have "cfg_Id (raw_General c) \<noteq> None" using general_Validate_Ok_iff by simp
  with validated show ?thesis by (auto simp: evm_Validate_def)
qed (auto simp: evm_Validate_def general_Validate_no_panic)

lemma valid_config:
  assumes "evm_Validate raw = Ok ()"
  shows "1 \<le> BlockConfirmations (evm_config_of v raw)" and "raw_Bridge raw \<noteq> []"
    and "general_Validate (raw_General raw) = Ok ()"
  using assms
  by (auto simp: evm_Validate_def evm_config_of_def DefaultBlockConfirmations_def result_laws
      split: if_splits option.splits)

lemma evm_config_of_simps [simp]:
  "GeneralChainConfig (evm_config_of v raw) = ParseFlags v (raw_General raw)"
  "Bridge (evm_config_of v raw) = raw_Bridge raw"
  by (simp_all add: evm_config_of_def)

lemma evm_config_of_nonzero:
  "cfg_GasLimit (evm_config_of v raw) \<noteq> 0" "MaxGasPrice (evm_config_of v raw) \<noteq> 0"
  "mant (GasMultiplier (evm_config_of v raw)) \<noteq> 0"
  by (simp_all add: evm_config_of_def DefaultGasLimit_def DefaultGasPrice_def
      DefaultGasMultiplier_def signed_eq_0_iff)

lemma NewEVMConfig_Ok_iff:
  "NewEVMConfig v decoded = Ok c \<longleftrightarrow>
   (\<exists>raw. decoded = Ok raw \<and> evm_Validate raw = Ok () \<and> c = evm_config_of v raw)"
  by (auto simp: NewEVMConfig_def result_laws)

text \<open>
  C40: an accepted EVM configuration has a name, a domain, an endpoint, an account and a bridge, waits
  for at least one confirmation, and has a non-zero gas limit, price and multiplier;
  checking a configuration never panics.
\<close>

theorem accepted_config_complete:
  assumes "NewEVMConfig v (Ok raw) = r"
  shows "(\<forall>p. r \<noteq> Panic p) \<and>
    (\<forall>c. r = Ok c \<longrightarrow> cfg_Name (GeneralChainConfig c) \<noteq> [] \<and> cfg_Id (GeneralChainConfig c) \<noteq> None \<and>
       cfg_Endpoint (GeneralChainConfig c) \<noteq> [] \<and> cfg_From (GeneralChainConfig c) \<noteq> [] \<and>
       Bridge c \<noteq> [] \<and> 1 \<le> BlockConfirmations c \<and>
       cfg_GasLimit c \<noteq> 0 \<and> MaxGasPrice c \<noteq> 0 \<and> mant (GasMultiplier c) \<noteq> 0)"
  using assms evm_Validate_no_panic [of raw] evm_config_of_nonzero [of v raw]
    valid_config(1) [of raw v] valid_config(2,3) [of raw, unfolded general_Validate_Ok_iff]
  by (cases "evm_Validate raw") (auto simp: NewEVMConfig_def)

definition example_general_config :: general_chain_config where
  "example_general_config =
     \<lparr> cfg_Name = ''ethereum'', cfg_Id = Some 1, cfg_Endpoint = ''ws://localhost:8545'',
       cfg_From = ''alice'', cfg_Type = ''evm'', cfg_KeystorePath = [], cfg_Insecure = False,
       cfg_BlockstorePath = [], cfg_FreshStart = False, cfg_LatestBlock = False \<rparr>"

definition example_raw_config :: raw_evm_config where
  "example_raw_config =
     \<lparr> raw_General = example_general_config, raw_Bridge = ''0xb'', raw_Erc20Handlers = [''0x20''],
       raw_Erc721Handlers = [''0x721''], raw_GenericHandlers = [''0x9''], raw_MaxGasPrice = 0,
       raw_GasMultiplier = \<lparr> mant = 5, expo = - 2 \<rparr>, raw_GasLimit = 0, raw_StartBlock = 7,
       raw_BlockConfirmations = 3, raw_BlockRetryInterval = 0 \<rparr>"

definition example_flags :: viper_flags where
  "example_flags =
     \<lparr> TestKeyFlag = ''alice'', KeystoreFlag = ''./keys'', BlockstoreFlag = ''./lvldbdata'',
       FreshStartFlag = False, LatestBlockFlag = False \<rparr>"

lemma example_config_accepted:
  "NewEVMConfig example_flags (Ok example_raw_config) = Ok (evm_config_of example_flags example_raw_config)"
  by (simp add: NewEVMConfig_def evm_Validate_def general_Validate_def example_raw_config_def
      example_general_config_def)

theorem accepted_config_complete_witness:
  "1 \<le> BlockConfirmations (evm_config_of example_flags example_raw_config) \<and>
   cfg_Id (GeneralChainConfig (evm_config_of example_flags example_raw_config)) \<noteq> None"
  using accepted_config_complete [OF example_config_accepted] by simp

end
