(* ===== verification/Evm_Chain.thy ===== *)
theory Evm_Chain
  imports Config Evm_Listener Evm_Voter
begin

text \<open>
  An EVM chain, \<open>chains/evm/chain.go\<close>: \<open>SetupDefaultEVMChain\<close> wires the listener and the
  voter to one bridge contract and registers every configured handler contract with
  both; \<open>PollEvents\<close>, \<open>Write\<close> and \<open>DomainID\<close> are what the relayer calls. The listener
  and the voter run concurrently, so each has a world of its own, in which the other's
  effects are effects of the environment.
\<close>

section \<open>Handler registration\<close>

definition register_both ::
  "eth_lib \<Rightarrow> event_handler \<Rightarrow> message_handler \<Rightarrow> string list
   \<Rightarrow> 'l eth_event_handler \<times> 'w evm_message_handler \<Rightarrow> 'l eth_event_handler \<times> 'w evm_message_handler"
where
  "register_both L h mh addrs em =
     fold (\<lambda>a (e, m). (RegisterEventHandler L a h e, RegisterMessageHandler L a mh m)) addrs em"

definition register_handlers ::
  "eth_lib \<Rightarrow> evm_config \<Rightarrow> 'l eth_event_handler \<times> 'w evm_message_handler
   \<Rightarrow> 'l eth_event_handler \<times> 'w evm_message_handler" where
  "register_handlers L config em =
     register_both L GenericEventHandler (GenericMessageHandler L) (GenericHandlers config)
       (register_both L Erc721EventHandler (ERC721MessageHandler L) (Erc721Handlers config)
          (register_both L Erc20EventHandler (ERC20MessageHandler L) (Erc20Handlers config) em))"

section \<open>The chain\<close>

text \<open>The bridge contract and client, as the voter calls them.\<close>

definition voter_for ::
  "eth_lib \<Rightarrow> abi_lib \<Rightarrow> 'w voter_state contract \<Rightarrow> 'w voter_state evm_message_handler \<Rightarrow> address
   \<Rightarrow> ('w voter_state \<Rightarrow> 'w voter_state) \<Rightarrow> 'w evm_voter" where
  "voter_for L A c mh relayer sleep =
     \<lparr> v_HandleMessage = HandleMessage L mh, v_RelayerAddress = relayer,
       v_IsProposalVotedBy = IsProposalVotedBy L A c, v_ProposalStatus = ProposalStatus L A c,
       v_GetThreshold = GetThreshold L A c, v_SimulateVoteProposal = SimulateVoteProposal L A c,
       v_CastVote = VoteProposal A c, v_Sleep = sleep \<rparr>"

record ('l, 'w) evm_chain =
  listener :: "'l evm_listener"
  writer :: "'w evm_voter"
  blockstore :: "'l key_value"
  chain_config :: evm_config

definition NewEVMChain ::
  "'l evm_listener \<Rightarrow> 'w evm_voter \<Rightarrow> 'l key_value \<Rightarrow> evm_config \<Rightarrow> ('l, 'w) evm_chain" where
  "NewEVMChain l w b c = \<lparr> listener = l, writer = w, blockstore = b, chain_config = c \<rparr>"

text \<open>
  What the set-up gets from outside: the client of a configuration seen from the listener
  and from the voter, and the subscription. The gas pricer it makes has no options, and
  the transactor over it is part of the voter's client.
\<close>

record ('l, 'w) chain_env =
  env_LatestBlock :: "'l \<Rightarrow> int result \<times> 'l"
  env_FetchDepositLogs :: "address \<Rightarrow> int \<Rightarrow> int \<Rightarrow> 'l \<Rightarrow> deposit_logs_enriched list result \<times> 'l"
  env_listener_client :: "'l contract_client"
  env_voter_client :: "'w voter_state contract_client"
  env_transactor :: "gas_pricer_opts option \<Rightarrow> 'w voter_state transactor"
  env_relayer :: address
  env_sleep :: "'w voter_state \<Rightarrow> 'w voter_state"
  env_subscribe :: "'w \<Rightarrow> unit result \<times> 'w"

definition listener_bridge ::
  "eth_lib \<Rightarrow> abi_lib \<Rightarrow> evm_config \<Rightarrow> ('l, 'w) chain_env \<Rightarrow> 'l contract" where
  "listener_bridge L A config env =
     NewBridgeContract A (env_listener_client env) (hex_to_address L (Bridge config)) None"

definition voter_bridge ::
  "eth_lib \<Rightarrow> abi_lib \<Rightarrow> evm_config \<Rightarrow> ('l, 'w) chain_env \<Rightarrow> 'w voter_state contract" where
  "voter_bridge L A config env =
     NewBridgeContract A (env_voter_client env) (hex_to_address L (Bridge config))
       (Some (env_transactor env None))"

definition default_handlers ::
  "eth_lib \<Rightarrow> abi_lib \<Rightarrow> evm_config \<Rightarrow> ('l, 'w) chain_env
   \<Rightarrow> 'l eth_event_handler \<times> 'w voter_state evm_message_handler" where
  "default_handlers L A config env =
     register_handlers L config
       (NewETHEventHandler (GetHandlerAddressForResourceID L A (listener_bridge L A config env)),
        NewEVMMessageHandler (GetHandlerAddressForResourceID L A (voter_bridge L A config env))
          (contractAddress (voter_bridge L A config env)))"

text \<open>
  The set-up also returns the voter's initial state: with the subscription, or without
  when subscribing fails. \<open>connect\<close> stands for \<open>NewEVMClient\<close>.
\<close>

definition start_voter :: "('l, 'w) chain_env \<Rightarrow> 'w \<Rightarrow> 'w voter_state result" where
  "start_voter env w =
     (case NewVoterWithSubscription (env_subscribe env) w of
        (Ok st, _) \<Rightarrow> Ok st
      | (Err _, w') \<Rightarrow> Ok (NewVoter w')
      | (Panic p, _) \<Rightarrow> Panic p)"

definition SetupDefaultEVMChain ::
  "eth_lib \<Rightarrow> abi_lib \<Rightarrow> viper_flags \<Rightarrow> raw_evm_config result \<Rightarrow> 'l key_value
   \<Rightarrow> (evm_config \<Rightarrow> ('l, 'w) chain_env result) \<Rightarrow> 'w \<Rightarrow> (('l, 'w) evm_chain \<times> 'w voter_state) result"
where
  "SetupDefaultEVMChain L A flags rawConfig db connect w =
     r_bind (NewEVMConfig flags rawConfig) (\<lambda>config.
     r_bind (connect config) (\<lambda>env.
     let handlers = default_handlers L A config env;
         l = \<lparr> chain_LatestBlock = env_LatestBlock env,
               chain_FetchDepositLogs = env_FetchDepositLogs env,
               eventHandler = HandleEvent (fst handlers),
               bridgeAddress = hex_to_address L (Bridge config) \<rparr>;
         v = voter_for L A (voter_bridge L A config env) (snd handlers) (env_relayer env) (env_sleep env)
     in r_bind (start_voter env w) (\<lambda>st. Ok (NewEVMChain l v db config, st))))"

definition DomainID :: "('l, 'w) evm_chain \<Rightarrow> u8 result" where
  "DomainID c =
     (case cfg_Id (GeneralChainConfig (chain_config c)) of
        None \<Rightarrow> Panic NilDereference
      | Some i \<Rightarrow> Ok i)"

definition chain_Write ::
  "eth_lib \<Rightarrow> ('l, 'w) evm_chain \<Rightarrow> message \<Rightarrow> 'w voter_state \<Rightarrow> unit result \<times> 'w voter_state" where
  "chain_Write L c msg = voter_VoteProposal L (writer c) msg (cfg_GasLimit (chain_config c))"

text \<open>
  \<open>PollEvents\<close> up to \<open>n\<close> rounds of its listener: the ranges the listener scanned and the
  listener's state, whose messages are the ones passed on to the relayer. An error is
  what it reports on \<open>sysErr\<close>.
\<close>

definition PollEvents ::
  "('l, 'w) evm_chain \<Rightarrow> nat \<Rightarrow> 'l \<Rightarrow> ((int \<times> int) list \<times> 'l listen_state) result" where
  "PollEvents c n w =
     (let g = GeneralChainConfig (chain_config c) in
      r_bind (DomainID c) (\<lambda>i.
        case GetStartBlock (blockstore c) i (StartBlock (chain_config c)) (cfg_LatestBlock g)
               (cfg_FreshStart g) w of
          (Ok start, w') \<Rightarrow>
            Ok (ListenToEvents (listener c) (blockstore c) (BlockConfirmations (chain_config c)) i n
                  \<lparr> startBlock = start, sent = [], world = w' \<rparr>)
        | (Err e, _) \<Rightarrow> Err (Wrap ''error '' e '' on getting last stored block'')
        | (Panic p, _) \<Rightarrow> Panic p))"

section \<open>Lemmas\<close>

lemma register_both_folds:
  "register_both L h mh addrs (e, m) =
     (fold (\<lambda>(a, h). RegisterEventHandler L a h) (map (\<lambda>a. (a, h)) addrs) e,
      fold (\<lambda>(a, h). RegisterMessageHandler L a h) (map (\<lambda>a. (a, mh)) addrs) m)"
  unfolding register_both_def by (induction addrs arbitrary: e m) simp_all

text \<open>The registrations of a configuration, in the order of the code.\<close>

definition event_registrations :: "evm_config \<Rightarrow> (string \<times> event_handler) list" where
  "event_registrations config =
     map (\<lambda>a. (a, Erc20EventHandler)) (Erc20Handlers config)
     @ map (\<lambda>a. (a, Erc721EventHandler)) (Erc721Handlers config)
     @ map (\<lambda>a. (a, GenericEventHandler)) (GenericHandlers config)"

definition message_registrations :: "eth_lib \<Rightarrow> evm_config \<Rightarrow> (string \<times> message_handler) list" where
  "message_registrations L config =
     map (\<lambda>a. (a, ERC20MessageHandler L)) (Erc20Handlers config)
     @ map (\<lambda>a. (a, ERC721MessageHandler L)) (Erc721Handlers config)
     @ map (\<lambda>a. (a, GenericMessageHandler L)) (GenericHandlers config)"

lemma register_handlers_folds:
  "register_handlers L config (e, m) =
     (fold (\<lambda>(a, h). RegisterEventHandler L a h) (event_registrations config) e,
      fold (\<lambda>(a, h). RegisterMessageHandler L a h) (message_registrations L config) m)"
  by (simp add: register_handlers_def register_both_folds event_registrations_def
      message_registrations_def)

text \<open>Whether a handler contract is among those configured under a list.\<close>

definition configured :: "eth_lib \<Rightarrow> address \<Rightarrow> string list \<Rightarrow> bool" where
  "configured L a addrs \<longleftrightarrow> (\<exists>s \<in> set addrs. s \<noteq> [] \<and> hex_to_address L s = a)"

lemma configured_simps [simp]:
  "\<not> configured L a []"
  "configured L a (s # addrs) \<longleftrightarrow> s \<noteq> [] \<and> hex_to_address L s = a \<or> configured L a addrs"
  by (auto simp: configured_def)

lemma configured_append [simp]:
  "configured L a (xs @ ys) \<longleftrightarrow> configured L a xs \<or> configured L a ys"
  by (auto simp: configured_def)

lemma configured_rev: "configured L a (rev addrs) = configured L a addrs"
  by (simp add: configured_def)

lemma find_tagged:
  "map_option snd
     (find (\<lambda>e. (case e of (s, h) \<Rightarrow> if s = [] then None else Some (hex_to_address L s)) = Some a)
        (map (\<lambda>s. (s, h)) addrs @ rest)) =
   (if configured L a addrs then Some h
    else map_option snd
      (find (\<lambda>e. (case e of (s, h) \<Rightarrow> if s = [] then None else Some (hex_to_address L s)) = Some a) rest))"
  by (induction addrs) auto

lemmas find_registered =
  find_tagged [where addrs = "rev addrs" for addrs, unfolded configured_rev]
  find_tagged [where addrs = "rev addrs" and rest = "[]" for addrs, unfolded configured_rev, simplified]

lemma default_registries:
  "event_handler_at (fst (default_handlers L A config env)) a =
     (if configured L a (GenericHandlers config) then Some GenericEventHandler
      else if configured L a (Erc721Handlers config) then Some Erc721EventHandler
      else if configured L a (Erc20Handlers config) then Some Erc20EventHandler
      else None) \<and>
   message_handler_at (snd (default_handlers L A config env)) a =
     (if configured L a (GenericHandlers config) then Some (GenericMessageHandler L)
      else if configured L a (Erc721Handlers config) then Some (ERC721MessageHandler L)
      else if configured L a (Erc20Handlers config) then Some (ERC20MessageHandler L)
      else None)"
  unfolding default_handlers_def register_handlers_folds fst_conv snd_conv
    event_registry.register_all_find message_registry.register_all_find
    event_registrations_def message_registrations_def
  by (simp add: rev_map find_registered)

lemma default_handlers_contracts:
  "bridgeContract (fst (default_handlers L A config env)) =
     GetHandlerAddressForResourceID L A (listener_bridge L A config env)"
  "mh_GetHandlerAddress (snd (default_handlers L A config env)) =
     GetHandlerAddressForResourceID L A (voter_bridge L A config env)"
  "mh_ContractAddress (snd (default_handlers L A config env)) = hex_to_address L (Bridge config)"
  by (simp_all add: default_handlers_def register_handlers_folds bridgeContract_register
      RegisterMessageHandler_keeps)
    (simp_all add: NewETHEventHandler_def NewEVMMessageHandler_def voter_bridge_def
      NewBridgeContract_def NewContract_def)

text \<open>
  Any asset type that keeps the contract is relayed end to end: with its event handler
  registered at the source for the address the source bridge reports, and its message
  handler at the destination for the one the destination bridge reports, calldata comes
  out as the data of the proposal.
\<close>

context asset_codec begin

lemma reaches_destination:
  assumes "deposited cd resp"
    and "bridgeContract E rid w = (Ok a, w1)" and "event_handler_at E a = Some event_h"
    and "mh_GetHandlerAddress M rid v = (Ok b, v1)" and "message_handler_at M b = Some message_h"
  shows "\<exists>m. HandleEvent E src dst n rid (cd, spare) resp tx blk w = (Ok m, w1) \<and>
    HandleMessage L M m v = (Ok (NewProposal src n rid cd b (mh_ContractAddress M) tx blk), v1)"
proof -
  obtain m where "event_h src dst n rid (cd, spare) resp tx blk = Ok m" "ResourceId m = rid"
    "message_h m b (mh_ContractAddress M) = Ok (NewProposal src n rid cd b (mh_ContractAddress M) tx blk)"
    using assms(1) by (rule handlers_agree)
  with assms(2-) show ?thesis
    by (simp add: HandleEvent_def match_event_handler_def HandleMessage_def
        MatchAddressWithHandlerFunc_def)
qed

end

section \<open>Properties\<close>

text \<open>
  C25: listener and voter agree on every handler contract: the event handler and the
  message handler registered for an address are the pair of the same asset type, or both
  are missing; of several types configured for one address the later in the order ERC20,
  ERC721, generic wins in both registries.
\<close>

theorem registries_agree:
  "event_handler_at (fst (default_handlers L A config env)) a =
     (if configured L a (GenericHandlers config) then Some GenericEventHandler
      else if configured L a (Erc721Handlers config) then Some Erc721EventHandler
      else if configured L a (Erc20Handlers config) then Some Erc20EventHandler
      else None) \<and>
   message_handler_at (snd (default_handlers L A config env)) a =
     (if configured L a (GenericHandlers config) then Some (GenericMessageHandler L)
      else if configured L a (Erc721Handlers config) then Some (ERC721MessageHandler L)
      else if configured L a (Erc20Handlers config) then Some (ERC20MessageHandler L)
      else None)"
  by (rule default_registries)

text \<open>
  A chain that was set up has a domain, so neither \<open>DomainID\<close> nor \<open>PollEvents\<close>
  panics on a missing identifier, and it confirms blocks before scanning them.
\<close>

theorem set_up_chain_has_domain:
  assumes "SetupDefaultEVMChain L A flags rawConfig db connect w = Ok (c, st)"
  shows "\<exists>i. DomainID c = Ok i \<and> cfg_Id (GeneralChainConfig (chain_config c)) = Some i \<and>
     1 \<le> BlockConfirmations (chain_config c) \<and> blockstore c = db"
proof -
  obtain raw where raw: "rawConfig = Ok raw" "evm_Validate raw = Ok ()"
    and c: "chain_config c = evm_config_of flags raw" "blockstore c = db"
    using assms
    by (auto simp: SetupDefaultEVMChain_def NewEVMConfig_Ok_iff result_laws NewEVMChain_def Let_def
        split: prod.splits)
  from valid_config(3) [OF raw(2)] have "cfg_Id (raw_General raw) \<noteq> None"
    using general_Validate_Ok_iff by simp
  then show ?thesis
    using c valid_config(1) [OF raw(2)] by (auto simp: DomainID_def)
qed

definition example_env :: "(bytes \<rightharpoonup> bytes, nat) chain_env" where
  "example_env =
     \<lparr> env_LatestBlock = (\<lambda>s. (Ok 500, s)), env_FetchDepositLogs = (\<lambda>a s e w. (Ok [], w)),
       env_listener_client =
         \<lparr> cc_From = 1, cc_CallContract = (\<lambda>_ _ s. (Ok [1], s)), cc_CodeAt = (\<lambda>_ s. (Ok [96], s)),
           cc_TransactionByHash = (\<lambda>_ s. (Err (Error ''not found''), s)) \<rparr>,
       env_voter_client =
         \<lparr> cc_From = 1, cc_CallContract = (\<lambda>_ _ s. (Ok [1], s)), cc_CodeAt = (\<lambda>_ s. (Ok [96], s)),
           cc_TransactionByHash = (\<lambda>_ s. (Err (Error ''not found''), s)) \<rparr>,
       env_transactor = (\<lambda>gas to data opts s. (Ok 11, s)), env_relayer = 7, env_sleep = (\<lambda>s. s),
       env_subscribe = (\<lambda>n. (Err (Error ''notifications not supported''), Suc n)) \<rparr>"

theorem set_up_chain_has_domain_witness:
  "\<exists>c. SetupDefaultEVMChain reference_lib example_abi example_flags (Ok example_raw_config)
         (LVLDB memory_db) (\<lambda>_. Ok example_env) 0 = Ok (c, NewVoter 1) \<and>
       (\<exists>i. DomainID c = Ok i) \<and> 1 \<le> BlockConfirmations (chain_config c)"
proof -
  have "\<exists>c. SetupDefaultEVMChain reference_lib example_abi example_flags (Ok example_raw_config)
      (LVLDB memory_db) (\<lambda>_. Ok example_env) 0 = Ok (c, NewVoter 1)"
    by (simp add: SetupDefaultEVMChain_def example_config_accepted Let_def start_voter_def
        NewVoterWithSubscription_def example_env_def s_bind_def)
  then obtain c where c: "SetupDefaultEVMChain reference_lib example_abi example_flags
      (Ok example_raw_config) (LVLDB memory_db) (\<lambda>_. Ok example_env) 0 = Ok (c, NewVoter 1)" ..
  from set_up_chain_has_domain [OF c] c show ?thesis by blast
qed

end
