(* ===== verification/Substrate_Events.thy ===== *)
theory Substrate_Events
  imports Message
begin

text \<open>
  The events of a block of a substrate chain, \<open>chains/substrate/events.go\<close>: one record
  for every event the bridge's node can emit, and the record into which the client decodes
  all events of a block. The types of the substrate library that the code never looks into,
  phases, dispatch results and the events of the council, are kept as their encodings.
\<close>

section \<open>Events\<close>

type_synonym u32 = "32 word"
type_synonym account_id = "256 word"
type_synonym phase = bytes
type_synonym dispatch_result = bytes
type_synonym collective_event = bytes

record event_erc721_minted =
  eem_Phase :: phase
  eem_Owner :: account_id
  eem_TokenId :: nat
  eem_Topics :: "hash list"

record event_erc721_transferred =
  eet_Phase :: phase
  eet_From :: account_id
  eet_To :: account_id
  eet_TokenId :: nat
  eet_Topics :: "hash list"

record event_erc721_burned =
  eeb_Phase :: phase
  eeb_TokenId :: account_id
  eeb_Topics :: "hash list"

record event_example_remark =
  eer_Phase :: phase
  eer_Hash :: hash
  eer_Topics :: "hash list"

record event_nft_deposited =
  end_Phase :: phase
  end_Asset :: hash
  end_Topics :: "hash list"

record event_fee_changed =
  efc_Phase :: phase
  efc_Key :: hash
  efc_NewPrice :: nat
  efc_Topics :: "hash list"

record event_new_multi_account =
  enma_Phase :: phase
  enma_Who :: account_id
  enma_ID :: account_id
  enma_Topics :: "hash list"

record event_multi_account_updated =
  emau_Phase :: phase
  emau_Who :: account_id
  emau_Topics :: "hash list"

record event_multi_account_removed =
  emar_Phase :: phase
  emar_Who :: account_id
  emar_Topics :: "hash list"

record event_new_multisig =
  enm_Phase :: phase
  enm_Who :: account_id
  enm_ID :: account_id
  enm_Topics :: "hash list"

record time_point =
  tp_Height :: u32
  tp_Index :: u32

record event_multisig_approval =
  ema_Phase :: phase
  ema_Who :: account_id
  ema_TimePoint :: time_point
  ema_ID :: account_id
  ema_Topics :: "hash list"

record event_multisig_executed =
  eme_Phase :: phase
  eme_Who :: account_id
  eme_TimePoint :: time_point
  eme_ID :: account_id
  eme_Result :: dispatch_result
  eme_Topics :: "hash list"

record event_multisig_cancelled =
  emc_Phase :: phase
  emc_Who :: account_id
  emc_TimePoint :: time_point
  emc_ID :: account_id
  emc_Topics :: "hash list"

record event_treasury_minting =
  etm_Phase :: phase
  etm_Who :: account_id
  etm_Topics :: "hash list"

record event_rad_claims_claimed =
  ercc_Phase :: phase
  ercc_Who :: account_id
  ercc_Value :: nat
  ercc_Topics :: "hash list"

record event_rad_claims_root_hash_stored =
  ercrhs_Phase :: phase
  ercrhs_RootHash :: hash
  ercrhs_Topics :: "hash list"

record erc721_token =
  et_Id :: nat
  et_Metadata :: bytes

type_synonym registry_id = address

type_synonym token_id = nat

record asset_id =
  ai_RegistryId :: registry_id
  ai_TokenId :: token_id

record event_nft_transferred =
  ent_Phase :: phase
  ent_RegistryId :: registry_id
  ent_AssetId :: asset_id
  ent_Who :: account_id
  ent_Topics :: "hash list"

record event_registry_mint =
  erm_Phase :: phase
  erm_RegistryId :: registry_id
  erm_TokenId :: token_id
  erm_Topics :: "hash list"

record event_registry_registry_created =
  errc_Phase :: phase
  errc_RegistryId :: registry_id
  errc_Topics :: "hash list"

record event_registry_tmp =
  ert_Phase :: phase
  ert_Hash :: hash
  ert_Topics :: "hash list"

record event_fungible_transfer =
  eft_Phase :: phase
  eft_Destination :: u8
  eft_DepositNonce :: u64
  eft_ResourceId :: hash
  eft_Amount :: nat
  eft_Recipient :: bytes
  eft_Topics :: "hash list"

record event_non_fungible_transfer =
  enft_Phase :: phase
  enft_Destination :: u8
  enft_DepositNonce :: u64
  enft_ResourceId :: hash
  enft_TokenId :: bytes
  enft_Recipient :: bytes
  enft_Metadata :: bytes
  enft_Topics :: "hash list"

record event_generic_transfer =
  egt_Phase :: phase
  egt_Destination :: u8
  egt_DepositNonce :: u64
  egt_ResourceId :: hash
  egt_Metadata :: bytes
  egt_Topics :: "hash list"

record event_relayer_threshold_changed =
  ertc_Phase :: phase
  ertc_Threshold :: u32
  ertc_Topics :: "hash list"

record event_chain_whitelisted =
  ecw_Phase :: phase
  ecw_ChainId :: u8
  ecw_Topics :: "hash list"

record event_relayer_added =
  era_Phase :: phase
  era_Relayer :: account_id
  era_Topics :: "hash list"

record event_relayer_removed =
  err_Phase :: phase
  err_Relayer :: account_id
  err_Topics :: "hash list"

record event_vote_for =
  evf_Phase :: phase
  evf_SourceId :: u8
  evf_DepositNonce :: u64
  evf_Voter :: account_id
  evf_Topics :: "hash list"

record event_vote_against =
  eva_Phase :: phase
  eva_SourceId :: u8
  eva_DepositNonce :: u64
  eva_Voter :: account_id
  eva_Topics :: "hash list"

record event_proposal_approved =
  epa_Phase :: phase
  epa_SourceId :: u8
  epa_DepositNonce :: u64
  epa_Topics :: "hash list"

record event_proposal_rejected =
  epr_Phase :: phase
  epr_SourceId :: u8
  epr_DepositNonce :: u64
  epr_Topics :: "hash list"

record event_proposal_succeeded =
  eps_Phase :: phase
  eps_SourceId :: u8
  eps_DepositNonce :: u64
  eps_Topics :: "hash list"

record event_proposal_failed =
  epf_Phase :: phase
  epf_SourceId :: u8
  epf_DepositNonce :: u64
  epf_Topics :: "hash list"

record substrate_events =
  System_CodeUpdated :: nat  \<comment> \<open>of the embedded \<open>types.EventRecords\<close>: how many code updates\<close>
  ChainBridge_FungibleTransfer :: "event_fungible_transfer list"
  ChainBridge_NonFungibleTransfer :: "event_non_fungible_transfer list"
  ChainBridge_GenericTransfer :: "event_generic_transfer list"
  ChainBridge_RelayerThresholdChanged :: "event_relayer_threshold_changed list"
  ChainBridge_ChainWhitelisted :: "event_chain_whitelisted list"
  ChainBridge_RelayerAdded :: "event_relayer_added list"
  ChainBridge_RelayerRemoved :: "event_relayer_removed list"
  ChainBridge_VoteFor :: "event_vote_for list"
  ChainBridge_VoteAgainst :: "event_vote_against list"
  ChainBridge_ProposalApproved :: "event_proposal_approved list"
  ChainBridge_ProposalRejected :: "event_proposal_rejected list"
  ChainBridge_ProposalSucceeded :: "event_proposal_succeeded list"
  ChainBridge_ProposalFailed :: "event_proposal_failed list"
  Erc721_Minted :: "event_erc721_minted list"
  Erc721_Transferred :: "event_erc721_transferred list"
  Erc721_Burned :: "event_erc721_burned list"
  Example_Remark :: "event_example_remark list"
  Nfts_DepositAsset :: "event_nft_deposited list"
  Council_Proposed :: "collective_event list"
  Council_Voted :: "collective_event list"
  Council_Approved :: "collective_event list"
  Council_Disapproved :: "collective_event list"
  Council_Executed :: "collective_event list"
  Council_MemberExecuted :: "collective_event list"
  Council_Closed :: "collective_event list"
  Fees_FeeChanged :: "event_fee_changed list"
  MultiAccount_NewMultiAccount :: "event_new_multi_account list"
  MultiAccount_MultiAccountUpdated :: "event_multi_account_updated list"
  MultiAccount_MultiAccountRemoved :: "event_multi_account_removed list"
  MultiAccount_NewMultisig :: "event_new_multisig list"
  MultiAccount_MultisigApproval :: "event_multisig_approval list"
  MultiAccount_MultisigExecuted :: "event_multisig_executed list"
  MultiAccount_MultisigCancelled :: "event_multisig_cancelled list"
  TreasuryReward_TreasuryMinting :: "event_treasury_minting list"
  Nft_Transferred :: "event_nft_transferred list"
  RadClaims_Claimed :: "event_rad_claims_claimed list"
  RadClaims_RootHashStored :: "event_rad_claims_root_hash_stored list"
  Registry_Mint :: "event_registry_mint list"
  Registry_RegistryCreated :: "event_registry_registry_created list"
  Registry_RegistryTmp :: "event_registry_tmp list"

text \<open>A block without events.\<close>

definition no_events :: substrate_events where
  "no_events =
     \<lparr> System_CodeUpdated = 0, ChainBridge_FungibleTransfer = [],
       ChainBridge_NonFungibleTransfer = [], ChainBridge_GenericTransfer = [],
       ChainBridge_RelayerThresholdChanged = [], ChainBridge_ChainWhitelisted = [],
       ChainBridge_RelayerAdded = [], ChainBridge_RelayerRemoved = [], ChainBridge_VoteFor = [],
       ChainBridge_VoteAgainst = [], ChainBridge_ProposalApproved = [],
       ChainBridge_ProposalRejected = [], ChainBridge_ProposalSucceeded = [],
       ChainBridge_ProposalFailed = [], Erc721_Minted = [], Erc721_Transferred = [],
       Erc721_Burned = [], Example_Remark = [], Nfts_DepositAsset = [], Council_Proposed = [],
       Council_Voted = [], Council_Approved = [], Council_Disapproved = [], Council_Executed = [],
       Council_MemberExecuted = [], Council_Closed = [], Fees_FeeChanged = [],
       MultiAccount_NewMultiAccount = [], MultiAccount_MultiAccountUpdated = [],
       MultiAccount_MultiAccountRemoved = [], MultiAccount_NewMultisig = [],
       MultiAccount_MultisigApproval = [], MultiAccount_MultisigExecuted = [],
       MultiAccount_MultisigCancelled = [], TreasuryReward_TreasuryMinting = [],
       Nft_Transferred = [], RadClaims_Claimed = [], RadClaims_RootHashStored = [],
       Registry_Mint = [], Registry_RegistryCreated = [], Registry_RegistryTmp = [] \<rparr>"

end
