(* ===== verification/Substrate_Listener.thy ===== *)
theory Substrate_Listener
  imports Handler_Registry Message Substrate_Events Store Evm_Listener
begin

text \<open>
  The substrate listener, \<open>chains/substrate/listener\<close>: the three handlers that turn a
  bridge pallet event into a message, the registry of handlers by transfer type, and the
  loop that processes one finalized block after the other.
\<close>

section \<open>Events\<close>

text \<open>An event passed as \<open>interface{}\<close>; any other dynamic type is kept by its name.\<close>

datatype substrate_event =
    Fungible_event event_fungible_transfer
  | NonFungible_event event_non_fungible_transfer
  | Generic_event event_generic_transfer
  | Other_event string

section \<open>Handlers\<close>

text \<open>The fields a handler leaves out of its composite literal have their zero values.\<close>

definition substrate_message :: "u8 \<Rightarrow> u8 \<Rightarrow> u64 \<Rightarrow> hash \<Rightarrow> iface list \<Rightarrow> message" where
  "substrate_message source destination nonce rid payload =
     \<lparr> DepositTxHash = 0, DepositBlock = 0, Source = source, Destination = destination,
       DepositNonce = nonce, ResourceId = rid, Payload = payload, Type = [] \<rparr>"

type_synonym substrate_handler = "u8 \<Rightarrow> substrate_event \<Rightarrow> message result"

definition FungibleTransferHandler :: substrate_handler where
  "FungibleTransferHandler sourceID evtI =
     (case evtI of
        Fungible_event evt \<Rightarrow>
          Ok (substrate_message sourceID (eft_Destination evt) (eft_DepositNonce evt) (eft_ResourceId evt)
                [Bytes_val (nat_bytes (eft_Amount evt)), Bytes_val (eft_Recipient evt)])
      | _ \<Rightarrow> Err (Error ''failed to cast EventFungibleTransfer type''))"

definition NonFungibleTransferHandler :: substrate_handler where
  "NonFungibleTransferHandler sourceID evtI =
     (case evtI of
        NonFungible_event evt \<Rightarrow>
          Ok (substrate_message sourceID (enft_Destination evt) (enft_DepositNonce evt)
                (enft_ResourceId evt)
                [Bytes_val (enft_TokenId evt), Bytes_val (enft_Recipient evt),
                 Bytes_val (enft_Metadata evt)])
      | _ \<Rightarrow> Err (Error ''failed to cast EventNonFungibleTransfer type''))"

definition GenericTransferHandler :: substrate_handler where
  "GenericTransferHandler sourceID evtI =
     (case evtI of
        Generic_event evt \<Rightarrow>
          Ok (substrate_message sourceID (egt_Destination evt) (egt_DepositNonce evt) (egt_ResourceId evt)
                [Bytes_val (egt_Metadata evt)])
      | _ \<Rightarrow> Err (Error ''failed to cast EventGenericTransfer type''))"

section \<open>The listener\<close>

record 'w substrate_reader =
  GetHeaderLatest :: "'w \<Rightarrow> 32 word result \<times> 'w"
  GetBlockHash :: "u64 \<Rightarrow> 'w \<Rightarrow> hash result \<times> 'w"
  GetBlockEvents :: "hash \<Rightarrow> 'w \<Rightarrow> substrate_events result \<times> 'w"
  UpdateMetatdata :: "'w \<Rightarrow> unit result \<times> 'w"

record 'w substrate_listener =
  sl_client :: "'w substrate_reader"
  sl_eventHandlers :: "(transfer_type \<rightharpoonup> substrate_handler) option"

definition NewSubstrateListener :: "'w substrate_reader \<Rightarrow> 'w substrate_listener" where
  "NewSubstrateListener c = \<lparr> sl_client = c, sl_eventHandlers = None \<rparr>"

definition RegisterSubscription ::
  "transfer_type \<Rightarrow> substrate_handler \<Rightarrow> 'w substrate_listener \<Rightarrow> 'w substrate_listener" where
  "RegisterSubscription tt h l =
     (let m = (case sl_eventHandlers l of None \<Rightarrow> Map.empty | Some m \<Rightarrow> m)
      in l\<lparr>sl_eventHandlers := Some (m(tt \<mapsto> h))\<rparr>)"

definition substrate_handler_at ::
  "'w substrate_listener \<Rightarrow> transfer_type \<Rightarrow> substrate_handler option" where
  "substrate_handler_at l tt = (case sl_eventHandlers l of None \<Rightarrow> None | Some m \<Rightarrow> m tt)"

lemma substrate_handler_at_simps [simp]:
  "substrate_handler_at (NewSubstrateListener c) tt = None"
  "substrate_handler_at (RegisterSubscription t h l) tt =
     (if t = tt then Some h else substrate_handler_at l tt)"
  by (auto simp: substrate_handler_at_def NewSubstrateListener_def RegisterSubscription_def Let_def
      split: option.split)

interpretation substrate_subscriptions: handler_registry
  "NewSubstrateListener c" "\<lambda>(t, h). RegisterSubscription t h" substrate_handler_at
  "\<lambda>(t, h). Some t" snd
  for c :: "'w substrate_reader"
  by unfold_locales (auto split: if_splits)

text \<open>The first error of a group of events is the result of the group.\<close>

fun handle_each :: "('e \<Rightarrow> message result) \<Rightarrow> 'e list \<Rightarrow> message list result" where
  "handle_each h [] = Ok []"
| "handle_each h (e # es) = r_bind (h e) (\<lambda>m. r_bind (handle_each h es) (\<lambda>ms. Ok (m # ms)))"

definition handle_group ::
  "'w substrate_listener \<Rightarrow> transfer_type \<Rightarrow> u8 \<Rightarrow> substrate_event list \<Rightarrow> message list result" where
  "handle_group l tt domainID evts =
     (case substrate_handler_at l tt of
        None \<Rightarrow> Ok []
      | Some h \<Rightarrow> handle_each (h domainID) evts)"

definition handleEvents ::
  "'w substrate_listener \<Rightarrow> u8 \<Rightarrow> substrate_events \<Rightarrow> 'w \<Rightarrow> message list result \<times> 'w" where
  "handleEvents l domainID evts =
     s_bind (s_lift (handle_group l FungibleTransfer domainID
                       (map Fungible_event (ChainBridge_FungibleTransfer evts)))) (\<lambda>fs.
     s_bind (s_lift (handle_group l NonFungibleTransfer domainID
                       (map NonFungible_event (ChainBridge_NonFungibleTransfer evts)))) (\<lambda>nfs.
     s_bind (s_lift (handle_group l GenericTransfer domainID
                       (map Generic_event (ChainBridge_GenericTransfer evts)))) (\<lambda>gs.
       if System_CodeUpdated evts > 0
       then s_bind (UpdateMetatdata (sl_client l)) (\<lambda>_. s_return (fs @ nfs @ gs))
       else s_return (fs @ nfs @ gs))))"

text \<open>When handling the events of a block failed, the slice of its messages is nil.\<close>

definition block_messages :: "message list result \<Rightarrow> message list" where
  "block_messages r = (case r of Ok ms \<Rightarrow> ms | _ \<Rightarrow> [])"

text \<open>
  The end of an iteration: the messages are sent, none if handling the events failed, the
  block is stored (a failure is logged) and the loop moves to the next block.
\<close>

definition finish_block ::
  "'w key_value \<Rightarrow> u8 \<Rightarrow> int \<Rightarrow> message list \<Rightarrow> 'w listen_state \<Rightarrow> int option result \<times> 'w listen_state"
where
  "finish_block db domainID start ms st =
     (case StoreBlock db start domainID (world st) of
        (Panic p, w) \<Rightarrow> (Panic p, st\<lparr>sent := sent st @ ms, world := w\<rparr>)
      | (_, w) \<Rightarrow>
         (Ok (Some start), st\<lparr>startBlock := Some (start + 1), sent := sent st @ ms, world := w\<rparr>))"

definition substrate_iteration ::
  "'w substrate_listener \<Rightarrow> 'w key_value \<Rightarrow> u8 \<Rightarrow> 'w listen_state
   \<Rightarrow> int option result \<times> 'w listen_state" where
  "substrate_iteration l db domainID st =
     (case GetHeaderLatest (sl_client l) (world st) of
        (Panic p, w) \<Rightarrow> (Panic p, st\<lparr>world := w\<rparr>)
      | (Err e, w) \<Rightarrow> (Ok None, st\<lparr>world := w\<rparr>)
      | (Ok number, w) \<Rightarrow>
         let start = (case startBlock st of None \<Rightarrow> uint number | Some s \<Rightarrow> s);
             st1 = st\<lparr>startBlock := Some start, world := w\<rparr>
         in
         if start > uint number then (Ok None, st1)
         else
           (case GetBlockHash (sl_client l) (big_uint64 start) w of
              (Panic p, w2) \<Rightarrow> (Panic p, st1\<lparr>world := w2\<rparr>)
            | (Err e, w2) \<Rightarrow> (Ok None, st1\<lparr>world := w2\<rparr>)
            | (Ok hash, w2) \<Rightarrow>
               (case GetBlockEvents (sl_client l) hash w2 of
                  (Panic p, w3) \<Rightarrow> (Panic p, st1\<lparr>world := w3\<rparr>)
                | (Err e, w3) \<Rightarrow> (Ok None, st1\<lparr>world := w3\<rparr>)
                | (Ok evts, w3) \<Rightarrow>
                   (case handleEvents l domainID evts w3 of
                      (Panic p, w4) \<Rightarrow> (Panic p, st1\<lparr>world := w4\<rparr>)
                    | (r, w4) \<Rightarrow>
                        finish_block db domainID start (block_messages r) (st1\<lparr>world := w4\<rparr>)))))"

text \<open>A run of \<open>n\<close> iterations: the blocks processed and the state at the end.\<close>

fun substrate_ListenToEvents ::
  "'w substrate_listener \<Rightarrow> 'w key_value \<Rightarrow> u8 \<Rightarrow> nat \<Rightarrow> 'w listen_state \<Rightarrow> int list \<times> 'w listen_state"
where
  "substrate_ListenToEvents l db domainID 0 st = ([], st)"
| "substrate_ListenToEvents l db domainID (Suc n) st =
     (case substrate_iteration l db domainID st of
        (Panic p, st') \<Rightarrow> ([], st')
      | (Err e, st') \<Rightarrow> ([], st')
      | (Ok b, st') \<Rightarrow>
         let (bs, st'') = substrate_ListenToEvents l db domainID n st'
         in ((case b of None \<Rightarrow> bs | Some x \<Rightarrow> x # bs), st''))"

section \<open>Lemmas\<close>

lemma finish_block_cases:
  "finish_block db d s ms st = (r, st') \<Longrightarrow>
   sent st' = sent st @ ms \<and> (\<forall>e. r \<noteq> Err e) \<and>
   (\<forall>x. r = Ok x \<longrightarrow> x = Some s \<and> startBlock st' = Some (s + 1))"
  by (auto simp: finish_block_def split: prod.splits result.splits)

lemma substrate_iteration_cases:
  assumes "substrate_iteration l db d st = (Ok b, st')" and "startBlock st = Some s"
  shows "(b = None \<and> startBlock st' = Some s \<and> sent st' = sent st) \<or>
         (b = Some s \<and> startBlock st' = Some (s + 1) \<and> (\<exists>ms. sent st' = sent st @ ms))"
  using assms
  by (auto simp: substrate_iteration_def Let_def split: prod.splits result.splits if_splits
      dest!: finish_block_cases)

lemma substrate_run_blocks:
  "substrate_ListenToEvents l db d n st = (bs, st') \<Longrightarrow> startBlock st = Some s \<Longrightarrow>
   bs = [s..s + int (length bs) - 1]"
proof (induction n arbitrary: st bs s)
  case 0
  then show ?case by simp
next
  case (Suc n)
  obtain r t where it: "substrate_iteration l db d st = (r, t)" by fastforce
  show ?case
  proof (cases r)
    case okay: (Ok b)
    obtain cs u where rest: "substrate_ListenToEvents l db d n t = (cs, u)" by fastforce
    from Suc.prems(1) it okay rest have bs: "bs = (case b of None \<Rightarrow> cs | Some x \<Rightarrow> x # cs)" "u = st'"
      by auto
    note rest' = rest [unfolded bs(2)]
    from substrate_iteration_cases [OF it [unfolded okay] Suc.prems(2)]
    show ?thesis
    proof
      assume "b = None \<and> startBlock t = Some s \<and> sent t = sent st"
      with Suc.IH [OF rest', of s] bs show ?thesis by auto
    next
      assume step: "b = Some s \<and> startBlock t = Some (s + 1) \<and> (\<exists>ms. sent t = sent st @ ms)"
      with Suc.IH [OF rest', of "s + 1"] bs have
        "cs = [s + 1..s + 1 + int (length cs) - 1]" by auto
      with step bs show ?thesis
        by (auto simp: upto_rec1 [of s])
    qed
  qed (use Suc.prems it in auto)
qed

text \<open>The events of a block in the order they are handled, and the messages they become.\<close>

definition block_events :: "substrate_events \<Rightarrow> (transfer_type \<times> substrate_event) list" where
  "block_events evts =
     map (\<lambda>e. (FungibleTransfer, Fungible_event e)) (ChainBridge_FungibleTransfer evts)
     @ map (\<lambda>e. (NonFungibleTransfer, NonFungible_event e)) (ChainBridge_NonFungibleTransfer evts)
     @ map (\<lambda>e. (GenericTransfer, Generic_event e)) (ChainBridge_GenericTransfer evts)"

definition subscribed_events ::
  "'w substrate_listener \<Rightarrow> substrate_events \<Rightarrow> (transfer_type \<times> substrate_event) list" where
  "subscribed_events l evts =
     filter (\<lambda>(tt, e). substrate_handler_at l tt \<noteq> None) (block_events evts)"

definition event_message ::
  "'w substrate_listener \<Rightarrow> u8 \<Rightarrow> transfer_type \<times> substrate_event \<Rightarrow> message \<Rightarrow> bool" where
  "event_message l d te m \<longleftrightarrow>
     (case substrate_handler_at l (fst te) of None \<Rightarrow> False | Some h \<Rightarrow> h d (snd te) = Ok m)"

lemma handle_each_Ok: "handle_each h es = Ok ms \<Longrightarrow> list_all2 (\<lambda>e m. h e = Ok m) es ms"
  by (induction es arbitrary: ms) (auto simp: result_laws)

lemma handle_group_Ok:
  assumes "handle_group l tt d (map f es) = Ok ms"
  shows "list_all2 (event_message l d)
    (filter (\<lambda>(tt, e). substrate_handler_at l tt \<noteq> None) (map (\<lambda>e. (tt, f e)) es)) ms"
  using assms
  by (cases "substrate_handler_at l tt")
    (auto simp: handle_group_def event_message_def [abs_def] filter_map comp_def list.rel_map dest!: handle_each_Ok)

lemma handleEvents_Ok:
  assumes "handleEvents l d evts w = (Ok ms, w')"
  shows "list_all2 (event_message l d) (subscribed_events l evts) ms"
proof -
  obtain fs ns gs where
    "handle_group l FungibleTransfer d (map Fungible_event (ChainBridge_FungibleTransfer evts)) = Ok fs"
    "handle_group l NonFungibleTransfer d (map NonFungible_event (ChainBridge_NonFungibleTransfer evts)) = Ok ns"
    "handle_group l GenericTransfer d (map Generic_event (ChainBridge_GenericTransfer evts)) = Ok gs"
    and ms: "ms = fs @ ns @ gs"
    using assms by (auto simp: handleEvents_def result_laws split: if_splits)
  from this(1-3) [THEN handle_group_Ok] show ?thesis
    unfolding subscribed_events_def block_events_def filter_append ms
    by (intro list_all2_appendI)
qed

text \<open>An event stands in the way of its block only if its handler does not accept it.\<close>

definition event_accepted :: "'w substrate_listener \<Rightarrow> u8 \<Rightarrow> transfer_type \<times> substrate_event \<Rightarrow> bool" where
  "event_accepted l d te \<longleftrightarrow>
     (case substrate_handler_at l (fst te) of None \<Rightarrow> True | Some h \<Rightarrow> is_ok (h d (snd te)))"

lemma handle_each_is_ok: "is_ok (handle_each h es) \<longleftrightarrow> list_all (\<lambda>e. is_ok (h e)) es"
proof (induction es)
  case (Cons e es)
  then show ?case by (cases "h e"; cases "handle_each h es") auto
qed simp

lemma handle_group_is_ok:
  "is_ok (handle_group l tt d es) \<longleftrightarrow> list_all (\<lambda>e. event_accepted l d (tt, e)) es"
  by (cases "substrate_handler_at l tt")
    (auto simp: handle_group_def event_accepted_def handle_each_is_ok list_all_iff)

lemma handleEvents_is_ok:
  "is_ok (fst (handleEvents l d evts w)) \<longleftrightarrow>
   list_all (event_accepted l d) (block_events evts) \<and>
   (System_CodeUpdated evts > 0 \<longrightarrow> is_ok (fst (UpdateMetatdata (sl_client l) w)))"
proof -
  define fs where "fs = handle_group l FungibleTransfer d (map Fungible_event (ChainBridge_FungibleTransfer evts))"
  define ns where "ns = handle_group l NonFungibleTransfer d (map NonFungible_event (ChainBridge_NonFungibleTransfer evts))"
  define gs where "gs = handle_group l GenericTransfer d (map Generic_event (ChainBridge_GenericTransfer evts))"
  have "list_all (event_accepted l d) (block_events evts) \<longleftrightarrow> is_ok fs \<and> is_ok ns \<and> is_ok gs"
    by (auto simp: fs_def ns_def gs_def handle_group_is_ok block_events_def list_all_iff)
  moreover have "is_ok (fst (handleEvents l d evts w)) \<longleftrightarrow> is_ok fs \<and> is_ok ns \<and> is_ok gs \<and>
      (System_CodeUpdated evts > 0 \<longrightarrow> is_ok (fst (UpdateMetatdata (sl_client l) w)))"
    unfolding handleEvents_def fs_def [symmetric] ns_def [symmetric] gs_def [symmetric]
    by (cases fs; cases ns; cases gs; cases "fst (UpdateMetatdata (sl_client l) w)")
      (auto simp: s_bind_def split: prod.splits)
  ultimately show ?thesis by simp
qed

section \<open>Properties\<close>

text \<open>
  A substrate listener processes the blocks from its start block on, each once and in
  order, over any run and whatever the node answers.
\<close>

theorem substrate_blocks_in_order:
  assumes "startBlock st = Some s" and "substrate_ListenToEvents l db d n st = (bs, st')"
  shows "bs = [s..s + int (length bs) - 1]"
  using assms by (rule substrate_run_blocks [rotated])

text \<open>
  C36: a finalized block is relayed as a whole or dropped as a whole, and never tried again.
  When the node gives the next block and its events, and nothing panics, the round counts the
  block as processed, stores it and moves on to the one after it. It has sent the messages
  of all subscribed events of the block, in order, if every one of them was accepted and the
  metadata could be updated, should the block have updated the code; otherwise none.
\<close>

theorem substrate_block_all_or_nothing:
  assumes "startBlock st = Some s"
    and "GetHeaderLatest (sl_client l) (world st) = (Ok number, w0)" and "s \<le> uint number"
    and "GetBlockHash (sl_client l) (big_uint64 s) w0 = (Ok hash, w1)"
    and "GetBlockEvents (sl_client l) hash w1 = (Ok evts, w2)"
    and "handleEvents l d evts w2 = (r, w3)" and "\<forall>p. r \<noteq> Panic p"
    and "StoreBlock db s d w3 = (q, w4)" and "\<forall>p. q \<noteq> Panic p"
  shows "\<exists>ms. substrate_iteration l db d st
       = (Ok (Some s), st\<lparr>startBlock := Some (s + 1), sent := sent st @ ms, world := w4\<rparr>) \<and>
     (if list_all (event_accepted l d) (block_events evts) \<and>
         (System_CodeUpdated evts > 0 \<longrightarrow> is_ok (fst (UpdateMetatdata (sl_client l) w2)))
      then list_all2 (event_message l d) (subscribed_events l evts) ms else ms = [])"
proof -
  have "substrate_iteration l db d st
      = finish_block db d s (block_messages r) (st\<lparr>startBlock := Some s, world := w3\<rparr>)"
    using assms(1-7) by (cases r) (simp_all add: substrate_iteration_def Let_def)
  then have step: "substrate_iteration l db d st =
      (Ok (Some s), st\<lparr>startBlock := Some (s + 1), sent := sent st @ block_messages r, world := w4\<rparr>)"
    using assms(8,9) by (cases q) (simp_all add: finish_block_def)
  have ok: "is_ok r \<longleftrightarrow> list_all (event_accepted l d) (block_events evts) \<and>
         (System_CodeUpdated evts > 0 \<longrightarrow> is_ok (fst (UpdateMetatdata (sl_client l) w2)))"
    using handleEvents_is_ok [of l d evts w2] assms(6) by simp
  show ?thesis
    unfolding ok [symmetric]
    using step handleEvents_Ok [of l d evts w2 _ w3] assms(6,7)
    by (intro exI [of _ "block_messages r"]) (cases r; simp add: block_messages_def)
qed

definition example_fungible :: "nat \<Rightarrow> event_fungible_transfer" where
  "example_fungible n =
     \<lparr> eft_Phase = [0], eft_Destination = 1, eft_DepositNonce = of_nat n, eft_ResourceId = 5,
       eft_Amount = 1000, eft_Recipient = replicate 20 9, eft_Topics = [] \<rparr>"

text \<open>A chain of seven blocks, each with one fungible transfer and a code update that fails.\<close>

definition example_reader :: "(bytes \<rightharpoonup> bytes) substrate_reader" where
  "example_reader =
     \<lparr> GetHeaderLatest = (\<lambda>w. (Ok 7, w)), GetBlockHash = (\<lambda>n w. (Ok (ucast n), w)),
       GetBlockEvents = (\<lambda>h w. (Ok (no_events
          \<lparr> System_CodeUpdated := 1,
            ChainBridge_FungibleTransfer := [example_fungible (unat h)] \<rparr>), w)),
       UpdateMetatdata = (\<lambda>w. (Err (Error ''connection lost''), w)) \<rparr>"

definition example_substrate_listener :: "(bytes \<rightharpoonup> bytes) substrate_listener" where
  "example_substrate_listener =
     RegisterSubscription FungibleTransfer FungibleTransferHandler (NewSubstrateListener example_reader)"

lemma example_substrate_iteration:
  "s \<le> 7 \<Longrightarrow>
   substrate_iteration example_substrate_listener (LVLDB memory_db) 2
     \<lparr> startBlock = Some s, sent = ms, world = w \<rparr>
   = (Ok (Some s), \<lparr> startBlock = Some (s + 1), sent = ms, world = w(block_key 2 \<mapsto> big_bytes_of s) \<rparr>)"
  by (simp add: substrate_iteration_def example_substrate_listener_def RegisterSubscription_def
      NewSubstrateListener_def example_reader_def no_events_def handleEvents_def handle_group_def
      substrate_handler_at_def FungibleTransferHandler_def FungibleTransfer_def
      NonFungibleTransfer_def GenericTransfer_def s_bind_def finish_block_def block_messages_def
      StoreBlock_def memory_defs)

theorem substrate_blocks_in_order_witness:
  "fst (substrate_ListenToEvents example_substrate_listener (LVLDB memory_db) 2 2
          \<lparr> startBlock = Some 6, sent = [], world = Map.empty \<rparr>) = [6..6 + int 2 - 1]"
proof -
  obtain bs st where run: "substrate_ListenToEvents example_substrate_listener (LVLDB memory_db) 2 2
      \<lparr> startBlock = Some 6, sent = [], world = Map.empty \<rparr> = (bs, st)" by fastforce
  then have "length bs = 2" by (auto simp: numeral_2_eq_2 example_substrate_iteration)
  with substrate_blocks_in_order [OF _ run, of 6] run show ?thesis by simp
qed

theorem substrate_block_all_or_nothing_witness:
  "substrate_iteration example_substrate_listener (LVLDB memory_db) 2
     \<lparr> startBlock = Some 6, sent = [], world = Map.empty \<rparr>
   = (Ok (Some 6), \<lparr> startBlock = Some 7, sent = [], world = [block_key 2 \<mapsto> big_bytes_of 6] \<rparr>)"
proof -
  let ?w = "Map.empty :: bytes \<rightharpoonup> bytes"
  have client: "sl_client example_substrate_listener = example_reader"
    by (simp add: example_substrate_listener_def RegisterSubscription_def NewSubstrateListener_def)
  obtain evts where evts: "GetBlockEvents example_reader 6 ?w = (Ok evts, ?w)" "System_CodeUpdated evts = 1"
    by (simp add: example_reader_def)
  have update: "UpdateMetatdata example_reader ?w = (Err (Error ''connection lost''), ?w)"
    by (simp add: example_reader_def)
  obtain e where handled: "handleEvents example_substrate_listener 2 evts ?w = (Err e, ?w)"
    using evts by (auto simp: example_substrate_listener_def RegisterSubscription_def
        NewSubstrateListener_def example_reader_def no_events_def handleEvents_def handle_group_def
        substrate_handler_at_def FungibleTransferHandler_def FungibleTransfer_def
        NonFungibleTransfer_def GenericTransfer_def s_bind_def)
  have "GetHeaderLatest example_reader ?w = (Ok 7, ?w)" "GetBlockHash example_reader (big_uint64 6) ?w = (Ok 6, ?w)"
    by (simp_all add: example_reader_def big_uint64_def)
  with substrate_block_all_or_nothing [of "\<lparr> startBlock = Some 6, sent = [], world = ?w \<rparr>" 6
      example_substrate_listener 7 ?w 6 ?w evts ?w 2 "Err e" ?w "LVLDB memory_db" "Ok ()"
      "[block_key 2 \<mapsto> big_bytes_of 6]"] evts handled update
  show ?thesis by (simp add: client StoreBlock_def memory_defs)
qed

end
