(* ===== verification/Substrate_Writer.thy ===== *)
theory Substrate_Writer
  imports Handler_Registry Message Config Store Evm_Client
begin

text \<open>
  The substrate writer, \<open>chains/substrate/writer\<close>: building the arguments of a call from
  a message, choosing the handler by the message's type, and voting by acknowledging the
  proposal with up to five attempts; and the substrate chain of
  \<open>chains/substrate/chain.go\<close>. Encoding and call construction are the substrate RPC
  library's and parameters.
\<close>

section \<open>Call arguments\<close>

datatype call_arg =
    Arg_AccountID hash
  | Arg_U128 int
  | Arg_U256 int
  | Arg_Bytes bytes
  | Arg_Hash hash

record ('meta, 'call) substrate_lib =
  NewAccountID :: "bytes \<Rightarrow> hash"
  NewHash :: "bytes \<Rightarrow> hash"
  NewCall :: "'meta \<Rightarrow> string \<Rightarrow> call_arg list \<Rightarrow> 'call result"
  encode_u8 :: "u8 \<Rightarrow> bytes result"
  encode_nonce_call :: "u64 \<Rightarrow> 'call \<Rightarrow> bytes result"

text \<open>\<open>m.Payload[i].([]byte)\<close> panics on a missing entry and on another type.\<close>

definition assert_bytes :: "message \<Rightarrow> nat \<Rightarrow> bytes result" where
  "assert_bytes m i =
     r_bind (index_at (Payload m) i) (\<lambda>v.
       case as_bytes v of None \<Rightarrow> Panic BadTypeAssertion | Some bs \<Rightarrow> Ok bs)"

definition CreateFungibleProposal ::
  "('meta, 'call) substrate_lib \<Rightarrow> message \<Rightarrow> call_arg list result" where
  "CreateFungibleProposal S m =
     r_bind (assert_bytes m 0) (\<lambda>amount.
     r_bind (assert_bytes m 1) (\<lambda>recipient.
       Ok [Arg_AccountID (NewAccountID S recipient), Arg_U128 (big_set_bytes amount)]))"

definition CreateNonFungibleProposal ::
  "('meta, 'call) substrate_lib \<Rightarrow> message \<Rightarrow> call_arg list result" where
  "CreateNonFungibleProposal S m =
     r_bind (assert_bytes m 0) (\<lambda>tokenId.
     r_bind (assert_bytes m 1) (\<lambda>recipient.
     r_bind (assert_bytes m 2) (\<lambda>metadata.
       Ok [Arg_AccountID (NewAccountID S recipient), Arg_U256 (big_set_bytes tokenId),
           Arg_Bytes metadata])))"

definition CreateGenericProposal ::
  "('meta, 'call) substrate_lib \<Rightarrow> message \<Rightarrow> call_arg list result" where
  "CreateGenericProposal S m =
     r_bind (assert_bytes m 0) (\<lambda>bs. Ok [Arg_Hash (NewHash S bs)])"

section \<open>The writer\<close>

record vote_state =
  VotesFor :: "hash list"
  VotesAgainst :: "hash list"
  IsActive_vote :: bool
  IsApproved_vote :: bool
  IsRejected_vote :: bool

record 'call substrate_proposal =
  sp_DepositNonce :: u64
  sp_Call :: 'call
  sp_SourceId :: u8
  sp_ResourceId :: hash
  sp_Method :: string

definition proposal_Encode ::
  "('meta, 'call) substrate_lib \<Rightarrow> 'call substrate_proposal \<Rightarrow> bytes result" where
  "proposal_Encode S p = encode_nonce_call S (sp_DepositNonce p) (sp_Call p)"

text \<open>The client of the writer. \<open>GetProposalStatus\<close> may give a nil vote state.\<close>

record ('meta, 'call, 's) substrate_voter =
  SubmitTx :: "string \<Rightarrow> u64 \<Rightarrow> u8 \<Rightarrow> hash \<Rightarrow> 'call \<Rightarrow> 's \<Rightarrow> unit result \<times> 's"
  GetVoterAccountID :: hash
  GetMetadata :: "'s \<Rightarrow> 'meta \<times> 's"
  ResolveResourceId :: "hash \<Rightarrow> 's \<Rightarrow> string result \<times> 's"
  GetProposalStatus :: "bytes \<Rightarrow> bytes \<Rightarrow> 's \<Rightarrow> (bool \<times> vote_state option) result \<times> 's"

type_synonym proposal_handler = "message \<Rightarrow> call_arg list result"

record ('meta, 'call, 's) substrate_writer =
  sw_client :: "('meta, 'call, 's) substrate_voter"
  sw_handlers :: "(transfer_type \<rightharpoonup> proposal_handler) option"
  sw_domainID :: u8

definition NewSubstrateWriter ::
  "u8 \<Rightarrow> ('meta, 'call, 's) substrate_voter \<Rightarrow> ('meta, 'call, 's) substrate_writer" where
  "NewSubstrateWriter domainID c = \<lparr> sw_client = c, sw_handlers = None, sw_domainID = domainID \<rparr>"

definition RegisterHandler ::
  "transfer_type \<Rightarrow> proposal_handler \<Rightarrow> ('meta, 'call, 's) substrate_writer
   \<Rightarrow> ('meta, 'call, 's) substrate_writer" where
  "RegisterHandler t h w =
     (let m = (case sw_handlers w of None \<Rightarrow> Map.empty | Some m \<Rightarrow> m)
      in w\<lparr>sw_handlers := Some (m(t \<mapsto> h))\<rparr>)"

definition proposal_handler_at ::
  "('meta, 'call, 's) substrate_writer \<Rightarrow> transfer_type \<Rightarrow> proposal_handler option" where
  "proposal_handler_at w t = (case sw_handlers w of None \<Rightarrow> None | Some m \<Rightarrow> m t)"

lemma proposal_handler_at_simps [simp]:
  "proposal_handler_at (NewSubstrateWriter d c) t = None"
  "proposal_handler_at (RegisterHandler t' h w) t =
     (if t' = t then Some h else proposal_handler_at w t)"
  by (auto simp: proposal_handler_at_def NewSubstrateWriter_def RegisterHandler_def Let_def
      split: option.split)

interpretation substrate_proposals: handler_registry
  "NewSubstrateWriter d c" "\<lambda>(t, h). RegisterHandler t h" proposal_handler_at
  "\<lambda>(t, h). Some t" snd
  for c :: "('meta, 'call, 's) substrate_voter" and d
  by unfold_locales (auto split: if_splits)

fun containsVote :: "hash list \<Rightarrow> hash \<Rightarrow> bool" where
  "containsVote [] voter = False"
| "containsVote (v # vs) voter = (if v = voter then True else containsVote vs voter)"

definition proposalValid ::
  "('meta, 'call) substrate_lib \<Rightarrow> ('meta, 'call, 's) substrate_writer \<Rightarrow> 'call substrate_proposal \<Rightarrow> 's
   \<Rightarrow> (bool \<times> string) result \<times> 's" where
  "proposalValid S w prop =
     s_bind (s_lift (encode_u8 S (sp_SourceId prop))) (\<lambda>srcId.
     s_bind (s_lift (proposal_Encode S prop)) (\<lambda>propBz.
     s_bind (GetProposalStatus (sw_client w) srcId propBz) (\<lambda>(exists, voteRes).
       if \<not> exists then s_return (True, '''')
       else
         (case voteRes of
            None \<Rightarrow> s_lift (Panic NilDereference)
          | Some v \<Rightarrow>
              if IsActive_vote v then
                if containsVote (VotesFor v) (GetVoterAccountID (sw_client w)) \<or>
                   containsVote (VotesAgainst v) (GetVoterAccountID (sw_client w))
                then s_return (False, ''already voted'')
                else s_return (True, '''')
              else s_return (False, ''proposal complete'')))))"

definition createProposal ::
  "('meta, 'call) substrate_lib \<Rightarrow> ('meta, 'call, 's) substrate_writer \<Rightarrow> u8 \<Rightarrow> u64 \<Rightarrow> hash
   \<Rightarrow> call_arg list \<Rightarrow> 's \<Rightarrow> 'call substrate_proposal result \<times> 's" where
  "createProposal S w sourceChain depositNonce resourceId args st =
     (case GetMetadata (sw_client w) st of
        (meta, st1) \<Rightarrow>
          s_bind (ResolveResourceId (sw_client w) resourceId) (\<lambda>method.
          s_bind (s_lift (NewCall S meta method args)) (\<lambda>call.
            s_return \<lparr> sp_DepositNonce = depositNonce, sp_Call = call, sp_SourceId = sourceChain,
                       sp_ResourceId = resourceId, sp_Method = method \<rparr>)) st1)"

definition AcknowledgeProposal :: string where
  "AcknowledgeProposal = ''ChainBridge.acknowledge_proposal''"

definition BlockRetryLimit :: nat where "BlockRetryLimit = 5"

text \<open>The attempts left; when none is, the loop ends and the function returns nil.\<close>

fun vote_attempts ::
  "('meta, 'call) substrate_lib \<Rightarrow> ('meta, 'call, 's) substrate_writer \<Rightarrow> 'call substrate_proposal \<Rightarrow> nat
   \<Rightarrow> 's \<Rightarrow> unit result \<times> 's" where
  "vote_attempts S w prop 0 st = (Ok (), st)"
| "vote_attempts S w prop (Suc n) st =
     (case proposalValid S w prop st of
        (Panic p, st1) \<Rightarrow> (Panic p, st1)
      | (Err e, st1) \<Rightarrow> vote_attempts S w prop n st1
      | (Ok (valid, reason), st1) \<Rightarrow>
         if valid then
           (case SubmitTx (sw_client w) AcknowledgeProposal (sp_DepositNonce prop) (sp_SourceId prop)
                   (sp_ResourceId prop) (sp_Call prop) st1 of
              (Ok _, st2) \<Rightarrow> (Ok (), st2)
            | (Err e, st2) \<Rightarrow> vote_attempts S w prop n st2
            | (Panic p, st2) \<Rightarrow> (Panic p, st2))
         else (Ok (), st1))"

definition substrate_VoteProposal ::
  "('meta, 'call) substrate_lib \<Rightarrow> ('meta, 'call, 's) substrate_writer \<Rightarrow> message \<Rightarrow> 's
   \<Rightarrow> unit result \<times> 's" where
  "substrate_VoteProposal S w m st =
     (case proposal_handler_at w (Type m) of
        None \<Rightarrow> (Err (Error (''no corresponding substrate handler found for message type '' @ Type m)), st)
      | Some handler \<Rightarrow>
         (case s_bind (s_lift (handler m))
                 (createProposal S w (Source m) (DepositNonce m) (ResourceId m)) st of
            (Ok prop, st1) \<Rightarrow> vote_attempts S w prop BlockRetryLimit st1
          | (Err e, st1) \<Rightarrow>
              (Err (Wrap (''failed to construct proposal (chain='' @ show_nat (unat (Destination m))
                          @ '', name='' @ show_nat (unat (sw_domainID w)) @ '') Error: '') e ''''), st1)
          | (Panic p, st1) \<Rightarrow> (Panic p, st1)))"

section \<open>The chain\<close>

text \<open>
  The listener is an interface here: \<open>n\<close> rounds of it from a start block give its
  messages and its state. The \<open>stop\<close> channel is nil until something sets it.
\<close>

datatype channel = Nil_channel | Open_channel | Closed_channel

record ('l, 's) substrate_chain =
  sc_domainID :: u8
  sc_stop :: channel
  sc_listener :: "int option \<Rightarrow> u8 \<Rightarrow> 'l key_value \<Rightarrow> nat \<Rightarrow> 'l \<Rightarrow> message list \<times> 'l"
  sc_writer :: "message \<Rightarrow> 's \<Rightarrow> unit result \<times> 's"
  sc_blockstore :: "'l key_value"
  sc_config :: substrate_config

definition NewSubstrateChain ::
  "(int option \<Rightarrow> u8 \<Rightarrow> 'l key_value \<Rightarrow> nat \<Rightarrow> 'l \<Rightarrow> message list \<times> 'l)
   \<Rightarrow> (message \<Rightarrow> 's \<Rightarrow> unit result \<times> 's) \<Rightarrow> 'l key_value \<Rightarrow> u8 \<Rightarrow> substrate_config
   \<Rightarrow> ('l, 's) substrate_chain" where
  "NewSubstrateChain l w b domainID c =
     \<lparr> sc_domainID = domainID, sc_stop = Nil_channel, sc_listener = l, sc_writer = w,
       sc_blockstore = b, sc_config = c \<rparr>"

definition substrate_PollEvents ::
  "('l, 's) substrate_chain \<Rightarrow> nat \<Rightarrow> 'l \<Rightarrow> (message list \<times> 'l) result" where
  "substrate_PollEvents c n w =
     (let g = sub_General (sc_config c) in
      case cfg_Id g of
        None \<Rightarrow> Panic NilDereference
      | Some i \<Rightarrow>
         (case GetStartBlock (sc_blockstore c) i (sub_StartBlock (sc_config c)) (cfg_LatestBlock g)
                 (cfg_FreshStart g) w of
            (Ok start, w') \<Rightarrow> Ok (sc_listener c start (sc_domainID c) (sc_blockstore c) n w')
          | (Err e, _) \<Rightarrow> Err (Wrap ''error '' e '' on getting last stored block'')
          | (Panic p, _) \<Rightarrow> Panic p))"

definition substrate_Write :: "('l, 's) substrate_chain \<Rightarrow> message \<Rightarrow> 's \<Rightarrow> unit result \<times> 's" where
  "substrate_Write c m = sc_writer c m"

definition substrate_DomainID :: "('l, 's) substrate_chain \<Rightarrow> u8" where
  "substrate_DomainID c = sc_domainID c"

text \<open>Closing a nil or closed channel panics.\<close>

definition substrate_Stop :: "('l, 's) substrate_chain \<Rightarrow> ('l, 's) substrate_chain result" where
  "substrate_Stop c =
     (case sc_stop c of
        Open_channel \<Rightarrow> Ok (c\<lparr>sc_stop := Closed_channel\<rparr>)
      | _ \<Rightarrow> Panic Raised)"

section \<open>Properties\<close>

lemma containsVote_set: "containsVote vs v \<longleftrightarrow> v \<in> set vs"
  by (induction vs) auto

text \<open>Each attempt either fails, and there are at most \<open>n\<close> of those, or settles the outcome.\<close>

definition vote_attempt ::
  "('meta, 'call) substrate_lib \<Rightarrow> ('meta, 'call, 's) substrate_writer \<Rightarrow> 'call substrate_proposal \<Rightarrow> 's
   \<Rightarrow> unit result \<times> 's" where
  "vote_attempt S w prop =
     s_bind (proposalValid S w prop) (\<lambda>(valid, reason).
       if valid then SubmitTx (sw_client w) AcknowledgeProposal (sp_DepositNonce prop)
                       (sp_SourceId prop) (sp_ResourceId prop) (sp_Call prop)
       else s_return ())"

lemma vote_attempts_unfold:
  "vote_attempts S w prop (Suc n) st =
     (case vote_attempt S w prop st of
        (Ok _, s) \<Rightarrow> (Ok (), s)
      | (Err e, s) \<Rightarrow> vote_attempts S w prop n s
      | (Panic p, s) \<Rightarrow> (Panic p, s))"
  by (auto simp: vote_attempt_def s_bind_def split: prod.splits result.splits)

lemma vote_attempts_no_error: "fst (vote_attempts S w prop n st) \<noteq> Err e"
proof (induction n arbitrary: st)
  case (Suc n)
  then show ?case
    unfolding vote_attempts_unfold by (auto split: prod.splits result.splits)
qed simp

lemma vote_attempts_all_fail:
  "failing_queries (vote_attempt S w prop) n st \<Longrightarrow> fst (vote_attempts S w prop n st) = Ok ()"
proof (induction n arbitrary: st)
  case (Suc n)
  then show ?case
    unfolding vote_attempts_unfold by (auto split: prod.splits result.splits)
qed simp

text \<open>
  A vote is worth submitting exactly when the chain does not know the proposal yet,
  or knows it as active without a vote, for or against, of this relayer.
\<close>

theorem proposal_valid_iff:
  assumes "proposalValid S w prop st = (Ok (valid, reason), st')"
  shows "\<exists>srcId propBz st1 found v. GetProposalStatus (sw_client w) srcId propBz st1 = (Ok (found, v), st') \<and>
     encode_u8 S (sp_SourceId prop) = Ok srcId \<and> proposal_Encode S prop = Ok propBz \<and>
     (valid \<longleftrightarrow> \<not> found \<or>
        (\<exists>vs. v = Some vs \<and> IsActive_vote vs \<and>
           GetVoterAccountID (sw_client w) \<notin> set (VotesFor vs) \<union> set (VotesAgainst vs)))"
  using assms
  by (auto simp: proposalValid_def result_laws containsVote_set split: if_splits option.splits)

definition example_sub_lib :: "(unit, nat) substrate_lib" where
  "example_sub_lib =
     \<lparr> NewAccountID = (\<lambda>bs. word_of_nat (bytes_nat bs)), NewHash = (\<lambda>bs. word_of_nat (bytes_nat bs)),
       NewCall = (\<lambda>_ method args. Ok (length args)), encode_u8 = (\<lambda>b. Ok [b]),
       encode_nonce_call = (\<lambda>n c. Ok [ucast n, of_nat c]) \<rparr>"

text \<open>A node that accepts no extrinsic; the state counts the submissions.\<close>

definition example_sub_voter :: "(unit, nat, nat) substrate_voter" where
  "example_sub_voter =
     \<lparr> SubmitTx = (\<lambda>method n src rid call s. (Err (Error ''invalid transaction''), s + 1)),
       GetVoterAccountID = 7, GetMetadata = (\<lambda>s. ((), s)),
       ResolveResourceId = (\<lambda>rid s. (Ok ''Example.transfer'', s)),
       GetProposalStatus = (\<lambda>src p s. (Ok (True, Some \<lparr> VotesFor = [8], VotesAgainst = [],
          IsActive_vote = True, IsApproved_vote = False, IsRejected_vote = False \<rparr>), s)) \<rparr>"

definition example_writer :: "(unit, nat, nat) substrate_writer" where
  "example_writer =
     RegisterHandler FungibleTransfer (CreateFungibleProposal example_sub_lib)
       (NewSubstrateWriter 2 example_sub_voter)"

definition example_sub_message :: message where
  "example_sub_message =
     \<lparr> DepositTxHash = 1, DepositBlock = 2, Source = 1, Destination = 2, DepositNonce = 3,
       ResourceId = 4, Payload = [Bytes_val [1], Bytes_val [9]], Type = FungibleTransfer \<rparr>"

definition example_sub_proposal :: "nat substrate_proposal" where
  "example_sub_proposal =
     \<lparr> sp_DepositNonce = 3, sp_Call = 2, sp_SourceId = 1, sp_ResourceId = 4,
       sp_Method = ''Example.transfer'' \<rparr>"

lemmas example_writer_defs = example_writer_def example_sub_lib_def example_sub_voter_def
  RegisterHandler_def NewSubstrateWriter_def proposal_handler_at_def

lemma example_valid:
  "proposalValid example_sub_lib example_writer example_sub_proposal n = (Ok (True, ''''), n)"
  by (simp add: proposalValid_def proposal_Encode_def example_writer_defs s_bind_def)

theorem proposal_valid_iff_witness:
  "\<exists>srcId propBz st1 found v.
     GetProposalStatus (sw_client example_writer) srcId propBz st1 = (Ok (found, v), 0) \<and>
     encode_u8 example_sub_lib (sp_SourceId example_sub_proposal) = Ok srcId \<and>
     proposal_Encode example_sub_lib example_sub_proposal = Ok propBz \<and>
     (True \<longleftrightarrow> \<not> found \<or>
        (\<exists>vs. v = Some vs \<and> IsActive_vote vs \<and>
           GetVoterAccountID (sw_client example_writer) \<notin> set (VotesFor vs) \<union> set (VotesAgainst vs)))"
  by (rule proposal_valid_iff [OF example_valid [of 0]])

text \<open>
  Once its proposal is constructed, a failing vote is not reported: \<open>VoteProposal\<close>
  never returns an error then, and when all five attempts fail it returns as if it had
  voted.
\<close>

theorem substrate_vote_failures_lost:
  assumes "proposal_handler_at w (Type m) = Some h" and "h m = Ok args"
    and "createProposal S w (Source m) (DepositNonce m) (ResourceId m) args st = (Ok prop, st1)"
  shows "fst (substrate_VoteProposal S w m st) \<noteq> Err e \<and>
    (failing_queries (vote_attempt S w prop) 5 st1 \<longrightarrow> fst (substrate_VoteProposal S w m st) = Ok ())"
proof -
  from assms have "substrate_VoteProposal S w m st = vote_attempts S w prop 5 st1"
    by (simp add: substrate_VoteProposal_def BlockRetryLimit_def)
  then show ?thesis by (simp add: vote_attempts_no_error vote_attempts_all_fail)
qed

theorem substrate_vote_failures_lost_witness:
  "fst (substrate_VoteProposal example_sub_lib example_writer example_sub_message 0) = Ok ()"
proof -
  have attempt: "vote_attempt example_sub_lib example_writer example_sub_proposal n
      = (Err (Error ''invalid transaction''), n + 1)" for n
    by (simp add: vote_attempt_def example_valid s_bind_def)
      (simp add: example_writer_defs)
  have h: "proposal_handler_at example_writer (Type example_sub_message)
      = Some (CreateFungibleProposal example_sub_lib)"
    by (simp add: example_writer_defs example_sub_message_def)
  have args: "CreateFungibleProposal example_sub_lib example_sub_message
      = Ok [Arg_AccountID 9, Arg_U128 1]"
    by (simp add: CreateFungibleProposal_def assert_bytes_def example_sub_message_def index_at_def
        example_sub_lib_def big_set_bytes_def bytes_nat_def)
  have created: "createProposal example_sub_lib example_writer (Source example_sub_message)
      (DepositNonce example_sub_message) (ResourceId example_sub_message)
      [Arg_AccountID 9, Arg_U128 1] 0 = (Ok example_sub_proposal, 0)"
    by (simp add: createProposal_def example_writer_defs example_sub_message_def
        example_sub_proposal_def s_bind_def)
  have "failing_queries (vote_attempt example_sub_lib example_writer example_sub_proposal) k n" for k n
    by (induction k arbitrary: n) (simp_all add: attempt)
  with substrate_vote_failures_lost [OF h args created] show ?thesis by simp
qed

section \<open>One vote\<close>

text \<open>
  \<open>votes\<close> counts the acknowledgements a node has accepted: only a submission adds one, and one
  that is answered with success does. When the answer is an error, or is lost, the
  submission may have been accepted or not.
\<close>

definition counts_votes :: "('meta, 'call, 's) substrate_voter \<Rightarrow> ('s \<Rightarrow> nat) \<Rightarrow> bool" where
  "counts_votes c votes \<longleftrightarrow>
     (\<forall>s. votes (snd (GetMetadata c s)) = votes s) \<and>
     (\<forall>rid s. votes (snd (ResolveResourceId c rid s)) = votes s) \<and>
     (\<forall>src p s. votes (snd (GetProposalStatus c src p s)) = votes s) \<and>
     (\<forall>meth n src rid call s.
        votes (snd (SubmitTx c meth n src rid call s)) = votes s + 1 \<or>
        \<not> is_ok (fst (SubmitTx c meth n src rid call s)) \<and>
        votes (snd (SubmitTx c meth n src rid call s)) = votes s)"

text \<open>A node that loses no answer: an error of a submission says that it was not accepted.\<close>

definition errors_reject :: "('meta, 'call, 's) substrate_voter \<Rightarrow> ('s \<Rightarrow> nat) \<Rightarrow> bool" where
  "errors_reject c votes \<longleftrightarrow>
     (\<forall>meth n src rid call s.
        \<not> is_ok (fst (SubmitTx c meth n src rid call s)) \<longrightarrow>
        votes (snd (SubmitTx c meth n src rid call s)) = votes s)"

lemma counts_votes_submit:
  assumes "counts_votes c votes" and "SubmitTx c meth n src rid call s = (r, s')"
  shows "votes s' = votes s + 1 \<or> \<not> is_ok r \<and> votes s' = votes s"
  using assms unfolding counts_votes_def by (metis fst_conv snd_conv)

text \<open>An answer of the node after which nothing is to be done: no answer, the relayer's own vote, or
  a proposal that is complete.\<close>

definition vote_settled :: "hash \<Rightarrow> (bool \<times> vote_state option) result \<Rightarrow> bool" where
  "vote_settled own r =
     (case r of
        Ok (found, v) \<Rightarrow>
          found \<and> (case v of None \<Rightarrow> True
                   | Some vs \<Rightarrow> IsActive_vote vs \<longrightarrow> own \<in> set (VotesFor vs) \<union> set (VotesAgainst vs))
      | _ \<Rightarrow> True)"

text \<open>The node gives such answers from \<open>k\<close> accepted acknowledgements on.\<close>

definition settled_from :: "('meta, 'call, 's) substrate_voter \<Rightarrow> ('s \<Rightarrow> nat) \<Rightarrow> nat \<Rightarrow> bool" where
  "settled_from c votes k \<longleftrightarrow>
     (\<forall>src p s. k \<le> votes s \<longrightarrow> vote_settled (GetVoterAccountID c) (fst (GetProposalStatus c src p s)))"

lemma proposalValid_settled:
  assumes "settled_from (sw_client w) votes k" and "k \<le> votes s"
    and "proposalValid S w prop s = (Ok (valid, reason), s')"
  shows "\<not> valid"
proof -
  from assms(3) obtain srcId propBz found v where
    answer: "GetProposalStatus (sw_client w) srcId propBz s = (Ok (found, v), s')"
    and valid: "valid \<longleftrightarrow> \<not> found \<or>
        (\<exists>vs. v = Some vs \<and> IsActive_vote vs \<and>
           GetVoterAccountID (sw_client w) \<notin> set (VotesFor vs) \<union> set (VotesAgainst vs))"
    by (auto simp: proposalValid_def result_laws containsVote_set split: if_splits option.splits)
  from assms(1,2) have "vote_settled (GetVoterAccountID (sw_client w)) (Ok (found, v))"
    unfolding settled_from_def by (metis answer fst_conv)
  with valid show ?thesis by (auto simp: vote_settled_def)
qed

lemma proposalValid_keeps_votes:
  assumes "counts_votes (sw_client w) votes"
  shows "votes (snd (proposalValid S w prop s)) = votes s"
proof -
  have "votes s' = votes s1" if "GetProposalStatus (sw_client w) src p s1 = (r, s')" for src p s1 r s'
    using assms that unfolding counts_votes_def by (metis snd_conv)
  then show ?thesis
    by (auto simp: proposalValid_def s_bind_def split: prod.splits result.splits option.splits)
qed

text \<open>
  \<open>n\<close> attempts have at most \<open>n\<close> acknowledgements accepted, and none of those made when
  \<open>q\<close> have been accepted, if the proposal is settled from then on.
\<close>

lemma vote_attempts_votes:
  assumes "counts_votes (sw_client w) votes"
  shows "votes s \<le> votes (snd (vote_attempts S w prop n s)) \<and>
    votes (snd (vote_attempts S w prop n s)) \<le> votes s + n"
proof (induction n arbitrary: s)
  case (Suc n)
  obtain r s1 where v: "proposalValid S w prop s = (r, s1)" by fastforce
  with proposalValid_keeps_votes [OF assms, of S "prop" s] have s1: "votes s1 = votes s" by simp
  obtain q s2 where sub: "SubmitTx (sw_client w) AcknowledgeProposal (sp_DepositNonce prop)
      (sp_SourceId prop) (sp_ResourceId prop) (sp_Call prop) s1 = (q, s2)" by fastforce
  from v sub s1 counts_votes_submit [OF assms sub] Suc.IH [of s1] Suc.IH [of s2] show ?case
    by (cases r; cases q) auto
qed simp

lemma vote_attempts_settled:
  assumes "counts_votes (sw_client w) votes" and "settled_from (sw_client w) votes k"
  shows "votes (snd (vote_attempts S w prop n s)) \<le> max (votes s) k"
proof (induction n arbitrary: s)
  case (Suc n)
  obtain r s1 where v: "proposalValid S w prop s = (r, s1)" by fastforce
  with proposalValid_keeps_votes [OF assms(1), of S "prop" s] have s1: "votes s1 = votes s" by simp
  note skip = Suc.IH [of s1, unfolded s1]
  show ?case
  proof (cases "\<exists>reason. r = Ok (True, reason)")
    case True
    then obtain reason where r: "r = Ok (True, reason)" by blast
    with v have "votes s < k" using proposalValid_settled [OF assms(2)] not_less by blast
    obtain a s2 where sub: "SubmitTx (sw_client w) AcknowledgeProposal (sp_DepositNonce prop)
        (sp_SourceId prop) (sp_ResourceId prop) (sp_Call prop) s1 = (a, s2)" by fastforce
    with counts_votes_submit [OF assms(1) sub] s1 \<open>votes s < k\<close> have "votes s2 \<le> k" by auto
    with Suc.IH [of s2] have "votes (snd (vote_attempts S w prop n s2)) \<le> k" by simp
    with v r sub \<open>votes s2 \<le> k\<close> show ?thesis by (cases a) auto
  next
    case False
    with v skip s1 show ?thesis by (cases r) auto
  qed
qed simp

lemma vote_attempts_rejected:
  assumes "counts_votes (sw_client w) votes" and "errors_reject (sw_client w) votes"
  shows "votes (snd (vote_attempts S w prop n s)) \<le> votes s + 1"
proof (induction n arbitrary: s)
  case (Suc n)
  obtain r s1 where v: "proposalValid S w prop s = (r, s1)" by fastforce
  with proposalValid_keeps_votes [OF assms(1), of S "prop" s] have s1: "votes s1 = votes s" by simp
  obtain a s2 where sub: "SubmitTx (sw_client w) AcknowledgeProposal (sp_DepositNonce prop)
      (sp_SourceId prop) (sp_ResourceId prop) (sp_Call prop) s1 = (a, s2)" by fastforce
  then have "\<not> is_ok a \<Longrightarrow> votes s2 = votes s1"
    using assms(2) unfolding errors_reject_def by (metis fst_conv snd_conv)
  with v sub s1 counts_votes_submit [OF assms(1) sub] Suc.IH [of s1] Suc.IH [of s2] show ?case
    by (cases r; cases a) auto
qed simp

lemma createProposal_keeps_votes:
  assumes "counts_votes (sw_client w) votes"
  shows "votes (snd (s_bind (s_lift a) (createProposal S w src n rid) s)) = votes s"
proof -
  have "votes s' = votes s1" if "ResolveResourceId (sw_client w) rid s1 = (r, s')" for rid s1 r s'
    using assms that unfolding counts_votes_def by (metis snd_conv)
  moreover have "votes s' = votes s1" if "GetMetadata (sw_client w) s1 = (r, s')" for s1 r s'
    using assms that unfolding counts_votes_def by (metis snd_conv)
  ultimately show ?thesis
    by (auto simp: createProposal_def s_bind_def split: prod.splits result.splits)
qed

text \<open>
  C34: one vote for a message. Whatever the attempts come to, and whether or not the answer
  to a submission is lost, the writer has at most five acknowledgements accepted for a
  message. It is at most one if no answer is lost, and also if the node answers, from the
  first accepted one on, that the proposal is complete or has the relayer's vote, or gives
  no answer; and none if the node does so from the start.
\<close>

theorem substrate_votes_at_most_once:
  assumes "counts_votes (sw_client w) votes"
    and "substrate_VoteProposal S w m s = (r, s')"
  shows "votes s' \<le> votes s + 5 \<and>
    (errors_reject (sw_client w) votes \<longrightarrow> votes s' \<le> votes s + 1) \<and>
    (settled_from (sw_client w) votes (votes s + 1) \<longrightarrow> votes s' \<le> votes s + 1) \<and>
    (settled_from (sw_client w) votes (votes s) \<longrightarrow> votes s' = votes s)"
proof (cases "proposal_handler_at w (Type m)")
  case (Some h)
  obtain q s1 where create: "s_bind (s_lift (h m))
      (createProposal S w (Source m) (DepositNonce m) (ResourceId m)) s = (q, s1)" by fastforce
  with createProposal_keeps_votes [OF assms(1)] have s1: "votes s1 = votes s" by (metis snd_conv)
  show ?thesis
  proof (cases q)
    case (Ok p)
    with create Some have "substrate_VoteProposal S w m s = vote_attempts S w p BlockRetryLimit s1"
      by (simp add: substrate_VoteProposal_def)
    with assms(2) have s': "s' = snd (vote_attempts S w p BlockRetryLimit s1)" by simp
    show ?thesis
      using vote_attempts_votes [OF assms(1), of s1 S p BlockRetryLimit]
        vote_attempts_settled [OF assms(1), of _ S p BlockRetryLimit s1]
        vote_attempts_rejected [OF assms(1), of S p BlockRetryLimit s1]
      unfolding s' s1 by (fastforce simp: BlockRetryLimit_def)
  qed (use create Some s1 assms(2) in \<open>simp_all add: substrate_VoteProposal_def\<close>)
qed (use assms(2) in \<open>simp add: substrate_VoteProposal_def\<close>)

text \<open>
  A node that counts the votes and loses every answer to a submission. The relayer \<open>own\<close> has
  a vote on the proposal once a submission was accepted, relayer 8 from the start.
\<close>

definition losing_writer :: "hash \<Rightarrow> (unit, nat, nat) substrate_writer" where
  "losing_writer own =
     RegisterHandler FungibleTransfer (CreateFungibleProposal example_sub_lib)
       (NewSubstrateWriter 2 (example_sub_voter
          \<lparr> SubmitTx := (\<lambda>meth n src rid call s. (Err (Error ''connection reset''), s + 1)),
            GetVoterAccountID := own,
            GetProposalStatus := (\<lambda>src p s. (Ok (True, Some
              \<lparr> VotesFor = (if 0 < s then [8, own] else [8]), VotesAgainst = [],
                IsActive_vote = True, IsApproved_vote = False, IsRejected_vote = False \<rparr>), s)) \<rparr>))"

lemma losing_counts: "counts_votes (sw_client (losing_writer own)) id"
  by (simp add: counts_votes_def losing_writer_def example_sub_voter_def RegisterHandler_def
      NewSubstrateWriter_def)

theorem substrate_votes_at_most_once_witness:
  "snd (substrate_VoteProposal example_sub_lib (losing_writer 7) example_sub_message 0) \<le> 1 \<and>
   snd (substrate_VoteProposal example_sub_lib (losing_writer 8) example_sub_message 0) = 0"
proof -
  have "settled_from (sw_client (losing_writer 7)) id 1" "settled_from (sw_client (losing_writer 8)) id 0"
    by (simp_all add: settled_from_def vote_settled_def losing_writer_def example_sub_voter_def
        RegisterHandler_def NewSubstrateWriter_def)
  then show ?thesis
    using substrate_votes_at_most_once [OF losing_counts [of 7] prod.collapse [symmetric],
        of example_sub_lib example_sub_message 0]
      substrate_votes_at_most_once [OF losing_counts [of 8] prod.collapse [symmetric],
        of example_sub_lib example_sub_message 0]
    by simp
qed

end
