(* ===== verification/Message_Processors.thy ===== *)
theory Message_Processors
  imports Message Evm_Contracts Config
begin

text \<open>
  The message processors of \<open>relayer/messageprocessors\<close>: three ways to convert the amount
  of a fungible transfer between the decimals of the token on the two chains, from a map
  per domain, from a map per domain and token, and by asking the token contracts. A
  processor works on the message in place; here it returns the changed message.
\<close>

section \<open>Processors\<close>

type_synonym 's message_processor = "message \<Rightarrow> 's \<Rightarrow> message result \<times> 's"

text \<open>The dynamic types the first argument of a processor is tested for.\<close>

datatype processor_arg =
    Decimals_map "u8 \<rightharpoonup> u8"
  | Token_decimals_map "u8 \<rightharpoonup> hash \<rightharpoonup> u8"
  | Other_arg

definition scaled :: "u8 \<Rightarrow> u8 \<Rightarrow> int \<Rightarrow> int" where
  "scaled sourceDecimal destDecimal amount =
     (if sourceDecimal > destDecimal then amount div 10 ^ unat (sourceDecimal - destDecimal)
      else if sourceDecimal < destDecimal then amount * 10 ^ unat (destDecimal - sourceDecimal)
      else amount)"

text \<open>
  The common end of the three processors. The payload entry is only replaced when the
  decimals differ. An empty payload panics.
\<close>

definition adjust_amount :: "u8 \<Rightarrow> u8 \<Rightarrow> message \<Rightarrow> message result" where
  "adjust_amount sourceDecimal destDecimal m =
     r_bind (index_at (Payload m) 0) (\<lambda>v.
       case as_bytes v of
         None \<Rightarrow> Err (Error ''could not cast interface to byte slice'')
       | Some amountByte \<Rightarrow>
           let amount = big_set_bytes amountByte in
           if sourceDecimal = destDecimal then Ok m
           else Ok (m\<lparr>Payload :=
                  (Payload m)[0 := Bytes_val (big_bytes_of (scaled sourceDecimal destDecimal amount))]\<rparr>))"

definition require :: "string \<Rightarrow> 'a option \<Rightarrow> 'a result" where
  "require msg x = (case x of None \<Rightarrow> Err (Error msg) | Some y \<Rightarrow> Ok y)"

definition AdjustDecimalsForERC20AmountMessageProcessor :: "processor_arg list \<Rightarrow> message \<Rightarrow> message result" where
  "AdjustDecimalsForERC20AmountMessageProcessor args m =
     (case args of
        [] \<Rightarrow> Err (Error ''processor requires 1 argument'')
      | Decimals_map decimalsMap # _ \<Rightarrow>
          r_bind (require ''no source decimals found at decimalsMap'' (decimalsMap (Source m))) (\<lambda>s.
          r_bind (require ''no destination decimals found at decimalsMap'' (decimalsMap (Destination m)))
            (\<lambda>d. adjust_amount s d m))
      | _ \<Rightarrow> Err (Error ''no decimals map found in args''))"

definition AdjustDecimalsForIndividualERC20AmountMessageProcessor ::
  "processor_arg list \<Rightarrow> message \<Rightarrow> message result" where
  "AdjustDecimalsForIndividualERC20AmountMessageProcessor args m =
     (case args of
        [] \<Rightarrow> Err (Error ''processor requires 1 argument'')
      | Token_decimals_map decimalsTokenMap # _ \<Rightarrow>
          r_bind (require ''no source chain decimals found at decimalsMap'' (decimalsTokenMap (Source m)))
            (\<lambda>sm.
          r_bind (require ''no source token decimals found at decimalsMap'' (sm (ResourceId m))) (\<lambda>s.
          r_bind (require ''no destination chain decimals found at decimalsMap''
                    (decimalsTokenMap (Destination m))) (\<lambda>dm.
          r_bind (require ''no destination token decimals found at decimalsMap'' (dm (ResourceId m)))
            (\<lambda>d. adjust_amount s d m))))
      | _ \<Rightarrow> Err (Error ''no decimals map found in args''))"

section \<open>Decimals from the chains\<close>

text \<open>A missing client is a nil interface: using it panics.\<close>

definition nil_client :: "'s contract_client" where
  "nil_client =
     \<lparr> cc_From = 0, cc_CallContract = (\<lambda>_ _ s. (Panic NilDereference, s)),
       cc_CodeAt = (\<lambda>_ s. (Panic NilDereference, s)),
       cc_TransactionByHash = (\<lambda>_ s. (Panic NilDereference, s)) \<rparr>"

datatype 's auto_arg =
    Clients "u8 \<rightharpoonup> 's contract_client"
  | Transactors "u8 \<rightharpoonup> 's transactor"
  | Evm_configs "u8 \<rightharpoonup> evm_config"
  | Other_auto_arg

definition client_of :: "(u8 \<rightharpoonup> 's contract_client) \<Rightarrow> u8 \<Rightarrow> 's contract_client" where
  "client_of clients i = (case clients i of None \<Rightarrow> nil_client | Some c \<Rightarrow> c)"

definition bridge_of_domain ::
  "eth_lib \<Rightarrow> abi_lib \<Rightarrow> (u8 \<rightharpoonup> 's contract_client) \<Rightarrow> (u8 \<rightharpoonup> 's transactor) \<Rightarrow> (u8 \<rightharpoonup> evm_config)
   \<Rightarrow> u8 \<Rightarrow> 's contract result" where
  "bridge_of_domain L A clients transactors configs i =
     (case configs i of
        None \<Rightarrow> Panic NilDereference
      | Some c \<Rightarrow> Ok (NewBridgeContract A (client_of clients i) (hex_to_address L (Bridge c)) (transactors i)))"

definition auto_decimals ::
  "eth_lib \<Rightarrow> abi_lib \<Rightarrow> (u8 \<rightharpoonup> 's contract_client) \<Rightarrow> (u8 \<rightharpoonup> 's transactor) \<Rightarrow> (u8 \<rightharpoonup> evm_config)
   \<Rightarrow> message \<Rightarrow> 's \<Rightarrow> (u8 \<times> u8) result \<times> 's" where
  "auto_decimals L A clients transactors configs m =
     (let src = Source m; dst = Destination m; rid = ResourceId m in
      s_bind (s_lift (bridge_of_domain L A clients transactors configs src)) (\<lambda>sourceBridge.
      s_bind (s_lift (bridge_of_domain L A clients transactors configs dst)) (\<lambda>destBridge.
      s_bind (GetHandlerAddressForResourceID L A sourceBridge rid) (\<lambda>sourceHandlerAddress.
      s_bind (GetHandlerAddressForResourceID L A destBridge rid) (\<lambda>destHandlerAddress.
      s_bind (ResourceIdToTokenContractAddress L A
                (NewERC20HandlerContract A (client_of clients src) sourceHandlerAddress (transactors src)) rid)
        (\<lambda>sourceTokenAddress.
      s_bind (ResourceIdToTokenContractAddress L A
                (NewERC20HandlerContract A (client_of clients dst) destHandlerAddress (transactors dst)) rid)
        (\<lambda>destTokenAddress.
      s_bind (GetDecimals L A
                (NewERC20Contract A (client_of clients src) sourceTokenAddress (transactors src))) (\<lambda>s.
      s_bind (GetDecimals L A
                (NewERC20Contract A (client_of clients dst) destTokenAddress (transactors dst))) (\<lambda>d.
        s_return (s, d))))))))))"

definition AdjustDecimalsForERC20AmountMessageAutoProcessor ::
  "eth_lib \<Rightarrow> abi_lib \<Rightarrow> 's auto_arg list \<Rightarrow> 's message_processor" where
  "AdjustDecimalsForERC20AmountMessageAutoProcessor L A args m =
     (if Type m \<noteq> FungibleTransfer then s_return m
      else if length args \<noteq> 3 then s_lift (Err (Error ''processor requires 3 arguments''))
      else
        (case args ! 0 of
           Clients clients \<Rightarrow>
             (case args ! 1 of
                Transactors transactors \<Rightarrow>
                  (case args ! 2 of
                     Evm_configs configs \<Rightarrow>
                       s_bind (auto_decimals L A clients transactors configs m)
                         (\<lambda>(s, d). s_lift (adjust_amount s d m))
                   | _ \<Rightarrow> s_lift (Err (Error ''no evmConfig found in args'')))
              | _ \<Rightarrow> s_lift (Err (Error ''no transactor found in args'')))
         | _ \<Rightarrow> s_lift (Err (Error ''no client found in args''))))"

section \<open>Properties\<close>

lemma unat_minus_less: "(x :: u8) < y \<Longrightarrow> unat (y - x) = unat y - unat x"
  by (simp add: unat_sub order_less_imp_le)

text \<open>All three cases are one formula: scale up by one power of ten, down by the other, round down.\<close>

lemma scaled_formula: "scaled s d amount = amount * 10 ^ unat d div 10 ^ unat s"
proof -
  consider "d < s" | "s < d" | "s = d" by fastforce
  then show ?thesis
  proof cases
    case 1
    then have "(10 :: int) ^ unat s = 10 ^ unat (s - d) * 10 ^ unat d"
      by (simp add: unat_minus_less word_less_nat_alt flip: power_add)
    with 1 show ?thesis by (simp add: scaled_def)
  next
    case 2
    then have "(10 :: int) ^ unat d = 10 ^ unat (d - s) * 10 ^ unat s"
      by (simp add: unat_minus_less word_less_nat_alt flip: power_add)
    with 2 order_less_not_sym [OF 2] show ?thesis by (simp add: scaled_def)
  qed (simp add: scaled_def)
qed

lemma scaled_nonneg: "0 \<le> amount \<Longrightarrow> 0 \<le> scaled s d amount"
  by (simp add: scaled_formula pos_imp_zdiv_nonneg_iff)

text \<open>What every processor does to a message once it knows the decimals.\<close>

lemma adjust_amount_Ok:
  assumes "Payload m = Bytes_val bs # rest"
  shows "\<exists>m'. adjust_amount s d m = Ok m' \<and> m'\<lparr>Payload := Payload m\<rparr> = m \<and>
     (\<exists>bs'. Payload m' = Bytes_val bs' # rest \<and> big_set_bytes bs' = scaled s d (big_set_bytes bs))"
  using assms scaled_nonneg [OF big_set_bytes_nonneg [of bs], of s d]
  by (auto simp: adjust_amount_def index_at_def Let_def big_set_bytes_of scaled_def)

text \<open>
  C26: a processor that knows both decimals changes the amount only, from \<open>a\<close> to \<open>a\<close> times
  ten to the destination decimals divided by ten to the source decimals, rounded down,
  for every amount, also of more than 256 bits.
\<close>

theorem processor_converts_amount:
  assumes "Payload m = Bytes_val bs # rest"
    and "decimals (Source m) = Some s" and "decimals (Destination m) = Some d"
  shows "\<exists>m' bs'. AdjustDecimalsForERC20AmountMessageProcessor (Decimals_map decimals # args) m = Ok m' \<and>
     m'\<lparr>Payload := Payload m\<rparr> = m \<and> Payload m' = Bytes_val bs' # rest \<and>
     big_set_bytes bs' = big_set_bytes bs * 10 ^ unat d div 10 ^ unat s"
  using adjust_amount_Ok [OF assms(1), of s d] assms(2,3)
  by (auto simp: AdjustDecimalsForERC20AmountMessageProcessor_def require_def scaled_formula)

definition example_transfer :: message where
  "example_transfer =
     \<lparr> DepositTxHash = 1, DepositBlock = 2, Source = 1, Destination = 2, DepositNonce = 3,
       ResourceId = 4, Payload = [Bytes_val [1, 1], Bytes_val [9]], Type = FungibleTransfer \<rparr>"

theorem processor_converts_amount_witness:
  "\<exists>m' bs'. AdjustDecimalsForERC20AmountMessageProcessor [Decimals_map [1 \<mapsto> 18, 2 \<mapsto> 16]] example_transfer = Ok m' \<and>
     m'\<lparr>Payload := Payload example_transfer\<rparr> = example_transfer \<and>
     Payload m' = Bytes_val bs' # [Bytes_val [9]] \<and>
     big_set_bytes bs' = big_set_bytes [1, 1] * 10 ^ unat (16 :: u8) div 10 ^ unat (18 :: u8)"
  by (rule processor_converts_amount) (simp_all add: example_transfer_def)

text \<open>
  The processors agree: with the same decimals for the two domains and the token, the
  map per domain, the map per token and the decimals read from the chains give the same
  message, or fail alike.
\<close>

theorem processors_agree:
  assumes "decimals (Source m) = Some s" and "decimals (Destination m) = Some d"
    and "tokens (Source m) = Some sm" and "sm (ResourceId m) = Some s"
    and "tokens (Destination m) = Some dm" and "dm (ResourceId m) = Some d"
    and "Type m = FungibleTransfer"
    and "auto_decimals L A clients transactors configs m st = (Ok (s, d), st')"
  shows "AdjustDecimalsForIndividualERC20AmountMessageProcessor [Token_decimals_map tokens] m
           = AdjustDecimalsForERC20AmountMessageProcessor [Decimals_map decimals] m \<and>
         AdjustDecimalsForERC20AmountMessageAutoProcessor L A
             [Clients clients, Transactors transactors, Evm_configs configs] m st
           = (AdjustDecimalsForERC20AmountMessageProcessor [Decimals_map decimals] m, st')"
  using assms
  by (simp add: AdjustDecimalsForERC20AmountMessageProcessor_def
      AdjustDecimalsForIndividualERC20AmountMessageProcessor_def
      AdjustDecimalsForERC20AmountMessageAutoProcessor_def require_def s_bind_def numeral_2_eq_2)

text \<open>
  Converting an amount to a token with at least as many decimals and back loses
  nothing; converting to fewer decimals and back rounds down to a multiple of the
  difference's power of ten.
\<close>

theorem scaling_back:
  assumes "0 \<le> amount"
  shows "scaled d s (scaled s d amount) =
    (if s \<le> d then amount
     else amount div 10 ^ (unat s - unat d) * 10 ^ (unat s - unat d))"
proof (cases "s \<le> d")
  case True
  then consider "s = d" | "s < d" by fastforce
  then show ?thesis
    by cases (auto simp: scaled_def dest: order_less_not_sym)
next
  case False
  then have "d < s" by simp
  then show ?thesis
    by (auto simp: scaled_def unat_minus_less dest: order_less_not_sym)
qed

theorem scaling_back_witness: "scaled 16 18 (scaled 18 16 257) = (200 :: int)"
  by (subst scaling_back) simp_all

definition example_token_abi :: abi_lib where
  "example_token_abi = example_abi\<lparr>convert_address := \<lambda>_. Ok 1\<rparr>"

definition example_token_client :: "nat contract_client" where
  "example_token_client = example_client\<lparr>cc_CallContract := \<lambda>_ _ n. (Ok [1], Suc n)\<rparr>"

text \<open>The pseudo address 1 stands for the native token, with eighteen decimals.\<close>

lemma example_auto_decimals:
  "auto_decimals reference_lib example_token_abi [1 \<mapsto> example_token_client, 2 \<mapsto> example_token_client]
     Map.empty [1 \<mapsto> evm_config_of example_flags example_raw_config,
                2 \<mapsto> evm_config_of example_flags example_raw_config] example_transfer 0
   = (Ok (18, 18), 4)"
  by (simp add: auto_decimals_def example_transfer_def bridge_of_domain_def client_of_def s_bind_def
      GetHandlerAddressForResourceID_def ResourceIdToTokenContractAddress_def GetDecimals_def
      call_for_def contract_call_def PackMethod_def UnpackResult_def NewBridgeContract_def
      NewERC20HandlerContract_def NewERC20Contract_def NewContract_def example_token_abi_def
      example_token_client_def example_abi_def example_client_def index_at_def Let_def)

theorem processors_agree_witness:
  "AdjustDecimalsForIndividualERC20AmountMessageProcessor
       [Token_decimals_map [1 \<mapsto> [4 \<mapsto> 18], 2 \<mapsto> [4 \<mapsto> 18]]] example_transfer
     = AdjustDecimalsForERC20AmountMessageProcessor [Decimals_map [1 \<mapsto> 18, 2 \<mapsto> 18]] example_transfer \<and>
   AdjustDecimalsForERC20AmountMessageAutoProcessor reference_lib example_token_abi
       [Clients [1 \<mapsto> example_token_client, 2 \<mapsto> example_token_client], Transactors Map.empty,
        Evm_configs [1 \<mapsto> evm_config_of example_flags example_raw_config,
                     2 \<mapsto> evm_config_of example_flags example_raw_config]] example_transfer 0
     = (AdjustDecimalsForERC20AmountMessageProcessor [Decimals_map [1 \<mapsto> 18, 2 \<mapsto> 18]] example_transfer, 4)"
  by (rule processors_agree [where sm = "[4 \<mapsto> 18]" and dm = "[4 \<mapsto> 18]", OF _ _ _ _ _ _ _ example_auto_decimals])
    (simp_all add: example_transfer_def)

end
