(* ===== verification/Relayer.thy ===== *)
theory Relayer
  imports Handler_Registry Message
begin

text \<open>
  The relayer, \<open>relayer/relayer.go\<close>: it registers the chains by their domain, starts them
  and routes every message they produce, through the message processors, to the chain of
  its destination. Each message is routed by a goroutine of its own; the world a route
  works on includes what the others do meanwhile.
\<close>

record ('m, 's) relayed_chain =
  rc_DomainID :: u8
  rc_Write :: "message \<Rightarrow> 's \<Rightarrow> unit result \<times> 's"
  rc_PollEvents :: 'm        \<comment> \<open>the polling goroutine, which \<open>Start\<close> only launches\<close>

record ('m, 's) relayer =
  metrics :: "message \<Rightarrow> 's \<Rightarrow> 's"
  relayedChains :: "('m, 's) relayed_chain list"
  registry :: "(u8 \<rightharpoonup> ('m, 's) relayed_chain) option"
  messageProcessors :: "(message \<Rightarrow> 's \<Rightarrow> message result \<times> 's) list"

definition NewRelayer ::
  "('m, 's) relayed_chain list \<Rightarrow> (message \<Rightarrow> 's \<Rightarrow> 's)
   \<Rightarrow> (message \<Rightarrow> 's \<Rightarrow> message result \<times> 's) list \<Rightarrow> ('m, 's) relayer" where
  "NewRelayer cs m ps =
     \<lparr> metrics = m, relayedChains = cs, registry = None, messageProcessors = ps \<rparr>"

definition addRelayedChain :: "('m, 's) relayed_chain \<Rightarrow> ('m, 's) relayer \<Rightarrow> ('m, 's) relayer" where
  "addRelayedChain c r =
     (let m = (case registry r of None \<Rightarrow> Map.empty | Some m \<Rightarrow> m)
      in r\<lparr>registry := Some (m(rc_DomainID c \<mapsto> c))\<rparr>)"

definition registered_chain :: "('m, 's) relayer \<Rightarrow> u8 \<Rightarrow> ('m, 's) relayed_chain option" where
  "registered_chain r d = (case registry r of None \<Rightarrow> None | Some m \<Rightarrow> m d)"

text \<open>The first part of \<open>Start\<close>: the chains in the order given, each launched with its polling.\<close>

definition start_chains :: "('m, 's) relayer \<Rightarrow> ('m, 's) relayer \<times> 'm list" where
  "start_chains r = (fold addRelayedChain (relayedChains r) r, map rc_PollEvents (relayedChains r))"

fun run_processors ::
  "(message \<Rightarrow> 's \<Rightarrow> message result \<times> 's) list \<Rightarrow> message \<Rightarrow> 's \<Rightarrow> message result \<times> 's" where
  "run_processors [] m s = (Ok m, s)"
| "run_processors (p # ps) m s =
     (case p m s of
        (Ok m', s') \<Rightarrow> run_processors ps m' s'
      | (Err e, s') \<Rightarrow> (Err e, s')
      | (Panic q, s') \<Rightarrow> (Panic q, s'))"

text \<open>
  Errors are logged and end the route; only a panic is a result of its own. The chain is
  looked up before the processors run.
\<close>

definition logged :: "unit result \<times> 's \<Rightarrow> unit result \<times> 's" where
  "logged r = (case r of (Panic p, s) \<Rightarrow> (Panic p, s) | (_, s) \<Rightarrow> (Ok (), s))"

definition route :: "('m, 's) relayer \<Rightarrow> message \<Rightarrow> 's \<Rightarrow> unit result \<times> 's" where
  "route r m s =
     (let s1 = metrics r m s in
      case registered_chain r (Destination m) of
        None \<Rightarrow> (Ok (), s1)
      | Some destChain \<Rightarrow>
          logged (s_bind (run_processors (messageProcessors r) m) (rc_Write destChain) s1))"

text \<open>
  The second part of \<open>Start\<close>: what the loop does with the messages received before the
  stop. A message launches its route; the routes take effect in the order \<open>ms\<close> of this
  run, whichever it is. A panic ends the program.
\<close>

fun serve :: "('m, 's) relayer \<Rightarrow> message list \<Rightarrow> 's \<Rightarrow> unit result \<times> 's" where
  "serve r [] s = (Ok (), s)"
| "serve r (m # ms) s =
     (case route r m s of
        (Ok _, s') \<Rightarrow> serve r ms s'
      | (Err e, s') \<Rightarrow> (Err e, s')
      | (Panic p, s') \<Rightarrow> (Panic p, s'))"

definition Start :: "('m, 's) relayer \<Rightarrow> message list \<Rightarrow> 's \<Rightarrow> unit result \<times> 's" where
  "Start r ms s = serve (fst (start_chains r)) ms s"

section \<open>Lemmas\<close>

lemma registered_chain_simps [simp]:
  "registered_chain (NewRelayer cs m ps) d = None"
  "registered_chain (addRelayedChain c r) d =
     (if rc_DomainID c = d then Some c else registered_chain r d)"
  by (auto simp: registered_chain_def NewRelayer_def addRelayedChain_def Let_def split: option.split)

interpretation chain_registry: handler_registry
  "NewRelayer cs m ps" addRelayedChain registered_chain "\<lambda>c. Some (rc_DomainID c)" "\<lambda>c. c"
  for cs :: "('m, 's) relayed_chain list" and m ps
  by unfold_locales (auto split: if_splits)

lemma addRelayedChain_keeps:
  "metrics (fold addRelayedChain cs r) = metrics r"
  "messageProcessors (fold addRelayedChain cs r) = messageProcessors r"
  by (induction cs arbitrary: r) (simp_all add: addRelayedChain_def Let_def)

lemma logged_no_error: "fst (logged r) \<noteq> Err e"
  by (auto simp: logged_def split: prod.splits result.splits)

lemma route_no_error: "fst (route r m s) \<noteq> Err e"
  by (auto simp: route_def Let_def logged_no_error split: option.split)

lemma run_processors_append:
  "run_processors (ps @ qs) m = s_bind (run_processors ps m) (run_processors qs)"
  by (induction ps arbitrary: m) (auto simp: s_bind_def fun_eq_iff split: prod.splits result.splits)

lemma route_started:
  "route (fst (start_chains (NewRelayer cs track ps))) m s =
     (case find (\<lambda>c. rc_DomainID c = Destination m) (rev cs) of
        None \<Rightarrow> (Ok (), track m s)
      | Some c \<Rightarrow>
          (case run_processors ps m (track m s) of
             (Ok m', s1) \<Rightarrow> logged (rc_Write c m' s1)
           | (Err e, s1) \<Rightarrow> (Ok (), s1)
           | (Panic p, s1) \<Rightarrow> (Panic p, s1)))"
proof -
  have "registered_chain (fold addRelayedChain cs (NewRelayer cs track ps)) (Destination m)
      = find (\<lambda>c. rc_DomainID c = Destination m) (rev cs)"
    by (simp add: chain_registry.register_all_find option.map_ident)
  moreover have "relayedChains (NewRelayer cs track ps) = cs"
    "metrics (NewRelayer cs track ps) = track" "messageProcessors (NewRelayer cs track ps) = ps"
    by (simp_all add: NewRelayer_def)
  ultimately show ?thesis
    by (auto simp: route_def start_chains_def addRelayedChain_keeps s_bind_def logged_def
        split: option.splits prod.splits result.splits)
qed

section \<open>Properties\<close>


lemma serve_append:
  "serve r (ms @ ns) s =
     (case serve r ms s of
        (Ok _, s') \<Rightarrow> serve r ns s'
      | (Err e, s') \<Rightarrow> (Err e, s')
      | (Panic p, s') \<Rightarrow> (Panic p, s'))"
  by (induction ms arbitrary: s) (auto split: prod.splits result.splits)

text \<open>
  Errors never stop the relayer: whatever fails for one message, the messages after it
  are still routed, unless a route panics.
\<close>

theorem errors_do_not_stop_relayer:
  assumes "\<And>m s p s'. m \<in> set ms \<Longrightarrow> route (fst (start_chains r)) m s \<noteq> (Panic p, s')"
  shows "Start r ms s = (Ok (), fold (\<lambda>m s. snd (route (fst (start_chains r)) m s)) ms s)"
  using assms unfolding Start_def
proof (induction ms arbitrary: s)
  case (Cons m ms)
  obtain q t where routed: "route (fst (start_chains r)) m s = (q, t)" by fastforce
  with Cons.prems route_no_error [of "fst (start_chains r)" m s] have "q = Ok ()"
    by (cases q) fastforce+
  with routed Cons show ?case by simp
qed simp

text \<open>A chain whose writes fail; the state counts the metrics and the writes.\<close>

definition example_relayer :: "(unit, nat) relayer" where
  "example_relayer =
     NewRelayer [\<lparr> rc_DomainID = 2, rc_Write = (\<lambda>m n. (Err (Error ''out of gas''), n + 10)),
                   rc_PollEvents = () \<rparr>]
       (\<lambda>m n. n + 1) []"

definition example_routed :: "u8 \<Rightarrow> message" where
  "example_routed d =
     \<lparr> DepositTxHash = 1, DepositBlock = 2, Source = 1, Destination = d, DepositNonce = 3,
       ResourceId = 4, Payload = [], Type = GenericTransfer \<rparr>"

lemma example_route:
  "route (fst (start_chains example_relayer)) m n = (Ok (), if Destination m = 2 then n + 11 else n + 1)"
  by (simp add: example_relayer_def route_def start_chains_def NewRelayer_def addRelayedChain_def
      registered_chain_def logged_def s_bind_def)

theorem errors_do_not_stop_relayer_witness:
  "Start example_relayer [example_routed 2, example_routed 9, example_routed 2] 0 = (Ok (), 23)"
  by (subst errors_do_not_stop_relayer) (simp_all add: example_route example_routed_def)

end
