(* ===== verification/Keystore.thy ===== *)
theory Keystore
  imports Bridge_Prelude
begin

text \<open>
  Keys: the key pairs of \<open>crypto/secp256k1\<close> and \<open>crypto/sr25519\<close>, the encrypted key
  files and the test key ring of \<open>keystore\<close>, and the import of a private key
  (\<open>keystore/account\<close>). Ciphers, curves and serialisation are a parameter, a record of
  functions whose documented laws are the named predicates below.
\<close>

section \<open>Key pairs\<close>

text \<open>The library's \<open>KeyringPair\<close>, as the code builds it.\<close>

record keyring_pair =
  URI :: string
  krp_Address :: string
  krp_PublicKey :: bytes

text \<open>\<open>'k\<close> are ECDSA private keys; a public key is determined by its private key.\<close>

record 'k crypto_lib =
  ToECDSA :: "bytes \<Rightarrow> 'k result"
  HexToECDSA :: "string \<Rightarrow> 'k result"
  FromECDSA :: "'k \<Rightarrow> bytes"
  PubkeyAddress :: "'k \<Rightarrow> string"               \<comment> \<open>\<open>PubkeyToAddress(..).String()\<close>\<close>
  CompressedPubkey :: "'k \<Rightarrow> bytes"
  EncodeKeyring :: "keyring_pair \<Rightarrow> bytes"
  DecodeKeyring :: "bytes \<Rightarrow> keyring_pair result"
  hex_Encode :: "bytes \<Rightarrow> string"                \<comment> \<open>\<open>hexutil.Encode\<close>\<close>
  Blake2b :: "bytes \<Rightarrow> bytes"
  NonceSize :: nat
  gcm_Seal :: "bytes \<Rightarrow> bytes \<Rightarrow> bytes \<Rightarrow> bytes"    \<comment> \<open>key, nonce, message\<close>
  gcm_Open :: "bytes \<Rightarrow> bytes \<Rightarrow> bytes \<Rightarrow> bytes result"

definition Sr25519Type :: string where "Sr25519Type = ''sr25519''"
definition Secp256k1Type :: string where "Secp256k1Type = ''secp256k1''"

text \<open>The two implementations of the \<open>crypto.Keypair\<close> interface.\<close>

datatype 'k keypair = Secp256k1_pair 'k | Sr25519_pair keyring_pair

definition secp256k1_NewKeypairFromPrivateKey :: "'k crypto_lib \<Rightarrow> bytes \<Rightarrow> 'k keypair result" where
  "secp256k1_NewKeypairFromPrivateKey C priv = r_bind (ToECDSA C priv) (\<lambda>pk. Ok (Secp256k1_pair pk))"

definition secp256k1_NewKeypairFromString :: "'k crypto_lib \<Rightarrow> string \<Rightarrow> 'k keypair result" where
  "secp256k1_NewKeypairFromString C priv = r_bind (HexToECDSA C priv) (\<lambda>pk. Ok (Secp256k1_pair pk))"

definition secp256k1_NewKeypair :: "'k \<Rightarrow> 'k keypair" where
  "secp256k1_NewKeypair pk = Secp256k1_pair pk"

definition secp256k1_GenerateKeypair :: "'k result \<Rightarrow> 'k keypair result" where
  "secp256k1_GenerateKeypair generated = r_bind generated (\<lambda>priv. Ok (secp256k1_NewKeypair priv))"

definition NewKeypairFromKRP :: "keyring_pair \<Rightarrow> 'k keypair" where
  "NewKeypairFromKRP pair = Sr25519_pair pair"

text \<open>The key pair is returned beside the error of the library.\<close>

definition sr25519_NewKeypairFromSeed ::
  "(string \<Rightarrow> string \<Rightarrow> keyring_pair \<times> error option) \<Rightarrow> string \<Rightarrow> string \<Rightarrow> 'k keypair \<times> error option" where
  "sr25519_NewKeypairFromSeed KeyringPairFromSecret seed network =
     (case KeyringPairFromSecret seed network of (kp, err) \<Rightarrow> (Sr25519_pair kp, err))"

text \<open>\<open>random\<close> is what reading 32 random bytes gave; no pair is the nil pointer.\<close>

definition sr25519_GenerateKeypair ::
  "'k crypto_lib \<Rightarrow> (string \<Rightarrow> string \<Rightarrow> keyring_pair \<times> error option) \<Rightarrow> (bytes, error) sum \<Rightarrow> string
   \<Rightarrow> 'k keypair option \<times> error option" where
  "sr25519_GenerateKeypair C KeyringPairFromSecret random network =
     (case random of
        Inr err \<Rightarrow> (None, Some err)
      | Inl data \<Rightarrow>
         (case sr25519_NewKeypairFromSeed KeyringPairFromSecret (''//'' @ hex_Encode C data) network of
            (kp, err) \<Rightarrow> (Some kp, err)))"

definition secp256k1_Encode :: "'k crypto_lib \<Rightarrow> 'k \<Rightarrow> bytes" where
  "secp256k1_Encode C k = FromECDSA C k"

definition sr25519_Encode :: "'k crypto_lib \<Rightarrow> keyring_pair \<Rightarrow> bytes" where
  "sr25519_Encode C p = EncodeKeyring C p"

text \<open>A method of the interface is that of the pair's own type.\<close>

definition keypair_Encode :: "'k crypto_lib \<Rightarrow> 'k keypair \<Rightarrow> bytes" where
  "keypair_Encode C kp =
     (case kp of Secp256k1_pair k \<Rightarrow> secp256k1_Encode C k | Sr25519_pair p \<Rightarrow> sr25519_Encode C p)"

definition secp256k1_Decode :: "'k crypto_lib \<Rightarrow> bytes \<Rightarrow> 'k keypair result" where
  "secp256k1_Decode C bs = r_bind (ToECDSA C bs) (\<lambda>k. Ok (Secp256k1_pair k))"

definition sr25519_Decode :: "'k crypto_lib \<Rightarrow> bytes \<Rightarrow> 'k keypair result" where
  "sr25519_Decode C bs = r_bind (DecodeKeyring C bs) (\<lambda>p. Ok (Sr25519_pair p))"

definition secp256k1_Address :: "'k crypto_lib \<Rightarrow> 'k \<Rightarrow> string" where
  "secp256k1_Address C k = PubkeyAddress C k"

definition sr25519_Address :: "keyring_pair \<Rightarrow> string" where
  "sr25519_Address p = krp_Address p"

definition keypair_Address :: "'k crypto_lib \<Rightarrow> 'k keypair \<Rightarrow> string" where
  "keypair_Address C kp =
     (case kp of Secp256k1_pair k \<Rightarrow> secp256k1_Address C k | Sr25519_pair p \<Rightarrow> sr25519_Address p)"

definition secp256k1_PublicKey :: "'k crypto_lib \<Rightarrow> 'k \<Rightarrow> string" where
  "secp256k1_PublicKey C k = hex_Encode C (CompressedPubkey C k)"

definition sr25519_PublicKey :: "'k crypto_lib \<Rightarrow> keyring_pair \<Rightarrow> string" where
  "sr25519_PublicKey C p = hex_Encode C (krp_PublicKey p)"

definition keypair_PublicKey :: "'k crypto_lib \<Rightarrow> 'k keypair \<Rightarrow> string" where
  "keypair_PublicKey C kp =
     (case kp of
        Secp256k1_pair k \<Rightarrow> secp256k1_PublicKey C k
      | Sr25519_pair p \<Rightarrow> sr25519_PublicKey C p)"

text \<open>\<open>AsKeyringPair\<close>, of a pair of that kind.\<close>

fun AsKeyringPair :: "'k keypair \<Rightarrow> keyring_pair option" where
  "AsKeyringPair (Sr25519_pair p) = Some p"
| "AsKeyringPair (Secp256k1_pair k) = None"

text \<open>The in-memory sender: a private key beside the address given for it.\<close>

record 'k in_memory_sender =
  sender_privateKey :: 'k
  sender_address :: address

definition sender_PrivateKey :: "'k in_memory_sender \<Rightarrow> 'k" where
  "sender_PrivateKey s = sender_privateKey s"

definition sender_Address :: "(address \<Rightarrow> string) \<Rightarrow> 'k in_memory_sender \<Rightarrow> string" where
  "sender_Address address_Hex s = address_Hex (sender_address s)"

definition keypair_type :: "'k keypair \<Rightarrow> string" where
  "keypair_type kp = (case kp of Secp256k1_pair _ \<Rightarrow> Secp256k1Type | Sr25519_pair _ \<Rightarrow> Sr25519Type)"

section \<open>Encryption\<close>

text \<open>
  \<open>random\<close> is what the random source gave for the nonce, or its error; the sealed message
  is appended to the nonce. A cipher with a 32-byte key is always created.
\<close>

definition Encrypt :: "'k crypto_lib \<Rightarrow> bytes result \<Rightarrow> bytes \<Rightarrow> bytes \<Rightarrow> bytes result" where
  "Encrypt C random msg password =
     r_bind random (\<lambda>nonce. Ok (nonce @ gcm_Seal C (Blake2b C password) nonce msg))"

definition EncryptKeypair ::
  "'k crypto_lib \<Rightarrow> bytes result \<Rightarrow> 'k keypair \<Rightarrow> bytes \<Rightarrow> bytes result" where
  "EncryptKeypair C random kp password = Encrypt C random (keypair_Encode C kp) password"

definition wrong_password :: "error \<Rightarrow> error" where
  "wrong_password e =
     (if error_text e = ''cipher: message authentication failed''
      then Error (error_text e @ ''. Incorrect Password.'') else e)"

text \<open>Data shorter than a nonce makes the slice expression panic.\<close>

definition Decrypt :: "'k crypto_lib \<Rightarrow> bytes \<Rightarrow> bytes \<Rightarrow> bytes result" where
  "Decrypt C data password =
     (if length data < NonceSize C then Panic SliceBounds
      else
        (case gcm_Open C (Blake2b C password) (take (NonceSize C) data) (drop (NonceSize C) data) of
           Ok plaintext \<Rightarrow> Ok plaintext
         | Err e \<Rightarrow> Err (wrong_password e)
         | Panic p \<Rightarrow> Panic p))"

definition DecodeKeypair :: "'k crypto_lib \<Rightarrow> bytes \<Rightarrow> string \<Rightarrow> 'k keypair result" where
  "DecodeKeypair C bs keytype =
     (if keytype = Secp256k1Type then secp256k1_Decode C bs
      else if keytype = Sr25519Type then sr25519_Decode C bs
      else Err (Error ''cannot decode key: invalid key type''))"

definition DecryptKeypair ::
  "'k crypto_lib \<Rightarrow> string \<Rightarrow> bytes \<Rightarrow> bytes \<Rightarrow> string \<Rightarrow> 'k keypair result" where
  "DecryptKeypair C expectedPubK data password keytype =
     r_bind (Decrypt C data password) (\<lambda>pk.
     r_bind (DecodeKeypair C pk keytype) (\<lambda>kp.
       if keypair_PublicKey C kp \<noteq> expectedPubK
       then Err (Error ''unexpected key file data, file may be corrupt or have been tampered with'')
       else Ok kp))"

section \<open>Asking for a password\<close>

text \<open>The terminal: text is printed to it, and a line is read without echo.\<close>

record 's terminal =
  term_Print :: "string \<Rightarrow> 's \<Rightarrow> 's"
  term_ReadPassword :: "'s \<Rightarrow> (bytes, error) sum \<times> 's"

definition newline :: string where "newline = [CHR 0x0A]"

text \<open>One turn of the loop: the prompt and the answer.\<close>

definition ask_once :: "'s terminal \<Rightarrow> string \<Rightarrow> 's \<Rightarrow> (bytes, error) sum \<times> 's" where
  "ask_once T msg s = term_ReadPassword T (term_Print T ''> '' (term_Print T (msg @ newline) s))"

definition complain :: "'s terminal \<Rightarrow> error \<Rightarrow> 's \<Rightarrow> 's" where
  "complain T err = term_Print T (''invalid input: '' @ error_text err @ newline)"

text \<open>\<open>GetPassword\<close> asks until it gets an answer; \<open>None\<close> is a loop that never ends.\<close>

partial_function (option) GetPassword :: "'s terminal \<Rightarrow> string \<Rightarrow> 's \<Rightarrow> (bytes \<times> 's) option" where
  "GetPassword T msg s =
     (case ask_once T msg s of
        (Inl password, s') \<Rightarrow> Some (password, term_Print T newline s')
      | (Inr err, s') \<Rightarrow> GetPassword T msg (complain T err s'))"

text \<open>The terminal after \<open>n\<close> attempts that failed, if they all did.\<close>

fun after_failures :: "'s terminal \<Rightarrow> string \<Rightarrow> nat \<Rightarrow> 's \<Rightarrow> 's option" where
  "after_failures T msg 0 s = Some s"
| "after_failures T msg (Suc n) s =
     (case ask_once T msg s of
        (Inl _, s') \<Rightarrow> None
      | (Inr err, s') \<Rightarrow> after_failures T msg n (complain T err s'))"

lemma GetPassword_after_failures:
  "after_failures T msg n s = Some t \<Longrightarrow> ask_once T msg t = (Inl password, u) \<Longrightarrow>
   GetPassword T msg s = Some (password, term_Print T newline u)"
proof (induction n arbitrary: s)
  case 0
  then show ?case by (simp add: GetPassword.simps)
next
  case (Suc n)
  then show ?case
    by (subst GetPassword.simps) (auto split: prod.splits sum.splits)
qed

lemma GetPassword_returned:
  assumes "GetPassword T msg s = Some r"
  shows "\<exists>n t password u. after_failures T msg n s = Some t \<and> ask_once T msg t = (Inl password, u) \<and>
    r = (password, term_Print T newline u)"
proof (rule GetPassword.raw_induct
    [where P = "\<lambda>T msg s r. \<exists>n t password u. after_failures T msg n s = Some t \<and>
       ask_once T msg t = (Inl password, u) \<and> r = (password, term_Print T newline u)", OF _ assms])
  fix ask and T' :: "'a terminal" and msg' s' r'
  assume IH: "\<And>T msg s r. ask T msg s = Some r \<Longrightarrow>
      \<exists>n t password u. after_failures T msg n s = Some t \<and>
        ask_once T msg t = (Inl password, u) \<and> r = (password, term_Print T newline u)"
    and step: "(case ask_once T' msg' s' of
        (Inl password, u) \<Rightarrow> Some (password, term_Print T' newline u)
      | (Inr err, u) \<Rightarrow> ask T' msg' (complain T' err u)) = Some r'"
  obtain x u where once: "ask_once T' msg' s' = (x, u)" by fastforce
  show "\<exists>n t password u. after_failures T' msg' n s' = Some t \<and>
      ask_once T' msg' t = (Inl password, u) \<and> r' = (password, term_Print T' newline u)"
  proof (cases x)
    case (Inl password)
    with once step show ?thesis by (intro exI [of _ 0]) auto
  next
    case (Inr err)
    with once step have "ask T' msg' (complain T' err u) = Some r'" by simp
    from IH [OF this] obtain n where
      "\<exists>t password v. after_failures T' msg' n (complain T' err u) = Some t \<and>
         ask_once T' msg' t = (Inl password, v) \<and> r' = (password, term_Print T' newline v)" by blast
    with once Inr show ?thesis by (intro exI [of _ "Suc n"]) simp
  qed
qed

text \<open>
  The prompt returns, with the first answer that is read, if and only if some attempt
  succeeds; a terminal that cannot be read, as when standard input is not one, keeps it
  asking for ever.
\<close>

theorem GetPassword_returns_iff:
  "GetPassword T msg s = Some (password, s') \<longleftrightarrow>
   (\<exists>n t u. after_failures T msg n s = Some t \<and> ask_once T msg t = (Inl password, u) \<and>
      s' = term_Print T newline u)"
  using GetPassword_returned [of T msg s "(password, s')"] GetPassword_after_failures [of T msg _ s]
  by auto

corollary unreadable_terminal_asks_forever:
  assumes "\<And>s. \<exists>err s'. term_ReadPassword T s = (Inr err, s')"
  shows "GetPassword T msg s = None"
proof -
  have never: "ask_once T msg t \<noteq> (Inl password, u)" for t password u
    using assms [of "term_Print T ''> '' (term_Print T (msg @ newline) t)"] by (auto simp: ask_once_def)
  show ?thesis
  proof (cases "GetPassword T msg s")
    case (Some r)
    then show ?thesis using GetPassword_returned [OF Some] never by blast
  qed
qed

section \<open>Key files\<close>

record encrypted_keystore =
  ks_Type :: string
  ks_PublicKey :: string
  ks_Address :: string
  ks_Ciphertext :: bytes

text \<open>The file system and JSON, on a world \<open>'s\<close>.\<close>

record 's file_lib =
  path_Abs :: "string \<Rightarrow> string result"
  path_Clean :: "string \<Rightarrow> string"
  ReadFile :: "string \<Rightarrow> 's \<Rightarrow> bytes result \<times> 's"
  CreateExclusive :: "string \<Rightarrow> 's \<Rightarrow> unit result \<times> 's"  \<comment> \<open>\<open>OpenFile\<close> with \<open>O_EXCL|O_CREATE\<close>\<close>
  WriteFile :: "string \<Rightarrow> bytes \<Rightarrow> 's \<Rightarrow> unit result \<times> 's"
  NotExist :: "string \<Rightarrow> 's \<Rightarrow> bool"                       \<comment> \<open>\<open>os.IsNotExist\<close> of \<open>os.Stat\<close>\<close>
  Mkdir :: "string \<Rightarrow> 's \<Rightarrow> unit result \<times> 's"
  json_Marshal :: "encrypted_keystore \<Rightarrow> bytes result"
  json_Unmarshal :: "bytes \<Rightarrow> encrypted_keystore result"
  Getenv :: "string \<Rightarrow> string"
  ask_password :: "string \<Rightarrow> 's \<Rightarrow> bytes \<times> 's"            \<comment> \<open>\<open>GetPassword\<close>, which asks until it gets one\<close>

definition keystore_of :: "'k crypto_lib \<Rightarrow> 'k keypair \<Rightarrow> bytes \<Rightarrow> encrypted_keystore" where
  "keystore_of C kp ciphertext =
     \<lparr> ks_Type = keypair_type kp, ks_PublicKey = keypair_PublicKey C kp,
       ks_Address = keypair_Address C kp, ks_Ciphertext = ciphertext \<rparr>"

definition EncryptAndWriteToFile ::
  "'k crypto_lib \<Rightarrow> 's file_lib \<Rightarrow> bytes result \<Rightarrow> string \<Rightarrow> 'k keypair \<Rightarrow> bytes \<Rightarrow> 's
   \<Rightarrow> unit result \<times> 's" where
  "EncryptAndWriteToFile C F random file kp password =
     s_bind (s_lift (EncryptKeypair C random kp password)) (\<lambda>ciphertext.
     s_bind (s_lift (json_Marshal F (keystore_of C kp ciphertext))) (\<lambda>data.
       WriteFile F file (data @ [10])))"

definition ReadFromFileAndDecrypt ::
  "'k crypto_lib \<Rightarrow> 's file_lib \<Rightarrow> string \<Rightarrow> bytes \<Rightarrow> string \<Rightarrow> 's \<Rightarrow> 'k keypair result \<times> 's" where
  "ReadFromFileAndDecrypt C F filename password keytype =
     s_bind (s_lift (path_Abs F filename)) (\<lambda>fp.
     s_bind (ReadFile F (path_Clean F fp)) (\<lambda>data.
     s_bind (s_lift (json_Unmarshal F data)) (\<lambda>keydata.
       s_lift
         (if keytype \<noteq> ks_Type keydata
          then Err (Error (''Keystore type and Chain type mismatched. Expected Keystore file of type ''
                           @ keytype @ '', got type '' @ ks_Type keydata))
          else DecryptKeypair C (ks_PublicKey keydata) (ks_Ciphertext keydata) password
                 (ks_Type keydata)))))"

section \<open>Test keys\<close>

definition Keys :: "string list" where
  "Keys = [''alice'', ''bob'', ''charlie'', ''dave'', ''eve'']"

definition EthChain :: string where "EthChain = ''ethereum''"
definition SubChain :: string where "SubChain = ''substrate''"

text \<open>\<open>make\<close> with a negative length panics.\<close>

definition padWithZeros :: "bytes \<Rightarrow> int \<Rightarrow> bytes result" where
  "padWithZeros key targetLength =
     (if targetLength < int (length key) then Panic Raised
      else Ok (replicate (nat (targetLength - int (length key))) 0 @ key))"

definition PrivateKeyLength :: int where "PrivateKeyLength = 32"

text \<open>An invalid test key panics when the package is initialised.\<close>

fun makeEthRing_keys :: "'k crypto_lib \<Rightarrow> string list \<Rightarrow> (string \<rightharpoonup> 'k keypair) \<Rightarrow> (string \<rightharpoonup> 'k keypair) result"
where
  "makeEthRing_keys C [] ring = Ok ring"
| "makeEthRing_keys C (key # ks) ring =
     r_bind (padWithZeros (string_bytes key) PrivateKeyLength) (\<lambda>bz.
       case secp256k1_NewKeypairFromPrivateKey C bz of
         Ok kp \<Rightarrow> makeEthRing_keys C ks (ring(key \<mapsto> kp))
       | _ \<Rightarrow> Panic Raised)"

definition makeEthRing :: "'k crypto_lib \<Rightarrow> (string \<rightharpoonup> 'k keypair) result" where
  "makeEthRing C = makeEthRing_keys C Keys Map.empty"

definition AliceSr25519 :: "'k keypair" where
  "AliceSr25519 = NewKeypairFromKRP
     \<lparr> URI = ''//Alice'', krp_Address = ''5GrwvaEF5zXb26Fz9rcQpDWS57CtERHpNehXCPcNoHGKutQY'',
       krp_PublicKey =
         [0xd4, 0x35, 0x93, 0xc7, 0x15, 0xfd, 0xd3, 0x1c, 0x61, 0x14, 0x1a, 0xbd, 0x4, 0xa9, 0x9f, 0xd6,
          0x82, 0x2c, 0x85, 0x58, 0x85, 0x4c, 0xcd, 0xe3, 0x9a, 0x56, 0x84, 0xe7, 0xa5, 0x6d, 0xa2, 0x7d] \<rparr>"

definition BobSr25519 :: "'k keypair" where
  "BobSr25519 = NewKeypairFromKRP
     \<lparr> URI = ''//Bob'', krp_Address = ''5FHneW46xGXgs5mUiveU4sbTyGBzmstUspZC92UhjJM694ty'',
       krp_PublicKey =
         [0x8e, 0xaf, 0x4, 0x15, 0x16, 0x87, 0x73, 0x63, 0x26, 0xc9, 0xfe, 0xa1, 0x7e, 0x25, 0xfc, 0x52,
          0x87, 0x61, 0x36, 0x93, 0xc9, 0x12, 0x90, 0x9c, 0xb2, 0x26, 0xaa, 0x47, 0x94, 0xf2, 0x6a, 0x48] \<rparr>"

definition CharlieSr25519 :: "'k keypair" where
  "CharlieSr25519 = NewKeypairFromKRP
     \<lparr> URI = ''//Charlie'', krp_Address = ''5FLSigC9HGRKVhB9FiEo4Y3koPsNmBmLJbpXg2mp1hXcS59Y'',
       krp_PublicKey =
         [0x90, 0xb5, 0xab, 0x20, 0x5c, 0x69, 0x74, 0xc9, 0xea, 0x84, 0x1b, 0xe6, 0x88, 0x86, 0x46, 0x33,
          0xdc, 0x9c, 0xa8, 0xa3, 0x57, 0x84, 0x3e, 0xea, 0xcf, 0x23, 0x14, 0x64, 0x99, 0x65, 0xfe, 0x22] \<rparr>"

definition DaveSr25519 :: "'k keypair" where
  "DaveSr25519 = NewKeypairFromKRP
     \<lparr> URI = ''//Dave'', krp_Address = ''5DAAnrj7VHTznn2AWBemMuyBwZWs6FNFjdyVXUeYum3PTXFy'',
       krp_PublicKey =
         [0x30, 0x67, 0x21, 0x21, 0x1d, 0x54, 0x4, 0xbd, 0x9d, 0xa8, 0x8e, 0x2, 0x4, 0x36, 0xa, 0x1a,
          0x9a, 0xb8, 0xb8, 0x7c, 0x66, 0xc1, 0xbc, 0x2f, 0xcd, 0xd3, 0x7f, 0x3c, 0x22, 0x22, 0xcc, 0x20] \<rparr>"

definition EveSr25519 :: "'k keypair" where
  "EveSr25519 = NewKeypairFromKRP
     \<lparr> URI = ''//Eve'', krp_Address = ''5HGjWAeFDfFCWPsjFQdVV2Msvz2XtMktvgocEZcCj68kUMaw'',
       krp_PublicKey =
         [0xe6, 0x59, 0xa7, 0xa1, 0x62, 0x8c, 0xdd, 0x93, 0xfe, 0xbc, 0x4, 0xa4, 0xe0, 0x64, 0x6e, 0xa2,
          0xe, 0x9f, 0x5f, 0xc, 0xe0, 0x97, 0xd9, 0xa0, 0x52, 0x90, 0xd4, 0xa9, 0xe0, 0x54, 0xdf, 0x4e] \<rparr>"

record 'k test_key_ring =
  EthereumKeys :: "string \<rightharpoonup> 'k keypair"
  SubstrateKeys :: "string \<rightharpoonup> 'k keypair"

definition TestKeyRing :: "'k crypto_lib \<Rightarrow> 'k test_key_ring result" where
  "TestKeyRing C =
     r_bind (makeEthRing C) (\<lambda>ring. Ok
       \<lparr> EthereumKeys = ring,
         SubstrateKeys = [''alice'' \<mapsto> AliceSr25519, ''bob'' \<mapsto> BobSr25519, ''charlie'' \<mapsto> CharlieSr25519,
                          ''dave'' \<mapsto> DaveSr25519, ''eve'' \<mapsto> EveSr25519] \<rparr>)"

definition insecureKeypairFromAddress ::
  "'k test_key_ring \<Rightarrow> string \<Rightarrow> string \<Rightarrow> 'k keypair result" where
  "insecureKeypairFromAddress ring key chainType =
     (if chainType = EthChain \<or> chainType = SubChain then
        (case (if chainType = EthChain then EthereumKeys ring else SubstrateKeys ring) key of
           None \<Rightarrow> Err (Error (''invalid test key selection: '' @ key))
         | Some kp \<Rightarrow> Ok kp)
      else Err (Error (''unrecognized chain type: '' @ chainType)))"

text \<open>A chain type without an entry maps to the empty key type.\<close>

definition keyMapping :: "string \<Rightarrow> string" where
  "keyMapping chainType =
     (if chainType = ''ethereum'' then ''secp256k1''
      else if chainType = ''substrate'' then ''sr25519'' else '''')"

definition KeypairFromAddress ::
  "'k crypto_lib \<Rightarrow> 's file_lib \<Rightarrow> 'k test_key_ring \<Rightarrow> string \<Rightarrow> string \<Rightarrow> string \<Rightarrow> bool \<Rightarrow> 's
   \<Rightarrow> 'k keypair result \<times> 's" where
  "KeypairFromAddress C F ring addr chainType path insecure st =
     (if insecure then (insecureKeypairFromAddress ring path chainType, st)
      else
        let file = path @ ''/'' @ addr @ ''.key'' in
        if NotExist F file st then (Err (Error (''key file not found: '' @ file)), st)
        else
          let (pswd, st1) =
                (if Getenv F ''KEYSTORE_PASSWORD'' \<noteq> []
                 then (string_bytes (Getenv F ''KEYSTORE_PASSWORD''), st)
                 else ask_password F (''Enter password for key '' @ file @ '':'') st)
          in ReadFromFileAndDecrypt C F file pswd (keyMapping chainType) st1)"

section \<open>Importing a private key\<close>

definition DefaultKeystorePath :: string where "DefaultKeystorePath = ''./keys''"

definition ensure_dir :: "'s file_lib \<Rightarrow> string \<Rightarrow> 's \<Rightarrow> unit result \<times> 's" where
  "ensure_dir F p s = (if NotExist F p s then Mkdir F p s else (Ok (), s))"

definition keystoreDir :: "'s file_lib \<Rightarrow> string \<Rightarrow> 's \<Rightarrow> string result \<times> 's" where
  "keystoreDir F keyPath =
     (if keyPath \<noteq> [] then
        s_bind (s_lift (path_Abs F keyPath)) (\<lambda>keystorepath.
        s_bind (ensure_dir F keyPath) (\<lambda>_. s_bind (ensure_dir F keystorepath) (\<lambda>_. s_return keystorepath)))
      else
        s_bind (s_lift (case path_Abs F DefaultKeystorePath of
                          Err e \<Rightarrow> Err (Wrap ''could not create keystore file path: '' e '''')
                        | r \<Rightarrow> r)) (\<lambda>keystorepath.
        s_bind (ensure_dir F DefaultKeystorePath) (\<lambda>_.
        s_bind (ensure_dir F keystorepath) (\<lambda>_. s_return keystorepath))))"

definition wrap_err :: "string \<Rightarrow> 'a result \<Rightarrow> 'a result" where
  "wrap_err msg r = (case r of Err e \<Rightarrow> Err (Wrap msg e '''') | _ \<Rightarrow> r)"

text \<open>A key of fewer than two characters makes \<open>key[0:2]\<close> panic.\<close>

definition strip_0x :: "string \<Rightarrow> string result" where
  "strip_0x key =
     (if length key < 2 then Panic SliceBounds
      else Ok (if take 2 key = ''0x'' then drop 2 key else key))"

text \<open>
  The error of \<open>keystoreDir\<close> is overwritten before it is looked at; the path is then
  empty. \<open>random\<close> is the random nonce of the encryption.
\<close>

definition ImportPrivKey ::
  "'k crypto_lib \<Rightarrow> 's file_lib \<Rightarrow> bytes result \<Rightarrow> string \<Rightarrow> string \<Rightarrow> bytes option \<Rightarrow> 's
   \<Rightarrow> string result \<times> 's" where
  "ImportPrivKey C F random datadir key password0 s0 =
     (let (password, s1) =
            (case password0 of
               Some p \<Rightarrow> (p, s0)
             | None \<Rightarrow> ask_password F ''Enter password to encrypt keystore file:'' s0)
      in (case keystoreDir F datadir s1 of
            (Panic p, s2) \<Rightarrow> (Panic p, s2)
          | (dir, s2) \<Rightarrow>
             (let keystorepath = (case dir of Ok d \<Rightarrow> d | _ \<Rightarrow> '''') in
              s_bind (s_lift (strip_0x key)) (\<lambda>key'.
              s_bind (s_lift (wrap_err ''could not generate secp256k1 keypair from given string: ''
                                (secp256k1_NewKeypairFromString C key'))) (\<lambda>kp.
              s_bind (s_lift (wrap_err ''invalid filepath: ''
                                (path_Abs F (keystorepath @ ''/'' @ keypair_Address C kp @ ''.key''))))
                (\<lambda>fp.
              s_bind (\<lambda>s. case CreateExclusive F (path_Clean F fp) s of
                            (r, s') \<Rightarrow> (wrap_err ''Unable to Open File: '' r, s')) (\<lambda>_.
              s_bind (\<lambda>s. case EncryptAndWriteToFile C F random (path_Clean F fp) kp password s of
                            (r, s') \<Rightarrow> (wrap_err ''could not write key to file: '' r, s')) (\<lambda>_.
                s_return fp))))) s2)))"

section \<open>Laws of the libraries\<close>

text \<open>Authenticated encryption: opening what was sealed under the same key and nonce.\<close>

definition gcm_documented :: "'k crypto_lib \<Rightarrow> bool" where
  "gcm_documented C \<longleftrightarrow> (\<forall>k n m. gcm_Open C k n (gcm_Seal C k n m) = Ok m)"

text \<open>Key serialisation round trips.\<close>

definition key_codec_documented :: "'k crypto_lib \<Rightarrow> bool" where
  "key_codec_documented C \<longleftrightarrow>
     (\<forall>k. ToECDSA C (FromECDSA C k) = Ok k) \<and> (\<forall>p. DecodeKeyring C (EncodeKeyring C p) = Ok p)"

text \<open>JSON round trips, also with a trailing newline.\<close>

definition json_documented :: "'s file_lib \<Rightarrow> bool" where
  "json_documented F \<longleftrightarrow>
     (\<forall>ks d. json_Marshal F ks = Ok d \<longrightarrow> json_Unmarshal F (d @ [10]) = Ok ks)"

text \<open>An empty file, as one just created, reads back what was written to it.\<close>

definition file_documented :: "'s file_lib \<Rightarrow> bool" where
  "file_documented F \<longleftrightarrow>
     (\<forall>f d s s'. fst (ReadFile F f s) = Ok [] \<longrightarrow> WriteFile F f d s = (Ok (), s') \<longrightarrow>
        ReadFile F f s' = (Ok d, s'))"

section \<open>Properties\<close>

lemma Decrypt_Encrypt:
  assumes "gcm_documented C" and "length nonce = NonceSize C"
  shows "\<exists>c. Encrypt C (Ok nonce) msg password = Ok c \<and> Decrypt C c password = Ok msg"
  using assms by (simp add: Decrypt_def Encrypt_def gcm_documented_def)

lemma DecodeKeypair_Encode:
  assumes "key_codec_documented C"
  shows "DecodeKeypair C (keypair_Encode C kp) (keypair_type kp) = Ok kp"
  using assms
  by (cases kp) (simp_all add: DecodeKeypair_def keypair_Encode_def secp256k1_Encode_def
      sr25519_Encode_def keypair_type_def Secp256k1Type_def
      Sr25519Type_def secp256k1_Decode_def sr25519_Decode_def key_codec_documented_def)

text \<open>
  C37: a key written to a new, empty key file and read back with the same password, as a key of its
  own type, is the same key, for both curves.
\<close>

theorem keystore_roundtrip:
  assumes "gcm_documented C" and "key_codec_documented C" and "json_documented F" and "file_documented F"
    and "length nonce = NonceSize C" and "path_Abs F f = Ok f" and "path_Clean F f = f"
    and "fst (ReadFile F f s) = Ok []" and "EncryptAndWriteToFile C F (Ok nonce) f kp password s = (Ok u, s1)"
  shows "ReadFromFileAndDecrypt C F f password (keypair_type kp) s1 = (Ok kp, s1)"
proof -
  from Decrypt_Encrypt [OF assms(1,5)] obtain c where
    c: "EncryptKeypair C (Ok nonce) kp password = Ok c" "Decrypt C c password = Ok (keypair_Encode C kp)"
    by (auto simp: EncryptKeypair_def)
  with assms(9) obtain data where
    data: "json_Marshal F (keystore_of C kp c) = Ok data" "WriteFile F f (data @ [10]) s = (Ok (), s1)"
    by (auto simp: EncryptAndWriteToFile_def result_laws)
  from data(2) assms(4,8) have "ReadFile F f s1 = (Ok (data @ [10]), s1)"
    by (simp add: file_documented_def)
  moreover from data(1) assms(3) have "json_Unmarshal F (data @ [10]) = Ok (keystore_of C kp c)"
    by (simp add: json_documented_def)
  ultimately show ?thesis
    using assms(6,7) c(2)
    by (simp add: ReadFromFileAndDecrypt_def keystore_of_def DecryptKeypair_def
        DecodeKeypair_Encode [OF assms(2)])
qed

text \<open>Every key of a successful decryption has the public key and the type of its file.\<close>

lemma DecryptKeypair_checked:
  assumes "DecryptKeypair C pub data password keytype = Ok kp"
  shows "keypair_PublicKey C kp = pub \<and> keypair_type kp = keytype"
  using assms
  by (auto simp: DecryptKeypair_def DecodeKeypair_def secp256k1_Decode_def sr25519_Decode_def
      keypair_type_def result_laws split: if_splits)

section \<open>Witness\<close>

text \<open>A self-delimiting code for byte strings, to give the libraries a concrete instance.\<close>

fun field_bytes :: "bytes \<Rightarrow> bytes" where
  "field_bytes [] = [0]"
| "field_bytes (b # bs) = 1 # b # field_bytes bs"

fun field_parse :: "bytes \<Rightarrow> bytes \<times> bytes" where
  "field_parse [] = ([], [])"
| "field_parse [t] = ([], [])"
| "field_parse (t # b # r) =
     (if t = 0 then ([], b # r) else (case field_parse r of (bs, rest) \<Rightarrow> (b # bs, rest)))"

lemma field_parse_bytes [simp]: "r \<noteq> [] \<Longrightarrow> field_parse (field_bytes bs @ r) = (bs, r)"
  by (induction bs) (auto simp: neq_Nil_conv)

definition bytes_string :: "bytes \<Rightarrow> string" where
  "bytes_string bs = map (\<lambda>b. char_of (unat b)) bs"

lemma bytes_string_of [simp]: "bytes_string (string_bytes s) = s"
  by (simp add: bytes_string_def string_bytes_def comp_def unat_of_nat)

definition example_keyring_bytes :: "keyring_pair \<Rightarrow> bytes" where
  "example_keyring_bytes p =
     field_bytes (string_bytes (URI p)) @ field_bytes (string_bytes (krp_Address p))
     @ field_bytes (krp_PublicKey p) @ [10]"

definition example_keyring_parse :: "bytes \<Rightarrow> keyring_pair result" where
  "example_keyring_parse bs =
     (case field_parse bs of (u, r1) \<Rightarrow> case field_parse r1 of (a, r2) \<Rightarrow> case field_parse r2 of (k, _) \<Rightarrow>
        Ok \<lparr> URI = bytes_string u, krp_Address = bytes_string a, krp_PublicKey = k \<rparr>)"

lemma example_keyring_roundtrip: "example_keyring_parse (example_keyring_bytes p) = Ok p"
  by (simp add: example_keyring_parse_def example_keyring_bytes_def)

definition example_json :: "encrypted_keystore \<Rightarrow> bytes" where
  "example_json ks =
     field_bytes (string_bytes (ks_Type ks)) @ field_bytes (string_bytes (ks_PublicKey ks))
     @ field_bytes (string_bytes (ks_Address ks)) @ field_bytes (ks_Ciphertext ks)"

definition example_json_parse :: "bytes \<Rightarrow> encrypted_keystore" where
  "example_json_parse bs =
     (case field_parse bs of (t, r1) \<Rightarrow> case field_parse r1 of (p, r2) \<Rightarrow>
      case field_parse r2 of (a, r3) \<Rightarrow> case field_parse r3 of (c, _) \<Rightarrow>
        \<lparr> ks_Type = bytes_string t, ks_PublicKey = bytes_string p, ks_Address = bytes_string a,
          ks_Ciphertext = c \<rparr>)"

definition example_crypto :: "nat crypto_lib" where
  "example_crypto =
     \<lparr> ToECDSA = (\<lambda>bs. Ok (length bs)), HexToECDSA = (\<lambda>s. Ok (length s)),
       FromECDSA = (\<lambda>k. replicate k 1), PubkeyAddress = (\<lambda>k. show_nat k),
       CompressedPubkey = (\<lambda>k. replicate k 2), EncodeKeyring = example_keyring_bytes,
       DecodeKeyring = example_keyring_parse, hex_Encode = (\<lambda>bs. show_nat (length bs)),
       Blake2b = (\<lambda>bs. bs), NonceSize = 3, gcm_Seal = (\<lambda>k n m. k @ m),
       gcm_Open = (\<lambda>k n c. Ok (drop (length k) c)) \<rparr>"

definition example_files :: "(string \<rightharpoonup> bytes) file_lib" where
  "example_files =
     \<lparr> path_Abs = (\<lambda>p. Ok p), path_Clean = (\<lambda>p. p),
       ReadFile = (\<lambda>f s. (case s f of None \<Rightarrow> Err (Error ''no such file'') | Some d \<Rightarrow> Ok d, s)),
       CreateExclusive = (\<lambda>f s. (if s f = None then Ok () else Err (Error ''file exists''), s(f \<mapsto> []))),
       WriteFile = (\<lambda>f d s. (Ok (), s(f \<mapsto> d))), NotExist = (\<lambda>f s. s f = None),
       Mkdir = (\<lambda>f s. (Ok (), s)), json_Marshal = (\<lambda>ks. Ok (example_json ks)),
       json_Unmarshal = (\<lambda>d. Ok (example_json_parse d)), Getenv = (\<lambda>_. ''secret''),
       ask_password = (\<lambda>_ s. ([], s)) \<rparr>"

lemma example_laws:
  "gcm_documented example_crypto" "key_codec_documented example_crypto"
  "json_documented example_files" "file_documented example_files"
  by (simp_all add: gcm_documented_def key_codec_documented_def json_documented_def
      file_documented_def example_crypto_def example_files_def example_keyring_roundtrip
      example_json_def example_json_parse_def)

theorem keystore_roundtrip_witness:
  "\<exists>s1. EncryptAndWriteToFile example_crypto example_files (Ok [1, 2, 3]) ''/k/a.key'' (Secp256k1_pair (32 :: nat))
           [7, 7] [''/k/a.key'' \<mapsto> []] = (Ok (), s1) \<and>
     ReadFromFileAndDecrypt example_crypto example_files ''/k/a.key'' [7, 7]
       (keypair_type (Secp256k1_pair (32 :: nat))) s1 = (Ok (Secp256k1_pair 32), s1)"
proof -
  obtain s1 where s1: "EncryptAndWriteToFile example_crypto example_files (Ok [1, 2, 3]) ''/k/a.key''
      (Secp256k1_pair 32) [7, 7] [''/k/a.key'' \<mapsto> []] = (Ok (), s1)"
    by (simp add: EncryptAndWriteToFile_def EncryptKeypair_def Encrypt_def example_files_def)
  have "length [1 :: byte, 2, 3] = NonceSize example_crypto" by (simp add: example_crypto_def)
  moreover have "path_Abs example_files f = Ok f" "path_Clean example_files f = f" for f
    by (simp_all add: example_files_def)
  moreover have "fst (ReadFile example_files ''/k/a.key'' [''/k/a.key'' \<mapsto> []]) = Ok []"
    by (simp add: example_files_def)
  ultimately show ?thesis using keystore_roundtrip [OF example_laws _ _ _ _ s1] s1 by blast
qed

end
