(* ===== verification/Client_Setup.thy ===== *)
theory Client_Setup
  imports Keystore Config Evm_Client
begin

text \<open>
  Creating the node client of an EVM chain, \<open>NewEVMClient\<close> and \<open>NewEVMClientFromParams\<close>
  of \<open>chains/evm/calls/evmclient/evm-client.go\<close>: the key is loaded before the node is
  dialled. \<open>Dial\<close> stands for \<open>rpc.DialContext\<close>. A new client is its key and the node it
  talks to; its nonce and the lock of it, nil and free at first, are the \<open>client_state\<close> of
  \<open>Evm_Client\<close>.
\<close>

record ('k, 'rpc) evm_client =
  client_key :: 'k
  client_rpc :: 'rpc

definition new_client_state :: "address \<Rightarrow> client_state" where
  "new_client_state from = \<lparr> ClientFrom = from, ClientNonce = None, NonceLocked = False \<rparr>"

definition NewEVMClientFromParams ::
  "(string \<Rightarrow> 's \<Rightarrow> 'rpc result \<times> 's) \<Rightarrow> string \<Rightarrow> 'k \<Rightarrow> 's \<Rightarrow> ('k, 'rpc) evm_client result \<times> 's" where
  "NewEVMClientFromParams Dial url privateKey =
     s_bind (Dial url) (\<lambda>rpcClient. s_return \<lparr> client_key = privateKey, client_rpc = rpcClient \<rparr>)"

text \<open>\<open>kp.(*secp256k1.Keypair)\<close>: another kind of key pair panics.\<close>

definition assert_secp256k1 :: "'k keypair \<Rightarrow> 'k result" where
  "assert_secp256k1 kp =
     (case kp of Secp256k1_pair k \<Rightarrow> Ok k | Sr25519_pair _ \<Rightarrow> Panic BadTypeAssertion)"

definition NewEVMClient ::
  "'k crypto_lib \<Rightarrow> 's file_lib \<Rightarrow> 'k test_key_ring \<Rightarrow> (string \<Rightarrow> 's \<Rightarrow> 'rpc result \<times> 's) \<Rightarrow> evm_config
   \<Rightarrow> 's \<Rightarrow> ('k, 'rpc) evm_client result \<times> 's" where
  "NewEVMClient C F ring Dial config =
     (let g = GeneralChainConfig config in
      s_bind (KeypairFromAddress C F ring (cfg_From g) EthChain (cfg_KeystorePath g) (cfg_Insecure g))
        (\<lambda>kp. s_bind (s_lift (assert_secp256k1 kp)) (\<lambda>k.
          s_bind (Dial (cfg_Endpoint g)) (\<lambda>rpcClient.
            s_return \<lparr> client_key = k, client_rpc = rpcClient \<rparr>))))"

section \<open>The kind of key that is loaded\<close>

lemma new_ethereum_key:
  "secp256k1_NewKeypairFromPrivateKey C bz = Ok kp \<Longrightarrow> \<exists>k. kp = Secp256k1_pair k"
  by (auto simp: secp256k1_NewKeypairFromPrivateKey_def result_laws)

lemma makeEthRing_keys_type:
  assumes "makeEthRing_keys C ks ring = Ok ring'" and "\<forall>kp \<in> ran ring. \<exists>k. kp = Secp256k1_pair k"
  shows "\<forall>kp \<in> ran ring'. \<exists>k. kp = Secp256k1_pair k"
  using assms
proof (induction ks arbitrary: ring)
  case (Cons x ks)
  from Cons.prems(1) obtain bz where
    bz: "padWithZeros (string_bytes x) PrivateKeyLength = Ok bz"
    by (auto simp: result_laws)
  with Cons.prems(1) obtain kp where
    kp: "secp256k1_NewKeypairFromPrivateKey C bz = Ok kp" "makeEthRing_keys C ks (ring(x \<mapsto> kp)) = Ok ring'"
    by (cases "secp256k1_NewKeypairFromPrivateKey C bz") auto
  have "\<forall>q \<in> ran (ring(x \<mapsto> kp)). \<exists>k. q = Secp256k1_pair k"
    using Cons.prems(2) new_ethereum_key [OF kp(1)] by (auto simp: ran_def split: if_splits)
  with Cons.IH [OF kp(2)] show ?case by blast
qed simp

lemma test_key_type:
  assumes "TestKeyRing C = Ok ring" and "insecureKeypairFromAddress ring key EthChain = Ok kp"
  shows "\<exists>k. kp = Secp256k1_pair k"
proof -
  from assms(2) have "kp \<in> ran (EthereumKeys ring)"
    by (auto simp: insecureKeypairFromAddress_def intro: ranI split: option.splits)
  moreover from assms(1) have "makeEthRing_keys C Keys Map.empty = Ok (EthereumKeys ring)"
    by (auto simp: TestKeyRing_def makeEthRing_def result_laws)
  ultimately show ?thesis using makeEthRing_keys_type by fastforce
qed

lemma file_key_type:
  assumes "ReadFromFileAndDecrypt C F f password keytype s = (Ok kp, s1)"
  shows "keypair_type kp = keytype"
  using assms
  by (auto simp: ReadFromFileAndDecrypt_def result_laws dest: DecryptKeypair_checked split: if_splits)

lemma loaded_key_type:
  assumes "TestKeyRing C = Ok ring"
    and "KeypairFromAddress C F ring addr EthChain path insecure s = (Ok kp, s1)"
  shows "\<exists>k. kp = Secp256k1_pair k"
proof (cases insecure)
  case True
  with assms(2) have "insecureKeypairFromAddress ring path EthChain = Ok kp"
    by (simp add: KeypairFromAddress_def)
  with assms(1) show ?thesis by (rule test_key_type)
next
  case False
  with assms(2) have "keypair_type kp = keyMapping EthChain"
    by (auto simp: KeypairFromAddress_def Let_def split: if_splits prod.splits dest: file_key_type)
  then show ?thesis
    by (cases kp) (simp_all add: keypair_type_def keyMapping_def EthChain_def Sr25519Type_def)
qed

section \<open>Properties\<close>

text \<open>
  The key of an EVM client is always an Ethereum key: once a key is loaded, from the
  test ring or from a key file, the type assertion of \<open>NewEVMClient\<close> holds, and creating
  the client ends as dialling the node does.
\<close>

theorem client_key_is_ethereum:
  assumes "TestKeyRing C = Ok ring"
    and "KeypairFromAddress C F ring (cfg_From (GeneralChainConfig config)) EthChain
           (cfg_KeystorePath (GeneralChainConfig config)) (cfg_Insecure (GeneralChainConfig config)) s
         = (Ok kp, s1)"
  shows "\<exists>k. kp = Secp256k1_pair k \<and>
    NewEVMClient C F ring Dial config s
    = NewEVMClientFromParams Dial (cfg_Endpoint (GeneralChainConfig config)) k s1"
  using loaded_key_type [OF assms] assms(2)
  by (auto simp: NewEVMClient_def NewEVMClientFromParams_def assert_secp256k1_def s_bind_def Let_def)

definition insecure_config :: evm_config where
  "insecure_config = (evm_config_of example_flags example_raw_config)
     \<lparr>GeneralChainConfig := (GeneralChainConfig (evm_config_of example_flags example_raw_config))
        \<lparr>cfg_Insecure := True, cfg_KeystorePath := ''alice''\<rparr>\<rparr>"

lemma example_ring: "\<exists>ring. TestKeyRing example_crypto = Ok ring \<and> EthereumKeys ring ''alice'' = Some (Secp256k1_pair 32)"
  by (simp add: TestKeyRing_def makeEthRing_def Keys_def padWithZeros_def PrivateKeyLength_def
      string_bytes_def secp256k1_NewKeypairFromPrivateKey_def example_crypto_def)

theorem client_key_is_ethereum_witness:
  "\<exists>ring k. TestKeyRing example_crypto = Ok ring \<and>
     NewEVMClient example_crypto example_files ring (\<lambda>url s. (Ok url, s)) insecure_config Map.empty
     = NewEVMClientFromParams (\<lambda>url s. (Ok url, s)) (cfg_Endpoint (GeneralChainConfig insecure_config))
         (k :: nat) Map.empty"
proof -
  from example_ring obtain ring where ring: "TestKeyRing example_crypto = Ok ring"
    "EthereumKeys ring ''alice'' = Some (Secp256k1_pair 32)" by blast
  then have "KeypairFromAddress example_crypto example_files ring
      (cfg_From (GeneralChainConfig insecure_config)) EthChain
      (cfg_KeystorePath (GeneralChainConfig insecure_config))
      (cfg_Insecure (GeneralChainConfig insecure_config)) Map.empty = (Ok (Secp256k1_pair 32), Map.empty)"
    by (simp add: KeypairFromAddress_def insecureKeypairFromAddress_def insecure_config_def EthChain_def)
  from client_key_is_ethereum [OF ring(1) this] ring(1) show ?thesis by blast
qed

end
