(* ===== verification/Listener_Spec.thy ===== *)
theory Listener_Spec
  imports Evm_Listener Substrate_Listener
begin

text \<open>
  What the listeners promise, as one abstract specification: a scanner that walks over the
  blocks of a chain in order and sends the messages of each block it passes. Both polling
  loops, \<open>ListenToEvents\<close> of \<open>chains/evm/listener\<close> and of \<open>chains/substrate/listener\<close>,
  refine it, whatever errors the node answers in between; and both reach every block when
  the node answers often enough.
\<close>

section \<open>The abstract scanner\<close>

text \<open>\<open>D b\<close> are the messages of block \<open>b\<close>; a state is the next block and what was sent.\<close>

inductive scan_step :: "(int \<Rightarrow> message list) \<Rightarrow> int \<times> message list \<Rightarrow> int \<times> message list \<Rightarrow> bool"
  for D where
    idle: "scan_step D (s, out) (s, out)"
  | scan: "s \<le> e \<Longrightarrow> scan_step D (s, out) (e + 1, out @ concat (map D [s..e]))"

inductive_cases scan_stepE: "scan_step D (s, out) b"

lemma scan_range:
  assumes "s \<le> t" and "t \<le> u"
  shows "concat (map D [s..t - 1]) @ concat (map D [t..u - 1]) = concat (map D [s..u - 1])"
proof -
  have "[s..u - 1] = [s..t - 1] @ [t..u - 1]"
  proof (cases "t = u")
    case False
    with assms show ?thesis by (intro upto_split1) auto
  qed simp
  then show ?thesis by simp
qed

text \<open>What every run of the scanner has sent: each block passed, once and in order.\<close>

lemma scan_run:
  assumes "(scan_step D)\<^sup>*\<^sup>* (s, out) (t, out')"
  shows "s \<le> t \<and> out' = out @ concat (map D [s..t - 1])"
  using assms
proof (induction "(t, out')" arbitrary: t out' rule: rtranclp_induct)
  case (step b)
  obtain u mid where b: "b = (u, mid)" by fastforce
  from step.hyps(3) [OF b] have ih: "s \<le> u" "mid = out @ concat (map D [s..u - 1])" by auto
  from step.hyps(2) b show ?case
  proof (cases rule: scan_step.cases)
    case (scan r e prev)
    with ih b show ?thesis using scan_range [of s u "e + 1" D] by auto
  qed (use ih b in auto)
qed simp

section \<open>Loops that scan\<close>

text \<open>
  A polling loop runs \<open>iterate\<close> until it panics: the state it leaves after at most \<open>n\<close>
  rounds, whether all of them ran, and in how many of them the node answered.
\<close>

fun run_state :: "('s \<Rightarrow> 'r result \<times> 's) \<Rightarrow> nat \<Rightarrow> 's \<Rightarrow> 's" where
  "run_state iterate 0 st = st"
| "run_state iterate (Suc n) st =
     (case iterate st of (Ok r, st') \<Rightarrow> run_state iterate n st' | (_, st') \<Rightarrow> st')"

fun no_panic :: "('s \<Rightarrow> 'r result \<times> 's) \<Rightarrow> nat \<Rightarrow> 's \<Rightarrow> bool" where
  "no_panic iterate 0 st = True"
| "no_panic iterate (Suc n) st =
     (case iterate st of (Ok r, st') \<Rightarrow> no_panic iterate n st' | _ \<Rightarrow> False)"

fun answered :: "('s \<Rightarrow> bool) \<Rightarrow> ('s \<Rightarrow> 'r result \<times> 's) \<Rightarrow> nat \<Rightarrow> 's \<Rightarrow> nat" where
  "answered good iterate 0 st = 0"
| "answered good iterate (Suc n) st =
     (case iterate st of
        (Ok r, st') \<Rightarrow> (if good st then 1 else 0) + answered good iterate n st'
      | _ \<Rightarrow> 0)"

text \<open>The contract of such a loop: every round is a step of the scanner.\<close>

locale scanning_loop =
  fixes iterate :: "'s \<Rightarrow> 'r result \<times> 's"
    and position :: "'s \<Rightarrow> int option"
    and outbox :: "'s \<Rightarrow> message list"
    and D :: "int \<Rightarrow> message list"
  assumes simulates: "iterate st = (Ok r, st') \<Longrightarrow> position st = Some s \<Longrightarrow>
      \<exists>s'. position st' = Some s' \<and> scan_step D (s, outbox st) (s', outbox st')"
begin

lemma run_refines:
  "no_panic iterate n st \<Longrightarrow> position st = Some s \<Longrightarrow>
   \<exists>t. position (run_state iterate n st) = Some t \<and>
       (scan_step D)\<^sup>*\<^sup>* (s, outbox st) (t, outbox (run_state iterate n st))"
proof (induction n arbitrary: st s)
  case (Suc n)
  from Suc.prems(1) obtain r st1 where it: "iterate st = (Ok r, st1)" and rest: "no_panic iterate n st1"
    by (auto split: prod.splits result.splits)
  from simulates [OF it Suc.prems(2)] obtain s1 where
    s1: "position st1 = Some s1" "scan_step D (s, outbox st) (s1, outbox st1)" by blast
  from Suc.IH [OF rest s1(1)] it s1(2) show ?case by (auto intro: converse_rtranclp_into_rtranclp)
qed simp

end

text \<open>
  A loop that makes progress: it never goes back, and a round in which the node answers
  passes up to \<open>batch\<close> blocks, as long as it has not passed the block \<open>target\<close>.
\<close>

locale advancing_loop =
  fixes iterate :: "'s \<Rightarrow> 'r result \<times> 's"
    and position :: "'s \<Rightarrow> int option"
    and good :: "'s \<Rightarrow> bool" and target :: int and batch :: int
  assumes monotone: "iterate st = (Ok r, st') \<Longrightarrow> position st = Some s \<Longrightarrow>
      \<exists>s'. position st' = Some s' \<and> s \<le> s'"
    and advances: "iterate st = (Ok r, st') \<Longrightarrow> position st = Some s \<Longrightarrow> s \<le> target \<Longrightarrow> good st \<Longrightarrow>
      \<exists>s'. position st' = Some s' \<and> min (target + 1) (s + batch) \<le> s'"
    and batch_nonneg: "0 \<le> batch"
begin

lemma run_progress:
  "no_panic iterate n st \<Longrightarrow> position st = Some s \<Longrightarrow>
   \<exists>t. position (run_state iterate n st) = Some t \<and> s \<le> t \<and>
       min (target + 1) (s + batch * int (answered good iterate n st)) \<le> t"
proof (induction n arbitrary: st s)
  case (Suc n)
  from Suc.prems(1) obtain r st1 where it: "iterate st = (Ok r, st1)" and rest: "no_panic iterate n st1"
    by (auto split: prod.splits result.splits)
  from monotone [OF it Suc.prems(2)] obtain s1 where s1: "position st1 = Some s1" "s \<le> s1" by blast
  from Suc.IH [OF rest s1(1)] obtain t where
    t: "position (run_state iterate n st1) = Some t" "s1 \<le> t"
      "min (target + 1) (s1 + batch * int (answered good iterate n st1)) \<le> t" by blast
  have grown: "\<not> good st \<or> target + 1 \<le> s1 \<or> s + batch \<le> s1"
    using advances [OF it Suc.prems(2)] s1 by fastforce
  have "0 \<le> batch * int (answered good iterate n st1)" using batch_nonneg by simp
  with grown t s1 it show ?case by (auto simp: algebra_simps min_def split: if_splits)
qed simp

lemma target_passed:
  assumes "no_panic iterate n st" and "position st = Some s" and "s \<le> target"
    and "target - s < batch * int (answered good iterate n st)"
  shows "\<exists>t>target. position (run_state iterate n st) = Some t"
proof -
  from run_progress [OF assms(1,2)] obtain t where
    t: "position (run_state iterate n st) = Some t" "min (target + 1) (s + batch * int (answered good iterate n st)) \<le> t"
    by blast
  with assms(4) have "target < t" by (auto simp: min_def split: if_splits)
  with t(1) show ?thesis by blast
qed

end

text \<open>What every round keeps holds after a run.\<close>

lemma run_state_keeps:
  assumes "no_panic iterate n st" and "I st"
    and "\<And>st r st'. I st \<Longrightarrow> iterate st = (Ok r, st') \<Longrightarrow> I st'"
  shows "I (run_state iterate n st)"
  using assms(1,2)
proof (induction n arbitrary: st)
  case (Suc n)
  then obtain r st1 where "iterate st = (Ok r, st1)" "no_panic iterate n st1"
    by (auto split: prod.splits result.splits)
  with Suc assms(3) show ?case by auto
qed simp

section \<open>The EVM listener\<close>

text \<open>
  A node that answers from a chain: when it answers a query of logs, it answers with the
  logs of those blocks; and the handler's answer depends on the log only. Every call may
  still fail at any time. \<open>node_answers\<close> is a round in which it does not, with a head
  that makes block \<open>N\<close> old enough.
\<close>

definition handle_log ::
  "'w evm_listener \<Rightarrow> u8 \<Rightarrow> deposit_logs_enriched \<Rightarrow> 'w \<Rightarrow> message result \<times> 'w" where
  "handle_log l d x =
     eventHandler l d (DestinationDomainID x) (LogDepositNonce x) (ResourceID x) (LogData x)
       (HandlerResponse x) (LogDepositTxHash x) (LogDepositBlock x)"

definition answers_from ::
  "(int \<Rightarrow> deposit_logs_enriched list) \<Rightarrow> (deposit_logs_enriched \<Rightarrow> message result)
   \<Rightarrow> 'w evm_listener \<Rightarrow> u8 \<Rightarrow> bool" where
  "answers_from chain h l d \<longleftrightarrow>
     (\<forall>a s e w logs w'. chain_FetchDepositLogs l a s e w = (Ok logs, w') \<longrightarrow>
        logs = concat (map chain [s..e])) \<and>
     (\<forall>x w. fst (handle_log l d x w) = h x)"

definition accepted_messages :: "(deposit_logs_enriched \<Rightarrow> message result) \<Rightarrow> deposit_logs_enriched list \<Rightarrow> message list" where
  "accepted_messages h xs = concat (map (\<lambda>x. case h x of Ok m \<Rightarrow> [m] | _ \<Rightarrow> []) xs)"

definition node_answers :: "'w evm_listener \<Rightarrow> int \<Rightarrow> int \<Rightarrow> 'w listen_state \<Rightarrow> bool" where
  "node_answers l delay N st =
     (case chain_LatestBlock l (world st) of
        (Ok head, w) \<Rightarrow>
          N + delay \<le> head \<and>
          (case block_window head (effective_start st head) delay of
             None \<Rightarrow> True
           | Some e \<Rightarrow> is_ok (fst (chain_FetchDepositLogs l (bridgeAddress l) (effective_start st head) e w)))
      | _ \<Rightarrow> False)"

text \<open>Any listener, with its node and handler replaced by such ones.\<close>

definition truthful ::
  "(int \<Rightarrow> deposit_logs_enriched list) \<Rightarrow> event_handler \<Rightarrow> 'w evm_listener \<Rightarrow> 'w evm_listener" where
  "truthful chain h l =
     l\<lparr>chain_FetchDepositLogs := (\<lambda>a s e w.
          case chain_FetchDepositLogs l a s e w of
            (Ok _, w') \<Rightarrow> (Ok (concat (map chain [s..e])), w') | r \<Rightarrow> r),
       eventHandler := (\<lambda>i dst n rid cd resp tx blk w. (h i dst n rid cd resp tx blk, w))\<rparr>"

definition log_message :: "event_handler \<Rightarrow> u8 \<Rightarrow> deposit_logs_enriched \<Rightarrow> message result" where
  "log_message h d x =
     h d (DestinationDomainID x) (LogDepositNonce x) (ResourceID x) (LogData x) (HandlerResponse x)
       (LogDepositTxHash x) (LogDepositBlock x)"

lemma truthful_answers: "answers_from chain (log_message h d) (truthful chain h l) d"
  by (auto simp: answers_from_def truthful_def handle_log_def log_message_def
      split: prod.splits result.splits)

lemma handle_logs_accepted:
  assumes "\<And>x w. fst (handle_log l d x w) = h x" and "handle_logs l d xs st = (Ok (), st')"
  shows "sent st' = sent st @ accepted_messages h xs"
  using assms(2)
proof (induction xs arbitrary: st)
  case (Cons x xs)
  obtain r w where x: "handle_log l d x (world st) = (r, w)" by fastforce
  with assms(1) [of x "world st"] have "r = h x" by simp
  with Cons x show ?case
    by (cases r) (fastforce simp: handle_log_def accepted_messages_def)+
qed (simp add: accepted_messages_def)

lemma accepted_concat:
  "accepted_messages h (concat xss) = concat (map (accepted_messages h) xss)"
  by (induction xss) (simp_all add: accepted_messages_def)

lemma evm_round_scans:
  assumes "answers_from chain h l d" and "listen_iteration l db delay d st = (Ok r, st')"
    and "startBlock st = Some s"
  shows "\<exists>s'. startBlock st' = Some s' \<and>
    scan_step (\<lambda>b. accepted_messages h (chain b)) (s, sent st) (s', sent st')"
  using assms(2)
proof (cases rule: listen_iteration_cases)
  case (fetched head w e w2 logs st2)
  have start: "effective_start st head = s" using assms(3) by (simp add: effective_start_def)
  from assms(1) fetched(3) have "logs = concat (map chain [s..e])"
    unfolding answers_from_def start by metis
  with handle_logs_accepted [OF _ fetched(4)] assms(1) have
    "sent st2 = sent st @ concat (map (\<lambda>b. accepted_messages h (chain b)) [s..e])"
    by (auto simp: answers_from_def accepted_concat o_def)
  with finish_range_Ok [OF fetched(5)] block_window_bounds(1) [OF fetched(2)] start show ?thesis
    by (auto intro: scan_step.scan)
qed (use assms(3) in \<open>auto intro: scan_step.idle\<close>)

lemma evm_round_advances:
  assumes "listen_iteration l db delay d st = (Ok r, st')" and "startBlock st = Some s"
    and "s \<le> N" and "node_answers l delay N st"
  shows "\<exists>s'. startBlock st' = Some s' \<and> min (N + 1) (s + 100) \<le> s'"
proof -
  have start: "effective_start st head = s" for head using assms(2) by (simp add: effective_start_def)
  from assms(4) obtain head w where head: "chain_LatestBlock l (world st) = (Ok head, w)"
    "N + delay \<le> head" by (auto simp: node_answers_def split: prod.splits result.splits)
  with assms(3) obtain e where e: "block_window head s delay = Some e"
    by (auto simp: block_window_def Let_def)
  with head assms(4) obtain logs w2 where
    fetch: "chain_FetchDepositLogs l (bridgeAddress l) s e w = (Ok logs, w2)"
    by (cases "chain_FetchDepositLogs l (bridgeAddress l) s e w")
      (auto simp: node_answers_def start is_ok_def split: result.splits)
  from assms(1,2) head e fetch have "r = Some (s, e)"
    by (auto simp: listen_iteration_def Let_def s_bind_def split: prod.splits result.splits
        dest!: finish_range_Ok)
  with assms(1) have "startBlock st' = Some (e + 1)" using listen_iteration_advance by blast
  moreover from block_window_bounds(4) [OF e] head(2) have "min (N + 1) (s + 100) \<le> e + 1" by auto
  ultimately show ?thesis by blast
qed

lemma evm_round_monotone:
  assumes "listen_iteration l db delay d st = (Ok r, st')" and "startBlock st = Some s"
  shows "\<exists>s'. startBlock st' = Some s' \<and> s \<le> s'"
  using assms(1)
proof (cases rule: listen_iteration_cases)
  case (fetched head w e w2 logs st2)
  with finish_range_Ok [OF fetched(5)] block_window_bounds(1) [OF fetched(2)] assms(2) show ?thesis
    by (simp add: effective_start_def)
qed (use assms(2) in auto)

interpretation evm_advance: advancing_loop "listen_iteration l db delay d" startBlock
  "node_answers l delay N" N 100
  for l :: "'w evm_listener" and db delay d N
  by unfold_locales (use evm_round_monotone evm_round_advances in auto)

lemma evm_loop:
  assumes "answers_from chain h l d"
  shows "scanning_loop (listen_iteration l db delay d) startBlock sent (\<lambda>b. accepted_messages h (chain b))"
  by unfold_locales (rule evm_round_scans [OF assms])

interpretation evm_scan: scanning_loop
  "listen_iteration (truthful chain h l) db delay d" startBlock sent
  "\<lambda>b. accepted_messages (log_message h d) (chain b)"
  for chain h and l :: "'w evm_listener" and db delay d
  by (rule evm_loop [OF truthful_answers])

lemma evm_run_state:
  "snd (ListenToEvents l db delay d n st) = run_state (listen_iteration l db delay d) n st"
proof (induction n arbitrary: st)
  case (Suc n)
  obtain r t where it: "listen_iteration l db delay d st = (r, t)" by fastforce
  obtain rs u where "ListenToEvents l db delay d n t = (rs, u)" by fastforce
  with Suc.IH [of t] it show ?case by (cases r) auto
qed simp


subsection \<open>Handlers that may fail\<close>

text \<open>
  The handler asks the node for the handler address of a resource, so its answer for a log
  can fail at one time and not at another. \<open>refused\<close> records the logs for which a call of
  the handler has not given the answer \<open>h\<close> that it has when the node answers.
\<close>

definition records_refusals ::
  "(int \<Rightarrow> deposit_logs_enriched list) \<Rightarrow> (deposit_logs_enriched \<Rightarrow> message result)
   \<Rightarrow> ('w \<Rightarrow> deposit_logs_enriched set) \<Rightarrow> 'w evm_listener \<Rightarrow> 'w key_value \<Rightarrow> u8 \<Rightarrow> bool" where
  "records_refusals chain h refused l db d \<longleftrightarrow>
     (\<forall>a s e w logs w'. chain_FetchDepositLogs l a s e w = (Ok logs, w') \<longrightarrow>
        logs = concat (map chain [s..e])) \<and>
     (\<forall>x w r w'. handle_log l d x w = (r, w') \<longrightarrow>
        refused w \<subseteq> refused w' \<and> (r = h x \<or> x \<in> refused w')) \<and>
     (\<forall>w. refused w \<subseteq> refused (snd (chain_LatestBlock l w))) \<and>
     (\<forall>a s e w. refused w \<subseteq> refused (snd (chain_FetchDepositLogs l a s e w))) \<and>
     (\<forall>k v w. refused w \<subseteq> refused (snd (SetByKey db k v w)))"

text \<open>A log is settled when its message has been sent, or the handler refused it.\<close>

definition settled_log ::
  "(deposit_logs_enriched \<Rightarrow> message result) \<Rightarrow> ('w \<Rightarrow> deposit_logs_enriched set) \<Rightarrow> 'w listen_state
   \<Rightarrow> deposit_logs_enriched \<Rightarrow> bool" where
  "settled_log h refused st x \<longleftrightarrow> (\<forall>m. h x = Ok m \<longrightarrow> m \<in> set (sent st) \<or> x \<in> refused (world st))"

lemma settled_log_mono:
  assumes "settled_log h refused st x" and "set (sent st) \<subseteq> set (sent st')"
    and "refused (world st) \<subseteq> refused (world st')"
  shows "settled_log h refused st' x"
  using assms by (auto simp: settled_log_def)

lemma handle_logs_settled:
  assumes "records_refusals chain h refused l db d" and "handle_logs l d xs st = (Ok (), st')"
  shows "refused (world st) \<subseteq> refused (world st') \<and> set (sent st) \<subseteq> set (sent st') \<and>
    list_all (settled_log h refused st') xs"
  using assms(2)
proof (induction xs arbitrary: st)
  case (Cons x xs)
  obtain r w where x: "handle_log l d x (world st) = (r, w)" by fastforce
  with assms(1) have r: "refused (world st) \<subseteq> refused w" "r = h x \<or> x \<in> refused w"
    unfolding records_refusals_def by blast+
  define st1 where "st1 = st\<lparr>sent := sent st @ (case r of Ok m \<Rightarrow> [m] | _ \<Rightarrow> []), world := w\<rparr>"
  have st1: "handle_logs l d xs st1 = (Ok (), st')"
    using Cons.prems x by (cases r) (auto simp: handle_log_def st1_def)
  have grown: "world st1 = w" "set (sent st) \<subseteq> set (sent st1)" "\<And>m. r = Ok m \<Longrightarrow> m \<in> set (sent st1)"
    by (auto simp: st1_def)
  from Cons.IH [OF st1] have rest: "refused w \<subseteq> refused (world st')" "set (sent st1) \<subseteq> set (sent st')"
    "list_all (settled_log h refused st') xs" by (simp_all add: grown(1))
  moreover from r(2) grown(3) rest(1,2) have "settled_log h refused st' x" by (auto simp: settled_log_def)
  ultimately show ?case using r(1) grown(2) by auto
qed simp

text \<open>All blocks from \<open>s0\<close> to the next one are settled; every round keeps that.\<close>

definition scanned_settled ::
  "(int \<Rightarrow> deposit_logs_enriched list) \<Rightarrow> (deposit_logs_enriched \<Rightarrow> message result)
   \<Rightarrow> ('w \<Rightarrow> deposit_logs_enriched set) \<Rightarrow> int \<Rightarrow> 'w listen_state \<Rightarrow> bool" where
  "scanned_settled chain h refused s0 st \<longleftrightarrow>
     (\<exists>s. startBlock st = Some s \<and> list_all (settled_log h refused st) (concat (map chain [s0..s - 1])))"

lemma listen_iteration_refused:
  assumes "records_refusals chain h refused l db d" and "listen_iteration l db delay d st = (Ok r, st')"
  shows "refused (world st) \<subseteq> refused (world st')"
proof -
  obtain hd w where head: "chain_LatestBlock l (world st) = (hd, w)" by fastforce
  with assms(1) have w: "refused (world st) \<subseteq> refused w" unfolding records_refusals_def by (metis snd_conv)
  show ?thesis
  proof (cases "\<exists>head e. hd = Ok head \<and> block_window head (effective_start st head) delay = Some e")
    case True
    then obtain head e where hd: "hd = Ok head" "block_window head (effective_start st head) delay = Some e"
      by blast
    obtain f w2 where fetch: "chain_FetchDepositLogs l (bridgeAddress l) (effective_start st head) e w = (f, w2)"
      by fastforce
    with assms(1) have w2: "refused w \<subseteq> refused w2" unfolding records_refusals_def by (metis snd_conv)
    show ?thesis
    proof (cases f)
      case (Ok logs)
      with assms(2) head hd fetch obtain st2 where
        logs: "handle_logs l d logs (st\<lparr>startBlock := Some (effective_start st head), world := w2\<rparr>) = (Ok (), st2)"
        and fin: "finish_range db d (effective_start st head) e st2 = (Ok r, st')"
        by (auto simp: listen_iteration_def Let_def s_bind_def effective_start_def
            split: prod.splits result.splits)
      from fin have "world st' = snd (SetByKey db (block_key d) (big_bytes_of e) (world st2))"
        by (auto simp: finish_range_def StoreBlock_def split: prod.splits result.splits)
      with assms(1) have "refused (world st2) \<subseteq> refused (world st')" by (simp add: records_refusals_def)
      with handle_logs_settled [OF assms(1) logs] w w2 show ?thesis by auto
    qed (use assms(2) head hd fetch w w2 in \<open>auto simp: listen_iteration_def Let_def effective_start_def\<close>)
  next
    case False
    with assms(2) head w show ?thesis
      by (cases hd) (auto simp: listen_iteration_def Let_def effective_start_def split: option.splits)
  qed
qed

lemma listen_iteration_settled:
  assumes "records_refusals chain h refused l db d" and "scanned_settled chain h refused s0 st"
    and "listen_iteration l db delay d st = (Ok r, st')"
  shows "scanned_settled chain h refused s0 st'"
proof -
  from assms(2) obtain s where s: "startBlock st = Some s"
    "list_all (settled_log h refused st) (concat (map chain [s0..s - 1]))"
    by (auto simp: scanned_settled_def)
  note mono = listen_iteration_refused [OF assms(1,3)]
  from assms(3) show ?thesis
  proof (cases rule: listen_iteration_cases)
    case (fetched head w e w2 logs st2)
    have start: "effective_start st head = s" using s(1) by (simp add: effective_start_def)
    from assms(1) fetched(3) have logs: "logs = concat (map chain [s..e])"
      unfolding records_refusals_def start by metis
    from fetched(5) have fin: "sent st' = sent st2" "startBlock st' = Some (e + 1)"
      "world st' = snd (SetByKey db (block_key d) (big_bytes_of e) (world st2))"
      by (auto simp: finish_range_def StoreBlock_def split: prod.splits result.splits)
    with assms(1) have "refused (world st2) \<subseteq> refused (world st')" by (simp add: records_refusals_def)
    with handle_logs_settled [OF assms(1) fetched(4)] fin(1) have
      kept: "set (sent st) \<subseteq> set (sent st')" and "list_all (settled_log h refused st') logs"
      by (auto simp: list_all_iff intro: settled_log_mono)
    moreover have "list_all (settled_log h refused st') (concat (map chain [s0..s - 1]))"
      using s(2) settled_log_mono [OF _ kept mono] by (auto simp: list_all_iff)
    moreover have "{s0..e} \<subseteq> {s0..s - 1} \<union> {s..e}" by auto
    ultimately have "list_all (settled_log h refused st') (concat (map chain [s0..e]))"
      unfolding logs by (fastforce simp: list_all_iff)
    with fin(2) show ?thesis by (simp add: scanned_settled_def)
  next
    case stayed
    with s settled_log_mono [OF _ _ mono] show ?thesis
      by (auto simp: scanned_settled_def list_all_iff)
  qed simp
qed

lemma evm_run_settled:
  assumes "records_refusals chain h refused l db d" and "startBlock st = Some s0"
    and "no_panic (listen_iteration l db delay d) n st"
  shows "scanned_settled chain h refused s0 (run_state (listen_iteration l db delay d) n st)"
  using assms(3) by (rule run_state_keeps)
    (use assms(2) listen_iteration_settled [OF assms(1)] in \<open>auto simp: scanned_settled_def\<close>)

section \<open>The substrate listener\<close>

text \<open>
  A substrate node that answers from a chain gives the events of the block whose hash it
  was asked for. \<open>failures\<close> counts at least the updates of the metadata that failed.
\<close>

definition transfers :: "'w substrate_listener \<Rightarrow> u8 \<Rightarrow> substrate_events \<Rightarrow> message list result" where
  "transfers l d evts =
     r_bind (handle_group l FungibleTransfer d (map Fungible_event (ChainBridge_FungibleTransfer evts))) (\<lambda>fs.
     r_bind (handle_group l NonFungibleTransfer d
               (map NonFungible_event (ChainBridge_NonFungibleTransfer evts))) (\<lambda>nfs.
     r_bind (handle_group l GenericTransfer d (map Generic_event (ChainBridge_GenericTransfer evts))) (\<lambda>gs.
       Ok (fs @ nfs @ gs))))"

definition substrate_answers_from :: "(u64 \<Rightarrow> substrate_events) \<Rightarrow> 'w substrate_listener \<Rightarrow> bool" where
  "substrate_answers_from blocks l \<longleftrightarrow>
     (\<forall>b w h w' w2 evts w3. GetBlockHash (sl_client l) b w = (Ok h, w') \<longrightarrow>
        GetBlockEvents (sl_client l) h w2 = (Ok evts, w3) \<longrightarrow> evts = blocks b)"

definition counts_failed_updates :: "('w \<Rightarrow> nat) \<Rightarrow> 'w substrate_listener \<Rightarrow> 'w key_value \<Rightarrow> bool" where
  "counts_failed_updates failures l db \<longleftrightarrow>
     (\<forall>w. failures w \<le> failures (snd (GetHeaderLatest (sl_client l) w))) \<and>
     (\<forall>b w. failures w \<le> failures (snd (GetBlockHash (sl_client l) b w))) \<and>
     (\<forall>h w. failures w \<le> failures (snd (GetBlockEvents (sl_client l) h w))) \<and>
     (\<forall>k v w. failures w \<le> failures (snd (SetByKey db k v w))) \<and>
     (\<forall>w r w'. UpdateMetatdata (sl_client l) w = (r, w') \<longrightarrow>
        failures w + (if is_ok r then 0 else 1) \<le> failures w')"

definition substrate_node_answers :: "'w substrate_listener \<Rightarrow> int \<Rightarrow> 'w listen_state \<Rightarrow> bool" where
  "substrate_node_answers l N st =
     (case GetHeaderLatest (sl_client l) (world st) of
        (Ok number, w) \<Rightarrow>
          N \<le> uint number \<and>
          (case GetBlockHash (sl_client l)
                  (big_uint64 (case startBlock st of None \<Rightarrow> uint number | Some s \<Rightarrow> s)) w of
             (Ok h, w2) \<Rightarrow> is_ok (fst (GetBlockEvents (sl_client l) h w2))
           | _ \<Rightarrow> False)
      | _ \<Rightarrow> False)"

lemma grouped_events:
  assumes "s_bind (s_lift a) (\<lambda>fs. s_bind (s_lift b) (\<lambda>nfs. s_bind (s_lift c) (\<lambda>gs.
      if updated then s_bind U (\<lambda>_. s_return (fs @ nfs @ gs)) else s_return (fs @ nfs @ gs)))) w = (r, w')"
  shows "r = r_bind a (\<lambda>fs. r_bind b (\<lambda>nfs. r_bind c (\<lambda>gs. Ok (fs @ nfs @ gs)))) \<and>
      (w' = w \<or> updated \<and> (\<exists>u. U w = (Ok u, w'))) \<or>
    updated \<and> \<not> is_ok r \<and> (\<exists>q. U w = (q, w') \<and> \<not> is_ok q)"
proof -
  obtain q v where "U w = (q, v)" by fastforce
  with assms show ?thesis
    by (cases a; cases b; cases c; cases q) (auto simp: s_bind_def split: if_splits)
qed

lemma handleEvents_cases:
  assumes "counts_failed_updates failures l db" and "handleEvents l d evts w = (r, w')"
  shows "r = transfers l d evts \<and> failures w \<le> failures w' \<or>
    System_CodeUpdated evts > 0 \<and> \<not> is_ok r \<and> failures w < failures w'"
proof -
  have "failures w + (if is_ok q then 0 else 1) \<le> failures w'" if "UpdateMetatdata (sl_client l) w = (q, w')" for q
    using assms(1) that unfolding counts_failed_updates_def by blast
  with grouped_events [OF assms(2) [unfolded handleEvents_def]] show ?thesis
    unfolding transfers_def by fastforce
qed

text \<open>
  A block is sent as a whole or dropped; a dropped one updated the code, and the update of the
  metadata failed. \<open>block_answer dropped b\<close> are the messages sent for a block.
\<close>

definition block_answer ::
  "'w substrate_listener \<Rightarrow> u8 \<Rightarrow> (u64 \<Rightarrow> substrate_events) \<Rightarrow> int set \<Rightarrow> int \<Rightarrow> message list" where
  "block_answer l d blocks dropped b =
     (if b \<in> dropped then [] else block_messages (transfers l d (blocks (big_uint64 b))))"

definition scanned_blocks ::
  "'w substrate_listener \<Rightarrow> u8 \<Rightarrow> (u64 \<Rightarrow> substrate_events) \<Rightarrow> ('w \<Rightarrow> nat) \<Rightarrow> int \<Rightarrow> message list \<Rightarrow> nat
   \<Rightarrow> 'w listen_state \<Rightarrow> bool" where
  "scanned_blocks l d blocks failures s0 out failed st \<longleftrightarrow>
     (\<exists>s dropped. startBlock st = Some s \<and> s0 \<le> s \<and> dropped \<subseteq> {s0..<s} \<and>
        (\<forall>b\<in>dropped. System_CodeUpdated (blocks (big_uint64 b)) > 0) \<and>
        failed + card dropped \<le> failures (world st) \<and>
        sent st = out @ concat (map (block_answer l d blocks dropped) [s0..s - 1]))"

lemma block_answer_more:
  assumes "s0 \<le> s" and "dropped \<subseteq> {s0..<s}"
  shows "concat (map (block_answer l d blocks dropped) [s0..s]) =
      concat (map (block_answer l d blocks dropped) [s0..s - 1]) @ block_messages (transfers l d (blocks (big_uint64 s)))"
    and "concat (map (block_answer l d blocks (insert s dropped)) [s0..s]) =
      concat (map (block_answer l d blocks dropped) [s0..s - 1])"
proof -
  have last: "[s0..s] = [s0..s - 1] @ [s]" using assms(1) by (simp add: upto_rec2)
  have before: "map (block_answer l d blocks (insert s dropped)) [s0..s - 1] = map (block_answer l d blocks dropped) [s0..s - 1]"
    by (auto simp: block_answer_def)
  show "concat (map (block_answer l d blocks dropped) [s0..s]) =
      concat (map (block_answer l d blocks dropped) [s0..s - 1]) @ block_messages (transfers l d (blocks (big_uint64 s)))"
    using assms(2) unfolding last by (auto simp: block_answer_def)
  show "concat (map (block_answer l d blocks (insert s dropped)) [s0..s]) =
      concat (map (block_answer l d blocks dropped) [s0..s - 1])"
    unfolding last map_append before by (simp add: block_answer_def)
qed

lemma substrate_round_cases:
  assumes "substrate_answers_from blocks l" and "counts_failed_updates failures l db"
    and "substrate_iteration l db d st = (Ok r, st')" and "startBlock st = Some s"
  shows "failures (world st) \<le> failures (world st') \<and>
    (startBlock st' = Some s \<and> sent st' = sent st \<or>
     startBlock st' = Some (s + 1) \<and>
       (sent st' = sent st @ block_messages (transfers l d (blocks (big_uint64 s))) \<or>
        sent st' = sent st \<and> System_CodeUpdated (blocks (big_uint64 s)) > 0 \<and>
          failures (world st) < failures (world st')))"
proof -
  note count = assms(2) [unfolded counts_failed_updates_def]
  obtain hd w where head: "GetHeaderLatest (sl_client l) (world st) = (hd, w)" by fastforce
  obtain bh w2 where hash: "GetBlockHash (sl_client l) (big_uint64 s) w = (bh, w2)" by fastforce
  have le: "failures (world st) \<le> failures w" "failures w \<le> failures w2"
    using count head hash by (metis snd_conv)+
  show ?thesis
  proof (cases "\<exists>number h. hd = Ok number \<and> s \<le> uint number \<and> bh = Ok h")
    case True
    then obtain number h where ok: "hd = Ok number" "s \<le> uint number" "bh = Ok h" by blast
    obtain ev w3 where events: "GetBlockEvents (sl_client l) h w2 = (ev, w3)" by fastforce
    with count have le3: "failures w2 \<le> failures w3" by (metis snd_conv)
    show ?thesis
    proof (cases ev)
      case (Ok evts)
      obtain q w4 where handled: "handleEvents l d evts w3 = (q, w4)" by fastforce
      from assms(1) hash events ok Ok have blk: "evts = blocks (big_uint64 s)"
        unfolding substrate_answers_from_def by metis
      have fin: "finish_block db d s (block_messages q) (st\<lparr>startBlock := Some s, world := w4\<rparr>) = (Ok r, st')"
        and q: "\<not> is_ok q \<Longrightarrow> block_messages q = []"
        using assms(3,4) head hash events ok Ok handled
        by (cases q; auto simp: substrate_iteration_def Let_def block_messages_def)+
      from fin have "world st' = snd (SetByKey db (block_key d) (big_bytes_of s) w4)"
        by (auto simp: finish_block_def StoreBlock_def split: prod.splits result.splits)
      with count have "failures w4 \<le> failures (world st')" by simp
      with handleEvents_cases [OF assms(2) handled] finish_block_cases [OF fin] q le le3 blk show ?thesis by auto
    qed (use assms(3,4) head hash events ok le le3 in \<open>auto simp: substrate_iteration_def Let_def\<close>)
  next
    case False
    with assms(3,4) head hash le show ?thesis
      by (cases hd; cases bh) (auto simp: substrate_iteration_def Let_def split: if_splits)
  qed
qed

lemma substrate_round_scanned:
  assumes "substrate_answers_from blocks l" and "counts_failed_updates failures l db"
    and "scanned_blocks l d blocks failures s0 out failed st"
    and "substrate_iteration l db d st = (Ok r, st')"
  shows "scanned_blocks l d blocks failures s0 out failed st'"
proof -
  from assms(3) obtain s dropped where
    s: "startBlock st = Some s" "s0 \<le> s" "dropped \<subseteq> {s0..<s}"
      "\<forall>b\<in>dropped. System_CodeUpdated (blocks (big_uint64 b)) > 0" "failed + card dropped \<le> failures (world st)"
      "sent st = out @ concat (map (block_answer l d blocks dropped) [s0..s - 1])"
    unfolding scanned_blocks_def by blast
  note more = block_answer_more [OF s(2,3), of l d blocks]
  have wider: "dropped \<subseteq> {s0..<s + 1}" "insert s dropped \<subseteq> {s0..<s + 1}" using s(2,3) by auto
  have card: "card (insert s dropped) \<le> Suc (card dropped)"
    by (simp add: card_insert_le_m1 card_insert_if finite_subset [OF s(3)])
  from substrate_round_cases [OF assms(1,2,4) s(1)] consider
      (stay) "failures (world st) \<le> failures (world st')" "startBlock st' = Some s" "sent st' = sent st"
    | (sends) "failures (world st) \<le> failures (world st')" "startBlock st' = Some (s + 1)"
        "sent st' = sent st @ block_messages (transfers l d (blocks (big_uint64 s)))"
    | (drops) "startBlock st' = Some (s + 1)" "sent st' = sent st"
        "System_CodeUpdated (blocks (big_uint64 s)) > 0" "failures (world st) < failures (world st')"
    by auto
  then show ?thesis
  proof cases
    case stay
    with s show ?thesis unfolding scanned_blocks_def by (metis order_trans)
  next
    case sends
    with s more(1) wider(1) show ?thesis
      unfolding scanned_blocks_def by (intro exI [of _ "s + 1"] exI [of _ dropped]) auto
  next
    case drops
    with s more(2) wider(2) card show ?thesis
      unfolding scanned_blocks_def by (intro exI [of _ "s + 1"] exI [of _ "insert s dropped"]) auto
  qed
qed

lemma substrate_run_scanned:
  assumes "substrate_answers_from blocks l" and "counts_failed_updates failures l db"
    and "startBlock st = Some s0" and "no_panic (substrate_iteration l db d) n st"
  shows "scanned_blocks l d blocks failures s0 (sent st) (failures (world st))
    (run_state (substrate_iteration l db d) n st)"
  using assms(4)
proof (rule run_state_keeps)
  show "scanned_blocks l d blocks failures s0 (sent st) (failures (world st)) st"
    using assms(3) by (auto simp: scanned_blocks_def)
qed (rule substrate_round_scanned [OF assms(1,2)])

lemma substrate_round_monotone:
  assumes "substrate_iteration l db d st = (Ok r, st')" and "startBlock st = Some s"
  shows "\<exists>s'. startBlock st' = Some s' \<and> s \<le> s'"
  using substrate_iteration_cases [OF assms] by auto

lemma substrate_round_advances:
  assumes "substrate_iteration l db d st = (Ok r, st')" and "startBlock st = Some s"
    and "s \<le> N" and "substrate_node_answers l N st"
  shows "\<exists>s'. startBlock st' = Some s' \<and> min (N + 1) (s + 1) \<le> s'"
proof -
  from assms have "r \<noteq> None"
    by (auto simp: substrate_iteration_def substrate_node_answers_def Let_def is_ok_def
        split: prod.splits result.splits if_splits dest!: finish_block_cases)
  with substrate_iteration_cases [OF assms(1,2)] show ?thesis by auto
qed

interpretation substrate_advance: advancing_loop "substrate_iteration l db d" startBlock
  "substrate_node_answers l N" N 1
  for l :: "'w substrate_listener" and db d N
  by unfold_locales (use substrate_round_monotone substrate_round_advances in auto)

subsection \<open>Blocks that cannot be decoded\<close>

text \<open>
  The events of block \<open>b\<close> never decode, and no call of the node panics; \<open>attempts\<close> counts the
  queries for events.
\<close>

definition undecodable :: "'w substrate_listener \<Rightarrow> int \<Rightarrow> bool" where
  "undecodable l b \<longleftrightarrow>
     (\<forall>w p. fst (GetHeaderLatest (sl_client l) w) \<noteq> Panic p) \<and>
     (\<forall>w p. fst (GetBlockHash (sl_client l) (big_uint64 b) w) \<noteq> Panic p) \<and>
     (\<forall>w h w' w2. GetBlockHash (sl_client l) (big_uint64 b) w = (Ok h, w') \<longrightarrow>
        (\<exists>e. fst (GetBlockEvents (sl_client l) h w2) = Err e))"

definition counts_decodes :: "('w \<Rightarrow> nat) \<Rightarrow> 'w substrate_reader \<Rightarrow> bool" where
  "counts_decodes attempts c \<longleftrightarrow>
     (\<forall>w. attempts (snd (GetHeaderLatest c w)) = attempts w) \<and>
     (\<forall>b w. attempts (snd (GetBlockHash c b w)) = attempts w) \<and>
     (\<forall>h w. attempts (snd (GetBlockEvents c h w)) = attempts w + 1)"

text \<open>A round in which the node knows the hash of block \<open>b\<close>.\<close>

definition block_found :: "'w substrate_listener \<Rightarrow> int \<Rightarrow> 'w listen_state \<Rightarrow> bool" where
  "block_found l b st \<longleftrightarrow>
     (case GetHeaderLatest (sl_client l) (world st) of
        (Ok number, w) \<Rightarrow> b \<le> uint number \<and> is_ok (fst (GetBlockHash (sl_client l) (big_uint64 b) w))
      | _ \<Rightarrow> False)"

lemma undecodable_round:
  assumes "undecodable l b" and "counts_decodes attempts (sl_client l)" and "startBlock st = Some b"
  shows "\<exists>st'. substrate_iteration l db d st = (Ok None, st') \<and> startBlock st' = Some b \<and> sent st' = sent st \<and>
    attempts (world st') = attempts (world st) + (if block_found l b st then 1 else 0)"
proof -
  note counts = assms(2) [unfolded counts_decodes_def]
  obtain hd w where head: "GetHeaderLatest (sl_client l) (world st) = (hd, w)" by fastforce
  obtain bh w2 where hash: "GetBlockHash (sl_client l) (big_uint64 b) w = (bh, w2)" by fastforce
  have fine: "hd \<noteq> Panic p" "bh \<noteq> Panic p" for p
    using assms(1) head hash unfolding undecodable_def by (metis fst_conv)+
  have same: "attempts w = attempts (world st)" "attempts w2 = attempts w"
    using counts head hash by (metis snd_conv)+
  show ?thesis
  proof (cases "\<exists>number h. hd = Ok number \<and> b \<le> uint number \<and> bh = Ok h")
    case True
    then obtain number h where ok: "hd = Ok number" "b \<le> uint number" "bh = Ok h" by blast
    obtain ev w3 where events: "GetBlockEvents (sl_client l) h w2 = (ev, w3)" by fastforce
    with assms(1) hash ok obtain e where "ev = Err e" unfolding undecodable_def by (metis fst_conv)
    moreover have "attempts w3 = attempts w2 + 1" using counts events by (metis snd_conv)
    ultimately show ?thesis
      using head hash events ok same assms(3)
      by (simp add: substrate_iteration_def Let_def block_found_def)
  next
    case False
    with head hash fine same assms(3) show ?thesis
      by (cases hd; cases bh) (auto simp: substrate_iteration_def Let_def block_found_def)
  qed
qed

lemma substrate_run_state:
  "snd (substrate_ListenToEvents l db d n st) = run_state (substrate_iteration l db d) n st"
proof (induction n arbitrary: st)
  case (Suc n)
  obtain r t where it: "substrate_iteration l db d st = (r, t)" by fastforce
  obtain bs u where "substrate_ListenToEvents l db d n t = (bs, u)" by fastforce
  with Suc.IH [of t] it show ?case by (cases r) auto
qed simp


section \<open>Properties\<close>

lemma evm_run_scans:
  assumes "answers_from chain h l d" and "startBlock st = Some s0"
    and "no_panic (listen_iteration l db delay d) n st"
    and "st' = run_state (listen_iteration l db delay d) n st"
  shows "\<exists>s1. startBlock st' = Some s1 \<and> s0 \<le> s1 \<and>
    (scan_step (\<lambda>b. accepted_messages h (chain b)))\<^sup>*\<^sup>* (s0, sent st) (s1, sent st') \<and>
    sent st' = sent st @ accepted_messages h (concat (map chain [s0..s1 - 1]))"
  using scanning_loop.run_refines [OF evm_loop [OF assms(1)] assms(3,2)]
    scan_run assms(4)
  by (fastforce simp: accepted_concat o_def)

text \<open>
  C19: the EVM listener refines the abstract scanner. Against any node that answers log
  queries from one chain, whatever calls fail in whatever rounds, a run without a panic is
  a run of the scanner: the messages sent are those of the accepted logs of all blocks
  from the first start to the next one, each block once and in order.
\<close>

theorem evm_listener_refines_scanner:
  assumes "answers_from chain h l d" and "startBlock st = Some s0"
    and "no_panic (listen_iteration l db delay d) n st"
    and "ListenToEvents l db delay d n st = (rs, st')"
  shows "\<exists>s1. startBlock st' = Some s1 \<and>
    (scan_step (\<lambda>b. accepted_messages h (chain b)))\<^sup>*\<^sup>* (s0, sent st) (s1, sent st') \<and>
    sent st' = sent st @ accepted_messages h (concat (map chain [s0..s1 - 1]))"
  using evm_run_scans [OF assms(1-3)] assms(4) by (auto simp flip: evm_run_state)

text \<open>
  C13: every deposit is sent. If the node answers, with a head old enough for block \<open>N\<close>, in
  more than \<open>(N - s0) / 100\<close> of the rounds of a run that starts at \<open>s0\<close>, then after the run
  every block up to \<open>N\<close> has been passed, and for every deposit of them that the handler
  accepts its message has been sent, unless the call of the handler for this very deposit
  failed in the run. It does not matter which rounds these are and how the other rounds fail.
\<close>

theorem every_deposit_is_sent:
  assumes "records_refusals chain h refused l db d" and "startBlock st = Some s0" and "s0 \<le> N"
    and "no_panic (listen_iteration l db delay d) n st"
    and "N - s0 < 100 * int (answered (node_answers l delay N) (listen_iteration l db delay d) n st)"
    and "ListenToEvents l db delay d n st = (rs, st')"
  shows "(\<exists>s1>N. startBlock st' = Some s1) \<and>
    (\<forall>b x m. s0 \<le> b \<longrightarrow> b \<le> N \<longrightarrow> x \<in> set (chain b) \<longrightarrow> h x = Ok m \<longrightarrow>
       m \<in> set (sent st') \<or> x \<in> refused (world st'))"
proof -
  from assms(6) have run: "st' = run_state (listen_iteration l db delay d) n st"
    by (simp flip: evm_run_state)
  with evm_advance.target_passed [OF assms(4,2,3,5)] obtain s1 where s1: "N < s1" "startBlock st' = Some s1"
    by auto
  from evm_run_settled [OF assms(1,2,4)] run s1
  have "list_all (settled_log h refused st') (concat (map chain [s0..s1 - 1]))"
    by (auto simp: scanned_settled_def)
  then have "settled_log h refused st' x" if "s0 \<le> b" "b \<le> N" "x \<in> set (chain b)" for b x
    using that s1(1) by (auto simp: list_all_iff)
  with s1 show ?thesis unfolding settled_log_def by blast
qed


text \<open>
  C35: a block that cannot be decoded stops the listener for ever. When the node's answer to
  the events of block \<open>b\<close> never decodes, which one event unknown to the record of events is
  enough for, then however many rounds follow, the listener keeps running and stays at
  \<open>b\<close>: it processes and sends nothing, and in every round in which the node finds the
  block it asks for the same events and decodes them again, once.
\<close>

theorem undecodable_block_stalls_listener:
  assumes "undecodable l b" and "counts_decodes attempts (sl_client l)" and "startBlock st = Some b"
    and "substrate_ListenToEvents l db d n st = (bs, st')"
  shows "bs = [] \<and> startBlock st' = Some b \<and> sent st' = sent st \<and>
    no_panic (substrate_iteration l db d) n st \<and>
    attempts (world st') = attempts (world st) + answered (block_found l b) (substrate_iteration l db d) n st"
  using assms(3,4)
proof (induction n arbitrary: st bs)
  case (Suc n)
  obtain st1 where step: "substrate_iteration l db d st = (Ok None, st1)"
    "startBlock st1 = Some b" "sent st1 = sent st"
    "attempts (world st1) = attempts (world st) + (if block_found l b st then 1 else 0)"
    using undecodable_round [OF assms(1,2) Suc.prems(1)] by blast
  with Suc.prems(2) have "substrate_ListenToEvents l db d n st1 = (bs, st')"
    by (auto split: prod.splits)
  from Suc.IH [OF step(2) this] step show ?case by auto
qed simp


section \<open>Witnesses\<close>

text \<open>Nodes that refuse the first call and answer from then on.\<close>

definition example_chain :: "int \<Rightarrow> deposit_logs_enriched list" where
  "example_chain b = (if b = 120 then [example_log 2, example_log 9] else [])"

definition example_answer :: "deposit_logs_enriched \<Rightarrow> message result" where
  "example_answer x = (if DestinationDomainID x = 2 then Ok example_message else Err (Error ''no handler''))"

definition flaky_node :: "nat evm_listener" where
  "flaky_node =
     \<lparr> chain_LatestBlock = (\<lambda>n. (if n = 0 then Err (Error ''refused'') else Ok 131, Suc n)),
       chain_FetchDepositLogs = (\<lambda>_ s e n. (Ok (concat (map example_chain [s..e])), Suc n)),
       eventHandler = (\<lambda>_ dst _ _ _ _ _ _ n.
         (if dst = 2 then Ok example_message else Err (Error ''no handler''), n)),
       bridgeAddress = 6 \<rparr>"

definition counter_store :: "nat key_value" where
  "counter_store = \<lparr> GetByKey = (\<lambda>_ n. (Err NotFound, n)), SetByKey = (\<lambda>_ _ n. (Ok (), n)) \<rparr>"

definition flaky_state :: "int \<Rightarrow> message list \<Rightarrow> nat \<Rightarrow> nat listen_state" where
  "flaky_state s ms n = \<lparr> startBlock = Some s, sent = ms, world = n \<rparr>"

lemma flaky_answers: "answers_from example_chain example_answer flaky_node 1"
  by (auto simp: answers_from_def flaky_node_def handle_log_def example_answer_def)

lemma flaky_rounds:
  "listen_iteration flaky_node counter_store 10 1 (flaky_state 119 [] 0) = (Ok None, flaky_state 119 [] 1)"
  "listen_iteration flaky_node counter_store 10 1 (flaky_state 119 [] 1)
   = (Ok (Some (119, 121)), flaky_state 122 [example_message] 3)"
  by (simp_all add: listen_iteration_def flaky_node_def flaky_state_def block_window_def Let_def s_bind_def
      example_chain_def example_log_def finish_range_def StoreBlock_def counter_store_def upto.simps)

lemma flaky_node_answers:
  "node_answers flaky_node 10 120 (flaky_state 119 [] n) \<longleftrightarrow> n \<noteq> 0"
  by (simp add: node_answers_def flaky_node_def flaky_state_def block_window_def Let_def effective_start_def)

lemma flaky_run:
  "ListenToEvents flaky_node counter_store 10 1 2 (flaky_state 119 [] 0)
   = ([(119, 121)], flaky_state 122 [example_message] 3)"
  "no_panic (listen_iteration flaky_node counter_store 10 1) 2 (flaky_state 119 [] 0)"
  "answered (node_answers flaky_node 10 120) (listen_iteration flaky_node counter_store 10 1) 2
     (flaky_state 119 [] 0) = 1"
  by (simp_all add: numeral_2_eq_2 flaky_rounds [unfolded One_nat_def] flaky_node_answers)

lemma flaky_start: "startBlock (flaky_state s ms n) = Some s" "sent (flaky_state s ms n) = ms"
  by (simp_all add: flaky_state_def)

theorem evm_listener_refines_scanner_witness:
  "(scan_step (\<lambda>b. accepted_messages example_answer (example_chain b)))\<^sup>*\<^sup>*
     (119, []) (122, [example_message])"
proof -
  from evm_listener_refines_scanner [OF flaky_answers flaky_start(1) flaky_run(2,1)] obtain s1 where
    "startBlock (flaky_state 122 [example_message] 3) = Some s1"
    "(scan_step (\<lambda>b. accepted_messages example_answer (example_chain b)))\<^sup>*\<^sup>*
       (119, sent (flaky_state 119 [] 0)) (s1, sent (flaky_state 122 [example_message] 3))" by blast
  then show ?thesis by (simp add: flaky_start)
qed

text \<open>
  A node whose answer to the third call, the handler's for the first log of block 120, is
  lost: that deposit is never sent, the other one is.
\<close>

definition shaky_node :: "(nat \<times> deposit_logs_enriched set) evm_listener" where
  "shaky_node =
     \<lparr> chain_LatestBlock = (\<lambda>(n, R). (Ok 131, Suc n, R)),
       chain_FetchDepositLogs = (\<lambda>_ s e (n, R). (Ok (concat (map example_chain [s..e])), Suc n, R)),
       eventHandler = (\<lambda>_ dst nonce rid cd resp tx blk (n, R).
         if n = 2
         then (Err (Error ''connection reset''), Suc n,
               insert \<lparr> DestinationDomainID = dst, ResourceID = rid, LogDepositNonce = nonce, SenderAddress = 8,
                 LogData = cd, HandlerResponse = resp, LogDepositTxHash = tx, LogDepositBlock = blk \<rparr> R)
         else (Ok (example_message\<lparr>Destination := dst\<rparr>), Suc n, R)),
       bridgeAddress = 6 \<rparr>"

definition shaky_store :: "(nat \<times> deposit_logs_enriched set) key_value" where
  "shaky_store = \<lparr> GetByKey = (\<lambda>_ w. (Err NotFound, w)), SetByKey = (\<lambda>_ _ w. (Ok (), w)) \<rparr>"

definition shaky_answer :: "deposit_logs_enriched \<Rightarrow> message result" where
  "shaky_answer x = Ok (example_message\<lparr>Destination := DestinationDomainID x\<rparr>)"

lemma shaky_records: "records_refusals example_chain shaky_answer (\<lambda>w. {x. x \<in> snd w \<or> SenderAddress x \<noteq> 8})
    shaky_node shaky_store 1"
  by (auto simp: records_refusals_def shaky_node_def shaky_store_def handle_log_def shaky_answer_def
      split: if_splits)

lemma shaky_run:
  "listen_iteration shaky_node shaky_store 10 1 \<lparr> startBlock = Some 119, sent = [], world = (0, {}) \<rparr>
   = (Ok (Some (119, 121)), \<lparr> startBlock = Some 122, sent = [example_message\<lparr>Destination := 9\<rparr>],
        world = (4, {example_log 2}) \<rparr>)"
  by (simp add: listen_iteration_def shaky_node_def block_window_def Let_def s_bind_def
      example_chain_def example_log_def finish_range_def StoreBlock_def shaky_store_def upto.simps)

theorem every_deposit_is_sent_witness:
  "\<exists>st'. snd (ListenToEvents shaky_node shaky_store 10 1 1
       \<lparr> startBlock = Some 119, sent = [], world = (0, {}) \<rparr>) = st' \<and>
     example_message\<lparr>Destination := 9\<rparr> \<in> set (sent st') \<and> example_log 2 \<in> snd (world st')"
proof -
  let ?st = "\<lparr> startBlock = Some 119, sent = [], world = (0, {}) \<rparr> :: (nat \<times> deposit_logs_enriched set) listen_state"
  let ?st' = "\<lparr> startBlock = Some 122, sent = [example_message\<lparr>Destination := 9\<rparr>],
        world = (4, {example_log 2}) \<rparr> :: (nat \<times> deposit_logs_enriched set) listen_state"
  have good: "node_answers shaky_node 10 120 ?st"
    by (simp add: node_answers_def shaky_node_def block_window_def Let_def effective_start_def)
  have run: "no_panic (listen_iteration shaky_node shaky_store 10 1) 1 ?st"
    "ListenToEvents shaky_node shaky_store 10 1 1 ?st = ([(119, 121)], ?st')"
    "answered (node_answers shaky_node 10 120) (listen_iteration shaky_node shaky_store 10 1) 1 ?st = 1"
    by (simp_all add: One_nat_def shaky_run good del: listen_state.simps)
  have "example_log 2 \<in> set (example_chain 120) \<and> example_log 9 \<in> set (example_chain 120)"
    by (simp add: example_chain_def)
  moreover have "x \<in> set (example_chain 120) \<Longrightarrow> shaky_answer x = Ok m \<Longrightarrow>
      m \<in> set (sent ?st') \<or> x \<in> {x. x \<in> snd (world ?st') \<or> SenderAddress x \<noteq> 8}" for x m
    by (rule every_deposit_is_sent [THEN conjunct2, rule_format, OF shaky_records _ _ run(1) _ run(2), of 119 120 120])
      (simp_all only: run(3), simp_all)
  ultimately have "example_message\<lparr>Destination := 9\<rparr> \<in> set (sent ?st')" "example_log 2 \<in> snd (world ?st')"
    by (simp_all add: shaky_answer_def example_log_def)
  with run(2) show ?thesis by simp
qed

lemma block_of_hash [simp]: "ucast (ucast (b :: u64) :: hash) = b"
  by (rule ucast_up_ucast_id) (simp add: is_up.rep_eq)

text \<open>
  Block 5 has a transfer and updated the code; the node refuses the first call and loses the
  answer to the fifth, which is the update of the metadata.
\<close>

definition flaky_blocks :: "u64 \<Rightarrow> substrate_events" where
  "flaky_blocks b = no_events
     \<lparr> System_CodeUpdated := (if b = 5 then 1 else 0),
       ChainBridge_FungibleTransfer := [example_fungible (unat b)] \<rparr>"

definition flaky_reader :: "nat substrate_reader" where
  "flaky_reader =
     \<lparr> GetHeaderLatest = (\<lambda>n. (if n = 0 then Err (Error ''refused'') else Ok 5, Suc n)),
       GetBlockHash = (\<lambda>b n. (Ok (ucast b), Suc n)),
       GetBlockEvents = (\<lambda>h n. (Ok (flaky_blocks (ucast h)), Suc n)),
       UpdateMetatdata = (\<lambda>n. (if n = 4 then Err (Error ''connection lost'') else Ok (), Suc n)) \<rparr>"

definition flaky_substrate :: "nat substrate_listener" where
  "flaky_substrate =
     RegisterSubscription FungibleTransfer FungibleTransferHandler (NewSubstrateListener flaky_reader)"

lemma flaky_substrate_answers: "substrate_answers_from flaky_blocks flaky_substrate"
  by (auto simp: substrate_answers_from_def flaky_substrate_def flaky_reader_def RegisterSubscription_def
      NewSubstrateListener_def)

lemma flaky_substrate_counts:
  "counts_failed_updates (\<lambda>n. if 5 \<le> n then 1 else 0) flaky_substrate counter_store"
  by (auto simp: counts_failed_updates_def flaky_substrate_def flaky_reader_def RegisterSubscription_def
      NewSubstrateListener_def counter_store_def)

lemma flaky_substrate_rounds:
  "substrate_iteration flaky_substrate counter_store 2 (flaky_state 5 [] 0) = (Ok None, flaky_state 5 [] 1)"
  "substrate_iteration flaky_substrate counter_store 2 (flaky_state 5 [] 1)
   = (Ok (Some 5), flaky_state 6 [] 5)"
  by (simp_all add: substrate_iteration_def flaky_substrate_def RegisterSubscription_def
      NewSubstrateListener_def flaky_reader_def flaky_state_def flaky_blocks_def no_events_def handleEvents_def
      handle_group_def substrate_handler_at_def FungibleTransferHandler_def finish_block_def
      FungibleTransfer_def NonFungibleTransfer_def GenericTransfer_def
      StoreBlock_def counter_store_def block_messages_def big_uint64_def s_bind_def Let_def)

lemma flaky_substrate_node_answers:
  "substrate_node_answers flaky_substrate 5 (flaky_state 5 [] n) \<longleftrightarrow> n \<noteq> 0"
  by (simp add: substrate_node_answers_def flaky_substrate_def RegisterSubscription_def
      NewSubstrateListener_def flaky_reader_def flaky_state_def)


text \<open>A node whose blocks have hashes but no events that can be decoded; the world counts the queries.\<close>

definition stalled_reader :: "nat substrate_reader" where
  "stalled_reader =
     \<lparr> GetHeaderLatest = (\<lambda>n. (Ok 9, n)), GetBlockHash = (\<lambda>b n. (Ok (ucast b), n)),
       GetBlockEvents = (\<lambda>h n. (Err (Error ''unable to find field for event''), Suc n)),
       UpdateMetatdata = (\<lambda>n. (Ok (), n)) \<rparr>"

theorem undecodable_block_stalls_listener_witness:
  "\<exists>st'. substrate_ListenToEvents (NewSubstrateListener stalled_reader) counter_store 2 3 (flaky_state 7 [] 0)
     = ([], st') \<and> startBlock st' = Some 7 \<and> world st' = 3"
proof -
  let ?l = "NewSubstrateListener stalled_reader"
  have l: "undecodable ?l 7" "counts_decodes id (sl_client ?l)"
    by (simp_all add: undecodable_def counts_decodes_def NewSubstrateListener_def stalled_reader_def)
  have found: "block_found ?l 7 st" for st
    by (simp add: block_found_def NewSubstrateListener_def stalled_reader_def)
  have round: "substrate_iteration ?l counter_store 2 (flaky_state 7 [] n) = (Ok None, flaky_state 7 [] (Suc n))" for n
    by (simp add: substrate_iteration_def NewSubstrateListener_def stalled_reader_def flaky_state_def Let_def)
  have "answered (block_found ?l 7) (substrate_iteration ?l counter_store 2) k (flaky_state 7 [] n) = k" for k n
    by (induction k arbitrary: n) (simp_all add: round found)
  moreover obtain bs st' where
    run: "substrate_ListenToEvents ?l counter_store 2 3 (flaky_state 7 [] 0) = (bs, st')" by fastforce
  moreover have "world (flaky_state 7 [] 0) = 0" by (simp add: flaky_state_def)
  ultimately show ?thesis using undecodable_block_stalls_listener [OF l flaky_start(1) run] by auto
qed

end
