(* ===== verification/Amounts.thy ===== *)
theory Amounts
  imports Complex_Main Gas_Pricer Ethereum_Lib
begin

text \<open>
  The helpers of \<open>chains/evm/calls/util.go\<close> that the command line uses: function
  signatures, fixed-length arrays, and the conversion between the amounts a user types and
  wei. The conversion goes through \<open>big.Float\<close> with the 53 bits of \<open>big.NewFloat(0)\<close>, so
  it rounds; the arithmetic of \<open>math/big\<close> is modelled bit for bit for finite values.
\<close>

section \<open>Bytes\<close>

definition GetSolidityFunctionSig :: "eth_lib \<Rightarrow> bytes \<Rightarrow> 32 word" where
  "GetSolidityFunctionSig L input = word_of_nat (bytes_nat (take 4 (hash_bytes (keccak256 L input))))"

text \<open>\<open>copy\<close> into a zeroed array: longer slices are cut, shorter ones filled up at the end.\<close>

definition copy_into :: "nat \<Rightarrow> bytes \<Rightarrow> bytes" where
  "copy_into n bs = take n bs @ replicate (n - length bs) 0"

definition SliceTo32Bytes :: "bytes \<Rightarrow> hash" where
  "SliceTo32Bytes bs = word_of_nat (bytes_nat (copy_into 32 bs))"

lemma copy_into_length [simp]: "length (copy_into n bs) = n"
  by (simp add: copy_into_def)

lemma SliceTo32Bytes_hash [simp]: "hash_bytes (SliceTo32Bytes bs) = copy_into 32 bs"
proof -
  have "bytes_nat (copy_into 32 bs) < 256 ^ 32"
    using bytes_nat_less [of "copy_into 32 bs"] by simp
  then have "unat (SliceTo32Bytes bs) = bytes_nat (copy_into 32 bs)"
    unfolding SliceTo32Bytes_def by (simp add: unat_of_nat)
  then show ?thesis by (simp add: hash_bytes_def be_bytes_eq)
qed

section \<open>Floating-point numbers\<close>

text \<open>\<open>Mul\<close> and \<open>Quo\<close> round the exact result once, to nearest with ties to even.\<close>

definition float_round :: "nat \<Rightarrow> big_float \<Rightarrow> big_float" where
  "float_round p x =
     (let (m, s) = round_even p (nat \<bar>mant x\<bar>)
      in \<lparr> mant = sgn (mant x) * int m, expo = expo x + int s \<rparr>)"

definition float_mul :: "nat \<Rightarrow> big_float \<Rightarrow> big_float \<Rightarrow> big_float" where
  "float_mul p x y = float_round p \<lparr> mant = mant x * mant y, expo = expo x + expo y \<rparr>"

text \<open>
  The quotient of the mantissas is computed with spare bits and a sticky bit for the
  remainder.
\<close>

definition float_quo :: "nat \<Rightarrow> big_float \<Rightarrow> big_float \<Rightarrow> big_float" where
  "float_quo p x y =
     (let a = nat \<bar>mant x\<bar>; b = nat \<bar>mant y\<bar>;
          k = p + 2 + bit_len b - bit_len a;
          q = a * 2 ^ k div b; r = a * 2 ^ k mod b
      in float_round p
           \<lparr> mant = sgn (mant x) * sgn (mant y) * int (2 * q + (if r = 0 then 0 else 1)),
             expo = expo x - expo y - int k - 1 \<rparr>)"

text \<open>
  \<open>Float.pow5\<close> with the precision \<open>SetString\<close> calls it with: exact up to \<open>5 ^ 27\<close>, by
  repeated squaring beyond.
\<close>

fun pow5_loop :: "nat \<Rightarrow> big_float \<Rightarrow> big_float \<Rightarrow> big_float" where
  "pow5_loop n z f =
     (if n = 0 then z
      else pow5_loop (n div 2) (if odd n then float_mul 117 z f else z) (float_mul 181 f f))"

declare pow5_loop.simps [simp del]

definition pow5 :: "nat \<Rightarrow> big_float" where
  "pow5 n =
     (if n \<le> 27 then \<lparr> mant = 5 ^ n, expo = 0 \<rparr>
      else pow5_loop (n - 27) \<lparr> mant = 5 ^ 27, expo = 0 \<rparr> \<lparr> mant = 5, expo = 0 \<rparr>)"

text \<open>The number \<open>m * 10 ^ e\<close> of a decimal text, as a float of 53 bits.\<close>

definition decimal_float :: "int \<Rightarrow> int \<Rightarrow> big_float" where
  "decimal_float m e =
     (if m = 0 then \<lparr> mant = 0, expo = 0 \<rparr>
      else if e = 0 then float_round 53 \<lparr> mant = m, expo = 0 \<rparr>
      else if e < 0 then float_quo 53 \<lparr> mant = m, expo = e \<rparr> (pow5 (nat (- e)))
      else float_mul 53 \<lparr> mant = m, expo = e \<rparr> (pow5 (nat e)))"

text \<open>
  \<open>math.Pow10\<close> from 0 to 308: the product of two table entries, each the \<open>float64\<close> nearest
  to its power.
\<close>

definition pow10_float :: "nat \<Rightarrow> big_float" where
  "pow10_float n =
     float_mul 53 (float_round 53 \<lparr> mant = 10 ^ (32 * (n div 32)), expo = 0 \<rparr>)
       (float_round 53 \<lparr> mant = 10 ^ (n mod 32), expo = 0 \<rparr>)"

section \<open>Numbers as text\<close>

definition is_digit :: "char \<Rightarrow> bool" where
  "is_digit c \<longleftrightarrow> 48 \<le> (of_char c :: nat) \<and> (of_char c :: nat) \<le> 57"

definition split_sign :: "string \<Rightarrow> bool \<times> string" where
  "split_sign s =
     (case s of
        [] \<Rightarrow> (False, [])
      | c # cs \<Rightarrow> if c = CHR ''-'' then (True, cs) else if c = CHR ''+'' then (False, cs) else (False, s))"

text \<open>The part after the digits: nothing, or \<open>e\<close>, a sign and digits.\<close>

definition parse_exponent :: "string \<Rightarrow> int option" where
  "parse_exponent s =
     (case s of
        [] \<Rightarrow> Some 0
      | c # cs \<Rightarrow>
          if c = CHR ''e'' \<or> c = CHR ''E'' then
            (case split_sign cs of (neg, ds) \<Rightarrow>
               if ds \<noteq> [] \<and> list_all is_digit ds
               then Some ((if neg then -1 else 1) * int (digits_value 0 ds)) else None)
          else None)"

text \<open>
  A decimal text is a sign, digits with at most one point among or around them, and an
  exponent: the number \<open>m * 10 ^ e\<close>.
\<close>

definition parse_decimal :: "string \<Rightarrow> (int \<times> int) option" where
  "parse_decimal s =
     (case split_sign s of (neg, s1) \<Rightarrow>
        let ip = takeWhile is_digit s1; r1 = dropWhile is_digit s1;
            (fp, r2) = (case r1 of
                []  \<Rightarrow> ([], [])
              | c # cs \<Rightarrow> if c = CHR ''.'' then (takeWhile is_digit cs, dropWhile is_digit cs) else ([], r1))
        in if ip @ fp = [] then None
           else map_option
             (\<lambda>e. ((if neg then -1 else 1) * int (digits_value 0 (ip @ fp)), e - int (length fp)))
             (parse_exponent r2))"

datatype float_val = Finite big_float | Infinite bool   \<comment> \<open>with the sign\<close>

text \<open>
  The other texts \<open>SetString\<close> accepts, with a base prefix, a binary exponent or
  underscores, and negative numbers of decimals, which come from 64-bit values of the
  \<open>decimals\<close> flag beyond \<open>int64\<close>, are a parameter.
\<close>

record float_lib =
  other_literal :: "string \<Rightarrow> float_val option"
  negative_to_wei :: "float_val \<Rightarrow> int \<Rightarrow> int result"
  negative_to_user :: "big_float \<Rightarrow> int \<Rightarrow> big_float result"

definition other_literal_documented :: "float_lib \<Rightarrow> bool" where
  "other_literal_documented F \<longleftrightarrow>
     (\<forall>s. set s \<inter> set ''_xXbBoOpP'' = {} \<longrightarrow> other_literal F s = None)"

definition float_SetString :: "float_lib \<Rightarrow> string \<Rightarrow> float_val option" where
  "float_SetString F s =
     (if s \<in> {''Inf'', ''inf'', ''+Inf'', ''+inf''} then Some (Infinite False)
      else if s \<in> {''-Inf'', ''-inf''} then Some (Infinite True)
      else
        (case parse_decimal s of
           Some (m, e) \<Rightarrow> Some (Finite (decimal_float m e))
         | None \<Rightarrow> other_literal F s))"

text \<open>
  The digits before the point of \<open>Text('f', d)\<close>: the exact value, rounded to \<open>d\<close> digits
  after the point with ties to even.
\<close>

definition text_integer :: "nat \<Rightarrow> big_float \<Rightarrow> int" where
  "text_integer d v =
     sgn (mant v) *
     (if 0 \<le> expo v then \<bar>mant v\<bar> * 2 ^ nat (expo v)
      else
        let n = nat \<bar>mant v\<bar> * 10 ^ d; D = 2 ^ nat (- expo v); q = n div D; r = n mod D;
            rounded = (if 2 * r < D \<or> 2 * r = D \<and> even q then q else q + 1)
        in int (rounded div 10 ^ d))"

section \<open>Amounts\<close>

text \<open>
  The text of an infinite product is no integer, and is the error that is returned; zero
  times infinity panics in \<open>Mul\<close>.
\<close>

definition infinite_text :: "bool \<Rightarrow> 'a result" where
  "infinite_text neg = Err (Error (if neg then ''-Inf'' else ''+Inf''))"

definition UserAmountToWei :: "float_lib \<Rightarrow> string \<Rightarrow> int \<Rightarrow> int result" where
  "UserAmountToWei F amount decimal =
     (case float_SetString F amount of
        None \<Rightarrow> Err (Error ''wrong amount format'')
      | Some amountFloat \<Rightarrow>
          if decimal < 0 then negative_to_wei F amountFloat decimal
          else
            (case amountFloat of
               Infinite neg \<Rightarrow> infinite_text neg
             | Finite x \<Rightarrow>
                 if decimal > 308
                 then (if mant x = 0 then Panic Raised else infinite_text (mant x < 0))
                 else Ok (text_integer (nat decimal) (float_mul 53 x (pow10_float (nat decimal))))))"

text \<open>The text of an integer always parses.\<close>

definition WeiAmountToUser :: "float_lib \<Rightarrow> int \<Rightarrow> int \<Rightarrow> big_float result" where
  "WeiAmountToUser F amount decimals =
     (case float_SetString F (show_int amount) of
        Some (Finite x) \<Rightarrow>
          if decimals < 0 then negative_to_user F x decimals
          else if decimals > 308 then Ok \<lparr> mant = 0, expo = 0 \<rparr>
          else Ok (float_quo 53 x (pow10_float (nat decimals)))
      | _ \<Rightarrow> Err (Error ''wrong amount format''))"

section \<open>The value of a float and rounding errors\<close>

definition float_real :: "big_float \<Rightarrow> real" where
  "float_real x = real_of_int (mant x) * 2 powi expo x"

lemma float_real_0 [simp]: "float_real \<lparr> mant = 0, expo = e \<rparr> = 0"
  by (simp add: float_real_def)

lemma two_powi_add: "(2 :: real) powi (a + int k) = 2 powi a * 2 ^ k"
  by (simp add: power_int_add)

lemma sgn_nat_abs: "sgn (x :: int) * int (nat \<bar>x\<bar>) = x"
  by (simp add: sgn_mult_abs)

lemma float_round_error:
  assumes "0 < p"
  shows "\<bar>float_real (float_round p x) - float_real x\<bar> * 2 ^ p \<le> \<bar>float_real x\<bar>"
proof -
  obtain q s where qs: "round_even p (nat \<bar>mant x\<bar>) = (q, s)" by fastforce
  let ?w = "(2 :: real) powi expo x"
  have w: "0 < ?w" by simp
  have "2 ^ p * \<bar>int q * 2 ^ s - \<bar>mant x\<bar>\<bar> \<le> \<bar>mant x\<bar>"
    using round_even_relative [OF qs assms] by simp
  then have "real_of_int (2 ^ p * \<bar>int q * 2 ^ s - \<bar>mant x\<bar>\<bar>) \<le> real_of_int \<bar>mant x\<bar>"
    by (simp only: of_int_le_iff)
  then have err: "2 ^ p * \<bar>real q * 2 ^ s - \<bar>real_of_int (mant x)\<bar>\<bar> \<le> \<bar>real_of_int (mant x)\<bar>" by simp
  have "float_real (float_round p x) = real_of_int (sgn (mant x)) * real q * 2 ^ s * ?w"
    by (simp add: float_round_def qs float_real_def two_powi_add)
  moreover have "float_real x = real_of_int (sgn (mant x)) * \<bar>real_of_int (mant x)\<bar> * ?w"
    by (simp add: float_real_def sgn_if)
  ultimately have "float_real (float_round p x) - float_real x
      = real_of_int (sgn (mant x)) * (real q * 2 ^ s - \<bar>real_of_int (mant x)\<bar>) * ?w"
    by (simp add: algebra_simps)
  then have "\<bar>float_real (float_round p x) - float_real x\<bar>
      \<le> \<bar>real q * 2 ^ s - \<bar>real_of_int (mant x)\<bar>\<bar> * ?w"
    using w by (auto simp: abs_mult sgn_if intro!: mult_nonneg_nonneg)
  then have "\<bar>float_real (float_round p x) - float_real x\<bar> * 2 ^ p
      \<le> (2 ^ p * \<bar>real q * 2 ^ s - \<bar>real_of_int (mant x)\<bar>\<bar>) * ?w"
    by (simp add: algebra_simps)
  also have "\<dots> \<le> \<bar>real_of_int (mant x)\<bar> * ?w"
    using err w by (intro mult_right_mono) auto
  finally show ?thesis using w by (simp add: float_real_def abs_mult)
qed

lemma float_mul_error:
  assumes "0 < p"
  shows "\<bar>float_real (float_mul p x y) - float_real x * float_real y\<bar> * 2 ^ p
    \<le> \<bar>float_real x * float_real y\<bar>"
proof -
  have "float_real \<lparr> mant = mant x * mant y, expo = expo x + expo y \<rparr> = float_real x * float_real y"
    by (simp add: float_real_def power_int_add)
  then show ?thesis using float_round_error [OF assms] unfolding float_mul_def by metis
qed

text \<open>A mantissa with few significant bits loses nothing.\<close>

lemma float_round_exact:
  assumes "\<bar>c\<bar> < 2 ^ p"
  shows "\<exists>s\<le>t. float_round p \<lparr> mant = c * 2 ^ t, expo = e \<rparr> = \<lparr> mant = c * 2 ^ (t - s), expo = e + int s \<rparr>"
proof -
  let ?n = "nat \<bar>c\<bar> * 2 ^ t" and ?s = "bit_len (nat \<bar>c\<bar> * 2 ^ t) - p"
  have n: "nat \<bar>c * 2 ^ t\<bar> = ?n" by (simp add: abs_mult nat_mult_distrib nat_power_eq)
  have "nat \<bar>c\<bar> < 2 ^ p" using assms by (simp add: nat_less_iff)
  then have "?n < 2 ^ (p + t)" by (simp add: power_add)
  then have s: "?s \<le> t" using bit_len_le [of ?n "p + t"] by simp
  then have split: "?n = nat \<bar>c\<bar> * 2 ^ (t - ?s) * 2 ^ ?s" by (simp add: mult.assoc flip: power_add)
  have "?n mod 2 ^ ?s = 0" by (subst split) simp
  moreover have "?n div 2 ^ ?s = nat \<bar>c\<bar> * 2 ^ (t - ?s)" by (subst split) simp
  ultimately have "round_even p ?n = (nat \<bar>c\<bar> * 2 ^ (t - ?s), ?s)"
    by (simp add: round_even_def Let_def)
  then have "float_round p \<lparr> mant = c * 2 ^ t, expo = e \<rparr>
      = \<lparr> mant = sgn (c * 2 ^ t) * int (nat \<bar>c\<bar> * 2 ^ (t - ?s)), expo = e + int ?s \<rparr>"
    by (simp add: float_round_def n)
  moreover have "sgn (c * 2 ^ t) * int (nat \<bar>c\<bar> * 2 ^ (t - ?s)) = c * 2 ^ (t - ?s)"
    by (simp add: sgn_mult sgn_mult_abs mult.assoc [symmetric])
  ultimately show ?thesis using s by auto
qed

lemma pow10_exact:
  assumes "n \<le> 22"
  shows "\<exists>t\<le>n. pow10_float n = \<lparr> mant = 5 ^ n * 2 ^ t, expo = int (n - t) \<rparr>"
proof -
  have five: "\<bar>5 ^ n\<bar> < (2 :: int) ^ 53"
  proof -
    have "(5 :: int) ^ n \<le> 5 ^ 22" using assms by (intro power_increasing) auto
    then show ?thesis by simp
  qed
  have "10 ^ (n mod 32) = (5 :: int) ^ n * 2 ^ n" using assms by (simp flip: power_mult_distrib)
  with float_round_exact [OF five, of n 0] obtain s where
    s: "s \<le> n" "float_round 53 \<lparr> mant = 10 ^ (n mod 32), expo = 0 \<rparr> = \<lparr> mant = 5 ^ n * 2 ^ (n - s), expo = int s \<rparr>"
    by auto
  have "float_round 53 \<lparr> mant = 10 ^ (32 * (n div 32)), expo = 0 \<rparr> = \<lparr> mant = 1, expo = 0 \<rparr>"
    using assms float_round_exact [of 1 53 0 0] by simp
  with s(2) have "pow10_float n = float_round 53 \<lparr> mant = 5 ^ n * 2 ^ (n - s), expo = int s \<rparr>"
    by (simp add: pow10_float_def float_mul_def)
  with float_round_exact [OF five, of "n - s" "int s"] obtain u where
    "u \<le> n - s" "pow10_float n = \<lparr> mant = 5 ^ n * 2 ^ (n - s - u), expo = int s + int u \<rparr>" by auto
  with s(1) show ?thesis by (intro exI [of _ "n - s - u"]) auto
qed

lemma pow10_real: "n \<le> 22 \<Longrightarrow> float_real (pow10_float n) = 10 ^ n"
proof -
  assume "n \<le> 22"
  from pow10_exact [OF this] obtain t where
    t: "t \<le> n" "pow10_float n = \<lparr> mant = 5 ^ n * 2 ^ t, expo = int (n - t) \<rparr>" by blast
  then have "float_real (pow10_float n) = 5 ^ n * (2 ^ t * 2 ^ (n - t))"
    by (simp add: float_real_def del: of_nat_diff)
  also have "(2 :: real) ^ t * 2 ^ (n - t) = 2 ^ n" using t(1) by (simp flip: power_add)
  finally show ?thesis by (simp flip: power_mult_distrib)
qed


text \<open>Dividing: the mantissa \<open>2 q + sticky\<close> is within one unit of twice the quotient, which is large.\<close>

lemma sticky_error:
  fixes n b :: nat
  assumes "0 < b"
  shows "\<bar>real (2 * (n div b) + (if n mod b = 0 then 0 else 1)) - 2 * real n / real b\<bar> \<le> 1"
proof -
  have "real n = real (n div b) * real b + real (n mod b)"
    by (metis div_mult_mod_eq of_nat_add of_nat_mult)
  moreover define t where "t = real (n mod b) / real b"
  ultimately have "2 * real n / real b = 2 * real (n div b) + 2 * t"
    using assms by (simp add: field_simps)
  moreover have "0 \<le> t" "t < 1" "n mod b = 0 \<Longrightarrow> t = 0"
    using assms by (simp_all add: t_def field_simps)
  ultimately show ?thesis by auto
qed

lemma quotient_large:
  assumes "0 < a" and "0 < b"
  shows "2 ^ (p + 1) \<le> real (a * 2 ^ (p + 2 + bit_len b - bit_len a)) / real b"
proof -
  let ?k = "p + 2 + bit_len b - bit_len a"
  have len: "bit_len a \<noteq> 0" using assms by (simp add: bit_len.simps [of a])
  have "b * 2 ^ (p + 1) \<le> 2 ^ bit_len b * 2 ^ (p + 1)"
    using bit_len_bounds [of b] by (intro mult_right_mono) auto
  also have "\<dots> \<le> 2 ^ (bit_len a - 1 + ?k)"
    using len by (subst power_add [symmetric], intro power_increasing) auto
  also have "\<dots> \<le> a * 2 ^ ?k"
    using bit_len_bounds [of a] assms by (simp add: power_add)
  finally have "b * 2 ^ (p + 1) \<le> a * 2 ^ ?k" .
  then have "real (b * 2 ^ (p + 1)) \<le> real (a * 2 ^ ?k)" by (simp only: of_nat_le_iff)
  then show ?thesis using assms(2) by (simp add: field_simps)
qed

lemma compose_error:
  fixes x y z :: real
  assumes "\<bar>y - z\<bar> \<le> 1" and "2 ^ (p + 2) \<le> z" and "\<bar>x - y\<bar> * 2 ^ p \<le> y" and "2 \<le> p"
  shows "\<bar>x - z\<bar> * 2 ^ p \<le> 2 * z"
proof -
  have "y \<le> z + 1" and "(4 :: real) \<le> 2 ^ p"
    using assms(1) power_increasing [OF assms(4), of "2 :: real"] by auto
  moreover have "\<bar>x - z\<bar> * 2 ^ p \<le> \<bar>x - y\<bar> * 2 ^ p + \<bar>y - z\<bar> * 2 ^ p"
    by (simp add: mult_right_mono flip: distrib_right)
  moreover have "\<bar>y - z\<bar> * 2 ^ p \<le> 2 ^ p" using assms(1) by (simp add: mult_left_le_one_le)
  moreover have "4 * 2 ^ p \<le> z" using assms(2) by (simp add: power_add)
  ultimately show ?thesis using assms(3) by linarith
qed

lemma scaled_error:
  fixes x m w c :: real
  assumes "0 < w" and "\<bar>x - m * w\<bar> * c \<le> m * w"
  shows "\<bar>x / w - m\<bar> * c \<le> m"
proof -
  have "x / w - m = (x - m * w) / w" using assms(1) by (simp add: field_simps)
  then have "\<bar>x / w - m\<bar> * c = \<bar>x - m * w\<bar> * c / w" using assms(1) by (simp add: abs_divide)
  also have "\<dots> \<le> m" using assms by (simp add: divide_le_eq)
  finally show ?thesis .
qed

lemma float_quo_error:
  assumes "2 \<le> p" and "0 < mant x" and "0 < mant y"
  shows "\<bar>float_real (float_quo p x y) - float_real x / float_real y\<bar> * 2 ^ p
    \<le> 2 * (float_real x / float_real y)"
proof -
  define a b k where "a = nat (mant x)" and "b = nat (mant y)" and "k = p + 2 + bit_len b - bit_len a"
  define m where "m = 2 * (a * 2 ^ k div b) + (if a * 2 ^ k mod b = 0 then 0 else 1)"
  define e where "e = expo x - expo y - int k - 1"
  let ?w = "(2 :: real) powi e"
  have pos: "0 < a" "0 < b" using assms by (simp_all add: a_def b_def)
  have quo: "float_quo p x y = float_round p \<lparr> mant = int m, expo = e \<rparr>"
    using assms by (simp add: float_quo_def Let_def a_def b_def k_def m_def e_def)
  have "\<bar>real m - 2 * real (a * 2 ^ k) / real b\<bar> \<le> 1"
    unfolding m_def by (rule sticky_error [OF pos(2)])
  moreover have "2 ^ (p + 2) \<le> 2 * real (a * 2 ^ k) / real b"
    using quotient_large [OF pos, of p] by (simp add: k_def)
  moreover have "\<bar>float_real (float_round p \<lparr> mant = int m, expo = e \<rparr>) / ?w - real m\<bar> * 2 ^ p \<le> real m"
  proof -
    have "\<bar>float_real (float_round p \<lparr> mant = int m, expo = e \<rparr>) - real m * ?w\<bar> * 2 ^ p \<le> real m * ?w"
      using float_round_error [of p "\<lparr> mant = int m, expo = e \<rparr>"] assms(1) by (simp add: float_real_def)
    then show ?thesis by (rule scaled_error [rotated]) simp
  qed
  ultimately have "\<bar>float_real (float_quo p x y) / ?w - 2 * real (a * 2 ^ k) / real b\<bar> * 2 ^ p
      \<le> 2 * (2 * real (a * 2 ^ k) / real b)"
    unfolding quo using assms(1) by (intro compose_error [where y = "real m"]) auto
  moreover have "float_real x / float_real y = 2 * real (a * 2 ^ k) / real b * ?w"
    using pos assms
    by (simp add: float_real_def a_def b_def e_def power_int_diff power_int_add field_simps)
  ultimately show ?thesis by (simp add: field_simps)
qed


text \<open>The printed integer part of a float that is closer than half a last digit to an integer.\<close>

lemma nat_within_one: "\<bar>real a - real b\<bar> < 1 \<Longrightarrow> a = b"
  by linarith

lemma half_apart: "\<bar>a - b\<bar> * 2 \<le> 1 \<Longrightarrow> \<bar>b - c\<bar> * 2 < 1 \<Longrightarrow> \<bar>a - c\<bar> < (1 :: real)"
  by (simp add: abs_if split: if_splits)

lemma positive_near: "\<bar>x - y\<bar> * 2 < 1 \<Longrightarrow> 1 \<le> y \<Longrightarrow> 0 < (x :: real)"
  by (simp add: abs_if split: if_splits)

lemma abs_near:
  fixes x y t :: real
  assumes "0 < t" and "\<bar>x - y\<bar> * 2 * t < 1"
  shows "\<bar>\<bar>x\<bar> * t - y * t\<bar> * 2 < 1 \<or> y < 0"
proof (cases "y < 0")
  case False
  then have "\<bar>\<bar>x\<bar> - y\<bar> \<le> \<bar>x - y\<bar>" by auto
  then have "\<bar>\<bar>x\<bar> - y\<bar> * (2 * t) \<le> \<bar>x - y\<bar> * (2 * t)" using assms(1) by (intro mult_right_mono) auto
  moreover have "\<bar>\<bar>x\<bar> * t - y * t\<bar> = \<bar>\<bar>x\<bar> - y\<bar> * t"
    using assms(1) by (simp add: abs_mult flip: left_diff_distrib)
  ultimately show ?thesis using assms(2) by (simp add: algebra_simps)
qed simp

lemma rounded_quotient:
  fixes n D m :: nat
  assumes "0 < D" and "\<bar>real n / real D - real m\<bar> * 2 < 1"
  shows "(if 2 * (n mod D) < D \<or> 2 * (n mod D) = D \<and> even (n div D) then n div D else n div D + 1) = m"
proof -
  define q where
    "q = (if 2 * (n mod D) < D \<or> 2 * (n mod D) = D \<and> even (n div D) then n div D else n div D + 1)"
  have "q = n div D \<and> 2 * (n mod D) \<le> D \<or> q = n div D + 1 \<and> D \<le> 2 * (n mod D)"
    by (auto simp: q_def)
  from nearest_error [OF assms(1) this] have "2 * \<bar>int q * int D - int n\<bar> \<le> int D" .
  then have "real_of_int (2 * \<bar>int q * int D - int n\<bar>) \<le> real_of_int (int D)"
    by (simp only: of_int_le_iff)
  then have "2 * \<bar>real q * real D - real n\<bar> \<le> real D" by simp
  moreover have "real q - real n / real D = (real q * real D - real n) / real D"
    using assms(1) by (simp add: field_simps)
  ultimately have "\<bar>real q - real n / real D\<bar> * 2 \<le> 1"
    using assms(1) by (simp add: abs_divide divide_le_eq)
  then have "\<bar>real q - real m\<bar> < 1" using assms(2) by (rule half_apart)
  then have "q = m" by (rule nat_within_one)
  then show ?thesis by (simp add: q_def)
qed

lemma text_integer_near:
  assumes "\<bar>float_real v - real N\<bar> * 2 * 10 ^ d < 1"
  shows "text_integer d v = int N"
proof -
  have ten: "(1 :: real) \<le> 10 ^ d" by simp
  have close: "\<bar>float_real v - real N\<bar> * 2 < 1"
  proof (rule ccontr)
    assume "\<not> ?thesis"
    then have "1 * 1 \<le> \<bar>float_real v - real N\<bar> * 2 * 10 ^ d" using ten by (intro mult_mono) auto
    with assms show False by simp
  qed
  show ?thesis
  proof (cases "0 \<le> expo v")
    case True
    define z where "z = mant v * 2 ^ nat (expo v)"
    from True have "float_real v = real_of_int z"
      by (simp add: float_real_def power_int_def z_def)
    with close have "\<bar>real_of_int (z - int N)\<bar> < 1" by simp
    then have "\<bar>z - int N\<bar> < 1" by linarith
    then have "z = int N" by simp
    then have "mant v * 2 ^ nat (expo v) = int N" by (simp add: z_def)
    moreover have "sgn (mant v) * (\<bar>mant v\<bar> * 2 ^ nat (expo v)) = mant v * 2 ^ nat (expo v)"
      by (simp add: sgn_mult_abs mult.assoc [symmetric])
    ultimately show ?thesis using True by (simp add: text_integer_def)
  next
    case False
    define D where "D = (2 :: nat) ^ nat (- expo v)"
    have D: "0 < D" by (simp add: D_def)
    have val: "float_real v = real_of_int (mant v) / real D"
      using False by (simp add: float_real_def D_def power_int_def field_simps)
    have abs_val: "real (nat \<bar>mant v\<bar> * 10 ^ d) / real D = \<bar>float_real v\<bar> * 10 ^ d"
      using D by (simp add: val abs_divide)
    have "\<bar>real (nat \<bar>mant v\<bar> * 10 ^ d) / real D - real (N * 10 ^ d)\<bar> * 2 < 1"
      unfolding abs_val using abs_near [OF _ assms] by simp
    from rounded_quotient [OF D this] False
    have "text_integer d v = sgn (mant v) * int (N * 10 ^ d div 10 ^ d)"
      by (simp only: text_integer_def Let_def D_def [symmetric] if_False)
    moreover have "0 < N \<Longrightarrow> 0 < mant v"
    proof -
      assume "0 < N"
      then have "1 \<le> real N" by simp
      with close have "0 < float_real v" by (rule positive_near)
      with D show "0 < mant v" by (simp add: val zero_less_divide_iff)
    qed
    ultimately show ?thesis by (cases "N = 0") auto
  qed
qed


text \<open>The float of a decimal text, and its product with a power of ten.\<close>

lemma decimal_float_error:
  assumes "k \<le> 27"
  shows "\<bar>float_real (decimal_float (int n) (- int k)) - real n / 10 ^ k\<bar> * 2 ^ 52 \<le> real n / 10 ^ k"
proof -
  consider "n = 0" | "0 < n" "k = 0" | "0 < n" "0 < k" by auto
  then show ?thesis
  proof cases
    case 2
    with float_round_error [of 53 "\<lparr> mant = int n, expo = 0 \<rparr>"] show ?thesis
      by (simp add: decimal_float_def float_real_def)
  next
    case 3
    define x where "x = \<lparr> mant = int n, expo = - int k \<rparr>"
    have p5: "pow5 k = \<lparr> mant = 5 ^ k, expo = 0 \<rparr>" using assms by (simp add: pow5_def)
    have "float_real x / float_real (pow5 k) = real n / (2 ^ k * 5 ^ k)"
      by (simp add: x_def p5 float_real_def power_int_minus field_simps)
    then have "float_real x / float_real (pow5 k) = real n / 10 ^ k"
      by (simp flip: power_mult_distrib)
    with float_quo_error [of 53 x "pow5 k"] 3 show ?thesis
      by (simp add: decimal_float_def x_def p5)
  qed (simp add: decimal_float_def)
qed

lemma two_errors:
  fixes x y z t :: real
  assumes "\<bar>x - y\<bar> * 2 ^ 52 \<le> y" and "\<bar>z - x * t\<bar> * 2 ^ 53 \<le> \<bar>x * t\<bar>" and "0 < t" and "0 \<le> y"
  shows "\<bar>z - y * t\<bar> * 2 ^ 51 \<le> y * t"
proof -
  have "\<bar>x * t - y * t\<bar> = \<bar>x - y\<bar> * t" using assms(3) by (simp add: abs_mult flip: left_diff_distrib)
  moreover have "\<bar>x - y\<bar> * 2 ^ 52 * t \<le> y * t" using assms(1,3) by (intro mult_right_mono) auto
  ultimately have first: "\<bar>x * t - y * t\<bar> * 2 ^ 52 \<le> y * t" by (simp add: algebra_simps)
  define a b c where "a = \<bar>x * t - y * t\<bar>" and "b = \<bar>z - x * t\<bar>" and "c = y * t"
  have "0 \<le> c" using assms(3,4) by (simp add: c_def)
  moreover have "\<bar>x * t\<bar> \<le> c + a" using \<open>0 \<le> c\<close> by (simp add: a_def c_def)
  then have "b * 2 ^ 53 \<le> c + a" using assms(2) by (simp add: b_def)
  moreover have "a * 2 ^ 52 \<le> c" using first by (simp add: a_def c_def)
  moreover have "\<bar>z - c\<bar> \<le> b + a" by (simp add: a_def b_def c_def)
  ultimately have "\<bar>z - c\<bar> * 2 ^ 51 \<le> c" by simp
  then show ?thesis by (simp add: c_def)
qed

lemma scaled_amount_error:
  assumes "k \<le> d" and "d \<le> 22"
  shows "\<bar>float_real (float_mul 53 (decimal_float (int n) (- int k)) (pow10_float d)) - real (n * 10 ^ (d - k))\<bar>
    * 2 ^ 51 \<le> real (n * 10 ^ (d - k))"
proof -
  have "(10 :: real) ^ d = 10 ^ k * 10 ^ (d - k)" using assms(1) by (simp flip: power_add)
  then have "real n / 10 ^ k * 10 ^ d = real (n * 10 ^ (d - k))" by simp
  with two_errors [OF decimal_float_error [of k n], of "float_real (float_mul 53 (decimal_float (int n) (- int k)) (pow10_float d))" "10 ^ d"]
    float_mul_error [of 53 "decimal_float (int n) (- int k)" "pow10_float d"] pow10_real [OF assms(2)] assms
  show ?thesis by simp
qed

text \<open>Amounts of text: digits, and digits after a point.\<close>

definition decimal_text :: "string \<Rightarrow> string \<Rightarrow> string" where
  "decimal_text ip fp = (if fp = [] then ip else ip @ CHR ''.'' # fp)"

lemma is_digit_chars [simp]:
  "\<not> is_digit CHR ''-''" "\<not> is_digit CHR ''+''" "\<not> is_digit CHR ''.''"
  "\<not> is_digit CHR ''I''" "\<not> is_digit CHR ''i''"
  by (simp_all add: is_digit_def)

lemma parse_decimal_text:
  assumes "list_all is_digit ip" and "list_all is_digit fp" and "ip \<noteq> []"
  shows "parse_decimal (decimal_text ip fp) = Some (int (digits_value 0 (ip @ fp)), - int (length fp))"
proof -
  obtain c cs where ip: "ip = c # cs" "is_digit c" using assms by (cases ip) auto
  then have "c \<noteq> CHR ''-''" "c \<noteq> CHR ''+''" by auto
  then have sign: "split_sign (ip @ s) = (False, ip @ s)" for s by (simp add: ip split_sign_def)
  have ds: "takeWhile is_digit xs = xs" "dropWhile is_digit xs = []" if "list_all is_digit xs" for xs
    using that by (simp_all add: list_all_iff)
  have "takeWhile is_digit (ip @ CHR ''.'' # fp) = ip" "dropWhile is_digit (ip @ CHR ''.'' # fp) = CHR ''.'' # fp"
    using assms(1) by (simp_all add: list_all_iff takeWhile_append dropWhile_append)
  then show ?thesis
    using sign [of "[]"] sign [of "CHR ''.'' # fp"] assms(3)
    by (simp add: parse_decimal_def decimal_text_def parse_exponent_def Let_def
        ds [OF assms(1)] ds [OF assms(2)])
qed

lemma SetString_decimal:
  assumes "list_all is_digit ip" and "list_all is_digit fp" and "ip \<noteq> []"
  shows "float_SetString F (decimal_text ip fp)
    = Some (Finite (decimal_float (int (digits_value 0 (ip @ fp))) (- int (length fp))))"
proof -
  obtain c cs where ip: "ip = c # cs" "is_digit c" using assms by (cases ip) auto
  then have "c \<noteq> CHR ''-''" "c \<noteq> CHR ''+''" "c \<noteq> CHR ''I''" "c \<noteq> CHR ''i''" by auto
  then show ?thesis
    using parse_decimal_text [OF assms] by (simp add: float_SetString_def) (simp add: decimal_text_def ip)
qed


lemma floor_bound:
  fixes x :: real and q t :: nat
  assumes "0 < t" and "\<bar>real q - x * real t\<bar> \<le> 1"
  shows "\<bar>real (q div t) - x\<bar> \<le> 2"
proof -
  have "real q = real (q div t) * real t + real (q mod t)"
    by (metis div_mult_mod_eq of_nat_add of_nat_mult)
  then have "(real (q div t) - x) * real t = real q - x * real t - real (q mod t)"
    by (simp add: algebra_simps)
  then have "\<bar>(real (q div t) - x) * real t\<bar> \<le> \<bar>real q - x * real t\<bar> + real (q mod t)"
    using abs_triangle_ineq4 [of "real q - x * real t" "real (q mod t)"] by simp
  moreover have "real (q mod t) \<le> real t" "1 \<le> real t" using assms(1) by (simp_all add: less_imp_le)
  ultimately have "\<bar>(real (q div t) - x) * real t\<bar> \<le> 2 * real t" using assms(2) by linarith
  then have "\<bar>real (q div t) - x\<bar> * real t \<le> 2 * real t" by (simp add: abs_mult)
  then show ?thesis using assms(1) by (auto simp: mult_le_cancel_right)
qed

lemma text_integer_bound: "\<bar>real_of_int (text_integer d v) - float_real v\<bar> \<le> 2"
proof (cases "0 \<le> expo v")
  case True
  have "sgn (mant v) * (\<bar>mant v\<bar> * 2 ^ nat (expo v)) = mant v * 2 ^ nat (expo v)"
    by (simp add: sgn_mult_abs mult.assoc [symmetric])
  with True have "text_integer d v = mant v * 2 ^ nat (expo v)" by (simp add: text_integer_def)
  with True show ?thesis by (simp add: float_real_def power_int_def)
next
  case False
  define D n where "D = (2 :: nat) ^ nat (- expo v)" and "n = nat \<bar>mant v\<bar> * 10 ^ d"
  define q where
    "q = (if 2 * (n mod D) < D \<or> 2 * (n mod D) = D \<and> even (n div D) then n div D else n div D + 1)"
  have D: "0 < D" by (simp add: D_def)
  have val: "float_real v = real_of_int (sgn (mant v)) * (\<bar>real_of_int (mant v)\<bar> / real D)"
    using False by (simp add: float_real_def D_def power_int_def field_simps sgn_if)
  have "q = n div D \<and> 2 * (n mod D) \<le> D \<or> q = n div D + 1 \<and> D \<le> 2 * (n mod D)"
    by (auto simp: q_def)
  from nearest_error [OF D this] have "2 * \<bar>int q * int D - int n\<bar> \<le> int D" .
  then have "real_of_int (2 * \<bar>int q * int D - int n\<bar>) \<le> real_of_int (int D)"
    by (simp only: of_int_le_iff)
  then have "2 * \<bar>real q * real D - real n\<bar> \<le> real D" by simp
  moreover have "real q - real n / real D = (real q * real D - real n) / real D"
    using D by (simp add: field_simps)
  ultimately have "\<bar>real q - real n / real D\<bar> \<le> 1"
    using D by (simp add: abs_divide divide_le_eq)
  then have "\<bar>real q - \<bar>real_of_int (mant v)\<bar> / real D * real (10 ^ d)\<bar> \<le> 1"
    by (simp add: n_def)
  from floor_bound [OF _ this] have
    "\<bar>real (q div 10 ^ d) - \<bar>real_of_int (mant v)\<bar> / real D\<bar> \<le> 2" by simp
  moreover have "text_integer d v = sgn (mant v) * int (q div 10 ^ d)"
    using False by (simp only: text_integer_def Let_def D_def [symmetric] n_def [symmetric] q_def if_False)
  ultimately show ?thesis
    by (auto simp: val sgn_if)
qed

lemma half_digit:
  fixes a n t :: real
  assumes "a * 2 ^ 51 \<le> n" and "n * t < 2 ^ 50" and "0 < t"
  shows "a * 2 * t < 1"
proof -
  define c where "c = a * t"
  have "a * 2 ^ 51 * t \<le> n * t" by (rule mult_right_mono [OF assms(1) less_imp_le [OF assms(3)]])
  then have "a * 2 ^ 51 * t < 2 ^ 50" using assms(2) by (rule le_less_trans)
  moreover have "a * 2 ^ 51 * t = c * 2 ^ 51" by (simp only: c_def mult.commute mult.left_commute)
  ultimately have "c * 2 ^ 51 < 2 ^ 50" by (simp only:)
  then have "c * 2 < 1" by simp
  then show ?thesis by (simp add: c_def mult.commute mult.left_commute)
qed

lemma bit_len_eval:
  "bit_len 0 = 0" "bit_len (Suc 0) = 1" "bit_len 1 = 1"
  "bit_len (numeral w) = Suc (bit_len (numeral w div 2))"
  by (simp_all add: bit_len.simps [of 0] bit_len.simps [of "Suc 0"] bit_len.simps [of "numeral w"])

section \<open>Properties\<close>

text \<open>
  C27: the wei of an amount typed in decimals, with at most as many digits after the point
  as the token has decimals and at most 22 decimals, are the exact number up to one part
  in \<open>2 ^ 51\<close> (and two), and exactly that number when it has few enough digits,
  \<open>wei * 10 ^ decimals < 2 ^ 50\<close>.
\<close>

theorem user_amount_near_exact:
  assumes "list_all is_digit ip" and "list_all is_digit fp" and "ip \<noteq> []"
    and "length fp \<le> d" and "d \<le> 22"
    and "N = digits_value 0 (ip @ fp) * 10 ^ (d - length fp)"
  shows "\<exists>wei. UserAmountToWei F (decimal_text ip fp) (int d) = Ok wei \<and>
    2 ^ 51 * \<bar>wei - int N\<bar> \<le> int N + 2 ^ 52 \<and>
    (N * 10 ^ d < 2 ^ 50 \<longrightarrow> wei = int N)"
proof -
  define v where
    "v = float_mul 53 (decimal_float (int (digits_value 0 (ip @ fp))) (- int (length fp))) (pow10_float d)"
  have "UserAmountToWei F (decimal_text ip fp) (int d) = Ok (text_integer d v)"
    using assms(5) by (simp add: UserAmountToWei_def SetString_decimal [OF assms(1-3)] v_def)
  moreover have err: "\<bar>float_real v - real N\<bar> * 2 ^ 51 \<le> real N"
    unfolding v_def assms(6) by (rule scaled_amount_error [OF assms(4,5)])
  moreover have "2 ^ 51 * \<bar>text_integer d v - int N\<bar> \<le> int N + 2 ^ 52"
  proof -
    define w where "w = real_of_int (text_integer d v)"
    have "\<bar>w - float_real v\<bar> \<le> 2" unfolding w_def by (rule text_integer_bound)
    moreover have "\<bar>w - real N\<bar> \<le> \<bar>w - float_real v\<bar> + \<bar>float_real v - real N\<bar>" by simp
    ultimately have "2 ^ 51 * \<bar>w - real N\<bar> \<le> real N + 2 ^ 52" using err by simp
    then have "real_of_int (2 ^ 51 * \<bar>text_integer d v - int N\<bar>) \<le> real_of_int (int N + 2 ^ 52)"
      by (simp add: w_def)
    then show ?thesis by (simp only: of_int_le_iff)
  qed
  moreover have "text_integer d v = int N" if "N * 10 ^ d < 2 ^ 50"
  proof (rule text_integer_near)
    have "real (N * 10 ^ d) < real (2 ^ 50)" using that by (simp only: of_nat_less_iff)
    then have "real N * 10 ^ d < 2 ^ 50" by simp
    from half_digit [OF err this] show "\<bar>float_real v - real N\<bar> * 2 * 10 ^ d < 1" by simp
  qed
  ultimately show ?thesis by blast
qed

text \<open>A library without other literals, for examples.\<close>

definition example_floats :: float_lib where
  "example_floats = \<lparr> other_literal = (\<lambda>_. None), negative_to_wei = (\<lambda>_ _. Panic Raised),
     negative_to_user = (\<lambda>_ _. Panic Raised) \<rparr>"

theorem user_amount_near_exact_witness:
  "\<exists>wei. UserAmountToWei example_floats ''1.1'' 6 = Ok wei \<and> wei = 1100000"
  using user_amount_near_exact [of "''1''" "''1''" 6 1100000 example_floats]
  by (auto simp: is_digit_def decimal_text_def)

text \<open>
  Whole amounts \<open>m\<close> with \<open>m * 5 ^ decimals < 2 ^ 53\<close>, with 18 decimals up to 2361 tokens,
  are exact.
\<close>

lemma whole_amount_exact:
  assumes "list_all is_digit ip" and "ip \<noteq> []" and "d \<le> 22" and "digits_value 0 ip * 5 ^ d < 2 ^ 53"
  shows "UserAmountToWei F ip (int d) = Ok (int (digits_value 0 ip * 10 ^ d))"
proof -
  let ?m = "digits_value 0 ip"
  from pow10_exact [OF assms(3)] obtain t where
    t: "t \<le> d" "pow10_float d = \<lparr> mant = 5 ^ d * 2 ^ t, expo = int (d - t) \<rparr>" by blast
  have "int (?m * 5 ^ d) < int (2 ^ 53)" using assms(4) by (simp only: of_nat_less_iff)
  then have small: "\<bar>int ?m * 5 ^ d\<bar> < 2 ^ 53" by simp
  have "?m \<le> ?m * 5 ^ d" by simp
  then have "?m < 2 ^ 53" using assms(4) by (rule le_less_trans)
  then have "\<bar>int ?m\<bar> < 2 ^ 53" by simp
  from float_round_exact [OF this, of 0 0] have dec: "decimal_float (int ?m) 0 = \<lparr> mant = int ?m, expo = 0 \<rparr>"
    by (auto simp: decimal_float_def)
  from float_round_exact [OF small, of t "int (d - t)"] obtain s where
    s: "s \<le> t" "float_mul 53 (decimal_float (int ?m) 0) (pow10_float d)
      = \<lparr> mant = int ?m * 5 ^ d * 2 ^ (t - s), expo = int (d - t) + int s \<rparr>"
    by (auto simp: float_mul_def dec t(2) mult.assoc)
  have pow: "(2 :: int) ^ (t - s) * 2 ^ nat (int (d - t) + int s) = 2 ^ d"
    using s(1) t(1) by (simp add: nat_add_distrib flip: power_add)
  have "text_integer d (float_mul 53 (decimal_float (int ?m) 0) (pow10_float d))
      = int ?m * 5 ^ d * (2 ^ (t - s) * 2 ^ nat (int (d - t) + int s))"
    unfolding s(2) text_integer_def by (simp add: sgn_mult abs_mult zsgn_def)
  also have "\<dots> = int (?m * 10 ^ d)" by (simp add: pow flip: power_mult_distrib)
  finally show ?thesis
    using assms(3) SetString_decimal [OF assms(1), of "[]"] assms(2)
    by (simp add: UserAmountToWei_def decimal_text_def)
qed

text \<open>
  Other amounts are not: 1.1 tokens of 18 decimals are 128 wei more than they should
  be, 2363 tokens 262144 wei.
\<close>

theorem user_amount_loses_wei:
  "UserAmountToWei F ''1.1'' 18 = Ok 1100000000000000128 \<and>
   UserAmountToWei F ''2363'' 18 = Ok 2363000000000000262144"
proof -
  have "decimal_text ''1'' ''1'' = ''1.1''" "decimal_text ''2363'' '''' = ''2363''"
    by (simp_all add: decimal_text_def)
  with SetString_decimal [of "''1''" "''1''" F] SetString_decimal [of "''2363''" "''''" F]
  show ?thesis
    by (simp add: UserAmountToWei_def is_digit_def decimal_float_def float_quo_def float_mul_def
        float_round_def pow10_float_def pow5_def text_integer_def round_even_def Let_def bit_len_eval)
qed

end
