(* ===== verification/Cli_Base.thy ===== *)
theory Cli_Base
  imports Amounts Client_Setup Transactor
begin

text \<open>
  What the commands under \<open>chains/evm/cli\<close> share: the flags of a command and the global
  flags (\<open>flags/utils.go\<close>), the client and the transactor of a command
  (\<open>initialize/initialize.go\<close>) and the log of the calls (\<open>logger/logger.go\<close>).

  A command line runs in two steps, which cobra calls in this order: the function \<open>Args\<close>
  of the command, which validates the flag variables and computes the processed ones, and
  \<open>RunE\<close>, after the global flags were read. The variables of a package are a record that
  \<open>Args\<close> passes through.
\<close>

section \<open>Text\<close>

text \<open>
  \<open>encoding/hex\<close>'s \<open>DecodeString\<close>: the bytes decoded before the first error, and the
  error (without the byte it names).
\<close>

definition hex_value :: "char \<Rightarrow> nat option" where
  "hex_value c =
     (let n = of_char c in
      if 48 \<le> n \<and> n \<le> 57 then Some (n - 48)
      else if 97 \<le> n \<and> n \<le> 102 then Some (n - 87)
      else if 65 \<le> n \<and> n \<le> 70 then Some (n - 55)
      else None)"

fun hex_DecodeString :: "string \<Rightarrow> bytes \<times> error option" where
  "hex_DecodeString [] = ([], None)"
| "hex_DecodeString [c] =
     ([], Some (Error (if hex_value c = None then ''encoding/hex: invalid byte''
                       else ''encoding/hex: odd length hex string'')))"
| "hex_DecodeString (c # d # cs) =
     (case (hex_value c, hex_value d) of
        (Some x, Some y) \<Rightarrow>
          (case hex_DecodeString cs of (bs, e) \<Rightarrow> (word_of_nat (16 * x + y) # bs, e))
      | _ \<Rightarrow> ([], Some (Error ''encoding/hex: invalid byte'')))"

text \<open>\<open>strconv.Atoi\<close>, and \<open>big.Int.SetString\<close> in base 10.\<close>

definition parse_int :: "string \<Rightarrow> int option" where
  "parse_int s =
     (case split_sign s of (neg, ds) \<Rightarrow>
        if ds \<noteq> [] \<and> list_all is_digit ds
        then Some ((if neg then -1 else 1) * int (digits_value 0 ds)) else None)"

definition strconv_Atoi :: "string \<Rightarrow> int result" where
  "strconv_Atoi s =
     (case parse_int s of
        None \<Rightarrow> Err (Error (''strconv.Atoi: parsing '' @ s @ '': invalid syntax''))
      | Some n \<Rightarrow>
          if - (2 ^ 63) \<le> n \<and> n < 2 ^ 63 then Ok n
          else Err (Error (''strconv.Atoi: parsing '' @ s @ '': value out of range'')))"

section \<open>Flags of a command\<close>

datatype flag_value =
    String_flag string
  | Uint8_flag u8
  | Uint64_flag u64
  | Bool_flag bool
  | Strings_flag "string list"

text \<open>The flags a command declares, with their defaults, and the required ones.\<close>

record command_flags =
  declared :: "(string \<times> flag_value) list"
  required :: "string list"

definition no_flags :: command_flags where
  "no_flags = \<lparr> declared = [], required = [] \<rparr>"

definition declare_flags :: "(string \<times> flag_value) list \<Rightarrow> command_flags \<Rightarrow> command_flags" where
  "declare_flags fs cmd = cmd\<lparr>declared := declared cmd @ fs\<rparr>"

text \<open>Marking a flag the command does not have is an error of cobra and panics.\<close>

fun MarkFlagsAsRequired :: "string list \<Rightarrow> command_flags \<Rightarrow> command_flags result" where
  "MarkFlagsAsRequired [] cmd = Ok cmd"
| "MarkFlagsAsRequired (f # fs) cmd =
     (if f \<in> fst ` set (declared cmd)
      then MarkFlagsAsRequired fs (cmd\<lparr>required := required cmd @ [f]\<rparr>)
      else Panic Raised)"

text \<open>
  The flags of all commands, \<open>BindEVMCLIFlags\<close>; their binding to viper is not modelled.
\<close>

definition BindEVMCLIFlags :: "command_flags \<Rightarrow> command_flags" where
  "BindEVMCLIFlags cmd = declare_flags
     [(''url'', String_flag ''ws://localhost:8545''), (''gas-limit'', Uint64_flag 6721975),
      (''gas-price'', Uint64_flag 0), (''network'', Uint64_flag 0), (''private-key'', String_flag ''''),
      (''json-wallet'', String_flag ''''), (''json-wallet-password'', String_flag ''''),
      (''prepare'', Bool_flag False)] cmd"

section \<open>Global flags\<close>

text \<open>The values of the flags of a running command, by name and type.\<close>

record flag_reader =
  GetString :: "string \<Rightarrow> string result"
  GetUint64 :: "string \<Rightarrow> u64 result"
  GetBool :: "string \<Rightarrow> bool result"

record 'k global_flags =
  g_url :: string
  g_gasLimit :: u64
  g_gasPrice :: "int option"
  g_sender :: "'k keypair option"   \<comment> \<open>nil when the test key ring has no such key\<close>
  g_prepare :: bool

definition AliceKey :: string where "AliceKey = ''alice''"

definition defineSender ::
  "'k crypto_lib \<Rightarrow> 'k test_key_ring \<Rightarrow> flag_reader \<Rightarrow> 'k keypair option result" where
  "defineSender C ring R =
     r_bind (GetString R ''private-key'') (\<lambda>privateKey.
       if privateKey \<noteq> [] then r_bind (secp256k1_NewKeypairFromString C privateKey) (\<lambda>kp. Ok (Some kp))
       else Ok (EthereumKeys ring AliceKey))"

definition GlobalFlagValues ::
  "'k crypto_lib \<Rightarrow> 'k test_key_ring \<Rightarrow> flag_reader \<Rightarrow> 'k global_flags result" where
  "GlobalFlagValues C ring R =
     r_bind (GetString R ''url'') (\<lambda>url.
     r_bind (GetUint64 R ''gas-limit'') (\<lambda>gasLimitInt.
     r_bind (GetUint64 R ''gas-price'') (\<lambda>gasPriceInt.
     r_bind (defineSender C ring R) (\<lambda>senderKeyPair.
     r_bind (GetBool R ''prepare'') (\<lambda>prepare.
       Ok \<lparr> g_url = url, g_gasLimit = gasLimitInt,
            g_gasPrice = (if gasPriceInt \<noteq> 0 then Some (uint gasPriceInt) else None),
            g_sender = senderKeyPair, g_prepare = prepare \<rparr>)))))"

text \<open>\<open>resourceID[0:2]\<close> panics on a shorter text.\<close>

definition ProcessResourceID :: "string \<Rightarrow> hash result" where
  "ProcessResourceID resourceID =
     r_bind (strip_0x resourceID) (\<lambda>s.
       case hex_DecodeString s of
         (bs, None) \<Rightarrow> Ok (SliceTo32Bytes bs)
       | (bs, Some e) \<Rightarrow>
           Err (Error (''failed decoding resourceID hex string: '' @ error_text e)))"

section \<open>Client and transactor\<close>

text \<open>
  What is outside the command line: the node behind a URL and the calls a client makes of
  it, signing, ABI encoding, printing.
\<close>

record ('k, 'rpc, 'w) cli_env =
  env_lib :: eth_lib
  env_abi :: abi_lib
  env_floats :: float_lib
  env_dial :: "string \<Rightarrow> 'w \<Rightarrow> 'rpc result \<times> 'w"
  env_rpc :: "'rpc \<Rightarrow> 'w rpc"
  env_caller :: "('k, 'rpc) evm_client \<Rightarrow> (client_state \<times> 'w) contract_client"
  env_london :: "('k, 'rpc) evm_client \<Rightarrow> 'w london_gas_client"
  env_signer :: "('k, tx_data) signer_lib"
  env_mergo :: merge_options
  env_print :: "address option \<Rightarrow> bytes \<Rightarrow> 'w \<Rightarrow> 'w"
  env_Hex2Bytes :: "string \<Rightarrow> bytes"                \<comment> \<open>\<open>common.Hex2Bytes\<close>\<close>
  env_HexToHash :: "string \<Rightarrow> hash"                 \<comment> \<open>\<open>common.HexToHash\<close>\<close>
  env_hexutil_Decode :: "string \<Rightarrow> bytes result"     \<comment> \<open>\<open>hexutil.Decode\<close>\<close>

text \<open>\<open>Hex2Bytes\<close> gives what could be decoded, without the error.\<close>

definition Hex2Bytes_documented :: "(string \<Rightarrow> bytes) \<Rightarrow> bool" where
  "Hex2Bytes_documented h \<longleftrightarrow> (\<forall>s. h s = fst (hex_DecodeString s))"

text \<open>\<open>kp.PrivateKey()\<close>; the pair has the static type \<open>*secp256k1.Keypair\<close>.\<close>

definition sender_key :: "'k keypair option \<Rightarrow> 'k result" where
  "sender_key kp =
     (case kp of
        Some (Secp256k1_pair k) \<Rightarrow> Ok k
      | Some (Sr25519_pair _) \<Rightarrow> Panic BadTypeAssertion
      | None \<Rightarrow> Panic NilDereference)"

type_synonym 'w cli_state = "client_state \<times> 'w"

definition InitializeClient ::
  "('k, 'rpc, 'w) cli_env \<Rightarrow> string \<Rightarrow> 'k keypair option \<Rightarrow> 'w cli_state
   \<Rightarrow> ('k, 'rpc) evm_client result \<times> 'w cli_state" where
  "InitializeClient E url senderKeyPair =
     s_bind (s_lift (sender_key senderKeyPair)) (\<lambda>k (st, w).
       case NewEVMClientFromParams (env_dial E) url k w of
         (Ok c, w') \<Rightarrow> (Ok c, (new_client_state (PubkeyToAddress (env_signer E) k), w'))
       | (Err e, w') \<Rightarrow> (Err e, (st, w'))
       | (Panic p, w') \<Rightarrow> (Panic p, (st, w')))"

definition london_transactor ::
  "('k, 'rpc, 'w) cli_env \<Rightarrow> int option \<Rightarrow> ('k, 'rpc) evm_client \<Rightarrow> ('w, tx_data) sign_and_send" where
  "london_transactor E gasPrice c =
     \<lparr> TxFabric = NewTransaction,
       gasPriceClient = london_GasPrice (env_london E c)
         (Some \<lparr> UpperLimitFeePerGas = gasPrice, GasPriceFactor = None \<rparr>),
       common = evm_tx (env_signer E) (client_key c), dispatcher = env_rpc E (client_rpc c) \<rparr>"

definition print_prepared ::
  "('k, 'rpc, 'w) cli_env \<Rightarrow> address option \<Rightarrow> bytes \<Rightarrow> 'w cli_state \<Rightarrow> 'w cli_state" where
  "print_prepared E to data s = (fst s, env_print E to data (snd s))"

definition InitializeTransactor ::
  "('k, 'rpc, 'w) cli_env \<Rightarrow> int option \<Rightarrow> ('k, 'rpc) evm_client \<Rightarrow> bool \<Rightarrow> 'w cli_state transactor result"
where
  "InitializeTransactor E gasPrice c prepareFlag =
     Ok (if prepareFlag then prepare_Transact (print_prepared E)
         else signAndSend_Transact (env_mergo E) (london_transactor E gasPrice c))"

text \<open>
  How every \<open>RunE\<close> that reaches a contract begins: the client, the transactor, and then
  the command on the contract made from them.
\<close>

definition with_transactor ::
  "('k, 'rpc, 'w) cli_env \<Rightarrow> 'k global_flags
   \<Rightarrow> ('w cli_state contract_client \<Rightarrow> 'w cli_state transactor option \<Rightarrow> 'w cli_state \<Rightarrow> 'a result \<times> 'w cli_state)
   \<Rightarrow> 'w cli_state \<Rightarrow> 'a result \<times> 'w cli_state" where
  "with_transactor E g command =
     s_bind (InitializeClient E (g_url g) (g_sender g)) (\<lambda>c.
     s_bind (s_lift (InitializeTransactor E (g_gasPrice g) c (g_prepare g))) (\<lambda>t.
       command (env_caller E c) (Some t)))"

text \<open>\<open>transactor.TransactOptions{GasLimit: gasLimit}\<close>.\<close>

definition gas_options :: "u64 \<Rightarrow> transact_options" where
  "gas_options gasLimit = no_options\<lparr>GasLimit := gasLimit\<rparr>"

section \<open>The functions of a command\<close>

text \<open>One check of a validation: an address that is not hexadecimal is the error.\<close>

definition check_address :: "eth_lib \<Rightarrow> string \<Rightarrow> string \<Rightarrow> unit result" where
  "check_address L message a =
     (if \<not> is_hex_address L a then Err (Error (message @ a)) else Ok ())"

text \<open>\<open>Args\<close>: validate, then process.\<close>

definition checked_args ::
  "('v \<Rightarrow> unit result) \<Rightarrow> ('v \<Rightarrow> unit result \<times> 'v) \<Rightarrow> 'v \<Rightarrow> unit result \<times> 'v" where
  "checked_args validate process v = s_bind (s_lift (validate v)) (\<lambda>_. process) v"

text \<open>\<open>RunE\<close>: the command on the bridge contract at the processed address.\<close>

definition on_bridge ::
  "('k, 'rpc, 'w) cli_env \<Rightarrow> 'k global_flags \<Rightarrow> address
   \<Rightarrow> ('w cli_state contract \<Rightarrow> 'w cli_state \<Rightarrow> 'a result \<times> 'w cli_state)
   \<Rightarrow> 'w cli_state \<Rightarrow> 'a result \<times> 'w cli_state" where
  "on_bridge E g bridge command =
     with_transactor E g (\<lambda>c t. command (NewBridgeContract (env_abi E) c bridge t))"

section \<open>The log of calls\<close>

text \<open>
  \<open>LoggerMetadata\<close> appends a line with the command and its flags to a file; \<open>quote\<close> is the
  verb \<open>%q\<close>. A file that could not be opened is the nil file, whose write fails; both
  errors are only logged.
\<close>

definition log_line :: "(string \<Rightarrow> string) \<Rightarrow> string \<Rightarrow> string \<Rightarrow> (string \<times> string) list \<Rightarrow> string" where
  "log_line quote currentTimestamp cmdName flagSet =
     currentTimestamp @ ''Called '' @ cmdName @ '' with args: '' @
     concat (map (\<lambda>(name, v). ''--'' @ name @ ''='' @ quote v @ '' '')
               (filter (\<lambda>(name, v). name \<noteq> ''privateKey'') flagSet)) @ ''=>'' @ [char_of (10 :: nat)]"

record ('f, 'w) log_files =
  OpenAppend :: "string \<Rightarrow> 'w \<Rightarrow> 'f result \<times> 'w"
  WriteString :: "'f \<Rightarrow> string \<Rightarrow> 'w \<Rightarrow> unit result \<times> 'w"
  ConfigureLogger :: "'f option \<Rightarrow> 'w \<Rightarrow> 'w"

definition LoggerMetadata ::
  "('f, 'w) log_files \<Rightarrow> (string \<Rightarrow> string) \<Rightarrow> string \<Rightarrow> string \<Rightarrow> (string \<times> string) list \<Rightarrow> 'w \<Rightarrow> 'w" where
  "LoggerMetadata LF quote now cmdName flagSet w =
     (case OpenAppend LF ''cli_output_data.log'' w of
        (Ok f, w1) \<Rightarrow> ConfigureLogger LF (Some f) (snd (WriteString LF f (log_line quote now cmdName flagSet) w1))
      | (_, w1) \<Rightarrow> ConfigureLogger LF None w1)"

section \<open>Lemmas\<close>

lemma s_bind_lift_Ok [simp]: "s_bind (s_lift (Ok x)) f = f x"
  by (rule ext) (simp add: s_bind_def)

lemma declared_required:
  assumes "set fs \<subseteq> fst ` set (declared cmd)"
  shows "MarkFlagsAsRequired fs cmd = Ok (cmd\<lparr>required := required cmd @ fs\<rparr>)"
  using assms by (induction fs arbitrary: cmd) auto

lemma with_transactor_prepare:
  assumes "g_prepare g"
  shows "with_transactor E g command = s_bind (InitializeClient E (g_url g) (g_sender g)) (\<lambda>c.
    command (env_caller E c) (Some (prepare_Transact (print_prepared E))))"
  using assms by (simp add: with_transactor_def InitializeTransactor_def)

lemma with_transactor_send:
  assumes "\<not> g_prepare g"
  shows "with_transactor E g command = s_bind (InitializeClient E (g_url g) (g_sender g)) (\<lambda>c.
    command (env_caller E c) (Some (signAndSend_Transact (env_mergo E) (london_transactor E (g_gasPrice g) c))))"
  using assms by (simp add: with_transactor_def InitializeTransactor_def)

text \<open>A prepared transaction is printed and nothing else happens.\<close>

lemma prepared_transaction:
  assumes "transactor c = Some (prepare_Transact (print_prepared E))"
  shows "ExecuteTransaction A c method opts args s =
    (case abi_Pack A (ABI c) method args of
       Ok data \<Rightarrow> (Ok 0, print_prepared E (Some (contractAddress c)) data s)
     | Err e \<Rightarrow> (Err e, s) | Panic p \<Rightarrow> (Panic p, s))"
  using assms
  by (simp add: ExecuteTransaction_def PackMethod_def Transact_def prepare_Transact_def s_bind_def
      split: result.splits)

text \<open>
  What a command does to the world when it only prepares its transaction: it dials the node,
  and prints.
\<close>

definition only_prints :: "('k, 'rpc, 'w) cli_env \<Rightarrow> string \<Rightarrow> 'w \<Rightarrow> 'w \<Rightarrow> bool" where
  "only_prints E url w w' \<longleftrightarrow>
     w' = w \<or> w' = snd (env_dial E url w) \<or>
     (\<exists>to data. w' = env_print E to data (snd (env_dial E url w)))"

lemma InitializeClient_world:
  assumes "InitializeClient E url kp (st, w) = (r, (st', w'))"
  shows "w' = w \<or> w' = snd (env_dial E url w)" and "r = Ok c \<Longrightarrow> w' = snd (env_dial E url w)"
  using assms
  by (cases "sender_key kp"; cases "env_dial E url w"; cases "fst (env_dial E url w)";
      auto simp: InitializeClient_def NewEVMClientFromParams_def s_bind_def)+

text \<open>Commands that are one transaction on a contract.\<close>

definition one_transaction :: "('s contract \<Rightarrow> 's \<Rightarrow> unit result \<times> 's) \<Rightarrow> bool" where
  "one_transaction command \<longleftrightarrow> (\<exists>A method opts args. \<forall>c.
     command c = s_bind (ExecuteTransaction A c method opts args) (\<lambda>_. s_return ()))"

named_theorems transaction_commands

lemma one_transactionI [intro]:
  "command = (\<lambda>c. s_bind (ExecuteTransaction A c method opts args) (\<lambda>_. s_return ())) \<Longrightarrow> one_transaction command"
  by (auto simp: one_transaction_def)

definition prepares :: "('k, 'rpc, 'w) cli_env \<Rightarrow> string \<Rightarrow> ('w cli_state \<Rightarrow> unit result \<times> 'w cli_state) \<Rightarrow> bool" where
  "prepares E url run \<longleftrightarrow> (\<forall>st w r st' w'. run (st, w) = (r, (st', w')) \<longrightarrow>
     only_prints E url w w' \<and>
     (r = Ok () \<longrightarrow> (\<exists>to data. w' = env_print E to data (snd (env_dial E url w)))))"

lemma prepared_command:
  assumes "g_prepare g" and "\<And>c t. transactor (mk c t) = t" and "one_transaction command"
  shows "prepares E (g_url g) (with_transactor E g (\<lambda>c t. command (mk c t)))"
  unfolding prepares_def
proof (intro allI impI)
  fix st w r st' w'
  assume run: "with_transactor E g (\<lambda>c t. command (mk c t)) (st, w) = (r, (st', w'))"
  from assms(3) obtain A m opts args where
    command: "\<And>c. command c = s_bind (ExecuteTransaction A c m opts args) (\<lambda>_. s_return ())"
    by (auto simp: one_transaction_def)
  obtain q st1 w1 where init: "InitializeClient E (g_url g) (g_sender g) (st, w) = (q, (st1, w1))"
    by (metis surj_pair)
  note world = InitializeClient_world [OF init]
  show "only_prints E (g_url g) w w' \<and>
     (r = Ok () \<longrightarrow> (\<exists>to data. w' = env_print E to data (snd (env_dial E (g_url g) w))))"
  proof (cases q)
    case (Ok c)
    let ?c = "mk (env_caller E c) (Some (prepare_Transact (print_prepared E)))"
    from run init Ok have "command ?c (st1, w1) = (r, (st', w'))"
      by (simp add: with_transactor_prepare [OF assms(1)])
    moreover from world(2) [OF Ok] have "w1 = snd (env_dial E (g_url g) w)" .
    ultimately show ?thesis
      by (auto simp: command only_prints_def prepared_transaction assms(2) s_bind_def s_return_def print_prepared_def
          split: result.splits)
  qed (use run init world(1) in \<open>auto simp: with_transactor_prepare [OF assms(1)] only_prints_def\<close>)
qed

lemma prepared_on_bridge:
  assumes "g_prepare g" and "one_transaction command"
  shows "prepares E (g_url g) (on_bridge E g bridge command)"
  unfolding on_bridge_def
  by (rule prepared_command [where mk = "\<lambda>c t. NewBridgeContract (env_abi E) c bridge t"])
    (simp_all add: assms NewBridgeContract_def NewContract_def)

section \<open>An example environment\<close>

text \<open>Its world is the list of what was printed.\<close>

definition example_cli_env :: "(nat, unit, (address option \<times> bytes) list) cli_env" where
  "example_cli_env =
     \<lparr> env_lib = reference_lib, env_abi = example_abi, env_floats = example_floats,
       env_dial = (\<lambda>_ w. (Ok (), w)),
       env_rpc = (\<lambda>_. \<lparr> rpc_getBlock = (\<lambda>_ _ w. (Ok (Header (Some 0)), w)),
         rpc_receipt = (\<lambda>h w. (Ok \<lparr> ReceiptStatus = 1, ReceiptTxHash = h \<rparr>, w)), rpc_filterLogs = (\<lambda>_ w. (Ok [], w)),
         rpc_pendingNonceAt = (\<lambda>_ w. (Ok 0, w)), rpc_chainID = (\<lambda>w. (Ok 1, w)), rpc_baseFee = (\<lambda>w. (Ok None, w)),
         rpc_call = (\<lambda>_ _ w. (Ok [], w)), rpc_sendRaw = (\<lambda>_ w. (Ok (), w)) \<rparr>),
       env_caller = (\<lambda>c. \<lparr> cc_From = 1, cc_CallContract = (\<lambda>_ _ w. (Ok [], w)), cc_CodeAt = (\<lambda>_ w. (Ok [1], w)),
         cc_TransactionByHash = (\<lambda>_ w. (Err (Error ''not found''), w)) \<rparr>),
       env_london = (\<lambda>_. \<lparr> SuggestGasPrice = (\<lambda>w. (Ok 1, w)), gc_BaseFee = (\<lambda>w. (Ok None, w)),
         SuggestGasTipCap = (\<lambda>w. (Ok 1, w)) \<rparr>),
       env_signer = \<lparr> NewKeyedTransactor = (\<lambda>_ _. Ok (\<lambda>_ tx. Ok tx)), PubkeyToAddress = word_of_nat,
         MarshalBinary = (\<lambda>_. Ok []), TransactionHash = (\<lambda>_. 0) \<rparr>,
       env_mergo = example_merge, env_print = (\<lambda>to data w. w @ [(to, data)]),
       env_Hex2Bytes = (\<lambda>s. fst (hex_DecodeString s)), env_HexToHash = (\<lambda>s. SliceTo32Bytes (fst (hex_DecodeString s))),
       env_hexutil_Decode = (\<lambda>s. Ok (fst (hex_DecodeString s))) \<rparr>"

definition example_global_flags :: "nat global_flags" where
  "example_global_flags = \<lparr> g_url = ''ws://localhost:8545'', g_gasLimit = 6721975, g_gasPrice = None,
     g_sender = Some (Secp256k1_pair 1), g_prepare = True \<rparr>"

lemma example_cli_env_simps:
  "abi_Pack (env_abi example_cli_env) i method args = Ok (string_bytes method)"
  "env_print example_cli_env to data w = w @ [(to, data)]" "env_dial example_cli_env url w = (Ok (), w)"
  by (simp_all add: example_cli_env_def example_abi_def)

lemma example_InitializeClient:
  "InitializeClient example_cli_env url (Some (Secp256k1_pair k)) (st, w) =
   (Ok \<lparr> client_key = k, client_rpc = () \<rparr>, (new_client_state (word_of_nat k), w))"
  by (simp add: InitializeClient_def sender_key_def NewEVMClientFromParams_def example_cli_env_def s_bind_def
      s_return_def)

section \<open>Resource identifiers\<close>

definition hex_digit :: "nat \<Rightarrow> char" where
  "hex_digit n = char_of (if n < 10 then 48 + n else 87 + n)"

definition hex_text :: "bytes \<Rightarrow> string" where
  "hex_text bs = concat (map (\<lambda>b. [hex_digit (unat b div 16), hex_digit (unat b mod 16)]) bs)"

lemma hex_value_digit: "n < 16 \<Longrightarrow> hex_value (hex_digit n) = Some n"
  by (auto simp: hex_value_def hex_digit_def Let_def of_char_of)

lemma hex_DecodeString_text: "hex_DecodeString (hex_text bs) = (bs, None)"
proof (induction bs)
  case (Cons b bs)
  have "unat b div 16 < 16" using unat_byte_less [of b] by linarith
  moreover have "(word_of_nat (16 * (unat b div 16) + unat b mod 16) :: byte) = b" by simp
  ultimately show ?case using Cons by (simp add: hex_text_def hex_value_digit)
qed (simp add: hex_text_def)

lemma hex_text_no_prefix: "take 2 (hex_text bs) \<noteq> ''0x''"
proof
  assume x: "take 2 (hex_text bs) = ''0x''"
  then obtain b cs where "bs = b # cs" by (cases bs) (auto simp: hex_text_def)
  with x have "hex_digit (unat b mod 16) = CHR ''x''" by (simp add: hex_text_def numeral_2_eq_2)
  then have "hex_value CHR ''x'' = Some (unat b mod 16)" by (metis hex_value_digit mod_less_divisor zero_less_numeral)
  then show False by (simp add: hex_value_def Let_def)
qed

text \<open>
  A resource identifier written in hexadecimal, with or without the prefix \<open>0x\<close>, is
  read back as itself.
\<close>

theorem resource_id_roundtrip:
  "ProcessResourceID (''0x'' @ hex_text (hash_bytes r)) = Ok r \<and>
   ProcessResourceID (hex_text (hash_bytes r)) = Ok r"
proof -
  have "copy_into 32 (hash_bytes r) = hash_bytes r" by (simp add: copy_into_def)
  then have "hash_bytes (SliceTo32Bytes (hash_bytes r)) = hash_bytes r" by simp
  then have r: "SliceTo32Bytes (hash_bytes r) = r" by (simp only: hash_bytes_inject)
  have "length (hex_text bs) = 2 * length bs" for bs by (induction bs) (simp_all add: hex_text_def)
  then have "\<not> length (hex_text (hash_bytes r)) < 2" by simp
  then show ?thesis
    using hex_text_no_prefix [of "hash_bytes r"]
    by (simp add: ProcessResourceID_def strip_0x_def hex_DecodeString_text r)
qed

text \<open>
  The private key of a command is written to the log file: the line leaves out a flag
  \<open>privateKey\<close>, but the flag is \<open>private-key\<close>.
\<close>

theorem private_key_is_logged:
  assumes "OpenAppend LF ''cli_output_data.log'' w = (Ok f, w1)"
    and "(''private-key'', key) \<in> set flagSet"
  shows "\<exists>pre post. LoggerMetadata LF quote now cmdName flagSet w =
    ConfigureLogger LF (Some f)
      (snd (WriteString LF f (pre @ ''--private-key='' @ quote key @ post) w1))"
proof -
  from assms(2) have "(''private-key'', key) \<in> set (filter (\<lambda>(name, v). name \<noteq> ''privateKey'') flagSet)"
    by simp
  then obtain xs ys where
    "filter (\<lambda>(name, v). name \<noteq> ''privateKey'') flagSet = xs @ (''private-key'', key) # ys"
    by (meson split_list)
  then have "\<exists>pre post. log_line quote now cmdName flagSet = pre @ ''--private-key='' @ quote key @ post"
    by (intro exI [of _ "now @ ''Called '' @ cmdName @ '' with args: '' @
          concat (map (\<lambda>(name, v). ''--'' @ name @ ''='' @ quote v @ '' '') xs)"]
        exI [of _ "'' '' @ concat (map (\<lambda>(name, v). ''--'' @ name @ ''='' @ quote v @ '' '') ys) @ ''=>'' @ [char_of (10 :: nat)]"])
      (simp add: log_line_def)
  then obtain pre post where
    "log_line quote now cmdName flagSet = pre @ ''--private-key='' @ quote key @ post" by blast
  then show ?thesis
    by (intro exI [of _ pre] exI [of _ post]) (simp add: LoggerMetadata_def assms(1))
qed

definition example_log_files :: "(unit, string) log_files" where
  "example_log_files = \<lparr> OpenAppend = (\<lambda>_ w. (Ok (), w)), WriteString = (\<lambda>_ s w. (Ok (), w @ s)),
     ConfigureLogger = (\<lambda>_ w. w) \<rparr>"

theorem private_key_is_logged_witness:
  "\<exists>pre post. LoggerMetadata example_log_files (\<lambda>s. s) '''' ''pause'' [(''private-key'', ''ab'')] ''''
   = pre @ ''--private-key=ab'' @ post"
  using private_key_is_logged [of example_log_files "''''" "()" "''''" "''ab''" "[(''private-key'', ''ab'')]"
      "\<lambda>s. s" "''''" "''pause''"]
  by (simp add: example_log_files_def)

end
