(* ===== verification/Cli_Admin.thy ===== *)
theory Cli_Admin
  imports Cli_Base
begin

text \<open>
  The commands of \<open>chains/evm/cli/admin\<close>. The record holds the variables of
  \<open>admin/flagVars.go\<close>: those the flags are read into and those \<open>Args\<close> computes from them.
  Every command has the three functions of the code, \<open>Validate\<close>, \<open>Process\<close> and the call,
  and its \<open>Args\<close> and \<open>RunE\<close>. A query returns what the code prints.
\<close>

section \<open>Variables and flags\<close>

record admin_vars =
  ad_Admin :: string
  ad_Relayer :: string
  ad_DepositNonce :: u64
  ad_DomainID :: u8
  ad_Fee :: string
  ad_RelayerThreshold :: u64
  ad_Amount :: string
  ad_TokenID :: string
  ad_Handler :: string
  ad_Token :: string
  ad_Decimals :: u64
  ad_Recipient :: string
  ad_Bridge :: string
  ad_BridgeAddr :: address
  ad_HandlerAddr :: address
  ad_RelayerAddr :: address
  ad_RecipientAddr :: address
  ad_TokenAddr :: address
  ad_RealAmount :: int

definition BindAddAdminFlags :: "command_flags \<Rightarrow> command_flags result" where
  "BindAddAdminFlags cmd = MarkFlagsAsRequired [''admin'', ''bridge'']
     (declare_flags [(''admin'', String_flag ''''), (''bridge'', String_flag '''')] cmd)"

definition BindAddRelayerFlags :: "command_flags \<Rightarrow> command_flags result" where
  "BindAddRelayerFlags cmd = MarkFlagsAsRequired [''relayer'', ''bridge'']
     (declare_flags [(''relayer'', String_flag ''''), (''bridge'', String_flag '''')] cmd)"

definition BindGetThresholdFlags :: "command_flags \<Rightarrow> command_flags result" where
  "BindGetThresholdFlags cmd = MarkFlagsAsRequired [''bridge'']
     (declare_flags [(''bridge'', String_flag '''')] cmd)"

definition BindIsRelayerFlags :: "command_flags \<Rightarrow> command_flags result" where
  "BindIsRelayerFlags cmd = MarkFlagsAsRequired [''relayer'', ''bridge'']
     (declare_flags [(''relayer'', String_flag ''''), (''bridge'', String_flag '''')] cmd)"

definition BindPauseFlags :: "command_flags \<Rightarrow> command_flags result" where
  "BindPauseFlags cmd = MarkFlagsAsRequired [''bridge'']
     (declare_flags [(''bridge'', String_flag '''')] cmd)"

definition BindRemoveAdminFlags :: "command_flags \<Rightarrow> command_flags result" where
  "BindRemoveAdminFlags cmd = MarkFlagsAsRequired [''admin'', ''bridge'']
     (declare_flags [(''admin'', String_flag ''''), (''bridge'', String_flag '''')] cmd)"

definition BindRemoveRelayerFlags :: "command_flags \<Rightarrow> command_flags result" where
  "BindRemoveRelayerFlags cmd = MarkFlagsAsRequired [''relayer'', ''bridge'']
     (declare_flags [(''relayer'', String_flag ''''), (''bridge'', String_flag '''')] cmd)"

definition BindSetDepositNonceFlags :: "command_flags \<Rightarrow> command_flags result" where
  "BindSetDepositNonceFlags cmd = MarkFlagsAsRequired [''domain'', ''deposit-nonce'', ''bridge'']
     (declare_flags [(''domain'', Uint8_flag 0), (''deposit-nonce'', Uint64_flag 0),
                     (''bridge'', String_flag '''')] cmd)"

definition BindSetFeeFlags :: "command_flags \<Rightarrow> command_flags result" where
  "BindSetFeeFlags cmd = MarkFlagsAsRequired [''fee'', ''bridge'']
     (declare_flags [(''fee'', String_flag ''''), (''bridge'', String_flag '''')] cmd)"

definition BindSetThresholdFlags :: "command_flags \<Rightarrow> command_flags result" where
  "BindSetThresholdFlags cmd = MarkFlagsAsRequired [''threshold'', ''bridge'']
     (declare_flags [(''threshold'', Uint64_flag 0), (''bridge'', String_flag '''')] cmd)"

definition BindUnpauseFlags :: "command_flags \<Rightarrow> command_flags result" where
  "BindUnpauseFlags cmd = MarkFlagsAsRequired [''bridge'']
     (declare_flags [(''bridge'', String_flag '''')] cmd)"

definition BindWithdrawFlags :: "command_flags \<Rightarrow> command_flags result" where
  "BindWithdrawFlags cmd =
     MarkFlagsAsRequired [''amount'', ''token'', ''bridge'', ''handler'', ''token-contract'', ''recipient'', ''decimals'']
       (declare_flags [(''amount'', String_flag ''''), (''token'', String_flag ''''),
                       (''bridge'', String_flag ''''), (''handler'', String_flag ''''),
                       (''token-contract'', String_flag ''''), (''recipient'', String_flag ''''),
                       (''decimals'', Uint64_flag 0)] cmd)"

section \<open>Validating flags\<close>

definition ValidateAddAdminFlags :: "eth_lib \<Rightarrow> admin_vars \<Rightarrow> unit result" where
  "ValidateAddAdminFlags L v =
     r_bind (check_address L ''invalid admin address '' (ad_Admin v)) (\<lambda>_.
       check_address L ''invalid bridge address '' (ad_Bridge v))"

definition ValidateAddRelayerFlags :: "eth_lib \<Rightarrow> admin_vars \<Rightarrow> unit result" where
  "ValidateAddRelayerFlags L v =
     r_bind (check_address L ''invalid relayer address '' (ad_Relayer v)) (\<lambda>_.
       check_address L ''invalid bridge address '' (ad_Bridge v))"

definition ValidateGetThresholdFlags :: "eth_lib \<Rightarrow> admin_vars \<Rightarrow> unit result" where
  "ValidateGetThresholdFlags L v = check_address L ''invalid bridge address '' (ad_Bridge v)"

definition ValidateIsRelayerFlags :: "eth_lib \<Rightarrow> admin_vars \<Rightarrow> unit result" where
  "ValidateIsRelayerFlags L v =
     r_bind (check_address L ''invalid relayer address '' (ad_Relayer v)) (\<lambda>_.
       check_address L ''invalid bridge address '' (ad_Bridge v))"

definition ValidatePauseFlags :: "eth_lib \<Rightarrow> admin_vars \<Rightarrow> unit result" where
  "ValidatePauseFlags L v = check_address L ''invalid bridge address: '' (ad_Bridge v)"

definition ValidateRemoveAdminFlags :: "eth_lib \<Rightarrow> admin_vars \<Rightarrow> unit result" where
  "ValidateRemoveAdminFlags L v =
     r_bind (check_address L ''invalid admin address '' (ad_Admin v)) (\<lambda>_.
       check_address L ''invalid bridge address '' (ad_Bridge v))"

definition ValidateRemoveRelayerFlags :: "eth_lib \<Rightarrow> admin_vars \<Rightarrow> unit result" where
  "ValidateRemoveRelayerFlags L v =
     r_bind (check_address L ''invalid relayer address '' (ad_Relayer v)) (\<lambda>_.
       check_address L ''invalid bridge address '' (ad_Bridge v))"

definition ValidateSetDepositNonceFlags :: "eth_lib \<Rightarrow> admin_vars \<Rightarrow> unit result" where
  "ValidateSetDepositNonceFlags L v = check_address L ''invalid bridge address '' (ad_Bridge v)"

definition ValidateSetFeeFlags :: "eth_lib \<Rightarrow> admin_vars \<Rightarrow> unit result" where
  "ValidateSetFeeFlags L v = check_address L ''invalid bridge address '' (ad_Bridge v)"

definition ValidateSetThresholdFlags :: "eth_lib \<Rightarrow> admin_vars \<Rightarrow> unit result" where
  "ValidateSetThresholdFlags L v = check_address L ''invalid bridge address '' (ad_Bridge v)"

definition ValidateUnpauseFlags :: "eth_lib \<Rightarrow> admin_vars \<Rightarrow> unit result" where
  "ValidateUnpauseFlags L v = check_address L ''invalid bridge address: '' (ad_Bridge v)"

definition ValidateWithdrawFlags :: "eth_lib \<Rightarrow> admin_vars \<Rightarrow> unit result" where
  "ValidateWithdrawFlags L v =
     r_bind (check_address L ''invalid bridge address: '' (ad_Bridge v)) (\<lambda>_.
     r_bind (check_address L ''invalid handler address: '' (ad_Handler v)) (\<lambda>_.
     r_bind (check_address L ''invalid token-contract address: '' (ad_Token v)) (\<lambda>_.
     r_bind (check_address L ''invalid recipient address: '' (ad_Recipient v)) (\<lambda>_.
       if ad_TokenID v \<noteq> [] \<and> ad_Amount v \<noteq> [] then Err (Error ''only token or amount should be set'')
       else if ad_TokenID v = [] \<and> ad_Amount v = [] then Err (Error ''token or amount flag should be set'')
       else Ok ()))))"

section \<open>Processing flags\<close>

definition ProcessAddRelayerFlags :: "eth_lib \<Rightarrow> admin_vars \<Rightarrow> admin_vars" where
  "ProcessAddRelayerFlags L v =
     v\<lparr>ad_RelayerAddr := hex_to_address L (ad_Relayer v), ad_BridgeAddr := hex_to_address L (ad_Bridge v)\<rparr>"

definition ProcessGetThresholdFlags :: "eth_lib \<Rightarrow> admin_vars \<Rightarrow> admin_vars" where
  "ProcessGetThresholdFlags L v = v\<lparr>ad_BridgeAddr := hex_to_address L (ad_Bridge v)\<rparr>"

definition ProcessIsRelayerFlags :: "eth_lib \<Rightarrow> admin_vars \<Rightarrow> admin_vars" where
  "ProcessIsRelayerFlags L v =
     v\<lparr>ad_RelayerAddr := hex_to_address L (ad_Relayer v), ad_BridgeAddr := hex_to_address L (ad_Bridge v)\<rparr>"

definition ProcessPauseFlags :: "eth_lib \<Rightarrow> admin_vars \<Rightarrow> admin_vars" where
  "ProcessPauseFlags L v = v\<lparr>ad_BridgeAddr := hex_to_address L (ad_Bridge v)\<rparr>"

definition ProcessSetDepositNonceFlags :: "eth_lib \<Rightarrow> admin_vars \<Rightarrow> admin_vars" where
  "ProcessSetDepositNonceFlags L v = v\<lparr>ad_BridgeAddr := hex_to_address L (ad_Bridge v)\<rparr>"

definition ProcessSetThresholdFlags :: "eth_lib \<Rightarrow> admin_vars \<Rightarrow> admin_vars" where
  "ProcessSetThresholdFlags L v = v\<lparr>ad_BridgeAddr := hex_to_address L (ad_Bridge v)\<rparr>"

definition ProcessUnpauseFlags :: "eth_lib \<Rightarrow> admin_vars \<Rightarrow> admin_vars" where
  "ProcessUnpauseFlags L v = v\<lparr>ad_BridgeAddr := hex_to_address L (ad_Bridge v)\<rparr>"

text \<open>
  The decimals pass through \<open>int64\<close>. The assignment of \<open>RealAmount\<close> happens also when the
  conversion fails, with nil; nothing reads it then.
\<close>

definition ProcessWithdrawFlags :: "eth_lib \<Rightarrow> float_lib \<Rightarrow> admin_vars \<Rightarrow> unit result \<times> admin_vars" where
  "ProcessWithdrawFlags L F v =
     (let v1 = v\<lparr>ad_BridgeAddr := hex_to_address L (ad_Bridge v), ad_HandlerAddr := hex_to_address L (ad_Handler v),
                 ad_TokenAddr := hex_to_address L (ad_Token v),
                 ad_RecipientAddr := hex_to_address L (ad_Recipient v)\<rparr>
      in s_bind (s_lift (UserAmountToWei F (ad_Amount v) (sint (ad_Decimals v)))) (\<lambda>amount v2.
           (Ok (), v2\<lparr>ad_RealAmount := amount\<rparr>)) v1)"

definition addAdmin_Args :: "eth_lib \<Rightarrow> admin_vars \<Rightarrow> unit result \<times> admin_vars" where
  "addAdmin_Args L = checked_args (ValidateAddAdminFlags L) (\<lambda>v. (Ok (), v))"
definition addRelayer_Args :: "eth_lib \<Rightarrow> admin_vars \<Rightarrow> unit result \<times> admin_vars" where
  "addRelayer_Args L = checked_args (ValidateAddRelayerFlags L) (\<lambda>v. (Ok (), ProcessAddRelayerFlags L v))"
definition getThreshold_Args :: "eth_lib \<Rightarrow> admin_vars \<Rightarrow> unit result \<times> admin_vars" where
  "getThreshold_Args L = checked_args (ValidateGetThresholdFlags L) (\<lambda>v. (Ok (), ProcessGetThresholdFlags L v))"
definition isRelayer_Args :: "eth_lib \<Rightarrow> admin_vars \<Rightarrow> unit result \<times> admin_vars" where
  "isRelayer_Args L = checked_args (ValidateIsRelayerFlags L) (\<lambda>v. (Ok (), ProcessIsRelayerFlags L v))"
definition pause_Args :: "eth_lib \<Rightarrow> admin_vars \<Rightarrow> unit result \<times> admin_vars" where
  "pause_Args L = checked_args (ValidatePauseFlags L) (\<lambda>v. (Ok (), ProcessPauseFlags L v))"
definition removeAdmin_Args :: "eth_lib \<Rightarrow> admin_vars \<Rightarrow> unit result \<times> admin_vars" where
  "removeAdmin_Args L = checked_args (ValidateRemoveAdminFlags L) (\<lambda>v. (Ok (), v))"
definition removeRelayer_Args :: "eth_lib \<Rightarrow> admin_vars \<Rightarrow> unit result \<times> admin_vars" where
  "removeRelayer_Args L = checked_args (ValidateRemoveRelayerFlags L) (\<lambda>v. (Ok (), v))"
definition setDepositNonce_Args :: "eth_lib \<Rightarrow> admin_vars \<Rightarrow> unit result \<times> admin_vars" where
  "setDepositNonce_Args L =
     checked_args (ValidateSetDepositNonceFlags L) (\<lambda>v. (Ok (), ProcessSetDepositNonceFlags L v))"
definition setFee_Args :: "eth_lib \<Rightarrow> admin_vars \<Rightarrow> unit result \<times> admin_vars" where
  "setFee_Args L = checked_args (ValidateSetFeeFlags L) (\<lambda>v. (Ok (), v))"
definition setThreshold_Args :: "eth_lib \<Rightarrow> admin_vars \<Rightarrow> unit result \<times> admin_vars" where
  "setThreshold_Args L = checked_args (ValidateSetThresholdFlags L) (\<lambda>v. (Ok (), ProcessSetThresholdFlags L v))"
definition unpause_Args :: "eth_lib \<Rightarrow> admin_vars \<Rightarrow> unit result \<times> admin_vars" where
  "unpause_Args L = checked_args (ValidateUnpauseFlags L) (\<lambda>v. (Ok (), ProcessUnpauseFlags L v))"
definition withdraw_Args :: "eth_lib \<Rightarrow> float_lib \<Rightarrow> admin_vars \<Rightarrow> unit result \<times> admin_vars" where
  "withdraw_Args L F = checked_args (ValidateWithdrawFlags L) (ProcessWithdrawFlags L F)"

section \<open>The commands\<close>

text \<open>Commands whose body is only a log entry.\<close>

definition addAdmin :: "admin_vars \<Rightarrow> 's \<Rightarrow> unit result \<times> 's" where "addAdmin v = s_return ()"
definition removeAdmin :: "admin_vars \<Rightarrow> 's \<Rightarrow> unit result \<times> 's" where "removeAdmin v = s_return ()"
definition removeRelayer :: "admin_vars \<Rightarrow> 's \<Rightarrow> unit result \<times> 's" where "removeRelayer v = s_return ()"
definition setFee :: "admin_vars \<Rightarrow> 's \<Rightarrow> unit result \<times> 's" where "setFee v = s_return ()"

text \<open>Commands that send a transaction. Its hash is logged.\<close>

definition AddRelayerEVMCMD :: "abi_lib \<Rightarrow> u64 \<Rightarrow> admin_vars \<Rightarrow> 's contract \<Rightarrow> 's \<Rightarrow> unit result \<times> 's" where
  "AddRelayerEVMCMD A gasLimit v c =
     s_bind (AddRelayer A c (ad_RelayerAddr v) (gas_options gasLimit)) (\<lambda>_. s_return ())"

definition PauseCmd :: "abi_lib \<Rightarrow> u64 \<Rightarrow> admin_vars \<Rightarrow> 's contract \<Rightarrow> 's \<Rightarrow> unit result \<times> 's" where
  "PauseCmd A gasLimit v c = s_bind (Pause A c (gas_options gasLimit)) (\<lambda>_. s_return ())"

definition UnpauseCmd :: "abi_lib \<Rightarrow> u64 \<Rightarrow> admin_vars \<Rightarrow> 's contract \<Rightarrow> 's \<Rightarrow> unit result \<times> 's" where
  "UnpauseCmd A gasLimit v c = s_bind (Unpause A c (gas_options gasLimit)) (\<lambda>_. s_return ())"

definition SetDepositNonceEVMCMD ::
  "abi_lib \<Rightarrow> u64 \<Rightarrow> admin_vars \<Rightarrow> 's contract \<Rightarrow> 's \<Rightarrow> unit result \<times> 's" where
  "SetDepositNonceEVMCMD A gasLimit v c =
     s_bind (SetDepositNonce A c (ad_DomainID v) (ad_DepositNonce v) (gas_options gasLimit)) (\<lambda>_. s_return ())"

definition SetThresholdCMD :: "abi_lib \<Rightarrow> u64 \<Rightarrow> admin_vars \<Rightarrow> 's contract \<Rightarrow> 's \<Rightarrow> unit result \<times> 's" where
  "SetThresholdCMD A gasLimit v c =
     s_bind (SetThresholdInput A c (ad_RelayerThreshold v) (gas_options gasLimit)) (\<lambda>_. s_return ())"

definition WithdrawCmd ::
  "eth_lib \<Rightarrow> abi_lib \<Rightarrow> u64 \<Rightarrow> admin_vars \<Rightarrow> 's contract \<Rightarrow> 's \<Rightarrow> unit result \<times> 's" where
  "WithdrawCmd L A gasLimit v c =
     s_bind (Withdraw L A c (ad_HandlerAddr v) (ad_TokenAddr v) (ad_RecipientAddr v) (ad_RealAmount v)
               (gas_options gasLimit)) (\<lambda>_. s_return ())"

text \<open>Queries, with the answer that is printed.\<close>

definition GetThresholdCMD :: "eth_lib \<Rightarrow> abi_lib \<Rightarrow> 's contract \<Rightarrow> 's \<Rightarrow> u8 result \<times> 's" where
  "GetThresholdCMD L A c = s_bind (GetThreshold L A c) (\<lambda>threshold. s_return threshold)"

definition IsRelayerCmd :: "eth_lib \<Rightarrow> abi_lib \<Rightarrow> admin_vars \<Rightarrow> 's contract \<Rightarrow> 's \<Rightarrow> bool result \<times> 's" where
  "IsRelayerCmd L A v c = s_bind (IsRelayer L A c (ad_RelayerAddr v)) (\<lambda>isRelayer. s_return isRelayer)"

text \<open>\<open>RunE\<close>.\<close>

definition addRelayer_RunE ::
  "('k, 'rpc, 'w) cli_env \<Rightarrow> 'k global_flags \<Rightarrow> admin_vars \<Rightarrow> 'w cli_state \<Rightarrow> unit result \<times> 'w cli_state" where
  "addRelayer_RunE E g v =
     on_bridge E g (ad_BridgeAddr v) (AddRelayerEVMCMD (env_abi E) (g_gasLimit g) v)"

definition pause_RunE ::
  "('k, 'rpc, 'w) cli_env \<Rightarrow> 'k global_flags \<Rightarrow> admin_vars \<Rightarrow> 'w cli_state \<Rightarrow> unit result \<times> 'w cli_state" where
  "pause_RunE E g v = on_bridge E g (ad_BridgeAddr v) (PauseCmd (env_abi E) (g_gasLimit g) v)"

definition unpause_RunE ::
  "('k, 'rpc, 'w) cli_env \<Rightarrow> 'k global_flags \<Rightarrow> admin_vars \<Rightarrow> 'w cli_state \<Rightarrow> unit result \<times> 'w cli_state" where
  "unpause_RunE E g v = on_bridge E g (ad_BridgeAddr v) (UnpauseCmd (env_abi E) (g_gasLimit g) v)"

definition setDepositNonce_RunE ::
  "('k, 'rpc, 'w) cli_env \<Rightarrow> 'k global_flags \<Rightarrow> admin_vars \<Rightarrow> 'w cli_state \<Rightarrow> unit result \<times> 'w cli_state" where
  "setDepositNonce_RunE E g v =
     on_bridge E g (ad_BridgeAddr v) (SetDepositNonceEVMCMD (env_abi E) (g_gasLimit g) v)"

definition setThreshold_RunE ::
  "('k, 'rpc, 'w) cli_env \<Rightarrow> 'k global_flags \<Rightarrow> admin_vars \<Rightarrow> 'w cli_state \<Rightarrow> unit result \<times> 'w cli_state" where
  "setThreshold_RunE E g v =
     on_bridge E g (ad_BridgeAddr v) (SetThresholdCMD (env_abi E) (g_gasLimit g) v)"

definition withdraw_RunE ::
  "('k, 'rpc, 'w) cli_env \<Rightarrow> 'k global_flags \<Rightarrow> admin_vars \<Rightarrow> 'w cli_state \<Rightarrow> unit result \<times> 'w cli_state" where
  "withdraw_RunE E g v =
     on_bridge E g (ad_BridgeAddr v) (WithdrawCmd (env_lib E) (env_abi E) (g_gasLimit g) v)"

definition getThreshold_RunE ::
  "('k, 'rpc, 'w) cli_env \<Rightarrow> 'k global_flags \<Rightarrow> admin_vars \<Rightarrow> 'w cli_state \<Rightarrow> u8 result \<times> 'w cli_state" where
  "getThreshold_RunE E g v = on_bridge E g (ad_BridgeAddr v) (GetThresholdCMD (env_lib E) (env_abi E))"

definition isRelayer_RunE ::
  "('k, 'rpc, 'w) cli_env \<Rightarrow> 'k global_flags \<Rightarrow> admin_vars \<Rightarrow> 'w cli_state \<Rightarrow> bool result \<times> 'w cli_state" where
  "isRelayer_RunE E g v = on_bridge E g (ad_BridgeAddr v) (IsRelayerCmd (env_lib E) (env_abi E) v)"


section \<open>Withdrawals\<close>

text \<open>
  C31: a withdrawal by token identifier is never accepted: the checks want exactly one of
  amount and token, and the amount is what is converted. So every accepted withdrawal gives
  an amount and no token, which are the flags the command requires together, and what is
  sent is that amount in wei.
\<close>

theorem withdrawals_are_amounts:
  assumes "other_literal_documented F" and "withdraw_Args L F v = (Ok (), v')"
  shows "ad_TokenID v = [] \<and> ad_Amount v \<noteq> [] \<and>
    UserAmountToWei F (ad_Amount v) (sint (ad_Decimals v)) = Ok (ad_RealAmount v') \<and>
    WithdrawCmd L A gasLimit v' c =
      s_bind (Withdraw L A c (hex_to_address L (ad_Handler v)) (hex_to_address L (ad_Token v))
        (hex_to_address L (ad_Recipient v)) (ad_RealAmount v') (gas_options gasLimit)) (\<lambda>_. s_return ())"
proof -
  have "other_literal F [] = None" using assms(1) by (simp add: other_literal_documented_def)
  then have "float_SetString F [] = None"
    by (simp add: float_SetString_def parse_decimal_def split_sign_def)
  then have empty: "UserAmountToWei F [] d = Err (Error ''wrong amount format'')" for d
    by (simp add: UserAmountToWei_def)
  from assms(2) show ?thesis
    by (cases "ad_Amount v = []"; cases "UserAmountToWei F (ad_Amount v) (sint (ad_Decimals v))")
      (auto simp: withdraw_Args_def checked_args_def ValidateWithdrawFlags_def ProcessWithdrawFlags_def
        check_address_def s_bind_def s_lift_def Let_def empty WithdrawCmd_def split: if_splits)
qed

definition example_withdrawal :: admin_vars where
  "example_withdrawal =
     \<lparr> ad_Admin = [], ad_Relayer = [], ad_DepositNonce = 0, ad_DomainID = 0, ad_Fee = [], ad_RelayerThreshold = 0,
       ad_Amount = ''5'', ad_TokenID = [], ad_Handler = replicate 42 CHR ''1'', ad_Token = replicate 42 CHR ''2'',
       ad_Decimals = 18, ad_Recipient = replicate 42 CHR ''3'', ad_Bridge = replicate 42 CHR ''4'',
       ad_BridgeAddr = 0, ad_HandlerAddr = 0, ad_RelayerAddr = 0, ad_RecipientAddr = 0, ad_TokenAddr = 0,
       ad_RealAmount = 0 \<rparr>"

theorem withdrawals_are_amounts_witness:
  "\<exists>v'. withdraw_Args reference_lib example_floats example_withdrawal = (Ok (), v') \<and>
    UserAmountToWei example_floats ''5'' 18 = Ok (ad_RealAmount v')"
proof -
  have "UserAmountToWei example_floats ''5'' 18 = Ok (5 * 10 ^ 18)"
    using whole_amount_exact [of "''5''" 18 example_floats] by (simp add: is_digit_def)
  then have "\<exists>v'. withdraw_Args reference_lib example_floats example_withdrawal = (Ok (), v')"
    by (simp add: withdraw_Args_def checked_args_def ValidateWithdrawFlags_def ProcessWithdrawFlags_def
        check_address_def s_bind_def s_lift_def Let_def example_withdrawal_def reference_lib_def)
  then obtain v' where v': "withdraw_Args reference_lib example_floats example_withdrawal = (Ok (), v')" by blast
  have "other_literal_documented example_floats"
    by (simp add: other_literal_documented_def example_floats_def)
  from withdrawals_are_amounts [OF this v', THEN conjunct2, THEN conjunct2, THEN conjunct1] v'
  show ?thesis by (simp add: example_withdrawal_def)
qed

end
