(* ===== verification/Cli_Bridge.thy ===== *)
theory Cli_Bridge
  imports Cli_Base
begin

text \<open>
  The commands of \<open>chains/evm/cli/bridge\<close> and of \<open>chains/evm/cli/centrifuge\<close>, with the
  variables of their \<open>flagVars.go\<close>.
\<close>

section \<open>Bridge: variables and flags\<close>

record bridge_vars =
  br_Bridge :: string
  br_DataHash :: string
  br_DomainID :: u8
  br_Data :: string
  br_DepositNonce :: u64
  br_Handler :: string
  br_ResourceID :: string
  br_Target :: string
  br_Deposit :: string
  br_DepositerOffset :: u64   \<comment> \<open>no flag sets it\<close>
  br_Execute :: string
  br_Hash :: bool
  br_TokenContract :: string
  br_BridgeAddr :: address
  br_ResourceIdBytesArr :: hash
  br_HandlerAddr :: address
  br_TargetContractAddr :: address
  br_TokenContractAddr :: address
  br_DepositSigBytes :: "32 word"
  br_ExecuteSigBytes :: "32 word"
  br_DataBytes :: bytes

definition BindCancelProposalFlags :: "command_flags \<Rightarrow> command_flags result" where
  "BindCancelProposalFlags cmd = MarkFlagsAsRequired [''bridge'', ''data-hash'', ''domain'', ''deposit-nonce'']
     (declare_flags [(''bridge'', String_flag ''''), (''data-hash'', String_flag ''''),
                     (''domain'', Uint8_flag 0), (''deposit-nonce'', Uint64_flag 0)] cmd)"

definition BindQueryProposalFlags :: "command_flags \<Rightarrow> command_flags result" where
  "BindQueryProposalFlags cmd = MarkFlagsAsRequired [''bridge'', ''data-hash'', ''domain'', ''deposit-nonce'']
     (declare_flags [(''bridge'', String_flag ''''), (''data-hash'', String_flag ''''),
                     (''domain'', Uint8_flag 0), (''deposit-nonce'', Uint64_flag 0)] cmd)"

definition BindQueryResourceFlags :: "command_flags \<Rightarrow> command_flags result" where
  "BindQueryResourceFlags cmd = MarkFlagsAsRequired [''handler'', ''resource'']
     (declare_flags [(''handler'', String_flag ''''), (''resource'', String_flag '''')] cmd)"

definition BindRegisterGenericResourceFlags :: "command_flags \<Rightarrow> command_flags result" where
  "BindRegisterGenericResourceFlags cmd =
     MarkFlagsAsRequired [''handler'', ''resource'', ''bridge'', ''target'']
       (declare_flags [(''handler'', String_flag ''''), (''resource'', String_flag ''''),
                       (''bridge'', String_flag ''''), (''target'', String_flag ''''),
                       (''deposit'', String_flag ''0x00000000''), (''execute'', String_flag ''0x00000000''),
                       (''hash'', Bool_flag False)] cmd)"

definition BindRegisterResourceFlags :: "command_flags \<Rightarrow> command_flags result" where
  "BindRegisterResourceFlags cmd = MarkFlagsAsRequired [''handler'', ''bridge'', ''target'', ''resource'']
     (declare_flags [(''handler'', String_flag ''''), (''bridge'', String_flag ''''),
                     (''target'', String_flag ''''), (''resource'', String_flag '''')] cmd)"

definition BindSetBurnFlags :: "command_flags \<Rightarrow> command_flags result" where
  "BindSetBurnFlags cmd = MarkFlagsAsRequired [''handler'', ''bridge'', ''token-contract'']
     (declare_flags [(''handler'', String_flag ''''), (''bridge'', String_flag ''''),
                     (''token-contract'', String_flag '''')] cmd)"

definition BindVoteProposalCmdFlags :: "command_flags \<Rightarrow> command_flags result" where
  "BindVoteProposalCmdFlags cmd =
     MarkFlagsAsRequired [''bridge'', ''deposit-nonce'', ''domain'', ''resource'', ''data'']
       (declare_flags [(''bridge'', String_flag ''''), (''data'', String_flag ''''), (''domain'', Uint8_flag 0),
                       (''deposit-nonce'', Uint64_flag 0), (''resource'', String_flag '''')] cmd)"

section \<open>Bridge: arguments\<close>

definition ValidateCancelProposalFlags :: "eth_lib \<Rightarrow> bridge_vars \<Rightarrow> unit result" where
  "ValidateCancelProposalFlags L v = check_address L ''invalid bridge address: '' (br_Bridge v)"

definition ValidateQueryProposalFlags :: "eth_lib \<Rightarrow> bridge_vars \<Rightarrow> unit result" where
  "ValidateQueryProposalFlags L v = check_address L ''invalid bridge address: '' (br_Bridge v)"

definition ValidateQueryResourceFlags :: "eth_lib \<Rightarrow> bridge_vars \<Rightarrow> unit result" where
  "ValidateQueryResourceFlags L v = check_address L ''invalid handler address: '' (br_Handler v)"

text \<open>The message about the bridge address names the target instead.\<close>

definition ValidateRegisterGenericResourceFlags :: "eth_lib \<Rightarrow> bridge_vars \<Rightarrow> unit result" where
  "ValidateRegisterGenericResourceFlags L v =
     r_bind (check_address L ''invalid handler address '' (br_Handler v)) (\<lambda>_.
     r_bind (check_address L ''invalid target address '' (br_Target v)) (\<lambda>_.
       if \<not> is_hex_address L (br_Bridge v) then Err (Error (''invalid bridge address '' @ br_Target v))
       else Ok ()))"

definition ValidateRegisterResourceFlags :: "eth_lib \<Rightarrow> bridge_vars \<Rightarrow> unit result" where
  "ValidateRegisterResourceFlags L v =
     r_bind (check_address L ''invalid handler address '' (br_Handler v)) (\<lambda>_.
     r_bind (check_address L ''invalid target address '' (br_Target v)) (\<lambda>_.
       check_address L ''invalid bridge address '' (br_Bridge v)))"

definition ValidateSetBurnFlags :: "eth_lib \<Rightarrow> bridge_vars \<Rightarrow> unit result" where
  "ValidateSetBurnFlags L v =
     r_bind (check_address L ''invalid handler address '' (br_Handler v)) (\<lambda>_.
     r_bind (check_address L ''invalid token contract address '' (br_TokenContract v)) (\<lambda>_.
       check_address L ''invalid bridge address '' (br_Bridge v)))"

definition ValidateVoteProposalFlags :: "eth_lib \<Rightarrow> bridge_vars \<Rightarrow> unit result" where
  "ValidateVoteProposalFlags L v = check_address L ''invalid bridge address: '' (br_Bridge v)"

text \<open>\<open>copy(sig[:], text)\<close>: up to four bytes of the text over those of the array.\<close>

definition copy_signature :: "32 word \<Rightarrow> string \<Rightarrow> 32 word" where
  "copy_signature old s =
     (let bs = take 4 (string_bytes s)
      in word_of_nat (bytes_nat (bs @ drop (length bs) (be_bytes 4 (unat old)))))"

definition ProcessRegisterGenericResourceFlags :: "eth_lib \<Rightarrow> bridge_vars \<Rightarrow> unit result \<times> bridge_vars" where
  "ProcessRegisterGenericResourceFlags L v =
     (let v1 = v\<lparr>br_HandlerAddr := hex_to_address L (br_Handler v),
                 br_TargetContractAddr := hex_to_address L (br_Target v),
                 br_BridgeAddr := hex_to_address L (br_Bridge v)\<rparr>
      in s_bind (s_lift (strip_0x (br_ResourceID v))) (\<lambda>rid v2.
           let v3 = v2\<lparr>br_ResourceID := rid\<rparr> in
           (case hex_DecodeString rid of
              (_, Some e) \<Rightarrow> (Err e, v3)
            | (bs, None) \<Rightarrow>
               let v4 = v3\<lparr>br_ResourceIdBytesArr := SliceTo32Bytes bs\<rparr> in
               (Ok (),
                if br_Hash v
                then v4\<lparr>br_DepositSigBytes := GetSolidityFunctionSig L (string_bytes (br_Deposit v)),
                        br_ExecuteSigBytes := GetSolidityFunctionSig L (string_bytes (br_Execute v))\<rparr>
                else v4\<lparr>br_DepositSigBytes := copy_signature (br_DepositSigBytes v) (br_Deposit v),
                        br_ExecuteSigBytes := copy_signature (br_ExecuteSigBytes v) (br_Execute v)\<rparr>))) v1)"

definition ProcessRegisterResourceFlags :: "eth_lib \<Rightarrow> bridge_vars \<Rightarrow> unit result \<times> bridge_vars" where
  "ProcessRegisterResourceFlags L v =
     s_bind (s_lift (ProcessResourceID (br_ResourceID v))) (\<lambda>rid v1.
         (Ok (), v1\<lparr>br_ResourceIdBytesArr := rid\<rparr>))
       (v\<lparr>br_HandlerAddr := hex_to_address L (br_Handler v),
          br_TargetContractAddr := hex_to_address L (br_Target v),
          br_BridgeAddr := hex_to_address L (br_Bridge v)\<rparr>)"

definition ProcessSetBurnFlags :: "eth_lib \<Rightarrow> bridge_vars \<Rightarrow> bridge_vars" where
  "ProcessSetBurnFlags L v =
     v\<lparr>br_HandlerAddr := hex_to_address L (br_Handler v), br_BridgeAddr := hex_to_address L (br_Bridge v),
       br_TokenContractAddr := hex_to_address L (br_TokenContract v)\<rparr>"

definition ProcessVoteProposalFlags ::
  "eth_lib \<Rightarrow> (string \<Rightarrow> bytes) \<Rightarrow> bridge_vars \<Rightarrow> unit result \<times> bridge_vars" where
  "ProcessVoteProposalFlags L hex2bytes v =
     s_bind (s_lift (ProcessResourceID (br_ResourceID v))) (\<lambda>rid v1.
         (Ok (), v1\<lparr>br_ResourceIdBytesArr := rid\<rparr>))
       (v\<lparr>br_BridgeAddr := hex_to_address L (br_Bridge v), br_DataBytes := hex2bytes (br_Data v)\<rparr>)"

definition cancelProposal_Args :: "eth_lib \<Rightarrow> bridge_vars \<Rightarrow> unit result \<times> bridge_vars" where
  "cancelProposal_Args L = checked_args (ValidateCancelProposalFlags L) (\<lambda>v. (Ok (), v))"
definition queryProposal_Args :: "eth_lib \<Rightarrow> bridge_vars \<Rightarrow> unit result \<times> bridge_vars" where
  "queryProposal_Args L = checked_args (ValidateQueryProposalFlags L) (\<lambda>v. (Ok (), v))"
definition queryResource_Args :: "eth_lib \<Rightarrow> bridge_vars \<Rightarrow> unit result \<times> bridge_vars" where
  "queryResource_Args L = checked_args (ValidateQueryResourceFlags L) (\<lambda>v. (Ok (), v))"
definition registerGenericResource_Args :: "eth_lib \<Rightarrow> bridge_vars \<Rightarrow> unit result \<times> bridge_vars" where
  "registerGenericResource_Args L =
     checked_args (ValidateRegisterGenericResourceFlags L) (ProcessRegisterGenericResourceFlags L)"
definition registerResource_Args :: "eth_lib \<Rightarrow> bridge_vars \<Rightarrow> unit result \<times> bridge_vars" where
  "registerResource_Args L = checked_args (ValidateRegisterResourceFlags L) (ProcessRegisterResourceFlags L)"
definition setBurn_Args :: "eth_lib \<Rightarrow> bridge_vars \<Rightarrow> unit result \<times> bridge_vars" where
  "setBurn_Args L = checked_args (ValidateSetBurnFlags L) (\<lambda>v. (Ok (), ProcessSetBurnFlags L v))"
definition voteProposal_Args ::
  "eth_lib \<Rightarrow> (string \<Rightarrow> bytes) \<Rightarrow> bridge_vars \<Rightarrow> unit result \<times> bridge_vars" where
  "voteProposal_Args L hex2bytes =
     checked_args (ValidateVoteProposalFlags L) (ProcessVoteProposalFlags L hex2bytes)"

section \<open>Bridge: commands\<close>

definition cancelProposal :: "bridge_vars \<Rightarrow> 's \<Rightarrow> unit result \<times> 's" where "cancelProposal v = s_return ()"
definition queryProposal :: "bridge_vars \<Rightarrow> 's \<Rightarrow> unit result \<times> 's" where "queryProposal v = s_return ()"
definition queryResource :: "bridge_vars \<Rightarrow> 's \<Rightarrow> unit result \<times> 's" where "queryResource v = s_return ()"

text \<open>\<open>int64(DepositerOffset)\<close> is what is sent.\<close>

definition RegisterGenericResource ::
  "abi_lib \<Rightarrow> u64 \<Rightarrow> bridge_vars \<Rightarrow> 's contract \<Rightarrow> 's \<Rightarrow> unit result \<times> 's" where
  "RegisterGenericResource A gasLimit v c =
     s_bind (AdminSetGenericResource A c (br_HandlerAddr v) (br_ResourceIdBytesArr v) (br_TargetContractAddr v)
               (br_DepositSigBytes v) (sint (br_DepositerOffset v)) (br_ExecuteSigBytes v)
               (gas_options gasLimit)) (\<lambda>_. s_return ())"

definition RegisterResourceCmd ::
  "abi_lib \<Rightarrow> u64 \<Rightarrow> bridge_vars \<Rightarrow> 's contract \<Rightarrow> 's \<Rightarrow> unit result \<times> 's" where
  "RegisterResourceCmd A gasLimit v c =
     s_bind (AdminSetResource A c (br_HandlerAddr v) (br_ResourceIdBytesArr v) (br_TargetContractAddr v)
               (gas_options gasLimit)) (\<lambda>_. s_return ())"

definition SetBurnCmd :: "abi_lib \<Rightarrow> u64 \<Rightarrow> bridge_vars \<Rightarrow> 's contract \<Rightarrow> 's \<Rightarrow> unit result \<times> 's" where
  "SetBurnCmd A gasLimit v c =
     s_bind (SetBurnableInput A c (br_HandlerAddr v) (br_TokenContractAddr v) (gas_options gasLimit))
       (\<lambda>_. s_return ())"

text \<open>The vote is simulated first; it is sent without the gas limit of the flags.\<close>

definition cli_proposal :: "bridge_vars \<Rightarrow> proposal" where
  "cli_proposal v =
     \<lparr> p_DepositTxHash = 0, p_DepositBlock = 0, p_Source = br_DomainID v, p_DepositNonce = br_DepositNonce v, p_ResourceId = br_ResourceIdBytesArr v,
       p_Payload = [], p_Data = br_DataBytes v, p_HandlerAddress = 0, p_BridgeAddress = 0 \<rparr>"

definition VoteProposalCmd :: "eth_lib \<Rightarrow> abi_lib \<Rightarrow> bridge_vars \<Rightarrow> 's contract \<Rightarrow> 's \<Rightarrow> unit result \<times> 's" where
  "VoteProposalCmd L A v voter =
     s_bind (SimulateVoteProposal L A voter (cli_proposal v)) (\<lambda>_.
     s_bind (VoteProposal A voter (cli_proposal v) no_options) (\<lambda>_. s_return ()))"

definition registerGenericResource_RunE ::
  "('k, 'rpc, 'w) cli_env \<Rightarrow> 'k global_flags \<Rightarrow> bridge_vars \<Rightarrow> 'w cli_state \<Rightarrow> unit result \<times> 'w cli_state" where
  "registerGenericResource_RunE E g v =
     on_bridge E g (br_BridgeAddr v) (RegisterGenericResource (env_abi E) (g_gasLimit g) v)"

definition registerResource_RunE ::
  "('k, 'rpc, 'w) cli_env \<Rightarrow> 'k global_flags \<Rightarrow> bridge_vars \<Rightarrow> 'w cli_state \<Rightarrow> unit result \<times> 'w cli_state" where
  "registerResource_RunE E g v =
     on_bridge E g (br_BridgeAddr v) (RegisterResourceCmd (env_abi E) (g_gasLimit g) v)"

definition setBurn_RunE ::
  "('k, 'rpc, 'w) cli_env \<Rightarrow> 'k global_flags \<Rightarrow> bridge_vars \<Rightarrow> 'w cli_state \<Rightarrow> unit result \<times> 'w cli_state" where
  "setBurn_RunE E g v = on_bridge E g (br_BridgeAddr v) (SetBurnCmd (env_abi E) (g_gasLimit g) v)"

definition voteProposal_RunE ::
  "('k, 'rpc, 'w) cli_env \<Rightarrow> 'k global_flags \<Rightarrow> bridge_vars \<Rightarrow> 'w cli_state \<Rightarrow> unit result \<times> 'w cli_state" where
  "voteProposal_RunE E g v = on_bridge E g (br_BridgeAddr v) (VoteProposalCmd (env_lib E) (env_abi E) v)"

section \<open>Centrifuge\<close>

record centrifuge_vars =
  ce_Hash :: string
  ce_Address :: string
  ce_StoreAddr :: address
  ce_ByteHash :: hash

definition BindGetHashFlags :: "command_flags \<Rightarrow> command_flags result" where
  "BindGetHashFlags cmd = MarkFlagsAsRequired [''hash'', ''address'']
     (declare_flags [(''hash'', String_flag ''''), (''address'', String_flag '''')] cmd)"

definition ValidateGetHashFlags :: "eth_lib \<Rightarrow> centrifuge_vars \<Rightarrow> unit result" where
  "ValidateGetHashFlags L v =
     (if \<not> is_hex_address L (ce_Address v) then Err (Error ''invalid Centrifuge asset store address'')
      else Ok ())"

text \<open>The hash is taken as text, not decoded: its first 32 characters.\<close>

definition ProcessGetHashFlags :: "eth_lib \<Rightarrow> centrifuge_vars \<Rightarrow> centrifuge_vars" where
  "ProcessGetHashFlags L v =
     v\<lparr>ce_StoreAddr := hex_to_address L (ce_Address v), ce_ByteHash := SliceTo32Bytes (string_bytes (ce_Hash v))\<rparr>"

definition getHash_Args :: "eth_lib \<Rightarrow> centrifuge_vars \<Rightarrow> unit result \<times> centrifuge_vars" where
  "getHash_Args L = checked_args (ValidateGetHashFlags L) (\<lambda>v. (Ok (), ProcessGetHashFlags L v))"

definition GetHashCmd :: "eth_lib \<Rightarrow> abi_lib \<Rightarrow> centrifuge_vars \<Rightarrow> 's contract \<Rightarrow> 's \<Rightarrow> bool result \<times> 's" where
  "GetHashCmd L A v c = s_bind (IsCentrifugeAssetStored L A c (ce_ByteHash v)) (\<lambda>b. s_return b)"

definition getHash_RunE ::
  "('k, 'rpc, 'w) cli_env \<Rightarrow> 'k global_flags \<Rightarrow> centrifuge_vars \<Rightarrow> 'w cli_state \<Rightarrow> bool result \<times> 'w cli_state" where
  "getHash_RunE E g v = with_transactor E g (\<lambda>c t.
     GetHashCmd (env_lib E) (env_abi E) v (NewAssetStoreContract (env_abi E) c (ce_StoreAddr v) t))"

definition DeployCentrifugeAssetStoreCmd ::
  "eth_lib \<Rightarrow> abi_lib \<Rightarrow> 's contract \<Rightarrow> 's \<Rightarrow> address result \<times> 's" where
  "DeployCentrifugeAssetStoreCmd L A c = s_bind (DeployContract L A c []) (\<lambda>(a, c'). s_return a)"

definition centrifuge_deploy_RunE ::
  "('k, 'rpc, 'w) cli_env \<Rightarrow> 'k global_flags \<Rightarrow> 'w cli_state \<Rightarrow> address result \<times> 'w cli_state" where
  "centrifuge_deploy_RunE E g = with_transactor E g (\<lambda>c t.
     DeployCentrifugeAssetStoreCmd (env_lib E) (env_abi E) (NewAssetStoreContract (env_abi E) c 0 t))"

section \<open>What the arguments become\<close>

lemma string_bytes_take: "take n (string_bytes s) = string_bytes (take n s)"
  by (simp add: string_bytes_def take_map)

lemma copy_signature_text:
  assumes "4 \<le> length s"
  shows "copy_signature old s = word_of_nat (bytes_nat (string_bytes (take 4 s)))"
proof -
  have "length (string_bytes (take 4 s)) = 4" using assms by (simp add: string_bytes_def)
  then show ?thesis by (simp add: copy_signature_def Let_def string_bytes_take be_bytes_length)
qed

text \<open>
  Without the flag \<open>hash\<close> the function signatures of a generic resource are the first
  four characters of their texts, as characters: the default \<open>0x00000000\<close> is sent as the
  bytes \<open>30 78 30 30\<close>, and of a signature in hexadecimal only the first byte has an effect.
\<close>

theorem generic_signature_is_text:
  assumes "registerGenericResource_Args L v = (Ok (), v')" and "\<not> br_Hash v"
    and "4 \<le> length (br_Deposit v)" and "4 \<le> length (br_Execute v)"
  shows "br_DepositSigBytes v' = word_of_nat (bytes_nat (string_bytes (take 4 (br_Deposit v)))) \<and>
    br_ExecuteSigBytes v' = word_of_nat (bytes_nat (string_bytes (take 4 (br_Execute v))))"
  using assms
  by (cases "strip_0x (br_ResourceID v)"; cases "hex_DecodeString (case strip_0x (br_ResourceID v) of Ok r \<Rightarrow> r | _ \<Rightarrow> [])")
    (auto simp: registerGenericResource_Args_def checked_args_def ValidateRegisterGenericResourceFlags_def
      ProcessRegisterGenericResourceFlags_def check_address_def s_bind_def s_lift_def Let_def copy_signature_text
      split: if_splits option.splits)

text \<open>
  The data of a vote must be given without the prefix \<open>0x\<close>: with it the vote is cast on
  a proposal with empty data, as the decoding error is dropped.
\<close>

theorem vote_data_prefix_dropped:
  assumes "Hex2Bytes_documented h" and "br_Data v = ''0x'' @ ds" and "voteProposal_Args L h v = (Ok (), v')"
  shows "p_Data (cli_proposal v') = []"
proof -
  have "h (br_Data v) = []"
    using assms(1,2) by (cases "ds") (simp_all add: Hex2Bytes_documented_def hex_value_def Let_def)
  with assms(3) show ?thesis
    by (cases "ProcessResourceID (br_ResourceID v)")
      (auto simp: voteProposal_Args_def checked_args_def ValidateVoteProposalFlags_def
        ProcessVoteProposalFlags_def check_address_def s_bind_def s_lift_def cli_proposal_def split: if_splits)
qed

definition example_bridge_vars :: bridge_vars where
  "example_bridge_vars =
     \<lparr> br_Bridge = replicate 42 CHR ''1'', br_DataHash = [], br_DomainID = 1, br_Data = ''0xab'',
       br_DepositNonce = 1, br_Handler = replicate 42 CHR ''2'', br_ResourceID = ''0x01'',
       br_Target = replicate 42 CHR ''3'', br_Deposit = ''0x654cf88c'', br_DepositerOffset = 0,
       br_Execute = ''0x00000000'', br_Hash = False, br_TokenContract = [], br_BridgeAddr = 0,
       br_ResourceIdBytesArr = 0, br_HandlerAddr = 0, br_TargetContractAddr = 0, br_TokenContractAddr = 0,
       br_DepositSigBytes = 0, br_ExecuteSigBytes = 0, br_DataBytes = [] \<rparr>"

theorem generic_signature_is_text_witness:
  "\<exists>v'. registerGenericResource_Args reference_lib example_bridge_vars = (Ok (), v') \<and>
    br_DepositSigBytes v' = 0x30783635 \<and> br_ExecuteSigBytes v' = 0x30783030"
proof -
  have "\<exists>v'. registerGenericResource_Args reference_lib example_bridge_vars = (Ok (), v')"
    by (simp add: registerGenericResource_Args_def checked_args_def ValidateRegisterGenericResourceFlags_def
        ProcessRegisterGenericResourceFlags_def check_address_def s_bind_def s_lift_def Let_def
        example_bridge_vars_def reference_lib_def strip_0x_def hex_value_def)
  then obtain v' where v': "registerGenericResource_Args reference_lib example_bridge_vars = (Ok (), v')" by blast
  from generic_signature_is_text [OF this]
  have "br_DepositSigBytes v' = 0x30783635 \<and> br_ExecuteSigBytes v' = 0x30783030"
    by (simp add: example_bridge_vars_def string_bytes_def bytes_nat_def)
  with v' show ?thesis by blast
qed

theorem vote_data_prefix_dropped_witness:
  "\<exists>v'. voteProposal_Args reference_lib (\<lambda>s. fst (hex_DecodeString s)) example_bridge_vars = (Ok (), v') \<and>
    p_Data (cli_proposal v') = []"
proof -
  have "\<exists>v'. voteProposal_Args reference_lib (\<lambda>s. fst (hex_DecodeString s)) example_bridge_vars = (Ok (), v')"
    by (simp add: voteProposal_Args_def checked_args_def ValidateVoteProposalFlags_def ProcessVoteProposalFlags_def
        ProcessResourceID_def check_address_def s_bind_def s_lift_def example_bridge_vars_def reference_lib_def
        strip_0x_def hex_value_def Let_def)
  then obtain v' where
    v': "voteProposal_Args reference_lib (\<lambda>s. fst (hex_DecodeString s)) example_bridge_vars = (Ok (), v')"
    by blast
  from vote_data_prefix_dropped [OF _ _ v', of "''ab''"] v' show ?thesis
    by (auto simp: Hex2Bytes_documented_def example_bridge_vars_def)
qed

end
