(* ===== verification/Cli_Tokens.thy ===== *)
theory Cli_Tokens
  imports Cli_Base
begin

text \<open>
  The commands of \<open>chains/evm/cli/erc20\<close>, \<open>chains/evm/cli/erc721\<close> and
  \<open>chains/evm/cli/account\<close>, with the variables of their \<open>flagVars.go\<close>.
\<close>

section \<open>ERC20: variables and flags\<close>

record erc20_vars =
  e20_Amount :: string
  e20_Decimals :: u64
  e20_DstAddress :: string
  e20_Erc20Address :: string
  e20_Recipient :: string
  e20_Bridge :: string
  e20_DomainID :: u8
  e20_ResourceID :: string
  e20_AccountAddress :: string
  e20_OwnerAddress :: string
  e20_SpenderAddress :: string
  e20_Minter :: string
  e20_RecipientAddress :: address
  e20_RealAmount :: int
  e20_Erc20Addr :: address
  e20_MinterAddr :: address
  e20_BridgeAddr :: address
  e20_ResourceIdBytesArr :: hash
  e20_dstAddress :: address
  e20_accountAddr :: address

definition erc20_BindAddMinterFlags :: "command_flags \<Rightarrow> command_flags result" where
  "erc20_BindAddMinterFlags cmd = MarkFlagsAsRequired [''contract'', ''minter'']
     (declare_flags [(''contract'', String_flag ''''), (''minter'', String_flag '''')] cmd)"

definition erc20_BindApproveFlags :: "command_flags \<Rightarrow> command_flags result" where
  "erc20_BindApproveFlags cmd = MarkFlagsAsRequired [''contract'', ''amount'', ''recipient'', ''decimals'']
     (declare_flags [(''contract'', String_flag ''''), (''amount'', String_flag ''''),
                     (''recipient'', String_flag ''''), (''decimals'', Uint64_flag 0)] cmd)"

definition BindBalanceFlags :: "command_flags \<Rightarrow> command_flags result" where
  "BindBalanceFlags cmd = MarkFlagsAsRequired [''contract'', ''address'']
     (declare_flags [(''contract'', String_flag ''''), (''address'', String_flag '''')] cmd)"

definition erc20_BindDepositFlags :: "command_flags \<Rightarrow> command_flags result" where
  "erc20_BindDepositFlags cmd =
     MarkFlagsAsRequired [''recipient'', ''bridge'', ''amount'', ''domain'', ''resource'', ''decimals'']
       (declare_flags [(''recipient'', String_flag ''''), (''bridge'', String_flag ''''),
                       (''amount'', String_flag ''''), (''domain'', Uint8_flag 0),
                       (''resource'', String_flag ''''), (''decimals'', Uint64_flag 0)] cmd)"

definition BindGetAllowanceFlags :: "command_flags \<Rightarrow> command_flags result" where
  "BindGetAllowanceFlags cmd = MarkFlagsAsRequired [''contract'', ''owner'', ''spender'']
     (declare_flags [(''contract'', String_flag ''''), (''owner'', String_flag ''''),
                     (''spender'', String_flag '''')] cmd)"

definition erc20_BindMintFlags :: "command_flags \<Rightarrow> command_flags result" where
  "erc20_BindMintFlags cmd = MarkFlagsAsRequired [''contract'', ''amount'', ''decimals'', ''recipient'']
     (declare_flags [(''contract'', String_flag ''''), (''amount'', String_flag ''''),
                     (''decimals'', Uint64_flag 0), (''recipient'', String_flag '''')] cmd)"

section \<open>ERC20: arguments\<close>

definition erc20_ValidateAddMinterFlags :: "eth_lib \<Rightarrow> erc20_vars \<Rightarrow> unit result" where
  "erc20_ValidateAddMinterFlags L v =
     r_bind (check_address L ''invalid ERC20 contract address: '' (e20_Erc20Address v)) (\<lambda>_.
       check_address L ''invalid minter address: '' (e20_Minter v))"

definition erc20_ProcessAddMinterFlags :: "eth_lib \<Rightarrow> erc20_vars \<Rightarrow> erc20_vars" where
  "erc20_ProcessAddMinterFlags L v =
     v\<lparr>e20_Erc20Addr := hex_to_address L (e20_Erc20Address v), e20_MinterAddr := hex_to_address L (e20_Minter v)\<rparr>"

definition erc20_ValidateApproveFlags :: "eth_lib \<Rightarrow> erc20_vars \<Rightarrow> unit result" where
  "erc20_ValidateApproveFlags L v =
     (if \<not> is_hex_address L (e20_Erc20Address v) then Err (Error ''invalid erc20Address address'')
      else if \<not> is_hex_address L (e20_Recipient v) then Err (Error ''invalid minter address'')
      else Ok ())"

definition erc20_ProcessApproveFlags :: "eth_lib \<Rightarrow> float_lib \<Rightarrow> erc20_vars \<Rightarrow> unit result \<times> erc20_vars" where
  "erc20_ProcessApproveFlags L F v =
     s_bind (s_lift (UserAmountToWei F (e20_Amount v) (sint (e20_Decimals v)))) (\<lambda>amount v1.
         (Ok (), v1\<lparr>e20_RealAmount := amount\<rparr>))
       (v\<lparr>e20_Erc20Addr := hex_to_address L (e20_Erc20Address v),
          e20_RecipientAddress := hex_to_address L (e20_Recipient v)\<rparr>)"

text \<open>The message about the contract names the recipient instead.\<close>

definition ValidateBalanceFlags :: "eth_lib \<Rightarrow> erc20_vars \<Rightarrow> unit result" where
  "ValidateBalanceFlags L v =
     (if \<not> is_hex_address L (e20_Erc20Address v)
      then Err (Error (''invalid recipient address '' @ e20_Recipient v))
      else check_address L ''invalid account address '' (e20_AccountAddress v))"

definition ProcessBalanceFlags :: "eth_lib \<Rightarrow> erc20_vars \<Rightarrow> erc20_vars" where
  "ProcessBalanceFlags L v =
     v\<lparr>e20_Erc20Addr := hex_to_address L (e20_Erc20Address v),
       e20_accountAddr := hex_to_address L (e20_AccountAddress v)\<rparr>"

definition erc20_ValidateDepositFlags :: "eth_lib \<Rightarrow> erc20_vars \<Rightarrow> unit result" where
  "erc20_ValidateDepositFlags L v =
     r_bind (check_address L ''invalid recipient address '' (e20_Recipient v)) (\<lambda>_.
       check_address L ''invalid bridge address '' (e20_Bridge v))"

definition erc20_ProcessDepositFlags :: "eth_lib \<Rightarrow> float_lib \<Rightarrow> erc20_vars \<Rightarrow> unit result \<times> erc20_vars" where
  "erc20_ProcessDepositFlags L F v =
     s_bind (s_lift (UserAmountToWei F (e20_Amount v) (sint (e20_Decimals v)))) (\<lambda>amount v1.
       s_bind (s_lift (ProcessResourceID (e20_ResourceID v))) (\<lambda>rid v2.
           (Ok (), v2\<lparr>e20_ResourceIdBytesArr := rid\<rparr>))
         (v1\<lparr>e20_RealAmount := amount\<rparr>))
       (v\<lparr>e20_RecipientAddress := hex_to_address L (e20_Recipient v),
          e20_BridgeAddr := hex_to_address L (e20_Bridge v)\<rparr>)"

definition ValidateGetAllowanceFlags :: "eth_lib \<Rightarrow> erc20_vars \<Rightarrow> unit result" where
  "ValidateGetAllowanceFlags L v =
     r_bind (check_address L ''invalid contract address '' (e20_Erc20Address v)) (\<lambda>_.
     r_bind (check_address L ''invalid owner address '' (e20_OwnerAddress v)) (\<lambda>_.
       check_address L ''invalid spender address '' (e20_SpenderAddress v)))"

definition erc20_ValidateMintFlags :: "eth_lib \<Rightarrow> erc20_vars \<Rightarrow> unit result" where
  "erc20_ValidateMintFlags L v =
     r_bind (check_address L ''invalid ERC20 address '' (e20_Erc20Address v)) (\<lambda>_.
       check_address L ''invalid recipient address '' (e20_DstAddress v))"

text \<open>The sender is read before the global flags are; it is nil, and its address a panic.\<close>

definition erc20_ProcessMintFlags :: "eth_lib \<Rightarrow> float_lib \<Rightarrow> address option \<Rightarrow> erc20_vars \<Rightarrow> unit result \<times> erc20_vars" where
  "erc20_ProcessMintFlags L F sender v =
     (let v1 = v\<lparr>e20_Erc20Addr := hex_to_address L (e20_Erc20Address v)\<rparr> in
      s_bind (if \<not> is_hex_address L (e20_DstAddress v)
              then (case sender of None \<Rightarrow> s_lift (Panic NilDereference) | Some a \<Rightarrow> s_return a)
              else s_return (hex_to_address L (e20_DstAddress v))) (\<lambda>dst v2.
        s_bind (s_lift (UserAmountToWei F (e20_Amount v) (sint (e20_Decimals v)))) (\<lambda>amount v3.
            (Ok (), v3\<lparr>e20_RealAmount := amount\<rparr>))
          (v2\<lparr>e20_dstAddress := dst\<rparr>)) v1)"

definition erc20_addMinter_Args :: "eth_lib \<Rightarrow> erc20_vars \<Rightarrow> unit result \<times> erc20_vars" where
  "erc20_addMinter_Args L =
     checked_args (erc20_ValidateAddMinterFlags L) (\<lambda>v. (Ok (), erc20_ProcessAddMinterFlags L v))"
definition erc20_approve_Args :: "eth_lib \<Rightarrow> float_lib \<Rightarrow> erc20_vars \<Rightarrow> unit result \<times> erc20_vars" where
  "erc20_approve_Args L F = checked_args (erc20_ValidateApproveFlags L) (erc20_ProcessApproveFlags L F)"
definition balance_Args :: "eth_lib \<Rightarrow> erc20_vars \<Rightarrow> unit result \<times> erc20_vars" where
  "balance_Args L = checked_args (ValidateBalanceFlags L) (\<lambda>v. (Ok (), ProcessBalanceFlags L v))"
definition erc20_deposit_Args :: "eth_lib \<Rightarrow> float_lib \<Rightarrow> erc20_vars \<Rightarrow> unit result \<times> erc20_vars" where
  "erc20_deposit_Args L F = checked_args (erc20_ValidateDepositFlags L) (erc20_ProcessDepositFlags L F)"

text \<open>The allowance query checks the flags of a deposit, which it does not have.\<close>

definition getAllowance_Args :: "eth_lib \<Rightarrow> erc20_vars \<Rightarrow> unit result \<times> erc20_vars" where
  "getAllowance_Args L = checked_args (erc20_ValidateDepositFlags L) (\<lambda>v. (Ok (), v))"
definition erc20_mint_Args ::
  "eth_lib \<Rightarrow> float_lib \<Rightarrow> address option \<Rightarrow> erc20_vars \<Rightarrow> unit result \<times> erc20_vars" where
  "erc20_mint_Args L F sender = checked_args (erc20_ValidateMintFlags L) (erc20_ProcessMintFlags L F sender)"

section \<open>ERC20: commands\<close>

definition erc20_AddMinterCmd ::
  "eth_lib \<Rightarrow> abi_lib \<Rightarrow> u64 \<Rightarrow> erc20_vars \<Rightarrow> 's contract \<Rightarrow> 's \<Rightarrow> unit result \<times> 's" where
  "erc20_AddMinterCmd L A gasLimit v c =
     s_bind (AddMinter L A c (e20_MinterAddr v) (gas_options gasLimit)) (\<lambda>_. s_return ())"

definition erc20_ApproveCmd :: "abi_lib \<Rightarrow> u64 \<Rightarrow> erc20_vars \<Rightarrow> 's contract \<Rightarrow> 's \<Rightarrow> unit result \<times> 's" where
  "erc20_ApproveCmd A gasLimit v c =
     s_bind (ApproveTokens A c (e20_RecipientAddress v) (e20_RealAmount v) (gas_options gasLimit))
       (\<lambda>_. s_return ())"

definition BalanceCmd :: "eth_lib \<Rightarrow> abi_lib \<Rightarrow> erc20_vars \<Rightarrow> 's contract \<Rightarrow> 's \<Rightarrow> int result \<times> 's" where
  "BalanceCmd L A v c = s_bind (GetBalance L A c (e20_accountAddr v)) (\<lambda>balance. s_return balance)"

definition erc20_DepositCmd ::
  "eth_lib \<Rightarrow> abi_lib \<Rightarrow> u64 \<Rightarrow> erc20_vars \<Rightarrow> 's contract \<Rightarrow> 's \<Rightarrow> unit result \<times> 's" where
  "erc20_DepositCmd L A gasLimit v c =
     s_bind (Erc20Deposit L A c (e20_RecipientAddress v) (e20_RealAmount v) (e20_ResourceIdBytesArr v)
               (e20_DomainID v) (gas_options gasLimit)) (\<lambda>_. s_return ())"

definition GetAllowanceCmd :: "erc20_vars \<Rightarrow> 's \<Rightarrow> unit result \<times> 's" where
  "GetAllowanceCmd v = s_return ()"

definition erc20_MintCmd :: "abi_lib \<Rightarrow> u64 \<Rightarrow> erc20_vars \<Rightarrow> 's contract \<Rightarrow> 's \<Rightarrow> unit result \<times> 's" where
  "erc20_MintCmd A gasLimit v c =
     s_bind (MintTokens A c (e20_dstAddress v) (e20_RealAmount v) (gas_options gasLimit)) (\<lambda>_. s_return ())"

text \<open>\<open>RunE\<close>: on the token contract, the deposit on the bridge.\<close>

definition on_erc20 ::
  "('k, 'rpc, 'w) cli_env \<Rightarrow> 'k global_flags \<Rightarrow> erc20_vars
   \<Rightarrow> ('w cli_state contract \<Rightarrow> 'w cli_state \<Rightarrow> 'a result \<times> 'w cli_state)
   \<Rightarrow> 'w cli_state \<Rightarrow> 'a result \<times> 'w cli_state" where
  "on_erc20 E g v command =
     with_transactor E g (\<lambda>c t. command (NewERC20Contract (env_abi E) c (e20_Erc20Addr v) t))"

definition erc20_addMinter_RunE ::
  "('k, 'rpc, 'w) cli_env \<Rightarrow> 'k global_flags \<Rightarrow> erc20_vars \<Rightarrow> 'w cli_state \<Rightarrow> unit result \<times> 'w cli_state" where
  "erc20_addMinter_RunE E g v =
     on_erc20 E g v (erc20_AddMinterCmd (env_lib E) (env_abi E) (g_gasLimit g) v)"

definition erc20_approve_RunE ::
  "('k, 'rpc, 'w) cli_env \<Rightarrow> 'k global_flags \<Rightarrow> erc20_vars \<Rightarrow> 'w cli_state \<Rightarrow> unit result \<times> 'w cli_state" where
  "erc20_approve_RunE E g v = on_erc20 E g v (erc20_ApproveCmd (env_abi E) (g_gasLimit g) v)"

definition balance_RunE ::
  "('k, 'rpc, 'w) cli_env \<Rightarrow> 'k global_flags \<Rightarrow> erc20_vars \<Rightarrow> 'w cli_state \<Rightarrow> int result \<times> 'w cli_state" where
  "balance_RunE E g v = on_erc20 E g v (BalanceCmd (env_lib E) (env_abi E) v)"

definition erc20_deposit_RunE ::
  "('k, 'rpc, 'w) cli_env \<Rightarrow> 'k global_flags \<Rightarrow> erc20_vars \<Rightarrow> 'w cli_state \<Rightarrow> unit result \<times> 'w cli_state" where
  "erc20_deposit_RunE E g v =
     on_bridge E g (e20_BridgeAddr v) (erc20_DepositCmd (env_lib E) (env_abi E) (g_gasLimit g) v)"

definition getAllowance_RunE ::
  "('k, 'rpc, 'w) cli_env \<Rightarrow> 'k global_flags \<Rightarrow> erc20_vars \<Rightarrow> 'w cli_state \<Rightarrow> unit result \<times> 'w cli_state" where
  "getAllowance_RunE E g v = on_erc20 E g v (\<lambda>_. GetAllowanceCmd v)"

definition erc20_mint_RunE ::
  "('k, 'rpc, 'w) cli_env \<Rightarrow> 'k global_flags \<Rightarrow> erc20_vars \<Rightarrow> 'w cli_state \<Rightarrow> unit result \<times> 'w cli_state" where
  "erc20_mint_RunE E g v = on_erc20 E g v (erc20_MintCmd (env_abi E) (g_gasLimit g) v)"

section \<open>ERC721: variables and flags\<close>

record erc721_vars =
  e7_Erc721Address :: string
  e7_Dst :: string
  e7_Token :: string
  e7_Metadata :: string
  e7_Recipient :: string
  e7_Bridge :: string
  e7_DestionationID :: string
  e7_ResourceID :: string
  e7_Minter :: string
  e7_Erc721Addr :: address
  e7_DstAddress :: address
  e7_TokenId :: int
  e7_RecipientAddr :: address
  e7_BridgeAddr :: address
  e7_DestinationID :: int
  e7_ResourceId :: hash
  e7_MinterAddr :: address
  e7_err :: "error option"   \<comment> \<open>the error variable of the package\<close>

text \<open>No flag of this command is required.\<close>

definition erc721_BindAddMinterFlags :: "command_flags \<Rightarrow> command_flags result" where
  "erc721_BindAddMinterFlags cmd =
     Ok (declare_flags [(''contract'', String_flag ''''), (''minter'', String_flag '''')] cmd)"

definition erc721_BindApproveFlags :: "command_flags \<Rightarrow> command_flags result" where
  "erc721_BindApproveFlags cmd = MarkFlagsAsRequired [''contract'', ''recipient'', ''token'']
     (declare_flags [(''contract'', String_flag ''''), (''recipient'', String_flag ''''),
                     (''token'', String_flag '''')] cmd)"

definition erc721_BindDepositFlags :: "command_flags \<Rightarrow> command_flags result" where
  "erc721_BindDepositFlags cmd =
     MarkFlagsAsRequired [''recipient'', ''bridge'', ''destination'', ''resource'', ''token'']
       (declare_flags [(''recipient'', String_flag ''''), (''bridge'', String_flag ''''),
                       (''destination'', String_flag ''''), (''resource'', String_flag ''''),
                       (''token'', String_flag ''''), (''metadata'', String_flag '''')] cmd)"

definition erc721_BindMintFlags :: "command_flags \<Rightarrow> command_flags result" where
  "erc721_BindMintFlags cmd = MarkFlagsAsRequired [''contract'', ''recipient'', ''token'', ''metadata'']
     (declare_flags [(''contract'', String_flag ''''), (''recipient'', String_flag ''''),
                     (''token'', String_flag ''''), (''metadata'', String_flag '''')] cmd)"

definition BindOwnerFlags :: "command_flags \<Rightarrow> command_flags result" where
  "BindOwnerFlags cmd = MarkFlagsAsRequired [''contract'', ''token'']
     (declare_flags [(''contract'', String_flag ''''), (''token'', String_flag '''')] cmd)"

section \<open>ERC721: arguments\<close>

definition erc721_ValidateAddMinterFlags :: "eth_lib \<Rightarrow> erc721_vars \<Rightarrow> unit result" where
  "erc721_ValidateAddMinterFlags L v =
     r_bind (check_address L ''invalid ERC721 contract address '' (e7_Erc721Address v)) (\<lambda>_.
       check_address L ''invalid minter address '' (e7_Minter v))"

definition erc721_ProcessAddMinterFlags :: "eth_lib \<Rightarrow> erc721_vars \<Rightarrow> unit result \<times> erc721_vars" where
  "erc721_ProcessAddMinterFlags L v =
     (Ok (), v\<lparr>e7_Erc721Addr := hex_to_address L (e7_Erc721Address v),
               e7_MinterAddr := hex_to_address L (e7_Minter v)\<rparr>)"

definition erc721_ValidateApproveFlags :: "eth_lib \<Rightarrow> erc721_vars \<Rightarrow> unit result" where
  "erc721_ValidateApproveFlags L v =
     r_bind (check_address L ''invalid ERC721 contract address '' (e7_Erc721Address v)) (\<lambda>_.
       if \<not> is_hex_address L (e7_Recipient v) then Err (Error ''invalid recipient address'') else Ok ())"

text \<open>The token identifier, a decimal number of any sign.\<close>

definition token_id :: "string \<Rightarrow> int result" where
  "token_id s = (case parse_int s of None \<Rightarrow> Err (Error ''invalid token id value'') | Some n \<Rightarrow> Ok n)"

definition erc721_ProcessApproveFlags :: "eth_lib \<Rightarrow> erc721_vars \<Rightarrow> unit result \<times> erc721_vars" where
  "erc721_ProcessApproveFlags L v =
     s_bind (s_lift (token_id (e7_Token v))) (\<lambda>n v1. (Ok (), v1\<lparr>e7_TokenId := n\<rparr>))
       (v\<lparr>e7_RecipientAddr := hex_to_address L (e7_Recipient v),
          e7_Erc721Addr := hex_to_address L (e7_Erc721Address v)\<rparr>)"

definition erc721_ValidateDepositFlags :: "eth_lib \<Rightarrow> erc721_vars \<Rightarrow> unit result" where
  "erc721_ValidateDepositFlags L v =
     (if \<not> is_hex_address L (e7_Recipient v) then Err (Error ''invalid recipient address'')
      else if \<not> is_hex_address L (e7_Bridge v) then Err (Error ''invalid bridge address'')
      else Ok ())"

text \<open>An assignment to the error variable of the package.\<close>

definition set_err :: "'a result \<Rightarrow> erc721_vars \<Rightarrow> 'a result \<times> erc721_vars" where
  "set_err r v = (r, v\<lparr>e7_err := (case r of Err e \<Rightarrow> Some e | _ \<Rightarrow> None)\<rparr>)"

definition erc721_ProcessDepositFlags :: "eth_lib \<Rightarrow> erc721_vars \<Rightarrow> unit result \<times> erc721_vars" where
  "erc721_ProcessDepositFlags L v =
     s_bind (set_err (strconv_Atoi (e7_DestionationID v))) (\<lambda>d v1.
       s_bind (s_lift (token_id (e7_Token v))) (\<lambda>n v2.
         s_bind (set_err (ProcessResourceID (e7_ResourceID v))) (\<lambda>rid v3.
             (Ok (), v3\<lparr>e7_ResourceId := rid\<rparr>))
           (v2\<lparr>e7_TokenId := n\<rparr>))
         (v1\<lparr>e7_DestinationID := d\<rparr>))
       (v\<lparr>e7_RecipientAddr := hex_to_address L (e7_Recipient v),
          e7_BridgeAddr := hex_to_address L (e7_Bridge v)\<rparr>)"

definition erc721_ValidateMintFlags :: "eth_lib \<Rightarrow> erc721_vars \<Rightarrow> unit result" where
  "erc721_ValidateMintFlags L v =
     r_bind (check_address L ''invalid ERC721 contract address '' (e7_Erc721Address v)) (\<lambda>_.
       check_address L ''invalid recipient address '' (e7_Dst v))"

text \<open>The function returns the error variable of the package, which nothing has set.\<close>

definition erc721_ProcessMintFlags :: "eth_lib \<Rightarrow> address option \<Rightarrow> erc721_vars \<Rightarrow> unit result \<times> erc721_vars" where
  "erc721_ProcessMintFlags L sender v =
     (let v1 = v\<lparr>e7_Erc721Addr := hex_to_address L (e7_Erc721Address v)\<rparr> in
      s_bind (if \<not> is_hex_address L (e7_Dst v)
              then (case sender of None \<Rightarrow> s_lift (Panic NilDereference) | Some a \<Rightarrow> s_return a)
              else s_return (hex_to_address L (e7_Dst v))) (\<lambda>dst v2.
        s_bind (s_lift (token_id (e7_Token v))) (\<lambda>n v3.
            (case e7_err v of None \<Rightarrow> Ok () | Some e \<Rightarrow> Err e, v3\<lparr>e7_TokenId := n\<rparr>))
          (v2\<lparr>e7_DstAddress := dst\<rparr>)) v1)"

definition ValidateOwnerFlags :: "eth_lib \<Rightarrow> erc721_vars \<Rightarrow> unit result" where
  "ValidateOwnerFlags L v = check_address L ''invalid ERC721 contract address '' (e7_Erc721Address v)"

definition ProcessOwnerFlags :: "eth_lib \<Rightarrow> erc721_vars \<Rightarrow> unit result \<times> erc721_vars" where
  "ProcessOwnerFlags L v =
     s_bind (s_lift (token_id (e7_Token v))) (\<lambda>n v1. (Ok (), v1\<lparr>e7_TokenId := n\<rparr>))
       (v\<lparr>e7_Erc721Addr := hex_to_address L (e7_Erc721Address v)\<rparr>)"

definition erc721_addMinter_Args :: "eth_lib \<Rightarrow> erc721_vars \<Rightarrow> unit result \<times> erc721_vars" where
  "erc721_addMinter_Args L = checked_args (erc721_ValidateAddMinterFlags L) (erc721_ProcessAddMinterFlags L)"
definition erc721_approve_Args :: "eth_lib \<Rightarrow> erc721_vars \<Rightarrow> unit result \<times> erc721_vars" where
  "erc721_approve_Args L = checked_args (erc721_ValidateApproveFlags L) (erc721_ProcessApproveFlags L)"
definition erc721_deposit_Args :: "eth_lib \<Rightarrow> erc721_vars \<Rightarrow> unit result \<times> erc721_vars" where
  "erc721_deposit_Args L = checked_args (erc721_ValidateDepositFlags L) (erc721_ProcessDepositFlags L)"
definition erc721_mint_Args :: "eth_lib \<Rightarrow> address option \<Rightarrow> erc721_vars \<Rightarrow> unit result \<times> erc721_vars" where
  "erc721_mint_Args L sender = checked_args (erc721_ValidateMintFlags L) (erc721_ProcessMintFlags L sender)"
definition owner_Args :: "eth_lib \<Rightarrow> erc721_vars \<Rightarrow> unit result \<times> erc721_vars" where
  "owner_Args L = checked_args (ValidateOwnerFlags L) (ProcessOwnerFlags L)"

section \<open>ERC721: commands\<close>

definition erc721_AddMinterCmd ::
  "eth_lib \<Rightarrow> abi_lib \<Rightarrow> u64 \<Rightarrow> erc721_vars \<Rightarrow> 's contract \<Rightarrow> 's \<Rightarrow> unit result \<times> 's" where
  "erc721_AddMinterCmd L A gasLimit v c =
     s_bind (erc721_AddMinter L A c (e7_MinterAddr v) (gas_options gasLimit)) (\<lambda>_. s_return ())"

definition erc721_ApproveCmd :: "abi_lib \<Rightarrow> u64 \<Rightarrow> erc721_vars \<Rightarrow> 's contract \<Rightarrow> 's \<Rightarrow> unit result \<times> 's" where
  "erc721_ApproveCmd A gasLimit v c =
     s_bind (erc721_Approve A c (e7_TokenId v) (e7_RecipientAddr v) (gas_options gasLimit)) (\<lambda>_. s_return ())"

text \<open>\<open>uint8(DestinationID)\<close> keeps the low byte.\<close>

definition erc721_DepositCmd ::
  "eth_lib \<Rightarrow> abi_lib \<Rightarrow> u64 \<Rightarrow> erc721_vars \<Rightarrow> 's contract \<Rightarrow> 's \<Rightarrow> unit result \<times> 's" where
  "erc721_DepositCmd L A gasLimit v c =
     s_bind (Erc721Deposit L A c (e7_TokenId v) (e7_Metadata v) (e7_RecipientAddr v) (e7_ResourceId v)
               (word_of_int (e7_DestinationID v)) (gas_options gasLimit)) (\<lambda>_. s_return ())"

definition erc721_MintCmd :: "abi_lib \<Rightarrow> u64 \<Rightarrow> erc721_vars \<Rightarrow> 's contract \<Rightarrow> 's \<Rightarrow> unit result \<times> 's" where
  "erc721_MintCmd A gasLimit v c =
     s_bind (erc721_Mint A c (e7_TokenId v) (e7_Metadata v) (e7_DstAddress v) (gas_options gasLimit))
       (\<lambda>_. s_return ())"

definition OwnerCmd :: "eth_lib \<Rightarrow> abi_lib \<Rightarrow> erc721_vars \<Rightarrow> 's contract \<Rightarrow> 's \<Rightarrow> address result \<times> 's" where
  "OwnerCmd L A v c = s_bind (erc721_Owner L A c (e7_TokenId v)) (\<lambda>owner. s_return owner)"

definition on_erc721 ::
  "('k, 'rpc, 'w) cli_env \<Rightarrow> 'k global_flags \<Rightarrow> erc721_vars
   \<Rightarrow> ('w cli_state contract \<Rightarrow> 'w cli_state \<Rightarrow> 'a result \<times> 'w cli_state)
   \<Rightarrow> 'w cli_state \<Rightarrow> 'a result \<times> 'w cli_state" where
  "on_erc721 E g v command =
     with_transactor E g (\<lambda>c t. command (NewErc721Contract (env_abi E) c (e7_Erc721Addr v) t))"

definition erc721_addMinter_RunE ::
  "('k, 'rpc, 'w) cli_env \<Rightarrow> 'k global_flags \<Rightarrow> erc721_vars \<Rightarrow> 'w cli_state \<Rightarrow> unit result \<times> 'w cli_state" where
  "erc721_addMinter_RunE E g v =
     on_erc721 E g v (erc721_AddMinterCmd (env_lib E) (env_abi E) (g_gasLimit g) v)"

definition erc721_approve_RunE ::
  "('k, 'rpc, 'w) cli_env \<Rightarrow> 'k global_flags \<Rightarrow> erc721_vars \<Rightarrow> 'w cli_state \<Rightarrow> unit result \<times> 'w cli_state" where
  "erc721_approve_RunE E g v = on_erc721 E g v (erc721_ApproveCmd (env_abi E) (g_gasLimit g) v)"

definition erc721_deposit_RunE ::
  "('k, 'rpc, 'w) cli_env \<Rightarrow> 'k global_flags \<Rightarrow> erc721_vars \<Rightarrow> 'w cli_state \<Rightarrow> unit result \<times> 'w cli_state" where
  "erc721_deposit_RunE E g v =
     on_bridge E g (e7_BridgeAddr v) (erc721_DepositCmd (env_lib E) (env_abi E) (g_gasLimit g) v)"

definition erc721_mint_RunE ::
  "('k, 'rpc, 'w) cli_env \<Rightarrow> 'k global_flags \<Rightarrow> erc721_vars \<Rightarrow> 'w cli_state \<Rightarrow> unit result \<times> 'w cli_state" where
  "erc721_mint_RunE E g v = on_erc721 E g v (erc721_MintCmd (env_abi E) (g_gasLimit g) v)"

definition owner_RunE ::
  "('k, 'rpc, 'w) cli_env \<Rightarrow> 'k global_flags \<Rightarrow> erc721_vars \<Rightarrow> 'w cli_state \<Rightarrow> address result \<times> 'w cli_state" where
  "owner_RunE E g v = on_erc721 E g v (OwnerCmd (env_lib E) (env_abi E) v)"

section \<open>Accounts\<close>

record account_vars =
  ac_PrivateKey :: string
  ac_Pass :: string
  ac_Recipient :: string
  ac_Amount :: string
  ac_Decimals :: u64
  ac_RecipientAddress :: address
  ac_WeiAmount :: int

definition BindImportPrivKeyFlags :: "command_flags \<Rightarrow> command_flags result" where
  "BindImportPrivKeyFlags cmd = MarkFlagsAsRequired [''private-key'', ''password'']
     (declare_flags [(''private-key'', String_flag ''''), (''password'', String_flag '''')] cmd)"

definition BindTransferBaseCurrencyFlags :: "command_flags \<Rightarrow> command_flags result" where
  "BindTransferBaseCurrencyFlags cmd = MarkFlagsAsRequired [''recipient'', ''amount'', ''decimals'']
     (declare_flags [(''recipient'', String_flag ''''), (''amount'', String_flag ''''),
                     (''decimals'', Uint64_flag 0)] cmd)"

definition ValidateImportPrivKeyFlags :: "account_vars \<Rightarrow> unit result" where
  "ValidateImportPrivKeyFlags v =
     (if length (ac_PrivateKey v) \<noteq> 64 then Err (Error ''invalid private key: length'') else Ok ())"

definition ValidateTransferBaseCurrencyFlags :: "eth_lib \<Rightarrow> account_vars \<Rightarrow> unit result" where
  "ValidateTransferBaseCurrencyFlags L v = check_address L ''invalid recipient address '' (ac_Recipient v)"

definition ProcessTransferBaseCurrencyFlags ::
  "eth_lib \<Rightarrow> float_lib \<Rightarrow> account_vars \<Rightarrow> unit result \<times> account_vars" where
  "ProcessTransferBaseCurrencyFlags L F v =
     s_bind (s_lift (UserAmountToWei F (ac_Amount v) (sint (ac_Decimals v)))) (\<lambda>amount v1.
         (Ok (), v1\<lparr>ac_WeiAmount := amount\<rparr>))
       (v\<lparr>ac_RecipientAddress := hex_to_address L (ac_Recipient v)\<rparr>)"

definition importPrivKey_Args :: "account_vars \<Rightarrow> unit result \<times> account_vars" where
  "importPrivKey_Args = checked_args ValidateImportPrivKeyFlags (\<lambda>v. (Ok (), v))"
definition transfer_Args :: "eth_lib \<Rightarrow> float_lib \<Rightarrow> account_vars \<Rightarrow> unit result \<times> account_vars" where
  "transfer_Args L F =
     checked_args (ValidateTransferBaseCurrencyFlags L) (ProcessTransferBaseCurrencyFlags L F)"

text \<open>The global flags of the account commands: the flag \<open>prepare\<close> is not kept.\<close>

definition account_global_flags ::
  "'k crypto_lib \<Rightarrow> 'k test_key_ring \<Rightarrow> flag_reader \<Rightarrow> 'k global_flags result" where
  "account_global_flags C ring R =
     r_bind (GlobalFlagValues C ring R) (\<lambda>g. Ok (g\<lparr>g_prepare := False\<rparr>))"

definition TransferBaseCurrency :: "u64 \<Rightarrow> account_vars \<Rightarrow> 's transactor \<Rightarrow> 's \<Rightarrow> unit result \<times> 's" where
  "TransferBaseCurrency gasLimit v t =
     s_bind (t (Some (ac_RecipientAddress v)) []
              ((gas_options gasLimit)\<lparr>Value := Some (ac_WeiAmount v)\<rparr>)) (\<lambda>_. s_return ())"

definition transfer_RunE ::
  "('k, 'rpc, 'w) cli_env \<Rightarrow> 'k global_flags \<Rightarrow> account_vars \<Rightarrow> 'w cli_state \<Rightarrow> unit result \<times> 'w cli_state" where
  "transfer_RunE E g v =
     s_bind (InitializeClient E (g_url g) (g_sender g)) (\<lambda>c.
     s_bind (s_lift (InitializeTransactor E (g_gasPrice g) c (g_prepare g))) (\<lambda>t.
       TransferBaseCurrency (g_gasLimit g) v t))"

text \<open>Importing and generating a key, with what they print.\<close>

definition importPrivKey ::
  "'k crypto_lib \<Rightarrow> 's file_lib \<Rightarrow> bytes result \<Rightarrow> account_vars \<Rightarrow> 's \<Rightarrow> string result \<times> 's" where
  "importPrivKey C F random v =
     s_bind (ImportPrivKey C F random ''.'' (ac_PrivateKey v) (Some (string_bytes (ac_Pass v))))
       (\<lambda>res. s_return res)"

definition generateKeyPair :: "'k crypto_lib \<Rightarrow> 'k result \<Rightarrow> (string \<times> bytes) result" where
  "generateKeyPair C generated =
     r_bind (secp256k1_GenerateKeypair generated) (\<lambda>kp. Ok (keypair_Address C kp, keypair_Encode C kp))"

text \<open>
  The question before a transfer is asked until the answer, in lower case, is \<open>y\<close> or
  \<open>n\<close>; \<open>n\<close> ends the program. \<open>lower\<close> stands for \<open>strings.ToLower\<close>. Given the lines that
  will be read: the decision, or none if they never decide.
\<close>

fun confirmTransfer :: "(string \<Rightarrow> string) \<Rightarrow> string list \<Rightarrow> bool option" where
  "confirmTransfer lower [] = None"
| "confirmTransfer lower (line # rest) =
     (let s = lower (if line \<noteq> [] \<and> last line = char_of (10 :: nat) then butlast line else line) in
      if s = ''n'' then Some False
      else if s = ''y'' then Some True
      else confirmTransfer lower rest)"

end

