(* ===== verification/Cli_Deploy.thy ===== *)
theory Cli_Deploy
  imports Cli_Base
begin

text \<open>
  Deployment: the command of \<open>chains/evm/cli/deploy/deploy.go\<close>, which deploys the
  contracts its flags select, and the local set-up of \<open>chains/evm/cli/local\<close>, which
  deploys and wires a whole bridge on each of two chains.
\<close>

section \<open>Flags of the deployment\<close>

record deploy_vars =
  dp_Bridge :: bool
  dp_BridgeAddress :: string
  dp_DeployAll :: bool
  dp_DomainId :: u8
  dp_GenericHandler :: bool
  dp_Erc20 :: bool
  dp_Erc20Handler :: bool
  dp_Erc20Name :: string
  dp_Erc20Symbol :: string
  dp_Erc721 :: bool
  dp_Erc721Handler :: bool
  dp_Erc721Name :: string
  dp_Erc721Symbol :: string
  dp_Erc721BaseURI :: string
  dp_Fee :: u64
  dp_RelayerThreshold :: u64
  dp_Relayers :: "string list"
  dp_Deployments :: "string list"
  dp_BridgeAddr :: address
  dp_RelayerAddresses :: "address list"

definition BindDeployEVMFlags :: "command_flags \<Rightarrow> command_flags" where
  "BindDeployEVMFlags cmd = declare_flags
     [(''bridge'', Bool_flag False), (''bridge-address'', String_flag ''''), (''all'', Bool_flag False),
      (''domain'', Uint8_flag 1), (''erc20'', Bool_flag False), (''erc20-handler'', Bool_flag False),
      (''erc20-name'', String_flag ''''), (''erc20-symbol'', String_flag ''''), (''erc721'', Bool_flag False),
      (''erc721-handler'', Bool_flag False), (''erc721-name'', String_flag ''''),
      (''erc721-symbol'', String_flag ''''), (''erc721-base-uri'', String_flag ''''),
      (''generic-handler'', Bool_flag False), (''fee'', Uint64_flag 0), (''relayers'', Strings_flag []),
      (''relayer-threshold'', Uint64_flag 1)] cmd"

text \<open>One selection: when its flag is set, other flags become required and it is added.\<close>

definition select_deployment ::
  "bool \<Rightarrow> string list \<Rightarrow> string \<Rightarrow> command_flags \<times> string list \<Rightarrow> (command_flags \<times> string list) result" where
  "select_deployment wanted needs name x =
     (if wanted then r_bind (MarkFlagsAsRequired needs (fst x)) (\<lambda>cmd. Ok (cmd, snd x @ [name])) else Ok x)"

definition handler_needs :: "deploy_vars \<Rightarrow> string list" where
  "handler_needs v = (if \<not> dp_Bridge v then [''bridge-address''] else [])"

definition selected_deployments ::
  "deploy_vars \<Rightarrow> command_flags \<Rightarrow> (command_flags \<times> string list) result" where
  "selected_deployments v cmd =
     (if dp_DeployAll v
      then r_bind (MarkFlagsAsRequired
                     [''relayer-threshold'', ''domain'', ''fee'', ''erc20-symbol'', ''erc20-name''] cmd) (\<lambda>cmd'.
             Ok (cmd', [''bridge'', ''erc20-handler'', ''erc721-handler'', ''generic-handler'', ''erc20'', ''erc721'']))
      else
        r_bind (select_deployment (dp_Bridge v) [''relayer-threshold'', ''domain'', ''fee''] ''bridge'' (cmd, [])) (\<lambda>x.
        r_bind (select_deployment (dp_Erc20Handler v) (handler_needs v) ''erc20-handler'' x) (\<lambda>x.
        r_bind (select_deployment (dp_Erc721Handler v) (handler_needs v) ''erc721-handler'' x) (\<lambda>x.
        r_bind (select_deployment (dp_GenericHandler v) (handler_needs v) ''generic-handler'' x) (\<lambda>x.
        r_bind (select_deployment (dp_Erc20 v) [''erc20-symbol'', ''erc20-name''] ''erc20'' x) (\<lambda>x.
          select_deployment (dp_Erc721 v) [''erc721-name'', ''erc721-symbol'', ''erc721-base-uri''] ''erc721'' x))))))"

definition ValidateDeployFlags :: "deploy_vars \<Rightarrow> command_flags \<Rightarrow> (command_flags \<times> deploy_vars) result" where
  "ValidateDeployFlags v cmd =
     r_bind (selected_deployments v cmd) (\<lambda>(cmd', deployments).
       if length deployments = 0
       then Err (Error ''provide at least one deployment flag. For help use --help'')
       else Ok (cmd', v\<lparr>dp_Deployments := deployments\<rparr>))"

text \<open>The relayers before an invalid one have been added when it is reported.\<close>

fun add_relayers :: "eth_lib \<Rightarrow> string list \<Rightarrow> deploy_vars \<Rightarrow> unit result \<times> deploy_vars" where
  "add_relayers L [] v = (Ok (), v)"
| "add_relayers L (addr # rest) v =
     (if \<not> is_hex_address L addr then (Err (Error (''invalid relayer address '' @ addr)), v)
      else add_relayers L rest (v\<lparr>dp_RelayerAddresses := dp_RelayerAddresses v @ [hex_to_address L addr]\<rparr>))"

text \<open>A bridge address that is not hexadecimal is ignored.\<close>

definition ProcessDeployFlags :: "eth_lib \<Rightarrow> deploy_vars \<Rightarrow> unit result \<times> deploy_vars" where
  "ProcessDeployFlags L v =
     add_relayers L (dp_Relayers v)
       (if is_hex_address L (dp_BridgeAddress v)
        then v\<lparr>dp_BridgeAddr := hex_to_address L (dp_BridgeAddress v)\<rparr> else v)"

definition deploy_Args :: "eth_lib \<Rightarrow> deploy_vars \<Rightarrow> command_flags \<Rightarrow> (command_flags \<times> deploy_vars) result" where
  "deploy_Args L v cmd =
     r_bind (ValidateDeployFlags v cmd) (\<lambda>(cmd', v').
       case ProcessDeployFlags L v' of
         (Ok _, v'') \<Rightarrow> Ok (cmd', v'') | (Err e, _) \<Rightarrow> Err e | (Panic p, _) \<Rightarrow> Panic p)"

section \<open>Deploying\<close>

text \<open>
  The loop over the selected deployments. Its state is the bridge address, the table of
  deployed contracts and the world. It returns the table that is printed at the end; a
  generic handler without a bridge ends it early, with a nil error and nothing printed.
\<close>

fun deploy_each ::
  "eth_lib \<Rightarrow> abi_lib \<Rightarrow> 's contract_client \<Rightarrow> 's transactor \<Rightarrow> deploy_vars \<Rightarrow> string list
   \<Rightarrow> address \<Rightarrow> (string \<rightharpoonup> string) \<Rightarrow> 's \<Rightarrow> (string \<rightharpoonup> string) option result \<times> 's" where
  "deploy_each L A c t v [] bridge table = s_return (Some table)"
| "deploy_each L A c t v (d # ds) bridge table =
     (if d = ''bridge'' then
        s_bind (DeployContract L A (NewBridgeContract A c 0 (Some t))
                  [A_uint8 (dp_DomainId v), A_addresses (dp_RelayerAddresses v),
                   A_big (uint (dp_RelayerThreshold v)), A_big (uint (dp_Fee v)), A_big 0]) (\<lambda>(a, _).
          deploy_each L A c t v ds a (table(''bridge'' \<mapsto> address_hex L a)))
      else if d = ''erc20'' then
        s_bind (DeployContract L A (NewERC20Contract A c 0 (Some t))
                  [A_string (dp_Erc20Name v), A_string (dp_Erc20Symbol v)]) (\<lambda>(a, _).
          deploy_each L A c t v ds bridge (table(''erc20Token'' \<mapsto> address_hex L a)))
      else if d = ''erc20-handler'' then
        s_bind (DeployContract L A (NewERC20HandlerContract A c 0 (Some t)) [A_address bridge]) (\<lambda>(a, _).
          deploy_each L A c t v ds bridge (table(''erc20Handler'' \<mapsto> address_hex L a)))
      else if d = ''erc721'' then
        s_bind (DeployContract L A (NewErc721Contract A c 0 (Some t))
                  [A_string (dp_Erc721Name v), A_string (dp_Erc721Symbol v), A_string (dp_Erc721BaseURI v)])
          (\<lambda>(a, _). deploy_each L A c t v ds bridge (table(''erc721Token'' \<mapsto> address_hex L a)))
      else if d = ''erc721-handler'' then
        s_bind (DeployContract L A (NewERC721HandlerContract A c 0 (Some t)) [A_address bridge]) (\<lambda>(a, _).
          deploy_each L A c t v ds bridge (table(''erc721Handler'' \<mapsto> address_hex L a)))
      else if d = ''generic-handler'' then
        (if bridge = 0 then s_return None
         else
           s_bind (DeployContract L A (NewGenericHandlerContract A c 0 (Some t)) [A_address bridge]) (\<lambda>(a, _).
             deploy_each L A c t v ds bridge (table(''genericHandler'' \<mapsto> address_hex L a))))
      else deploy_each L A c t v ds bridge table)"

text \<open>
  The command reads the global flags itself and always sends: it has no use for
  \<open>prepare\<close>. Its gas pricer is the London one.
\<close>

definition DeployCLI ::
  "('k, 'rpc, 'w) cli_env \<Rightarrow> 'k crypto_lib \<Rightarrow> 'k test_key_ring \<Rightarrow> flag_reader \<Rightarrow> deploy_vars
   \<Rightarrow> 'w cli_state \<Rightarrow> (string \<rightharpoonup> string) option result \<times> 'w cli_state" where
  "DeployCLI E C ring R v =
     s_bind (s_lift (GlobalFlagValues C ring R)) (\<lambda>g.
     s_bind (InitializeClient E (g_url g) (g_sender g)) (\<lambda>c.
       deploy_each (env_lib E) (env_abi E) (env_caller E c)
         (signAndSend_Transact (env_mergo E) (london_transactor E (g_gasPrice g) c))
         v (dp_Deployments v) (dp_BridgeAddr v) Map.empty))"

section \<open>The local set-up\<close>

record e2e_config =
  cf_BridgeAddr :: address
  cf_Erc20Addr :: address
  cf_Erc20HandlerAddr :: address
  cf_AssetStoreAddr :: address
  cf_GenericHandlerAddr :: address
  cf_Erc721Addr :: address
  cf_Erc721HandlerAddr :: address

definition deployGeneric ::
  "eth_lib \<Rightarrow> abi_lib \<Rightarrow> 's contract_client \<Rightarrow> 's transactor \<Rightarrow> address \<Rightarrow> 's \<Rightarrow> (address \<times> address) result \<times> 's"
where
  "deployGeneric L A c t bridge =
     s_bind (DeployContract L A (NewAssetStoreContract A c 0 (Some t)) []) (\<lambda>(assetStore, _).
     s_bind (DeployContract L A (NewGenericHandlerContract A c 0 (Some t)) [A_address bridge]) (\<lambda>(handler, _).
       s_return (handler, assetStore)))"

definition deployErc20 ::
  "eth_lib \<Rightarrow> abi_lib \<Rightarrow> 's contract_client \<Rightarrow> 's transactor \<Rightarrow> address \<Rightarrow> 's
   \<Rightarrow> ('s contract \<times> address \<times> address) result \<times> 's" where
  "deployErc20 L A c t bridge =
     s_bind (DeployContract L A (NewERC20Contract A c 0 (Some t)) [A_string ''Test'', A_string ''TST''])
       (\<lambda>(token, contract).
     s_bind (DeployContract L A (NewERC20HandlerContract A c 0 (Some t)) [A_address bridge]) (\<lambda>(handler, _).
       s_return (contract, token, handler)))"

definition deployErc721 ::
  "eth_lib \<Rightarrow> abi_lib \<Rightarrow> 's contract_client \<Rightarrow> 's transactor \<Rightarrow> address \<Rightarrow> 's
   \<Rightarrow> ('s contract \<times> address \<times> address) result \<times> 's" where
  "deployErc721 L A c t bridge =
     s_bind (DeployContract L A (NewErc721Contract A c 0 (Some t))
               [A_string ''TestERC721'', A_string ''TST721'', A_string '''']) (\<lambda>(token, contract).
     s_bind (DeployContract L A (NewERC721HandlerContract A c 0 (Some t)) [A_address bridge]) (\<lambda>(handler, _).
       s_return (contract, token, handler)))"

text \<open>The resource identifiers of the three assets: a byte padded to 31 bytes, then to 32.\<close>

definition local_resource :: "eth_lib \<Rightarrow> byte \<Rightarrow> hash" where
  "local_resource L b = SliceTo32Bytes (left_pad_bytes L [b] 31)"

definition tenTokens :: int where "tenTokens = 10 * 10 ^ 18"

definition PrepareErc20EVME2EEnv ::
  "eth_lib \<Rightarrow> abi_lib \<Rightarrow> 's contract \<Rightarrow> 's contract \<Rightarrow> address \<Rightarrow> e2e_config \<Rightarrow> 's \<Rightarrow> unit result \<times> 's" where
  "PrepareErc20EVME2EEnv L A bridgeContract erc20Contract mintTo conf =
     s_bind (AdminSetResource A bridgeContract (cf_Erc20HandlerAddr conf) (local_resource L 0)
               (cf_Erc20Addr conf) (gas_options 2000000)) (\<lambda>_.
     s_bind (MintTokens A erc20Contract mintTo tenTokens no_options) (\<lambda>_.
     s_bind (ApproveTokens A erc20Contract (cf_Erc20HandlerAddr conf) tenTokens no_options) (\<lambda>_.
     s_bind (AddMinter L A erc20Contract (cf_Erc20HandlerAddr conf) no_options) (\<lambda>_.
     s_bind (SetBurnableInput A bridgeContract (cf_Erc20HandlerAddr conf) (cf_Erc20Addr conf) no_options) (\<lambda>_.
       s_return ())))))"

definition PrepareGenericEVME2EEnv ::
  "eth_lib \<Rightarrow> abi_lib \<Rightarrow> 's contract \<Rightarrow> e2e_config \<Rightarrow> 's \<Rightarrow> unit result \<times> 's" where
  "PrepareGenericEVME2EEnv L A bridgeContract conf =
     s_bind (AdminSetGenericResource A bridgeContract (cf_GenericHandlerAddr conf) (local_resource L 1)
               (cf_AssetStoreAddr conf) 0x654cf88c 0 0x654cf88c (gas_options 2000000)) (\<lambda>_. s_return ())"

definition PrepareErc721EVME2EEnv ::
  "eth_lib \<Rightarrow> abi_lib \<Rightarrow> 's contract \<Rightarrow> 's contract \<Rightarrow> e2e_config \<Rightarrow> 's \<Rightarrow> unit result \<times> 's" where
  "PrepareErc721EVME2EEnv L A bridgeContract erc721Contract conf =
     s_bind (AdminSetResource A bridgeContract (cf_Erc721HandlerAddr conf) (local_resource L 2)
               (cf_Erc721Addr conf) (gas_options 2000000)) (\<lambda>_.
     s_bind (erc721_AddMinter L A erc721Contract (cf_Erc721HandlerAddr conf) no_options) (\<lambda>_.
     s_bind (SetBurnableInput A bridgeContract (cf_Erc721HandlerAddr conf) (cf_Erc721Addr conf) no_options) (\<lambda>_.
       s_return ())))"

text \<open>The transactor \<open>t\<close> is the one made of the client and a static gas pricer.\<close>

definition PrepareLocalEVME2EEnv ::
  "eth_lib \<Rightarrow> abi_lib \<Rightarrow> 's contract_client \<Rightarrow> 's transactor \<Rightarrow> u8 \<Rightarrow> int \<Rightarrow> address \<Rightarrow> address list
   \<Rightarrow> 's \<Rightarrow> e2e_config result \<times> 's" where
  "PrepareLocalEVME2EEnv L A c t domainID threshold mintTo relayerAddresses =
     s_bind (DeployContract L A (NewBridgeContract A c 0 (Some t))
               [A_uint8 domainID, A_addresses relayerAddresses, A_big threshold, A_big 0, A_big 100])
       (\<lambda>(bridge, bridgeContract).
     s_bind (deployErc721 L A c t bridge) (\<lambda>(erc721Contract, erc721, erc721Handler).
     s_bind (deployErc20 L A c t bridge) (\<lambda>(erc20Contract, erc20, erc20Handler).
     s_bind (deployGeneric L A c t bridge) (\<lambda>(genericHandler, assetStore).
       let conf = \<lparr> cf_BridgeAddr = bridge, cf_Erc20Addr = erc20, cf_Erc20HandlerAddr = erc20Handler,
                    cf_AssetStoreAddr = assetStore, cf_GenericHandlerAddr = genericHandler,
                    cf_Erc721Addr = erc721, cf_Erc721HandlerAddr = erc721Handler \<rparr> in
       s_bind (PrepareErc20EVME2EEnv L A bridgeContract erc20Contract mintTo conf) (\<lambda>_.
       s_bind (PrepareErc721EVME2EEnv L A bridgeContract erc721Contract conf) (\<lambda>_.
       s_bind (PrepareGenericEVME2EEnv L A bridgeContract conf) (\<lambda>_.
         s_return conf)))))))"

definition static_transactor ::
  "('k, 'rpc, 'w) cli_env \<Rightarrow> ('k, 'rpc) evm_client \<Rightarrow> ('w, tx_data) sign_and_send" where
  "static_transactor E c =
     \<lparr> TxFabric = NewTransaction, gasPriceClient = static_GasPrice (env_london E c) None,
       common = evm_tx (env_signer E) (client_key c), dispatcher = env_rpc E (client_rpc c) \<rparr>"

definition prepare_local ::
  "('k, 'rpc, 'w) cli_env \<Rightarrow> ('k, 'rpc) evm_client \<Rightarrow> u8 \<Rightarrow> int \<Rightarrow> address \<Rightarrow> address list
   \<Rightarrow> 'w cli_state \<Rightarrow> e2e_config result \<times> 'w cli_state" where
  "prepare_local E c =
     PrepareLocalEVME2EEnv (env_lib E) (env_abi E) (env_caller E c)
       (signAndSend_Transact (env_mergo E) (static_transactor E c))"

text \<open>
  Both chains get a threshold of one and the five test relayers; Eve sends and owns the
  minted tokens. Every client has a state of its own.
\<close>

definition DefaultRelayerAddresses :: "eth_lib \<Rightarrow> 'k crypto_lib \<Rightarrow> 'k test_key_ring \<Rightarrow> address list result" where
  "DefaultRelayerAddresses L C ring =
     (if \<forall>k \<in> set Keys. EthereumKeys ring k \<noteq> None
      then Ok (map (\<lambda>k. hex_to_address L (keypair_Address C (the (EthereumKeys ring k)))) Keys)
      else Panic NilDereference)"

definition localSetup ::
  "('k, 'rpc, 'w) cli_env \<Rightarrow> 'k crypto_lib \<Rightarrow> 'k test_key_ring \<Rightarrow> 'w \<Rightarrow> (e2e_config \<times> e2e_config) result \<times> 'w" where
  "localSetup E C ring w =
     s_bind (s_lift (DefaultRelayerAddresses (env_lib E) C ring)) (\<lambda>relayers.
     s_bind (s_lift (sender_key (EthereumKeys ring ''eve''))) (\<lambda>k.
     let eve = PubkeyToAddress (env_signer E) k;
         run = (\<lambda>c domain w. case prepare_local E c domain 1 eve relayers (new_client_state eve, w) of
                  (r, (_, w')) \<Rightarrow> (r, w')) in
     s_bind (NewEVMClientFromParams (env_dial E) ''http://localhost:8545'' k) (\<lambda>c1.
     s_bind (NewEVMClientFromParams (env_dial E) ''http://localhost:8547'' k) (\<lambda>c2.
     s_bind (run c1 1) (\<lambda>config.
     s_bind (run c2 2) (\<lambda>config2. s_return (config, config2))))))) w"

text \<open>The addresses the set-up prints, in order: seven for each chain.\<close>

definition prettyPrint :: "eth_lib \<Rightarrow> e2e_config \<Rightarrow> e2e_config \<Rightarrow> string list" where
  "prettyPrint L config config2 = map (address_hex L)
     [cf_BridgeAddr config, cf_Erc20Addr config, cf_Erc20HandlerAddr config, cf_Erc721Addr config,
      cf_Erc721HandlerAddr config, cf_GenericHandlerAddr config, cf_AssetStoreAddr config,
      cf_BridgeAddr config2, cf_Erc20Addr config2, cf_Erc20HandlerAddr config2, cf_Erc721Addr config,
      cf_Erc721HandlerAddr config, cf_GenericHandlerAddr config2, cf_AssetStoreAddr config2]"

text \<open>Whatever the second chain's ERC721 contracts are, those of the first are printed for it.\<close>

lemma local_setup_prints_first_erc721:
  "prettyPrint L config (config2\<lparr>cf_Erc721Addr := a, cf_Erc721HandlerAddr := h\<rparr>) = prettyPrint L config config2"
  by (simp add: prettyPrint_def)

section \<open>What is deployed\<close>

text \<open>The selection in the order of the code, and whether a contract is wanted.\<close>

definition wanted :: "deploy_vars \<Rightarrow> string \<Rightarrow> bool" where
  "wanted v d \<longleftrightarrow> dp_DeployAll v \<or>
     d = ''bridge'' \<and> dp_Bridge v \<or> d = ''erc20-handler'' \<and> dp_Erc20Handler v \<or>
     d = ''erc721-handler'' \<and> dp_Erc721Handler v \<or> d = ''generic-handler'' \<and> dp_GenericHandler v \<or>
     d = ''erc20'' \<and> dp_Erc20 v \<or> d = ''erc721'' \<and> dp_Erc721 v"

abbreviation deployment_order :: "string list" where
  "deployment_order \<equiv>
     [''bridge'', ''erc20-handler'', ''erc721-handler'', ''generic-handler'', ''erc20'', ''erc721'']"

definition deploy_flags_declared :: "command_flags \<Rightarrow> bool" where
  "deploy_flags_declared cmd \<longleftrightarrow>
     {''relayer-threshold'', ''domain'', ''fee'', ''erc20-symbol'', ''erc20-name'', ''erc721-name'', ''erc721-symbol'',
      ''erc721-base-uri'', ''bridge-address''} \<subseteq> fst ` set (declared cmd)"

lemma BindDeployEVMFlags_declared: "deploy_flags_declared (BindDeployEVMFlags cmd)"
  by (simp add: deploy_flags_declared_def BindDeployEVMFlags_def declare_flags_def)

lemma select_deployment_declared:
  assumes "set needs \<subseteq> fst ` set (declared cmd)"
  shows "select_deployment w needs name (cmd, ds) =
    Ok (cmd\<lparr>required := required cmd @ (if w then needs else [])\<rparr>, ds @ (if w then [name] else []))"
  using assms by (simp add: select_deployment_def declared_required)

lemma handler_needs_declared:
  "''bridge-address'' \<in> fst ` set (declared cmd) \<Longrightarrow> set (handler_needs v) \<subseteq> fst ` set (declared cmd)"
  by (auto simp: handler_needs_def)

lemma selected_deployments_eq:
  assumes "deploy_flags_declared cmd"
  shows "\<exists>cmd'. selected_deployments v cmd = Ok (cmd', filter (wanted v) deployment_order) \<and>
    (\<forall>h \<in> {''erc20-handler'', ''erc721-handler'', ''generic-handler''}.
      wanted v h \<and> \<not> wanted v ''bridge'' \<longrightarrow> ''bridge-address'' \<in> set (required cmd'))"
proof (cases "dp_DeployAll v")
  case True
  with assms show ?thesis
    by (simp add: selected_deployments_def deploy_flags_declared_def declared_required wanted_def)
next
  case False
  note d = assms [unfolded deploy_flags_declared_def]
  have "selected_deployments v cmd =
    Ok (cmd\<lparr>required := required cmd @ (if dp_Bridge v then [''relayer-threshold'', ''domain'', ''fee''] else [])
          @ (if dp_Erc20Handler v then handler_needs v else [])
          @ (if dp_Erc721Handler v then handler_needs v else [])
          @ (if dp_GenericHandler v then handler_needs v else [])
          @ (if dp_Erc20 v then [''erc20-symbol'', ''erc20-name''] else [])
          @ (if dp_Erc721 v then [''erc721-name'', ''erc721-symbol'', ''erc721-base-uri''] else [])\<rparr>,
        filter (wanted v) deployment_order)"
    using False d
    by (simp add: selected_deployments_def select_deployment_declared handler_needs_declared wanted_def)
  then show ?thesis using False by (auto simp: wanted_def handler_needs_def)
qed

text \<open>
  The deploy command deploys what its flags select, each contract once and the bridge
  first; with nothing selected it is an error, and no selection panics. A handler without a
  new bridge makes the flag \<open>bridge-address\<close> required.
\<close>

theorem deployments_in_order:
  "\<exists>cmd'. ValidateDeployFlags v (BindDeployEVMFlags cmd) =
      (if filter (wanted v) deployment_order = []
       then Err (Error ''provide at least one deployment flag. For help use --help'')
       else Ok (cmd', v\<lparr>dp_Deployments := filter (wanted v) deployment_order\<rparr>)) \<and>
    (wanted v ''erc20-handler'' \<and> \<not> wanted v ''bridge'' \<longrightarrow> ''bridge-address'' \<in> set (required cmd')) \<and>
    (wanted v ''erc721-handler'' \<and> \<not> wanted v ''bridge'' \<longrightarrow> ''bridge-address'' \<in> set (required cmd')) \<and>
    (wanted v ''generic-handler'' \<and> \<not> wanted v ''bridge'' \<longrightarrow> ''bridge-address'' \<in> set (required cmd'))"
proof -
  from selected_deployments_eq [OF BindDeployEVMFlags_declared, of v cmd] obtain cmd' where
    "selected_deployments v (BindDeployEVMFlags cmd) = Ok (cmd', filter (wanted v) deployment_order)"
    "\<forall>h \<in> {''erc20-handler'', ''erc721-handler'', ''generic-handler''}.
      wanted v h \<and> \<not> wanted v ''bridge'' \<longrightarrow> ''bridge-address'' \<in> set (required cmd')" by blast
  then show ?thesis
    by (intro exI [of _ cmd']) (simp only: ValidateDeployFlags_def r_bind.simps prod.case length_0_conv, simp)
qed

definition example_deploy :: "bool \<Rightarrow> deploy_vars" where
  "example_deploy bridge =
     \<lparr> dp_Bridge = bridge, dp_BridgeAddress = ''0x12'', dp_DeployAll = False, dp_DomainId = 1,
       dp_GenericHandler = True, dp_Erc20 = False, dp_Erc20Handler = bridge, dp_Erc20Name = [],
       dp_Erc20Symbol = [], dp_Erc721 = False, dp_Erc721Handler = False, dp_Erc721Name = [],
       dp_Erc721Symbol = [], dp_Erc721BaseURI = [], dp_Fee = 0, dp_RelayerThreshold = 1, dp_Relayers = [],
       dp_Deployments = [], dp_BridgeAddr = 0, dp_RelayerAddresses = [] \<rparr>"

theorem deployments_in_order_witness:
  "\<exists>cmd'. ValidateDeployFlags (example_deploy False) (BindDeployEVMFlags no_flags) =
     Ok (cmd', (example_deploy False)\<lparr>dp_Deployments := [''generic-handler'']\<rparr>) \<and>
     ''bridge-address'' \<in> set (required cmd')"
  using deployments_in_order [of "example_deploy False" no_flags] by (simp add: wanted_def example_deploy_def)

text \<open>
  What is deployed for a selected name, given the bridge of the handlers: the contract, the
  arguments of its constructor and the name it has in the table.
\<close>

definition bridge_params :: "deploy_vars \<Rightarrow> abi_val list" where
  "bridge_params v = [A_uint8 (dp_DomainId v), A_addresses (dp_RelayerAddresses v),
     A_big (uint (dp_RelayerThreshold v)), A_big (uint (dp_Fee v)), A_big 0]"

definition deployment ::
  "abi_lib \<Rightarrow> 's contract_client \<Rightarrow> 's transactor \<Rightarrow> deploy_vars \<Rightarrow> address \<Rightarrow> string
   \<Rightarrow> 's contract \<times> abi_val list \<times> string" where
  "deployment A c t v bridge d =
     (if d = ''bridge'' then (NewBridgeContract A c 0 (Some t), bridge_params v, ''bridge'')
      else if d = ''erc20'' then
        (NewERC20Contract A c 0 (Some t), [A_string (dp_Erc20Name v), A_string (dp_Erc20Symbol v)], ''erc20Token'')
      else if d = ''erc20-handler'' then
        (NewERC20HandlerContract A c 0 (Some t), [A_address bridge], ''erc20Handler'')
      else if d = ''erc721'' then
        (NewErc721Contract A c 0 (Some t),
         [A_string (dp_Erc721Name v), A_string (dp_Erc721Symbol v), A_string (dp_Erc721BaseURI v)], ''erc721Token'')
      else if d = ''erc721-handler'' then
        (NewERC721HandlerContract A c 0 (Some t), [A_address bridge], ''erc721Handler'')
      else (NewGenericHandlerContract A c 0 (Some t), [A_address bridge], ''genericHandler''))"

fun deploy_list ::
  "eth_lib \<Rightarrow> abi_lib \<Rightarrow> ('s contract \<times> abi_val list \<times> string) list \<Rightarrow> (string \<rightharpoonup> string)
   \<Rightarrow> 's \<Rightarrow> (string \<rightharpoonup> string) option result \<times> 's" where
  "deploy_list L A [] table = s_return (Some table)"
| "deploy_list L A ((c, params, key) # xs) table =
     s_bind (DeployContract L A c params) (\<lambda>(a, _). deploy_list L A xs (table(key \<mapsto> address_hex L a)))"

lemmas deployment_of =
  deployment_def [where d = "''erc20-handler''"] deployment_def [where d = "''erc721-handler''"]
  deployment_def [where d = "''generic-handler''"] deployment_def [where d = "''erc20''"]
  deployment_def [where d = "''erc721''"]

lemma deploy_each_list:
  assumes "bridge \<noteq> 0" and "set ds \<subseteq> set deployment_order - {''bridge''}"
  shows "deploy_each L A c t v ds bridge table = deploy_list L A (map (deployment A c t v bridge) ds) table"
  using assms(2)
proof (induction ds arbitrary: table)
  case (Cons d ds)
  then have d: "d = ''erc20-handler'' \<or> d = ''erc721-handler'' \<or> d = ''generic-handler'' \<or> d = ''erc20'' \<or> d = ''erc721''"
    and IH: "deploy_each L A c t v ds bridge table = deploy_list L A (map (deployment A c t v bridge) ds) table" for table
    by auto
  from d show ?case by (elim disjE) (simp_all add: deployment_of IH assms(1))
qed simp

text \<open>The processed arguments differ from the given ones in nothing a deployment is made of.\<close>

lemma add_relayers_keeps:
  "add_relayers L rs v = (r, v') \<Longrightarrow> \<exists>as. v' = v\<lparr>dp_RelayerAddresses := as\<rparr>"
proof (induction rs arbitrary: v)
  case Nil
  then show ?case by (intro exI [of _ "dp_RelayerAddresses v"]) simp
next
  case (Cons a rs)
  show ?case
  proof (cases "is_hex_address L a")
    case True
    with Cons.prems Cons.IH show ?thesis by fastforce
  next
    case False
    with Cons.prems show ?thesis by (intro exI [of _ "dp_RelayerAddresses v"]) simp
  qed
qed

lemma deploy_Args_deployments:
  assumes "deploy_Args L v (BindDeployEVMFlags cmd) = Ok (cmd', v')"
  shows "dp_Deployments v' = filter (wanted v) deployment_order" and "dp_Deployments v' \<noteq> []"
    and "\<not> is_hex_address L (dp_BridgeAddress v) \<Longrightarrow> dp_BridgeAddr v' = dp_BridgeAddr v"
proof -
  from selected_deployments_eq [OF BindDeployEVMFlags_declared, of v cmd] obtain c where
    "selected_deployments v (BindDeployEVMFlags cmd) = Ok (c, filter (wanted v) deployment_order)" by blast
  with assms obtain r where "filter (wanted v) deployment_order \<noteq> []"
      "ProcessDeployFlags L (v\<lparr>dp_Deployments := filter (wanted v) deployment_order\<rparr>) = (r, v')"
    by (simp only: deploy_Args_def ValidateDeployFlags_def r_bind.simps prod.case length_0_conv)
      (auto simp del: filter.simps split: if_splits prod.splits result.splits)
  then show "dp_Deployments v' = filter (wanted v) deployment_order" and "dp_Deployments v' \<noteq> []"
    and "\<not> is_hex_address L (dp_BridgeAddress v) \<Longrightarrow> dp_BridgeAddr v' = dp_BridgeAddr v"
    unfolding ProcessDeployFlags_def by (auto simp del: filter.simps dest!: add_relayers_keeps split: if_splits)
qed

text \<open>
  C30: when the bridge is among the selected contracts, it is deployed first and the handlers
  are made for it, whatever the flag \<open>bridge-address\<close> says.
\<close>

theorem handlers_name_the_new_bridge:
  assumes "deploy_Args L v (BindDeployEVMFlags cmd) = Ok (cmd', v')" and "wanted v ''bridge''"
    and "DeployContract L A (NewBridgeContract A c 0 (Some t)) (bridge_params v') s = (Ok (a, c'), s1)" and "a \<noteq> 0"
  shows "deploy_each L A c t v' (dp_Deployments v') (dp_BridgeAddr v') Map.empty s =
    deploy_list L A (map (deployment A c t v' a) (filter (wanted v) (tl deployment_order)))
      [''bridge'' \<mapsto> address_hex L a] s1"
proof -
  have ds: "dp_Deployments v' = ''bridge'' # filter (wanted v) (tl deployment_order)"
    using deploy_Args_deployments(1) [OF assms(1)] assms(2) by simp
  have "set (filter (wanted v) (tl deployment_order)) \<subseteq> set deployment_order - {''bridge''}"
    by (auto simp del: filter.simps)
  from deploy_each_list [OF assms(4) this, of L A c t v'] assms(3) show ?thesis
    unfolding ds by (simp del: filter.simps list.sel add: bridge_params_def s_bind_def)
qed

lemma deploy_each_ends_at_generic:
  assumes "set hs \<subseteq> {''erc20-handler'', ''erc721-handler''}"
  shows "deploy_each L A c t v (hs @ ''generic-handler'' # ds) 0 table s =
    s_bind (deploy_list L A (map (deployment A c t v 0) hs) table) (\<lambda>_. s_return None) s"
  using assms
proof (induction hs arbitrary: table s)
  case (Cons d hs)
  then have "d = ''erc20-handler'' \<or> d = ''erc721-handler''" and "set hs \<subseteq> {''erc20-handler'', ''erc721-handler''}"
    by auto
  with Cons.IH show ?case
    by (elim disjE) (auto simp: deployment_of s_bind_def split: result.splits prod.splits)
qed (simp add: s_bind_def s_return_def)

text \<open>
  A bridge address that does not parse is ignored. The token handlers are then deployed
  for the bridge at address zero, and the generic handler ends the command there: it
  reports success, prints no address and deploys none of the tokens selected after it.
\<close>

theorem invalid_bridge_address_ignored:
  assumes "deploy_Args L v (BindDeployEVMFlags cmd) = Ok (cmd', v')"
    and "\<not> is_hex_address L (dp_BridgeAddress v)" and "dp_BridgeAddr v = 0"
    and "\<not> wanted v ''bridge''" and "wanted v ''generic-handler''"
  shows "deploy_each L A c t v' (dp_Deployments v') (dp_BridgeAddr v') Map.empty s =
    s_bind (deploy_list L A (map (deployment A c t v' 0) (filter (wanted v) [''erc20-handler'', ''erc721-handler'']))
      Map.empty) (\<lambda>_. s_return None) s"
proof -
  note args = deploy_Args_deployments [OF assms(1)]
  have ds: "dp_Deployments v' = filter (wanted v) [''erc20-handler'', ''erc721-handler''] @
      ''generic-handler'' # filter (wanted v) [''erc20'', ''erc721'']"
    unfolding args(1) using assms(4,5) by simp
  have "set (filter (wanted v) [''erc20-handler'', ''erc721-handler'']) \<subseteq> {''erc20-handler'', ''erc721-handler''}"
    by (auto simp del: filter.simps)
  then show ?thesis
    unfolding ds args(3) [OF assms(2)] assms(3) by (rule deploy_each_ends_at_generic)
qed

definition example_deployer :: "nat contract_client" where
  "example_deployer =
     \<lparr> cc_From = 1, cc_CallContract = (\<lambda>_ _ n. (Ok [], n)), cc_CodeAt = (\<lambda>_ n. (Ok [], n)),
       cc_TransactionByHash = (\<lambda>_ n. (Ok \<lparr> tx_To = None, tx_Gas = 0, tx_GasPrice = None, tx_Value = None,
         tx_Data = [], tx_Nonce = word_of_nat n \<rparr>, n)) \<rparr>"

lemma example_deploy_Args:
  "\<exists>c v'. deploy_Args reference_lib (example_deploy b) (BindDeployEVMFlags no_flags) = Ok (c, v')"
  by (cases b) (simp_all add: deploy_Args_def ValidateDeployFlags_def selected_deployments_def example_deploy_def
      select_deployment_def handler_needs_def BindDeployEVMFlags_def declare_flags_def no_flags_def
      ProcessDeployFlags_def reference_lib_def)

theorem handlers_name_the_new_bridge_witness:
  "\<exists>v' s. deploy_each reference_lib example_abi example_deployer (\<lambda>_ _ _ n. (Ok 1, Suc n)) v'
      (dp_Deployments v') (dp_BridgeAddr v') Map.empty 0 =
    deploy_list reference_lib example_abi (map (deployment example_abi example_deployer (\<lambda>_ _ _ n. (Ok 1, Suc n)) v' 2)
      [''erc20-handler'', ''generic-handler'']) [''bridge'' \<mapsto> address_hex reference_lib 2] s"
proof -
  obtain c v' where v': "deploy_Args reference_lib (example_deploy True) (BindDeployEVMFlags no_flags) = Ok (c, v')"
    using example_deploy_Args by blast
  have "\<exists>c. DeployContract reference_lib example_abi
      (NewBridgeContract example_abi example_deployer 0 (Some (\<lambda>_ _ _ n. (Ok 1, Suc n)))) (bridge_params v') 0 =
    (Ok (2, c), 1)"
    by (simp add: DeployContract_def PackMethod_def Transact_def NewBridgeContract_def NewContract_def
        example_abi_def example_deployer_def reference_lib_def s_bind_def s_return_def s_lift_def Let_def)
  then obtain bc where "DeployContract reference_lib example_abi
      (NewBridgeContract example_abi example_deployer 0 (Some (\<lambda>_ _ _ n. (Ok 1, Suc n)))) (bridge_params v') 0 =
    (Ok (2, bc), 1)" by blast
  moreover have "filter (wanted (example_deploy True)) (tl deployment_order) = [''erc20-handler'', ''generic-handler'']"
    by (simp add: wanted_def example_deploy_def)
  moreover have "wanted (example_deploy True) ''bridge''" by (simp add: wanted_def example_deploy_def)
  ultimately show ?thesis
    using handlers_name_the_new_bridge [OF v', of example_abi example_deployer "\<lambda>_ _ _ n. (Ok 1, Suc n)" 0 2 bc 1]
    by (intro exI [of _ v'] exI [of _ 1]) (simp only: , simp)
qed

theorem invalid_bridge_address_ignored_witness:
  "\<exists>v'. deploy_each reference_lib example_abi example_deployer (\<lambda>_ _ _ n. (Ok 1, Suc n)) v'
      (dp_Deployments v') (dp_BridgeAddr v') Map.empty 0 = (Ok None, 0)"
proof -
  obtain c v' where v': "deploy_Args reference_lib (example_deploy False) (BindDeployEVMFlags no_flags) = Ok (c, v')"
    using example_deploy_Args by blast
  show ?thesis
    using invalid_bridge_address_ignored [OF v', of example_abi example_deployer "\<lambda>_ _ _ n. (Ok 1, Suc n)" 0]
    by (intro exI [of _ v']) (simp add: wanted_def example_deploy_def reference_lib_def s_bind_def s_return_def)
qed

end
