(* ===== verification/Cli_Utils.thy ===== *)
theory Cli_Utils
  imports Cli_Base
begin

text \<open>
  The commands of \<open>chains/evm/cli/utils\<close>: simulating a transaction that is on the chain,
  and listing the hashes of the transactions of some blocks.
\<close>

section \<open>Variables and flags\<close>

record utils_vars =
  ut_BlockNumber :: string
  ut_Blocks :: string
  ut_TxHash :: string
  ut_FromAddress :: string
  ut_txHash :: hash
  ut_fromAddr :: address

definition BindHashListFlags :: "command_flags \<Rightarrow> command_flags result" where
  "BindHashListFlags cmd = MarkFlagsAsRequired [''block-number'', ''blocks'']
     (declare_flags [(''block-number'', String_flag ''''), (''blocks'', String_flag '''')] cmd)"

definition BindSimulateFlags :: "command_flags \<Rightarrow> command_flags result" where
  "BindSimulateFlags cmd = MarkFlagsAsRequired [''tx-hash'', ''block-number'', ''from'']
     (declare_flags [(''tx-hash'', String_flag ''''), (''block-number'', String_flag ''''),
                     (''from'', String_flag '''')] cmd)"

section \<open>Simulating a transaction\<close>

definition ValidateSimulateFlags ::
  "eth_lib \<Rightarrow> (string \<Rightarrow> bytes result) \<Rightarrow> utils_vars \<Rightarrow> unit result" where
  "ValidateSimulateFlags L hexutil_Decode v =
     (case hexutil_Decode (ut_TxHash v) of
        Err _ \<Rightarrow> Err (Error (''invalid tx hash '' @ ut_TxHash v))
      | Panic p \<Rightarrow> Panic p
      | Ok _ \<Rightarrow> check_address L ''invalid from address '' (ut_FromAddress v))"

definition ProcessSimulateFlags :: "eth_lib \<Rightarrow> (string \<Rightarrow> hash) \<Rightarrow> utils_vars \<Rightarrow> utils_vars" where
  "ProcessSimulateFlags L hexToHash v =
     v\<lparr>ut_txHash := hexToHash (ut_TxHash v), ut_fromAddr := hex_to_address L (ut_FromAddress v)\<rparr>"

definition simulate_Args :: "('k, 'rpc, 'w) cli_env \<Rightarrow> utils_vars \<Rightarrow> unit result \<times> utils_vars" where
  "simulate_Args E =
     checked_args (ValidateSimulateFlags (env_lib E) (env_hexutil_Decode E))
       (\<lambda>v. (Ok (), ProcessSimulateFlags (env_lib E) (env_HexToHash E) v))"

text \<open>\<open>hex.DecodeString(common.Bytes2Hex(res))\<close>, the last step of \<open>Simulate\<close>.\<close>

definition hex_again :: "bytes \<Rightarrow> bytes result" where
  "hex_again bs = (case hex_DecodeString (hex_text bs) of (cs, None) \<Rightarrow> Ok cs | (cs, Some e) \<Rightarrow> Err e)"

text \<open>
  A block number that is not a number is nil, which stands for the latest block. The result
  is what the command logs.
\<close>

definition SimulateCmd ::
  "('k, 'rpc, 'w) cli_env \<Rightarrow> 'k global_flags \<Rightarrow> utils_vars \<Rightarrow> 'w cli_state \<Rightarrow> bytes result \<times> 'w cli_state" where
  "SimulateCmd E g v =
     s_bind (InitializeClient E (g_url g) (g_sender g)) (\<lambda>c.
       Simulate hex_again (env_caller E c) (parse_int (ut_BlockNumber v)) (ut_txHash v) (ut_fromAddr v))"

section \<open>Listing transactions\<close>

text \<open>
  The loop, with \<open>query\<close> for \<open>BlockByNumber\<close> and the transaction hashes of the block it
  finds: the hashes it logs, and how it ends. The number of the block is incremented in
  place before the query; when it is nil that panics.
\<close>

fun hash_list_loop ::
  "(int \<Rightarrow> 's \<Rightarrow> hash list result \<times> 's) \<Rightarrow> nat \<Rightarrow> int option \<Rightarrow> 's \<Rightarrow> (hash list \<times> unit result) \<times> 's" where
  "hash_list_loop query 0 n s = (([], Ok ()), s)"
| "hash_list_loop query (Suc k) None s = (([], Panic NilDereference), s)"
| "hash_list_loop query (Suc k) (Some n) s =
     (case query (n + 1) s of
        (Ok hs, s') \<Rightarrow>
          (case hash_list_loop query k (Some (n + 1)) s' of ((rest, r), s'') \<Rightarrow> ((hs @ rest, r), s''))
      | (Err e, s') \<Rightarrow> (([], Err e), s')
      | (Panic p, s') \<Rightarrow> (([], Panic p), s'))"

definition HashListCmd ::
  "('k, 'rpc, 'w) cli_env \<Rightarrow> (('k, 'rpc) evm_client \<Rightarrow> int \<Rightarrow> 'w cli_state \<Rightarrow> hash list result \<times> 'w cli_state)
   \<Rightarrow> 'k global_flags \<Rightarrow> utils_vars \<Rightarrow> 'w cli_state \<Rightarrow> (hash list \<times> unit result) \<times> 'w cli_state" where
  "HashListCmd E BlockByNumber g v s =
     (case InitializeClient E (g_url g) (g_sender g) s of
        (Ok c, s1) \<Rightarrow>
          (case strconv_Atoi (ut_Blocks v) of
             Ok numBlocks \<Rightarrow> hash_list_loop (BlockByNumber c) (nat numBlocks) (parse_int (ut_BlockNumber v)) s1
           | Err e \<Rightarrow> (([], Err e), s1)
           | Panic p \<Rightarrow> (([], Panic p), s1))
      | (Err e, s1) \<Rightarrow> (([], Err e), s1)
      | (Panic p, s1) \<Rightarrow> (([], Panic p), s1))"

section \<open>Lemmas\<close>

lemma hex_again_Ok [simp]: "hex_again bs = Ok bs"
  by (simp add: hex_again_def hex_DecodeString_text)

lemma simulated_call:
  assumes "cc_TransactionByHash c h s = (Ok tx, s1)"
  shows "Simulate hex_again c block h from s =
    cc_CallContract c (ToCallArg \<lparr> msg_From = from, msg_To = tx_To tx, msg_Data = tx_Data tx,
      msg_Value = tx_Value tx, msg_Gas = tx_Gas tx, msg_GasPrice = tx_GasPrice tx \<rparr>) block s1"
  using assms by (simp add: Simulate_def s_bind_def split: result.splits prod.splits)

lemma hash_list_loop_blocks:
  assumes "\<And>n s. query n s = (Ok (hashes n), s)"
  shows "hash_list_loop query k (Some n) s = ((concat (map hashes [n + 1 .. n + int k]), Ok ()), s)"
proof (induction k arbitrary: n)
  case (Suc k)
  have "[n + 1 .. n + int (Suc k)] = (n + 1) # [n + 1 + 1 .. n + 1 + int k]"
    by (subst upto.simps) (simp add: algebra_simps)
  with Suc show ?case by (simp add: assms)
qed simp

text \<open>
  Listing \<open>n\<close> blocks from a start block, on a node that has them, logs the transactions
  of the \<open>n\<close> blocks after it, in order: those of the start block itself are left out.
\<close>

theorem hash_list_starts_one_late:
  assumes "InitializeClient E (g_url g) (g_sender g) s = (Ok c, s1)"
    and "\<And>b s. BlockByNumber c b s = (Ok (hashes b), s)"
    and "parse_int (ut_BlockNumber v) = Some start" and "strconv_Atoi (ut_Blocks v) = Ok n"
  shows "HashListCmd E BlockByNumber g v s = ((concat (map hashes [start + 1 .. start + max 0 n]), Ok ()), s1)"
  using hash_list_loop_blocks [of "BlockByNumber c" hashes, OF assms(2), of "nat n" start s1] assms(1,3,4)
  by (simp add: HashListCmd_def max_def split: if_splits)

theorem hash_list_starts_one_late_witness:
  "HashListCmd example_cli_env (\<lambda>_ b s. (Ok [word_of_int b], s)) example_global_flags
     \<lparr> ut_BlockNumber = ''7'', ut_Blocks = ''2'', ut_TxHash = [], ut_FromAddress = [], ut_txHash = 0, ut_fromAddr = 0 \<rparr>
     (new_client_state 0, []) = (([8, 9], Ok ()), (new_client_state 1, []))"
proof -
  have "[8 .. 9] = [8, 9 :: int]" by (simp add: upto.simps)
  moreover have "InitializeClient example_cli_env (g_url example_global_flags) (g_sender example_global_flags)
      (new_client_state 0, []) = (Ok \<lparr> client_key = 1, client_rpc = () \<rparr>, (new_client_state 1, []))"
    using example_InitializeClient [of "g_url example_global_flags" 1 "new_client_state 0" "[]"]
    by (simp add: example_global_flags_def)
  ultimately show ?thesis
    using hash_list_starts_one_late [of example_cli_env example_global_flags "(new_client_state 0, [])"
        "\<lparr> client_key = 1, client_rpc = () \<rparr>" "(new_client_state 1, [])"
        "\<lambda>_ b s. (Ok [word_of_int b], s)" "\<lambda>b. [word_of_int b]"
        "\<lparr> ut_BlockNumber = ''7'', ut_Blocks = ''2'', ut_TxHash = [], ut_FromAddress = [], ut_txHash = 0, ut_fromAddr = 0 \<rparr>"
        7 2]
    by (simp add: parse_int_def strconv_Atoi_def split_sign_def is_digit_def)
qed

end
