(* ===== verification/Cli_Spec.thy ===== *)
theory Cli_Spec
  imports Cli_Admin Cli_Bridge Cli_Tokens Cli_Deploy Cli_Utils Deposit_Codec
begin

text \<open>
  What holds of the commands together: the flags they declare, commands that only prepare
  their transaction, and the way of an amount a user types to the proposal that is voted on.
\<close>

section \<open>Preparing transactions\<close>

lemma admin_transactions [transaction_commands]:
  "one_transaction (AddRelayerEVMCMD A gas va)" "one_transaction (PauseCmd A gas va)"
  "one_transaction (UnpauseCmd A gas va)" "one_transaction (SetDepositNonceEVMCMD A gas va)"
  "one_transaction (SetThresholdCMD A gas va)" "one_transaction (WithdrawCmd L A gas va)"
  by (rule one_transactionI, rule ext,
      simp add: AddRelayerEVMCMD_def AddRelayer_def PauseCmd_def Pause_def UnpauseCmd_def Unpause_def
        SetDepositNonceEVMCMD_def SetDepositNonce_def SetThresholdCMD_def SetThresholdInput_def
        WithdrawCmd_def Withdraw_def Let_def)+

lemma bridge_transactions [transaction_commands]:
  "one_transaction (RegisterGenericResource A gas vb)" "one_transaction (RegisterResourceCmd A gas vb)"
  "one_transaction (SetBurnCmd A gas vb)"
  by (rule one_transactionI, rule ext,
      simp add: RegisterGenericResource_def AdminSetGenericResource_def RegisterResourceCmd_def
        AdminSetResource_def SetBurnCmd_def SetBurnableInput_def)+

lemma erc20_transactions [transaction_commands]:
  "one_transaction (erc20_ApproveCmd A gas vt)" "one_transaction (erc20_DepositCmd L A gas vt)"
  "one_transaction (erc20_MintCmd A gas vt)"
  by (rule one_transactionI, rule ext,
      simp add: erc20_ApproveCmd_def ApproveTokens_def erc20_DepositCmd_def Erc20Deposit_def bridge_deposit_def
        erc20_MintCmd_def MintTokens_def)+

lemma erc721_transactions [transaction_commands]:
  "one_transaction (erc721_ApproveCmd A gas vn)" "one_transaction (erc721_DepositCmd L A gas vn)"
  "one_transaction (erc721_MintCmd A gas vn)"
  by (rule one_transactionI, rule ext,
      simp add: erc721_ApproveCmd_def erc721_Approve_def erc721_DepositCmd_def Erc721Deposit_def bridge_deposit_def
        erc721_MintCmd_def erc721_Mint_def)+

lemma prepared_on_token:
  assumes "g_prepare g"
  shows "one_transaction command \<Longrightarrow> prepares E (g_url g) (on_erc20 E g vt command)"
    and "one_transaction command \<Longrightarrow> prepares E (g_url g) (on_erc721 E g vn command)"
  unfolding on_erc20_def on_erc721_def
  by (rule prepared_command [where mk = "\<lambda>c t. NewERC20Contract (env_abi E) c (e20_Erc20Addr vt) t"]
      prepared_command [where mk = "\<lambda>c t. NewErc721Contract (env_abi E) c (e7_Erc721Addr vn) t"];
      simp add: assms NewERC20Contract_def NewErc721Contract_def NewContract_def)+

lemma prepared_runs:
  assumes "g_prepare g"
  shows "list_all (prepares E (g_url g))
    [addRelayer_RunE E g va, pause_RunE E g va, unpause_RunE E g va, setDepositNonce_RunE E g va,
      setThreshold_RunE E g va, withdraw_RunE E g va, registerGenericResource_RunE E g vb,
      registerResource_RunE E g vb, setBurn_RunE E g vb, erc20_approve_RunE E g vt, erc20_deposit_RunE E g vt,
      erc20_mint_RunE E g vt, erc721_approve_RunE E g vn, erc721_deposit_RunE E g vn, erc721_mint_RunE E g vn]"
proof -
  note on = prepared_on_bridge [OF assms] prepared_on_token [OF assms]
  show ?thesis
    by (auto simp: addRelayer_RunE_def pause_RunE_def unpause_RunE_def setDepositNonce_RunE_def
        setThreshold_RunE_def withdraw_RunE_def registerGenericResource_RunE_def registerResource_RunE_def
        setBurn_RunE_def erc20_approve_RunE_def erc20_deposit_RunE_def erc20_mint_RunE_def
        erc721_approve_RunE_def erc721_deposit_RunE_def erc721_mint_RunE_def
        intro!: on transaction_commands)
qed

text \<open>
  With the flag \<open>prepare\<close> the commands that are one transaction send nothing: they dial
  the node and print the calldata, exactly once when they succeed.
\<close>

theorem prepared_commands_print_once:
  assumes "g_prepare g"
    and "run \<in> set [addRelayer_RunE E g va, pause_RunE E g va, unpause_RunE E g va, setDepositNonce_RunE E g va,
      setThreshold_RunE E g va, withdraw_RunE E g va, registerGenericResource_RunE E g vb,
      registerResource_RunE E g vb, setBurn_RunE E g vb, erc20_approve_RunE E g vt, erc20_deposit_RunE E g vt,
      erc20_mint_RunE E g vt, erc721_approve_RunE E g vn, erc721_deposit_RunE E g vn, erc721_mint_RunE E g vn]"
    and "run (st, w) = (r, (st', w'))"
  shows "only_prints E (g_url g) w w' \<and>
    (r = Ok () \<longrightarrow> (\<exists>to data. w' = env_print E to data (snd (env_dial E (g_url g) w))))"
proof -
  from assms(2) prepared_runs [OF assms(1), of E va vb vt vn] have "prepares E (g_url g) run"
    by (simp only: list_all_iff)
  with assms(3) show ?thesis unfolding prepares_def by blast
qed

theorem prepared_commands_print_once_witness:
  "\<exists>s to data. pause_RunE example_cli_env example_global_flags example_withdrawal (new_client_state 0, []) = (Ok (), s) \<and> snd s = [(to, data)]"
proof -
  have "\<exists>s. pause_RunE example_cli_env example_global_flags example_withdrawal (new_client_state 0, []) = (Ok (), s)"
    by (simp add: pause_RunE_def on_bridge_def with_transactor_def example_global_flags_def
        example_InitializeClient InitializeTransactor_def PauseCmd_def Pause_def ExecuteTransaction_def
        PackMethod_def Transact_def prepare_Transact_def NewBridgeContract_def NewContract_def s_bind_def
        s_return_def s_lift_def example_cli_env_simps print_prepared_def)
  then obtain s where s: "pause_RunE example_cli_env example_global_flags example_withdrawal (new_client_state 0, []) = (Ok (), s)" by blast
  then have "pause_RunE example_cli_env example_global_flags example_withdrawal (new_client_state 0, []) = (Ok (), (fst s, snd s))" by simp
  from prepared_commands_print_once [of example_global_flags
      "pause_RunE example_cli_env example_global_flags example_withdrawal" example_cli_env example_withdrawal
      example_bridge_vars undefined undefined, OF _ _ this]
  have "\<exists>to data. snd s = env_print example_cli_env to data
      (snd (env_dial example_cli_env (g_url example_global_flags) []))"
    by (simp add: example_global_flags_def)
  with s show ?thesis by (auto simp: example_cli_env_simps)
qed

section \<open>From the typed amount to the proposal\<close>

lemma sint_decimals:
  assumes "d \<le> 22"
  shows "sint (word_of_nat d :: u64) = int d"
proof -
  have "sint (word_of_int (int d) :: u64) = int d"
    unfolding sint_sbintrunc' using assms by (intro signed_take_bit_int_eq_self) auto
  then show ?thesis by simp
qed

lemma erc20_deposit_arguments:
  assumes "is_hex_address L (e20_Recipient v)" and "is_hex_address L (e20_Bridge v)"
    and "UserAmountToWei F (e20_Amount v) (sint (e20_Decimals v)) = Ok amount"
    and "ProcessResourceID (e20_ResourceID v) = Ok rid"
  shows "\<exists>v'. erc20_deposit_Args L F v = (Ok (), v') \<and> e20_RealAmount v' = amount \<and>
    e20_ResourceIdBytesArr v' = rid \<and> e20_DomainID v' = e20_DomainID v \<and>
    e20_RecipientAddress v' = hex_to_address L (e20_Recipient v) \<and> e20_BridgeAddr v' = hex_to_address L (e20_Bridge v)"
  using assms
  by (simp add: erc20_deposit_Args_def checked_args_def erc20_ValidateDepositFlags_def
      erc20_ProcessDepositFlags_def check_address_def s_bind_def s_lift_def)

text \<open>
  C11: the deposit command sends the number the user means. For a whole number of tokens, up to
  \<open>2 ^ 53 / 5 ^ decimals\<close> of them, the call of \<open>deposit\<close> carries the calldata of exactly
  that many units, for the resource and the domain of the flags; and when the bridge logs
  that calldata, the proposal the relayers vote on carries it unchanged.
\<close>

theorem typed_deposit_reaches_proposal:
  assumes "left_pad_documented L" and "padded_big_documented L"
    and "is_hex_address L (e20_Recipient v)" and "is_hex_address L (e20_Bridge v)"
    and "list_all is_digit (e20_Amount v)" and "e20_Amount v \<noteq> []"
    and "e20_Decimals v = word_of_nat d" and "d \<le> 22" and "digits_value 0 (e20_Amount v) * 5 ^ d < 2 ^ 53"
    and "ProcessResourceID (e20_ResourceID v) = Ok rid" and "length resp \<noteq> 32"
  defines "amount \<equiv> int (digits_value 0 (e20_Amount v) * 10 ^ d)"
  defines "data \<equiv> ConstructErc20DepositData L (address_bytes (hex_to_address L (e20_Recipient v))) amount"
  shows "\<exists>v'. erc20_deposit_Args L F v = (Ok (), v') \<and>
    erc20_DepositCmd L A gasLimit v' c = s_bind (ExecuteTransaction A c ''deposit'' (gas_options gasLimit)
      [A_uint8 (e20_DomainID v), A_bytes32 rid, A_bytes data]) (\<lambda>_. s_return ()) \<and>
    r_bind (Erc20EventHandler src (e20_DomainID v) n rid (data, spare) resp tx blk)
      (\<lambda>m. ERC20MessageHandler L m h b) = Ok (NewProposal src n rid data h b tx blk)"
proof -
  have "sint (e20_Decimals v) = int d"
    using assms(7,8) by (simp add: sint_decimals)
  moreover have "UserAmountToWei F (e20_Amount v) (int d) = Ok amount"
    unfolding amount_def by (rule whole_amount_exact [OF assms(5,6,8,9)])
  ultimately obtain v' where v': "erc20_deposit_Args L F v = (Ok (), v')" "e20_RealAmount v' = amount"
      "e20_ResourceIdBytesArr v' = rid" "e20_DomainID v' = e20_DomainID v"
      "e20_RecipientAddress v' = hex_to_address L (e20_Recipient v)"
    using erc20_deposit_arguments [OF assms(3,4) _ assms(10)] by metis
  have "digits_value 0 (e20_Amount v) * 10 ^ d = digits_value 0 (e20_Amount v) * 5 ^ d * 2 ^ d"
    by (simp add: power_mult_distrib [symmetric])
  also have "\<dots> < 2 ^ 53 * 2 ^ d" using assms(9) by (intro mult_strict_right_mono) auto
  also have "\<dots> \<le> 2 ^ 53 * (2 :: nat) ^ 22" using assms(8) by (intro mult_left_mono power_increasing) auto
  finally have "amount < int (2 ^ 53 * 2 ^ 22)" unfolding amount_def by (simp only: of_nat_less_iff)
  then have "amount < 2 ^ 256" by simp
  then have "r_bind (Erc20EventHandler src (e20_DomainID v) n rid (data, spare) resp tx blk)
      (\<lambda>m. ERC20MessageHandler L m h b) = Ok (NewProposal src n rid data h b tx blk)"
    unfolding data_def using assms(1,2,11) by (intro erc20_deposit_voted) (simp_all add: amount_def)
  with v' show ?thesis
    by (auto simp: erc20_DepositCmd_def Erc20Deposit_def bridge_deposit_def data_def)
qed

definition example_deposit :: erc20_vars where
  "example_deposit =
     \<lparr> e20_Amount = ''5'', e20_Decimals = 18, e20_DstAddress = [], e20_Erc20Address = [],
       e20_Recipient = replicate 42 CHR ''1'', e20_Bridge = replicate 42 CHR ''2'', e20_DomainID = 2,
       e20_ResourceID = ''0x01'', e20_AccountAddress = [], e20_OwnerAddress = [], e20_SpenderAddress = [],
       e20_Minter = [], e20_RecipientAddress = 0, e20_RealAmount = 0, e20_Erc20Addr = 0, e20_MinterAddr = 0,
       e20_BridgeAddr = 0, e20_ResourceIdBytesArr = 0, e20_dstAddress = 0, e20_accountAddr = 0 \<rparr>"

theorem typed_deposit_reaches_proposal_witness:
  "\<exists>v' rid data. erc20_deposit_Args reference_lib example_floats example_deposit = (Ok (), v') \<and>
    data = ConstructErc20DepositData reference_lib
      (address_bytes (hex_to_address reference_lib (replicate 42 CHR ''1''))) 5000000000000000000 \<and>
    r_bind (Erc20EventHandler 1 2 7 rid (data, []) [] 3 4) (\<lambda>m. ERC20MessageHandler reference_lib m 11 12) =
      Ok (NewProposal 1 7 rid data 11 12 3 4)"
proof -
  have "ProcessResourceID ''0x01'' = Ok (SliceTo32Bytes [1])"
    by (simp add: ProcessResourceID_def strip_0x_def hex_value_def Let_def)
  then show ?thesis
    using typed_deposit_reaches_proposal [of reference_lib example_deposit 18 "SliceTo32Bytes [1]" "[]"
        example_floats example_abi 0 "NewBridgeContract example_abi example_client 0 None" 1 7 "[]" 3 4 11 12]
    by (simp add: example_deposit_def is_digit_def) (auto simp: reference_lib_def)
qed

lemma erc721_deposit_arguments:
  assumes "erc721_deposit_Args L v = (Ok (), v')"
  shows "strconv_Atoi (e7_DestionationID v) = Ok (e7_DestinationID v')" and
    "parse_int (e7_Token v) = Some (e7_TokenId v')" and "e7_Metadata v' = e7_Metadata v" and
    "e7_RecipientAddr v' = hex_to_address L (e7_Recipient v)"
  using assms
  by (cases "strconv_Atoi (e7_DestionationID v)"; cases "ProcessResourceID (e7_ResourceID v)";
      auto simp: erc721_deposit_Args_def checked_args_def erc721_ValidateDepositFlags_def token_id_def set_err_def
        erc721_ProcessDepositFlags_def s_bind_def s_lift_def split: if_splits option.splits)+

text \<open>
  The deposit command of ERC721 takes any destination of 64 bits and sends its low byte:
  a deposit to domain 258 goes to domain 2. For a token identifier of at most 256 bits its
  calldata is what the relayers vote on, metadata included.
\<close>

theorem typed_erc721_destination_wraps:
  assumes "left_pad_documented L" and "padded_big_documented L"
    and "erc721_deposit_Args L v = (Ok (), v')"
    and "0 \<le> e7_TokenId v'" and "e7_TokenId v' < 2 ^ 256" and "length (e7_Metadata v) < 2 ^ 60"
  defines "data \<equiv> ConstructErc721DepositData L (address_bytes (hex_to_address L (e7_Recipient v)))
    (e7_TokenId v') (string_bytes (e7_Metadata v))"
  shows "\<exists>dst d. strconv_Atoi (e7_DestionationID v) = Ok d \<and> uint (dst :: u8) = d mod 256 \<and>
    parse_int (e7_Token v) = Some (e7_TokenId v') \<and>
    erc721_DepositCmd L A gasLimit v' c = s_bind (ExecuteTransaction A c ''deposit'' (gas_options gasLimit)
      [A_uint8 dst, A_bytes32 (e7_ResourceId v'), A_bytes data]) (\<lambda>_. s_return ()) \<and>
    r_bind (Erc721EventHandler src dst n (e7_ResourceId v') (data, spare) resp tx blk)
      (\<lambda>m. ERC721MessageHandler L m h b) = Ok (NewProposal src n (e7_ResourceId v') data h b tx blk)"
proof -
  note args = erc721_deposit_arguments [OF assms(3)]
  let ?dst = "word_of_int (e7_DestinationID v') :: u8"
  have "r_bind (Erc721EventHandler src ?dst n (e7_ResourceId v') (data, spare) resp tx blk)
      (\<lambda>m. ERC721MessageHandler L m h b) = Ok (NewProposal src n (e7_ResourceId v') data h b tx blk)"
    unfolding data_def using assms(1,2,4-6) by (intro erc721_deposit_voted) (simp_all add: string_bytes_def)
  moreover have "uint ?dst = e7_DestinationID v' mod 256" by (simp add: uint_word_of_int)
  ultimately show ?thesis
    using args
    by (intro exI [of _ ?dst] exI [of _ "e7_DestinationID v'"])
      (simp add: erc721_DepositCmd_def Erc721Deposit_def bridge_deposit_def data_def)
qed

definition example_erc721 :: erc721_vars where
  "example_erc721 =
     \<lparr> e7_Erc721Address = [], e7_Dst = [], e7_Token = ''77'', e7_Metadata = ''uri'',
       e7_Recipient = replicate 42 CHR ''1'', e7_Bridge = replicate 42 CHR ''2'', e7_DestionationID = ''258'',
       e7_ResourceID = ''0x01'', e7_Minter = [], e7_Erc721Addr = 0, e7_DstAddress = 0, e7_TokenId = 0,
       e7_RecipientAddr = 0, e7_BridgeAddr = 0, e7_DestinationID = 0, e7_ResourceId = 0, e7_MinterAddr = 0,
       e7_err = None \<rparr>"

theorem typed_erc721_destination_wraps_witness:
  "\<exists>v' dst. erc721_deposit_Args reference_lib example_erc721 = (Ok (), v') \<and> uint (dst :: u8) = 2 \<and>
    erc721_DepositCmd reference_lib example_abi 0 v' (NewBridgeContract example_abi example_client 0 None) =
      s_bind (ExecuteTransaction example_abi (NewBridgeContract example_abi example_client 0 None) ''deposit''
        (gas_options 0) [A_uint8 dst, A_bytes32 (e7_ResourceId v'), A_bytes (ConstructErc721DepositData reference_lib
          (address_bytes (hex_to_address reference_lib (replicate 42 CHR ''1''))) 77 (string_bytes ''uri''))])
        (\<lambda>_. s_return ())"
proof -
  have "\<exists>v'. erc721_deposit_Args reference_lib example_erc721 = (Ok (), v') \<and> e7_TokenId v' = 77"
    by (simp add: erc721_deposit_Args_def checked_args_def erc721_ValidateDepositFlags_def token_id_def set_err_def
        erc721_ProcessDepositFlags_def s_bind_def s_lift_def example_erc721_def reference_lib_def strconv_Atoi_def
        parse_int_def split_sign_def is_digit_def ProcessResourceID_def strip_0x_def hex_value_def)
  then obtain v' where v': "erc721_deposit_Args reference_lib example_erc721 = (Ok (), v')" "e7_TokenId v' = 77"
    by blast
  have "strconv_Atoi ''258'' = Ok 258"
    by (simp add: strconv_Atoi_def parse_int_def split_sign_def is_digit_def)
  with typed_erc721_destination_wraps [OF _ _ v'(1), of example_abi 0
      "NewBridgeContract example_abi example_client 0 None" 1 7 "[]" "[]" 3 4 11 12] v'
  show ?thesis by (auto simp: example_erc721_def)
qed

section \<open>Flags\<close>

text \<open>
  Every command marks as required only flags it declares, so that building the command
  tree does not panic; no flag is declared twice, and the required ones are all declared.
\<close>

theorem commands_declare_their_flags:
  "list_all (\<lambda>bind. \<exists>cmd. bind no_flags = Ok cmd \<and> set (required cmd) \<subseteq> fst ` set (declared cmd) \<and>
      distinct (map fst (declared cmd)))
    [BindAddAdminFlags, BindAddRelayerFlags, BindGetThresholdFlags, BindIsRelayerFlags, BindPauseFlags,
     BindRemoveAdminFlags, BindRemoveRelayerFlags, BindSetDepositNonceFlags, BindSetFeeFlags,
     BindSetThresholdFlags, BindUnpauseFlags, BindWithdrawFlags, BindCancelProposalFlags,
     BindQueryProposalFlags, BindQueryResourceFlags, BindRegisterGenericResourceFlags,
     BindRegisterResourceFlags, BindSetBurnFlags, BindVoteProposalCmdFlags, BindGetHashFlags,
     erc20_BindAddMinterFlags, erc20_BindApproveFlags, BindBalanceFlags, erc20_BindDepositFlags,
     BindGetAllowanceFlags, erc20_BindMintFlags, erc721_BindAddMinterFlags, erc721_BindApproveFlags,
     erc721_BindDepositFlags, erc721_BindMintFlags, BindOwnerFlags, BindImportPrivKeyFlags,
     BindTransferBaseCurrencyFlags, BindHashListFlags, BindSimulateFlags,
     \<lambda>cmd. Ok (BindDeployEVMFlags cmd), \<lambda>cmd. Ok (BindEVMCLIFlags cmd)]"
  by (simp add: BindAddAdminFlags_def BindAddRelayerFlags_def BindGetThresholdFlags_def BindIsRelayerFlags_def
      BindPauseFlags_def BindRemoveAdminFlags_def BindRemoveRelayerFlags_def BindSetDepositNonceFlags_def
      BindSetFeeFlags_def BindSetThresholdFlags_def BindUnpauseFlags_def BindWithdrawFlags_def
      BindCancelProposalFlags_def BindQueryProposalFlags_def BindQueryResourceFlags_def
      BindRegisterGenericResourceFlags_def BindRegisterResourceFlags_def BindSetBurnFlags_def
      BindVoteProposalCmdFlags_def BindGetHashFlags_def erc20_BindAddMinterFlags_def erc20_BindApproveFlags_def
      BindBalanceFlags_def erc20_BindDepositFlags_def BindGetAllowanceFlags_def erc20_BindMintFlags_def
      erc721_BindAddMinterFlags_def erc721_BindApproveFlags_def erc721_BindDepositFlags_def
      erc721_BindMintFlags_def BindOwnerFlags_def BindImportPrivKeyFlags_def BindTransferBaseCurrencyFlags_def
      BindHashListFlags_def BindSimulateFlags_def BindDeployEVMFlags_def BindEVMCLIFlags_def
      declared_required declare_flags_def no_flags_def)

end
