(* ===== verification/App.thy ===== *)
theory App
  imports Evm_Chain Relayer Store
begin

text \<open>
  The example relayer, \<open>e2e/evm-evm/example/app/app.go\<close>: it reads the configuration, opens
  the block store, sets up the configured EVM chains and gives them to a relayer without
  message processors. This is \<open>Run\<close> up to the start of the relayer; \<open>Running_Relayer\<close> has
  what follows, the wait for an error or a signal. The world of the relayer holds the voter of every chain, by the
  position of the chain in the configuration.
\<close>

section \<open>Setting up\<close>

text \<open>A chain that was set up has a domain (\<open>set_up_chain_has_domain\<close>).\<close>

definition app_domain :: "('l, 'w) evm_chain \<Rightarrow> u8" where
  "app_domain c = (case DomainID c of Ok i \<Rightarrow> i | _ \<Rightarrow> 0)"

text \<open>
  The loop over the configured chains. Every error of it is a panic of the program, and so
  is a chain of another type than \<open>evm\<close>. \<open>decode\<close> stands for the decoding of a chain's
  configuration; \<open>connect\<close> and \<open>ws\<close> give the client and the world of the voter of each.
\<close>

fun setup_chains ::
  "eth_lib \<Rightarrow> abi_lib \<Rightarrow> viper_flags \<Rightarrow> (json_object \<Rightarrow> raw_evm_config result) \<Rightarrow> 'l key_value
   \<Rightarrow> (nat \<Rightarrow> evm_config \<Rightarrow> ('l, 'w) chain_env result) \<Rightarrow> (nat \<Rightarrow> 'w) \<Rightarrow> nat \<Rightarrow> json_object list
   \<Rightarrow> (('l, 'w) evm_chain \<times> 'w voter_state) list result" where
  "setup_chains L A flags decode db connect ws k [] = Ok []"
| "setup_chains L A flags decode db connect ws k (cc # ccs) =
     (if cc ''type'' = Some (J_string ''evm'') then
        (case SetupDefaultEVMChain L A flags (decode cc) db (connect k) (ws k) of
           Ok c \<Rightarrow> r_bind (setup_chains L A flags decode db connect ws (Suc k) ccs) (\<lambda>cs. Ok (c # cs))
         | Err e \<Rightarrow> Panic Raised
         | Panic p \<Rightarrow> Panic p)
      else Panic Raised)"

text \<open>A chain as the relayer sees it.\<close>

definition at_chain ::
  "nat \<Rightarrow> ('v \<Rightarrow> unit result \<times> 'v) \<Rightarrow> (nat \<Rightarrow> 'v) \<Rightarrow> unit result \<times> (nat \<Rightarrow> 'v)" where
  "at_chain k f s = (case f (s k) of (r, v) \<Rightarrow> (r, s(k := v)))"

definition app_chain ::
  "eth_lib \<Rightarrow> nat \<Rightarrow> ('l, 'w) evm_chain
   \<Rightarrow> (nat \<Rightarrow> 'l \<Rightarrow> ((int \<times> int) list \<times> 'l listen_state) result, nat \<Rightarrow> 'w voter_state) relayed_chain" where
  "app_chain L k c =
     \<lparr> rc_DomainID = app_domain c, rc_Write = (\<lambda>m. at_chain k (chain_Write L c m)), rc_PollEvents = PollEvents c \<rparr>"

definition app_relayer ::
  "eth_lib \<Rightarrow> (('l, 'w) evm_chain \<times> 'w voter_state) list
   \<Rightarrow> (nat \<Rightarrow> 'l \<Rightarrow> ((int \<times> int) list \<times> 'l listen_state) result, nat \<Rightarrow> 'w voter_state) relayer" where
  "app_relayer L cs = NewRelayer (map (\<lambda>k. app_chain L k (fst (cs ! k))) [0..<length cs]) (\<lambda>m s. s) []"

text \<open>
  \<open>Run\<close>: the relayer and the state of the voters it starts with. \<open>configuration\<close> is the
  result of \<open>GetConfig\<close>.
\<close>

definition Run ::
  "eth_lib \<Rightarrow> abi_lib \<Rightarrow> viper_flags \<Rightarrow> (json_object \<Rightarrow> raw_evm_config result)
   \<Rightarrow> (nat \<Rightarrow> evm_config \<Rightarrow> ('l, 'w) chain_env result) \<Rightarrow> (nat \<Rightarrow> 'w) \<Rightarrow> 'level config result
   \<Rightarrow> (string \<Rightarrow> 'l \<Rightarrow> 'l leveldb_db result \<times> 'l) \<Rightarrow> 'l
   \<Rightarrow> ((nat \<Rightarrow> 'l \<Rightarrow> ((int \<times> int) list \<times> 'l listen_state) result, nat \<Rightarrow> 'w voter_state) relayer
        \<times> (nat \<Rightarrow> 'w voter_state)) result \<times> 'l" where
  "Run L A flags decode connect ws configuration open_file l =
     (case configuration of
        Ok config \<Rightarrow>
          (case NewLvlDB open_file (BlockstoreFlag flags) l of
             (Ok db, l1) \<Rightarrow>
               (r_bind (setup_chains L A flags decode db connect ws 0 (ChainConfigs config)) (\<lambda>cs.
                  Ok (app_relayer L cs, \<lambda>k. snd (cs ! k))), l1)
           | (Err e, l1) \<Rightarrow> (Panic Raised, l1)
           | (Panic p, l1) \<Rightarrow> (Panic p, l1))
      | Err e \<Rightarrow> (Panic Raised, l)
      | Panic p \<Rightarrow> (Panic p, l))"

section \<open>Lemmas\<close>

text \<open>The chain that a configuration and its client are set up to.\<close>

definition chain_of ::
  "eth_lib \<Rightarrow> abi_lib \<Rightarrow> 'l key_value \<Rightarrow> evm_config \<Rightarrow> ('l, 'w) chain_env \<Rightarrow> ('l, 'w) evm_chain" where
  "chain_of L A db config env =
     NewEVMChain
       \<lparr> chain_LatestBlock = env_LatestBlock env, chain_FetchDepositLogs = env_FetchDepositLogs env,
         eventHandler = HandleEvent (fst (default_handlers L A config env)),
         bridgeAddress = hex_to_address L (Bridge config) \<rparr>
       (voter_for L A (voter_bridge L A config env) (snd (default_handlers L A config env)) (env_relayer env)
         (env_sleep env)) db config"

lemma SetupDefaultEVMChain_chain:
  assumes "SetupDefaultEVMChain L A flags raw db connect w = Ok (c, st)"
  shows "\<exists>config env. NewEVMConfig flags raw = Ok config \<and> connect config = Ok env \<and> c = chain_of L A db config env"
  using assms by (auto simp: SetupDefaultEVMChain_def chain_of_def result_laws Let_def)

lemma setup_chains_nth:
  assumes "setup_chains L A flags decode db connect ws k ccs = Ok cs" and "j < length ccs"
    and "NewEVMConfig flags (decode (ccs ! j)) = Ok config" and "connect (k + j) config = Ok env"
  shows "length cs = length ccs \<and> fst (cs ! j) = chain_of L A db config env"
  using assms
proof (induction ccs arbitrary: cs k j)
  case (Cons cc ccs)
  from Cons.prems(1) obtain c cs' where
    c: "SetupDefaultEVMChain L A flags (decode cc) db (connect k) (ws k) = Ok c" and
    rest: "setup_chains L A flags decode db connect ws (Suc k) ccs = Ok cs'" and cs: "cs = c # cs'"
    by (auto simp: result_laws split: if_splits result.splits)
  have len: "length cs' = length ccs"
    using rest by (induction ccs arbitrary: cs' k) (auto simp: result_laws split: if_splits result.splits)
  show ?case
  proof (cases j)
    case 0
    obtain d st where "c = (d, st)" by fastforce
    with SetupDefaultEVMChain_chain c Cons.prems(3,4) 0 show ?thesis by (fastforce simp: cs len)
  next
    case (Suc i)
    with Cons.prems Cons.IH [OF rest, of i] show ?thesis by (auto simp: cs)
  qed
qed simp

lemma find_last:
  assumes "j < n" and "P (f j)" and "\<And>k. j < k \<Longrightarrow> k < n \<Longrightarrow> \<not> P (f k)"
  shows "find P (rev (map f [0..<n])) = Some (f j)"
  using assms
proof (induction n)
  case (Suc n)
  then show ?case by (cases "j = n") auto
qed simp

section \<open>From the log to the vote\<close>

lemma chain_of_simps [simp]:
  "listener (chain_of L A db config env) =
     \<lparr> chain_LatestBlock = env_LatestBlock env, chain_FetchDepositLogs = env_FetchDepositLogs env,
       eventHandler = HandleEvent (fst (default_handlers L A config env)),
       bridgeAddress = hex_to_address L (Bridge config) \<rparr>"
  "writer (chain_of L A db config env) =
     voter_for L A (voter_bridge L A config env) (snd (default_handlers L A config env)) (env_relayer env)
       (env_sleep env)"
  "chain_config (chain_of L A db config env) = config"
  by (simp_all add: chain_of_def NewEVMChain_def)

text \<open>A vote that is wanted is sent with the data of the message's proposal.\<close>

lemma wanted_vote_is_sent:
  assumes "HandleMessage L mh m v0 = (Ok p, v1)"
    and "IsProposalVotedBy L A c relayer p v1 = (Ok False, v2)"
    and "shouldVoteForProposal L (voter_for L A c mh relayer sleep) p 0 v2 = (Ok True, v3)"
    and "repetitiveSimulateVote (voter_for L A c mh relayer sleep) p 0 v3 = (Ok (), v4)"
    and "ExecuteTransaction A c ''voteProposal'' (no_options\<lparr>GasLimit := big_uint64 gas\<rparr>)
      [A_uint8 (p_Source p), A_uint64 (p_DepositNonce p), A_bytes32 (p_ResourceId p), A_bytes (p_Data p)] v4 = (Ok h, v5)"
  shows "voter_VoteProposal L (voter_for L A c mh relayer sleep) m gas v0 = (Ok (), v5)"
  using assms
  by (simp add: voter_VoteProposal_def s_bind_def voter_for_def VoteProposal_def)

context asset_codec begin

lemma relayed_to_vote:
  assumes set_up: "setup_chains L A flags decode db connect ws 0 ccs = Ok cs"
    and src: "i < length ccs" "NewEVMConfig flags (decode (ccs ! i)) = Ok srcConfig" "connect i srcConfig = Ok srcEnv"
    and dst: "j < length ccs" "NewEVMConfig flags (decode (ccs ! j)) = Ok dstConfig" "connect j dstConfig = Ok dstEnv"
    and domain: "app_domain (fst (cs ! j)) = dst" "\<And>k. j < k \<Longrightarrow> k < length cs \<Longrightarrow> app_domain (fst (cs ! k)) \<noteq> dst"
    and deposit: "deposited cd resp"
    and source: "GetHandlerAddressForResourceID L A (listener_bridge L A srcConfig srcEnv) rid w = (Ok a, w1)"
      "event_handler_at (fst (default_handlers L A srcConfig srcEnv)) a = Some event_h"
    and destination: "GetHandlerAddressForResourceID L A (voter_bridge L A dstConfig dstEnv) rid (s j) = (Ok b, v1)"
      "message_handler_at (snd (default_handlers L A dstConfig dstEnv)) b = Some message_h"
    and p: "p = NewProposal src n rid cd b (hex_to_address L (Bridge dstConfig)) tx blk"
    and vote: "IsProposalVotedBy L A (voter_bridge L A dstConfig dstEnv) (env_relayer dstEnv) p v1 = (Ok False, v2)"
      "shouldVoteForProposal L (writer (fst (cs ! j))) p 0 v2 = (Ok True, v3)"
      "repetitiveSimulateVote (writer (fst (cs ! j))) p 0 v3 = (Ok (), v4)"
      "ExecuteTransaction A (voter_bridge L A dstConfig dstEnv) ''voteProposal''
        (no_options\<lparr>GasLimit := big_uint64 (cfg_GasLimit dstConfig)\<rparr>)
        [A_uint8 src, A_uint64 n, A_bytes32 rid, A_bytes cd] v4 = (Ok h, v5)"
    and to: "\<And>m. event_h src dst n rid (cd, spare) resp tx blk = Ok m \<Longrightarrow> Destination m = dst"
  shows "\<exists>m. eventHandler (listener (fst (cs ! i))) src dst n rid (cd, spare) resp tx blk w = (Ok m, w1) \<and>
    route (fst (start_chains (app_relayer L cs))) m s = (Ok (), s(j := v5))"
proof -
  have len: "length cs = length ccs"
    and csi: "fst (cs ! i) = chain_of L A db srcConfig srcEnv"
    and csj: "fst (cs ! j) = chain_of L A db dstConfig dstEnv"
    using setup_chains_nth [OF set_up src(1,2)] setup_chains_nth [OF set_up dst(1,2)] src(3) dst(3) by simp_all
  from deposit obtain m where
    m: "event_h src dst n rid (cd, spare) resp tx blk = Ok m" "ResourceId m = rid"
      "message_h m b (hex_to_address L (Bridge dstConfig)) = Ok p"
    unfolding p by (rule handlers_agree)
  have "eventHandler (listener (fst (cs ! i))) src dst n rid (cd, spare) resp tx blk w = (Ok m, w1)"
    using source m(1) unfolding csi
    by (simp add: HandleEvent_def match_event_handler_def default_handlers_contracts)
  moreover have "find (\<lambda>c. rc_DomainID c = Destination m)
      (rev (map (\<lambda>k. app_chain L k (fst (cs ! k))) [0..<length cs])) = Some (app_chain L j (fst (cs ! j)))"
    using domain dst(1) to [OF m(1)] len by (intro find_last) (simp_all add: app_chain_def)
  moreover have "HandleMessage L (snd (default_handlers L A dstConfig dstEnv)) m (s j) = (Ok p, v1)"
    using destination m(2,3)
    by (simp add: HandleMessage_def MatchAddressWithHandlerFunc_def default_handlers_contracts)
  then have "chain_Write L (fst (cs ! j)) m (s j) = (Ok (), v5)"
    unfolding csj chain_Write_def chain_of_simps using vote(1) vote(2,3) [unfolded csj chain_of_simps]
    by (rule wanted_vote_is_sent) (use vote(4) in \<open>simp add: p NewProposal_def\<close>)
  ultimately show ?thesis
    by (simp add: app_relayer_def route_started app_chain_def at_chain_def logged_def)
qed

end

lemma Erc20EventHandler_Destination:
  "Erc20EventHandler src dst n rid cd resp tx blk = Ok m \<Longrightarrow> Destination m = dst"
  by (cases cd) (auto simp: Erc20EventHandler_def Let_def result_laws split: if_splits)

text \<open>
  C1: the whole way of an ERC20 deposit through a running relayer. When the source bridge
  reports an ERC20 handler, the listener of the source chain turns the log into a message;
  the relayer gives it to the last chain configured for its destination domain; and if the
  voter there, asking its bridge, finds a vote wanted, the transaction it sends is
  \<open>voteProposal\<close> with exactly the source domain, nonce, resource and calldata of the
  deposit. No other chain is touched.
\<close>

theorem deposit_is_relayed_to_vote:
  assumes "setup_chains L A flags decode db connect ws 0 ccs = Ok cs"
    and "i < length ccs" "NewEVMConfig flags (decode (ccs ! i)) = Ok srcConfig" "connect i srcConfig = Ok srcEnv"
    and "j < length ccs" "NewEVMConfig flags (decode (ccs ! j)) = Ok dstConfig" "connect j dstConfig = Ok dstEnv"
    and "app_domain (fst (cs ! j)) = dst" "\<And>k. j < k \<Longrightarrow> k < length cs \<Longrightarrow> app_domain (fst (cs ! k)) \<noteq> dst"
    and "left_pad_documented L" "padded_big_documented L" "0 \<le> amount" "amount < 2 ^ 256"
      "20 \<le> length recipient" "length recipient < 2 ^ 61" "length resp \<noteq> 32"
    and "GetHandlerAddressForResourceID L A (listener_bridge L A srcConfig srcEnv) rid w = (Ok a, w1)"
      "configured L a (Erc20Handlers srcConfig)" "\<not> configured L a (Erc721Handlers srcConfig @ GenericHandlers srcConfig)"
    and "GetHandlerAddressForResourceID L A (voter_bridge L A dstConfig dstEnv) rid (s j) = (Ok b, v1)"
      "configured L b (Erc20Handlers dstConfig)" "\<not> configured L b (Erc721Handlers dstConfig @ GenericHandlers dstConfig)"
    and "cd = ConstructErc20DepositData L recipient amount"
    and "p = NewProposal src n rid cd b (hex_to_address L (Bridge dstConfig)) tx blk"
    and "IsProposalVotedBy L A (voter_bridge L A dstConfig dstEnv) (env_relayer dstEnv) p v1 = (Ok False, v2)"
      "shouldVoteForProposal L (writer (fst (cs ! j))) p 0 v2 = (Ok True, v3)"
      "repetitiveSimulateVote (writer (fst (cs ! j))) p 0 v3 = (Ok (), v4)"
    and "ExecuteTransaction A (voter_bridge L A dstConfig dstEnv) ''voteProposal''
        (no_options\<lparr>GasLimit := big_uint64 (cfg_GasLimit dstConfig)\<rparr>)
        [A_uint8 src, A_uint64 n, A_bytes32 rid, A_bytes cd] v4 = (Ok h, v5)"
  shows "\<exists>m. eventHandler (listener (fst (cs ! i))) src dst n rid (cd, spare) resp tx blk w = (Ok m, w1) \<and>
    route (fst (start_chains (app_relayer L cs))) m s = (Ok (), s(j := v5))"
proof (rule erc20_codec.relayed_to_vote [where L = L and connect = connect and decode = decode and s = s and i = i
      and j = j, OF assms(1-9) _ assms(17) _ assms(20) _ assms(24-28)])
  show "erc20_deposited L cd resp" using assms(10-16,23) by (auto simp: erc20_deposited_def)
  show "event_handler_at (fst (default_handlers L A srcConfig srcEnv)) a = Some Erc20EventHandler"
    "message_handler_at (snd (default_handlers L A dstConfig dstEnv)) b = Some (ERC20MessageHandler L)"
    using assms(18,19,21,22) by (simp_all add: default_registries)
qed (auto dest: Erc20EventHandler_Destination)

text \<open>Two chains with domains 1 and 2, and a bridge that wants a vote.\<close>

definition relay_abi :: abi_lib where
  "relay_abi = example_abi\<lparr>abi_Unpack := (\<lambda>_ method _.
     Ok [if method = ''_resourceIDToHandlerAddress'' then A_address (hex_to_address reference_lib ''0x20'')
         else if method = ''_hasVotedOnProposal'' then A_bool False
         else if method = ''getProposal''
         then A_status \<lparr> Status = ProposalStatusInactive, YesVotes = 0, YesVotesTotal = 0, ProposedBlock = 0 \<rparr>
         else A_uint8 1])\<rparr>"

definition relay_env :: "(bytes \<rightharpoonup> bytes, nat) chain_env" where
  "relay_env = example_env\<lparr>env_transactor := (\<lambda>gas to data opts s. (Ok 11, s\<lparr>outside := outside s + 1\<rparr>))\<rparr>"

definition relay_raw :: "json_object \<Rightarrow> raw_evm_config" where
  "relay_raw cc = example_raw_config\<lparr>raw_General :=
     example_general_config\<lparr>cfg_Id := Some (if cc ''id'' = None then 1 else 2)\<rparr>\<rparr>"

definition relay_chains :: "json_object list" where
  "relay_chains = [[''type'' \<mapsto> J_string ''evm''], [''type'' \<mapsto> J_string ''evm'', ''id'' \<mapsto> J_other]]"

lemma relay_config: "NewEVMConfig example_flags (Ok (relay_raw cc)) = Ok (evm_config_of example_flags (relay_raw cc))"
  by (simp add: NewEVMConfig_def evm_Validate_def general_Validate_def relay_raw_def example_raw_config_def
      example_general_config_def)

lemma relay_setup:
  "\<exists>cs. setup_chains reference_lib relay_abi example_flags (\<lambda>cc. Ok (relay_raw cc)) (LVLDB memory_db)
     (\<lambda>_ _. Ok relay_env) (\<lambda>_. 0) 0 relay_chains = Ok cs"
  by (simp add: relay_chains_def SetupDefaultEVMChain_def relay_config Let_def start_voter_def
      NewVoterWithSubscription_def relay_env_def example_env_def s_bind_def)

lemma relay_handler:
  "GetHandlerAddressForResourceID reference_lib relay_abi (listener_bridge reference_lib relay_abi config relay_env) 5 w
   = (Ok (hex_to_address reference_lib ''0x20''), w)"
  "GetHandlerAddressForResourceID reference_lib relay_abi (voter_bridge reference_lib relay_abi config relay_env) 5 v
   = (Ok (hex_to_address reference_lib ''0x20''), v)"
  "IsProposalVotedBy reference_lib relay_abi (voter_bridge reference_lib relay_abi config relay_env) a p v
   = (Ok False, v)"
  "ProposalStatus reference_lib relay_abi (voter_bridge reference_lib relay_abi config relay_env) p v
   = (Ok \<lparr> Status = ProposalStatusInactive, YesVotes = 0, YesVotesTotal = 0, ProposedBlock = 0 \<rparr>, v)"
  "GetThreshold reference_lib relay_abi (voter_bridge reference_lib relay_abi config relay_env) v = (Ok 1, v)"
  "SimulateVoteProposal reference_lib relay_abi (voter_bridge reference_lib relay_abi config relay_env) p v
   = (Ok (), v)"
  "ExecuteTransaction relay_abi (voter_bridge reference_lib relay_abi config relay_env) m opts args v
   = (Ok 11, v\<lparr>outside := outside v + 1\<rparr>)"
  by (simp_all add: GetHandlerAddressForResourceID_def IsProposalVotedBy_def ProposalStatus_def GetThreshold_def
      SimulateVoteProposal_def ExecuteTransaction_def Transact_def call_for_def contract_call_def PackMethod_def
      UnpackResult_def listener_bridge_def voter_bridge_def NewBridgeContract_def NewContract_def
      relay_abi_def example_abi_def relay_env_def example_env_def s_bind_def s_return_def index_at_def)

lemma relay_sleep: "env_sleep relay_env = (\<lambda>s. s)"
  by (simp add: relay_env_def example_env_def)

lemma relay_voter:
  "shouldVoteForProposal reference_lib
     (voter_for reference_lib relay_abi (voter_bridge reference_lib relay_abi config relay_env) mh a (env_sleep relay_env))
     p 0 (NewVoter k) = (Ok True, NewVoter k)"
  "repetitiveSimulateVote
     (voter_for reference_lib relay_abi (voter_bridge reference_lib relay_abi config relay_env) mh a (env_sleep relay_env))
     p 0 v = (Ok (), v)"
  by (subst shouldVoteForProposal.simps,
      simp add: should_vote_check_def voter_for_def relay_handler relay_sleep NewVoter_def
        forget_votes_def proposal_status_defs pending_votes_def word_le_nat_alt s_bind_def s_return_def)
    (subst repetitiveSimulateVote.simps, simp add: voter_for_def relay_handler)

theorem deposit_is_relayed_to_vote_witness:
  "\<exists>cs m. setup_chains reference_lib relay_abi example_flags (\<lambda>cc. Ok (relay_raw cc)) (LVLDB memory_db)
     (\<lambda>_ _. Ok relay_env) (\<lambda>_. 0) 0 relay_chains = Ok cs \<and>
   eventHandler (listener (fst (cs ! 0))) 1 2 7 5 (ConstructErc20DepositData reference_lib (replicate 20 9) 1000, [])
     [] 3 4 Map.empty = (Ok m, Map.empty) \<and>
   route (fst (start_chains (app_relayer reference_lib cs))) m (\<lambda>_. NewVoter 0) =
     (Ok (), (\<lambda>_. NewVoter 0)(1 := (NewVoter 0)\<lparr>outside := 1\<rparr>))"
proof -
  from relay_setup obtain cs where
    cs: "setup_chains reference_lib relay_abi example_flags (\<lambda>cc. Ok (relay_raw cc)) (LVLDB memory_db)
     (\<lambda>_ _. Ok relay_env) (\<lambda>_. 0) 0 relay_chains = Ok cs" by blast
  let ?config = "\<lambda>i. evm_config_of example_flags (relay_raw (relay_chains ! i))"
  have chain: "length cs = 2 \<and> fst (cs ! j) = chain_of reference_lib relay_abi (LVLDB memory_db) (?config j) relay_env"
    if "j < 2" for j
    using setup_chains_nth [OF cs, of j "?config j" relay_env] that
    by (simp add: relay_config) (simp add: relay_chains_def)
  have domain: "app_domain (fst (cs ! 1)) = 2"
    using chain [of 1]
    by (simp add: app_domain_def DomainID_def evm_config_of_def relay_raw_def relay_chains_def example_general_config_def)
  have handlers: "configured reference_lib (hex_to_address reference_lib ''0x20'') (Erc20Handlers (?config i))"
    "\<not> configured reference_lib (hex_to_address reference_lib ''0x20'')
      (Erc721Handlers (?config i) @ GenericHandlers (?config i))" for i
    by (simp_all add: evm_config_of_def relay_raw_def example_raw_config_def reference_lib_def
        string_bytes_def bytes_nat_def)
  have "\<exists>m. eventHandler (listener (fst (cs ! 0))) 1 2 7 5
      (ConstructErc20DepositData reference_lib (replicate 20 9) 1000, []) [] 3 4 Map.empty = (Ok m, Map.empty) \<and>
    route (fst (start_chains (app_relayer reference_lib cs))) m (\<lambda>_. NewVoter 0) =
      (Ok (), (\<lambda>_. NewVoter 0)(1 := (NewVoter 0)\<lparr>outside := outside (NewVoter (0 :: nat)) + 1\<rparr>))"
    by (rule deposit_is_relayed_to_vote [where connect = "\<lambda>_ _. Ok relay_env" and decode = "\<lambda>cc. Ok (relay_raw cc)"
          and i = 0 and j = 1 and s = "\<lambda>_. NewVoter 0" and srcConfig = "?config 0" and dstConfig = "?config 1"
          and srcEnv = relay_env and dstEnv = relay_env and amount = 1000 and recipient = "replicate 20 9",
          OF cs _ relay_config _ _ relay_config _ domain _ _ _ _ _ _ _ _ relay_handler(1) handlers relay_handler(2)
          handlers refl refl relay_handler(3) _ _ relay_handler(7)])
      (use chain [of 1] in \<open>simp_all add: relay_voter\<close>, simp_all add: relay_chains_def)
  with cs show ?thesis by (auto simp: NewVoter_def)
qed

end
