(* ===== verification/Critical_Section.thy ===== *)
theory Critical_Section
  imports Bridge_Prelude
begin

text \<open>
  Goroutines that share one mutex. A call of a locked function goes through three stages:
  it waits for the lock, or returns before it asks for it; it works inside the section, one
  call of the environment at a time, while the other goroutines take their steps; it
  unlocks and returns. The locale \<open>critical_section\<close> states what such a function must
  keep, and proves of every interleaving that the section is exclusive, that the calls
  behave as if made one after another, and that none of them waits for ever. It is
  interpreted on the transactor of an EVM client and on the one of a forwarder.
\<close>

section \<open>Goroutines around a lock\<close>

datatype ('a, 'c, 'r) thread = Calling 'a | Inside 'c | Returned 'r

text \<open>
  \<open>cs_refuse\<close> is the result of a call that returns without the lock, \<open>cs_enter\<close> takes
  the lock, \<open>cs_work\<close> is one step inside: to the next stage, or out of the section with the
  lock released. A result that \<open>cs_crash\<close> accepts is a panic, which ends the program.
\<close>

record ('a, 'c, 'r, 's) section_ops =
  cs_refuse :: "'a \<Rightarrow> 'r option"
  cs_free :: "'s \<Rightarrow> bool"
  cs_enter :: "'a \<Rightarrow> 's \<Rightarrow> 'c \<times> 's"
  cs_work :: "'c \<Rightarrow> 's \<Rightarrow> ('c + 'r) \<times> 's"
  cs_crash :: "'r \<Rightarrow> bool"

datatype section_event = Refused nat | Enters nat | Works nat | Leaves nat

definition alive :: "('r \<Rightarrow> bool) \<Rightarrow> ('a, 'c, 'r) thread list \<Rightarrow> bool" where
  "alive crash ts \<longleftrightarrow> (\<forall>t \<in> set ts. case t of Returned r \<Rightarrow> \<not> crash r | _ \<Rightarrow> True)"

inductive section_step ::
  "('a, 'c, 'r, 's) section_ops \<Rightarrow> ('a, 'c, 'r) thread list \<times> 's \<Rightarrow> section_event
   \<Rightarrow> ('a, 'c, 'r) thread list \<times> 's \<Rightarrow> bool"
  for P :: "('a, 'c, 'r, 's) section_ops" where
  refused: "\<lbrakk> alive (cs_crash P) ts; i < length ts; ts ! i = Calling a; cs_refuse P a = Some r \<rbrakk>
    \<Longrightarrow> section_step P (ts, s) (Refused i) (ts[i := Returned r], s)"
| enters: "\<lbrakk> alive (cs_crash P) ts; i < length ts; ts ! i = Calling a; cs_refuse P a = None;
      cs_free P s; cs_enter P a s = (c, s') \<rbrakk>
    \<Longrightarrow> section_step P (ts, s) (Enters i) (ts[i := Inside c], s')"
| works: "\<lbrakk> alive (cs_crash P) ts; i < length ts; ts ! i = Inside c; cs_work P c s = (Inl c', s') \<rbrakk>
    \<Longrightarrow> section_step P (ts, s) (Works i) (ts[i := Inside c'], s')"
| leaves: "\<lbrakk> alive (cs_crash P) ts; i < length ts; ts ! i = Inside c; cs_work P c s = (Inr r, s') \<rbrakk>
    \<Longrightarrow> section_step P (ts, s) (Leaves i) (ts[i := Returned r], s')"

inductive section_run ::
  "('a, 'c, 'r, 's) section_ops \<Rightarrow> ('a, 'c, 'r) thread list \<times> 's \<Rightarrow> section_event list
   \<Rightarrow> ('a, 'c, 'r) thread list \<times> 's \<Rightarrow> bool"
  for P :: "('a, 'c, 'r, 's) section_ops" where
  run_start: "section_run P x [] x"
| run_step: "section_run P x es y \<Longrightarrow> section_step P y e z \<Longrightarrow> section_run P x (es @ [e]) z"

inductive_cases section_stepE: "section_step P x e y"

text \<open>The steps as a function, to run a given interleaving.\<close>

fun perform ::
  "('a, 'c, 'r, 's) section_ops \<Rightarrow> section_event \<Rightarrow> ('a, 'c, 'r) thread list \<times> 's
   \<Rightarrow> (('a, 'c, 'r) thread list \<times> 's) option" where
  "perform P (Refused i) (ts, s) =
     (if alive (cs_crash P) ts \<and> i < length ts then
        (case ts ! i of
           Calling a \<Rightarrow> map_option (\<lambda>r. (ts[i := Returned r], s)) (cs_refuse P a)
         | _ \<Rightarrow> None)
      else None)"
| "perform P (Enters i) (ts, s) =
     (if alive (cs_crash P) ts \<and> i < length ts \<and> cs_free P s then
        (case ts ! i of
           Calling a \<Rightarrow>
             if cs_refuse P a = None
             then (case cs_enter P a s of (c, s') \<Rightarrow> Some (ts[i := Inside c], s'))
             else None
         | _ \<Rightarrow> None)
      else None)"
| "perform P (Works i) (ts, s) =
     (if alive (cs_crash P) ts \<and> i < length ts then
        (case ts ! i of
           Inside c \<Rightarrow> (case cs_work P c s of (Inl c', s') \<Rightarrow> Some (ts[i := Inside c'], s') | _ \<Rightarrow> None)
         | _ \<Rightarrow> None)
      else None)"
| "perform P (Leaves i) (ts, s) =
     (if alive (cs_crash P) ts \<and> i < length ts then
        (case ts ! i of
           Inside c \<Rightarrow> (case cs_work P c s of (Inr r, s') \<Rightarrow> Some (ts[i := Returned r], s') | _ \<Rightarrow> None)
         | _ \<Rightarrow> None)
      else None)"

fun perform_all ::
  "('a, 'c, 'r, 's) section_ops \<Rightarrow> section_event list \<Rightarrow> ('a, 'c, 'r) thread list \<times> 's
   \<Rightarrow> (('a, 'c, 'r) thread list \<times> 's) option" where
  "perform_all P [] x = Some x"
| "perform_all P (e # es) x = Option.bind (perform P e x) (perform_all P es)"

lemma perform_iff: "perform P e x = Some y \<longleftrightarrow> section_step P x e y"
proof
  show "perform P e x = Some y \<Longrightarrow> section_step P x e y"
    by (cases x; cases e)
      (auto split: if_splits thread.splits prod.splits sum.splits option.splits intro: section_step.intros)
qed (auto elim!: section_stepE)

lemma section_run_first:
  assumes "section_run P y es z" and "section_step P x e y"
  shows "section_run P x (e # es) z"
  using assms
proof (induction rule: section_run.induct)
  case (run_start y)
  then show ?case using section_run.run_step [OF section_run.run_start] by fastforce
next
  case (run_step y es y' e' z)
  then show ?case using section_run.run_step [of P x "e # es" y' e' z] by simp
qed

lemma section_run_trans:
  assumes "section_run P y fs z" and "section_run P x es y"
  shows "section_run P x (es @ fs) z"
  using assms
proof (induction rule: section_run.induct)
  case (run_step y fs y' e z)
  then show ?case using section_run.run_step [of P x "es @ fs" y' e z] by simp
qed simp

lemma perform_all_run: "perform_all P es x = Some y \<Longrightarrow> section_run P x es y"
  by (induction es arbitrary: x)
    (auto simp: bind_eq_Some_conv perform_iff intro: section_run.run_start section_run_first)

text \<open>The calls in the order in which they took the lock or were refused.\<close>

fun call_order :: "section_event list \<Rightarrow> nat list" where
  "call_order [] = []"
| "call_order (Refused i # es) = i # call_order es"
| "call_order (Enters i # es) = i # call_order es"
| "call_order (e # es) = call_order es"

text \<open>The same calls made one after another.\<close>

fun one_by_one ::
  "('a \<Rightarrow> 's \<Rightarrow> 'r \<times> 's) \<Rightarrow> 'a list \<Rightarrow> nat list \<Rightarrow> 's \<Rightarrow> (nat \<times> 'r) list \<times> 's" where
  "one_by_one f calls [] s = ([], s)"
| "one_by_one f calls (i # is) s =
     (case f (calls ! i) s of (r, s1) \<Rightarrow>
        (case one_by_one f calls is s1 of (rs, s2) \<Rightarrow> ((i, r) # rs, s2)))"

lemma call_order_append: "call_order (es @ fs) = call_order es @ call_order fs"
  by (induction es rule: call_order.induct) auto

lemma one_by_one_append:
  "one_by_one f calls (is @ js) s =
     (case one_by_one f calls is s of (rs, s1) \<Rightarrow>
        (case one_by_one f calls js s1 of (qs, s2) \<Rightarrow> (rs @ qs, s2)))"
  by (induction "is" arbitrary: s) (auto split: prod.splits)

lemma one_by_one_calls: "one_by_one f calls is s = (rs, s') \<Longrightarrow> map fst rs = is"
  by (induction "is" arbitrary: s rs) (auto split: prod.splits)

lemma section_run_length: "section_run P x es y \<Longrightarrow> length (fst y) = length (fst x)"
  by (induction rule: section_run.induct) (auto elim!: section_stepE)

section \<open>What a locked function keeps\<close>

text \<open>
  The contract: taking the lock closes the section, working inside keeps it closed, leaving
  opens it, unless by a panic. \<open>complete\<close> is what the rest of a call does when nobody
  interferes, and \<open>whole\<close> the call made alone; \<open>budget\<close> bounds the work left.
\<close>

locale critical_section =
  fixes P :: "('a, 'c, 'r, 's) section_ops"
    and whole :: "'a \<Rightarrow> 's \<Rightarrow> 'r \<times> 's"
    and complete :: "'c \<Rightarrow> 's \<Rightarrow> 'r \<times> 's"
    and budget :: "'c \<Rightarrow> nat"
    and most :: nat
  assumes enter_closes: "cs_enter P a s = (c, s') \<Longrightarrow> \<not> cs_free P s'"
    and work_keeps_closed: "\<lbrakk> cs_work P c s = (Inl c', s'); \<not> cs_free P s \<rbrakk> \<Longrightarrow> \<not> cs_free P s'"
    and leave_opens: "\<lbrakk> cs_work P c s = (Inr r, s'); \<not> cs_crash P r \<rbrakk> \<Longrightarrow> cs_free P s'"
    and whole_refused: "cs_refuse P a = Some r \<Longrightarrow> whole a s = (r, s)"
    and whole_entered: "\<lbrakk> cs_refuse P a = None; cs_free P s; cs_enter P a s = (c, s') \<rbrakk> \<Longrightarrow> whole a s = complete c s'"
    and complete_work: "cs_work P c s = (Inl c', s') \<Longrightarrow> complete c s = complete c' s'"
    and complete_leave: "cs_work P c s = (Inr r, s') \<Longrightarrow> complete c s = (r, s')"
    and enter_budget: "cs_enter P a s = (c, s') \<Longrightarrow> budget c \<le> most"
    and work_budget: "cs_work P c s = (Inl c', s') \<Longrightarrow> budget c' < budget c"
begin

text \<open>The goroutine inside the section, if any; there is at most one.\<close>

definition holder :: "('a, 'c, 'r) thread list \<Rightarrow> nat option \<Rightarrow> bool" where
  "holder ts h \<longleftrightarrow> (\<forall>i < length ts. (\<exists>c. ts ! i = Inside c) \<longleftrightarrow> h = Some i) \<and> (\<forall>i. h = Some i \<longrightarrow> i < length ts)"

definition exclusive :: "('a, 'c, 'r) thread list \<times> 's \<Rightarrow> bool" where
  "exclusive x \<longleftrightarrow> (\<exists>h. holder (fst x) h \<and> (alive (cs_crash P) (fst x) \<longrightarrow> cs_free P (snd x) = (h = None)))"

lemma holder_update:
  assumes "holder ts h" and "i < length ts"
  shows "h = None \<or> h = Some i \<Longrightarrow> holder (ts[i := Inside c]) (Some i)"
    and "h = Some i \<Longrightarrow> holder (ts[i := Returned r]) None"
    and "\<not> (\<exists>c. ts ! i = Inside c) \<Longrightarrow> holder (ts[i := Returned r]) h"
  using assms by (auto simp: holder_def nth_list_update)

lemma alive_update:
  "i < length ts \<Longrightarrow> alive crash (ts[i := Returned r]) \<Longrightarrow> \<not> crash r"
  using set_update_memI [of i ts "Returned r"] by (force simp: alive_def)

lemma exclusive_step:
  assumes "section_step P x e y" and "exclusive x"
  shows "exclusive y"
  using assms(1)
proof cases
  case (refused ts i a r s)
  with assms(2) obtain h where h: "holder ts h" "cs_free P s = (h = None)"
    by (auto simp: exclusive_def)
  with holder_update(3) [OF h(1), of i r] refused show ?thesis
    by (auto simp: exclusive_def)
next
  case (enters ts i a s c s')
  with assms(2) have "holder ts None" by (auto simp: exclusive_def)
  with holder_update(1) [OF this, of i c] enters show ?thesis
    by (auto simp: exclusive_def dest: enter_closes)
next
  case (works ts i c s c' s')
  with assms(2) obtain h where h: "holder ts h" "cs_free P s = (h = None)"
    by (auto simp: exclusive_def)
  with works have "h = Some i" by (auto simp: holder_def)
  with h holder_update(1) [OF h(1), of i c'] works show ?thesis
    by (auto simp: exclusive_def dest: work_keeps_closed)
next
  case (leaves ts i c s r s')
  with assms(2) obtain h where h: "holder ts h" by (auto simp: exclusive_def)
  with leaves have "h = Some i" by (auto simp: holder_def)
  with holder_update(2) [OF h, of i r] leaves show ?thesis
    by (auto simp: exclusive_def dest: leave_opens alive_update)
qed

lemma exclusive_start: "cs_free P s \<Longrightarrow> exclusive (map Calling calls, s)"
  by (auto simp: exclusive_def holder_def intro!: exI [of _ None])

lemma exclusive_run:
  assumes "section_run P (map Calling calls, s) es y" and "cs_free P s"
  shows "exclusive y"
  using assms by (induction "(map Calling calls :: ('a, 'c, 'r) thread list, s)" es y rule: section_run.induct)
    (auto simp: exclusive_start intro: exclusive_step)

lemma never_two_inside:
  assumes "section_run P (map Calling calls, s) es (ts, s')" and "cs_free P s"
    and "i < length ts" "ts ! i = Inside c" and "j < length ts" "ts ! j = Inside d"
  shows "i = j"
  using exclusive_run [OF assms(1,2)] assms(3-) by (auto simp: exclusive_def holder_def)

text \<open>
  What a goroutine has returned or, once inside, is going to return; and the state once the
  one inside is through.
\<close>

definition outcome :: "('a, 'c, 'r) thread list \<times> 's \<Rightarrow> nat \<Rightarrow> 'r option" where
  "outcome x i =
     (case fst x ! i of Returned r \<Rightarrow> Some r | Inside c \<Rightarrow> Some (fst (complete c (snd x))) | Calling a \<Rightarrow> None)"

definition settled :: "('a, 'c, 'r) thread list \<times> 's \<Rightarrow> 's \<Rightarrow> bool" where
  "settled x sf \<longleftrightarrow>
     (\<forall>i < length (fst x). \<forall>c. fst x ! i = Inside c \<longrightarrow> sf = snd (complete c (snd x))) \<and>
     ((\<forall>i < length (fst x). \<nexists>c. fst x ! i = Inside c) \<longrightarrow> sf = snd x)"

definition accounted ::
  "'a list \<Rightarrow> nat list \<Rightarrow> ('a, 'c, 'r) thread list \<times> 's \<Rightarrow> bool" where
  "accounted calls order x \<longleftrightarrow>
     length (fst x) = length calls \<and> distinct order \<and> set order \<subseteq> {..<length calls} \<and>
     (\<forall>i < length calls. i \<notin> set order \<longleftrightarrow> fst x ! i = Calling (calls ! i)) \<and>
     (\<forall>i < length calls. i \<in> set order \<longleftrightarrow> (\<forall>a. fst x ! i \<noteq> Calling a))"

definition explained ::
  "'a list \<Rightarrow> nat list \<Rightarrow> 's \<Rightarrow> ('a, 'c, 'r) thread list \<times> 's \<Rightarrow> bool" where
  "explained calls order s0 x \<longleftrightarrow>
     (\<exists>rs sf. one_by_one whole calls order s0 = (rs, sf) \<and> settled x sf \<and>
        (\<forall>i < length calls. \<forall>r. (i, r) \<in> set rs \<longleftrightarrow> outcome x i = Some r))"

lemma accounted_step:
  assumes "section_step P x e y" and "accounted calls (call_order es) x"
  shows "accounted calls (call_order (es @ [e])) y"
  using assms
  by cases (auto simp: accounted_def call_order_append nth_list_update split: if_splits)

lemma not_called_yet:
  "one_by_one f calls order s = (rs, s') \<Longrightarrow> i \<notin> set order \<Longrightarrow> (i, r) \<notin> set rs"
  by (metis one_by_one_calls fst_conv image_eqI set_map)

lemma explained_step:
  assumes step: "section_step P x e y" and "exclusive x" and acc: "accounted calls (call_order es) x"
    and expl: "explained calls (call_order es) s0 x"
  shows "explained calls (call_order (es @ [e])) s0 y"
proof -
  from expl obtain rs sf where serial: "one_by_one whole calls (call_order es) s0 = (rs, sf)"
    and sf: "settled x sf" and out: "\<And>i r. i < length calls \<Longrightarrow> (i, r) \<in> set rs \<longleftrightarrow> outcome x i = Some r"
    by (auto simp: explained_def)
  from step show ?thesis
  proof cases
    case (refused ts i a r s)
    then have i: "i \<notin> set (call_order es)" "i < length calls" "calls ! i = a" "i < length ts"
      using acc by (auto simp: accounted_def)
    have "one_by_one whole calls (call_order (es @ [e])) s0 = (rs @ [(i, r)], sf)"
      using refused serial i by (simp add: call_order_append one_by_one_append whole_refused)
    moreover have "ts[i := Returned r] ! k = Inside c \<longleftrightarrow> ts ! k = Inside c" for k c
      using refused i by (cases "k = i") auto
    then have "settled y sf" using refused sf by (simp add: settled_def)
    moreover have "(k, q) \<in> set (rs @ [(i, r)]) \<longleftrightarrow> outcome y k = Some q" if "k < length calls" for k q
      using out [OF that, of q] not_called_yet [OF serial i(1), of q] refused i
      by (cases "k = i") (simp_all add: outcome_def eq_commute [of q r] cong: thread.case_cong)
    ultimately show ?thesis unfolding explained_def by blast
  next
    case (enters ts i a s c s')
    then have i: "i \<notin> set (call_order es)" "i < length calls" "calls ! i = a" "i < length ts"
      using acc by (auto simp: accounted_def)
    obtain h where "holder ts h" "cs_free P s = (h = None)"
      using enters assms(2) by (auto simp: exclusive_def)
    with enters have none: "\<And>k d. k < length ts \<Longrightarrow> ts ! k \<noteq> Inside d" by (auto simp: holder_def)
    with sf enters have sf_s: "sf = s" by (auto simp: settled_def)
    obtain r sf' where c: "complete c s' = (r, sf')" by fastforce
    with enters serial i sf_s have
      "one_by_one whole calls (call_order (es @ [e])) s0 = (rs @ [(i, r)], sf')"
      by (simp add: call_order_append one_by_one_append whole_entered)
    moreover have "settled y sf'"
      using enters none c i by (auto simp: settled_def nth_list_update)
    moreover have "(k, q) \<in> set (rs @ [(i, r)]) \<longleftrightarrow> outcome y k = Some q" if "k < length calls" for k q
      using out [OF that, of q] not_called_yet [OF serial i(1), of q] enters i c none [of k] that acc
      by (cases "k = i") (auto simp: outcome_def accounted_def split: thread.splits)
    ultimately show ?thesis unfolding explained_def by blast
  next
    case (works ts i c s c' s')
    obtain h where h: "holder ts h" using works assms(2) by (auto simp: exclusive_def)
    then have only: "ts ! k \<noteq> Inside d" if "k < length ts" "k \<noteq> i" for k d
      using that works by (auto simp: holder_def)
    have "sf = snd (complete c s)" using sf works by (simp add: settled_def)
    with works only have "settled y sf"
      by (auto simp: settled_def nth_list_update complete_work)
    moreover have "outcome y k = outcome x k" if "k < length calls" for k
      using works only [of k] that acc complete_work
      by (cases "k = i") (auto simp: outcome_def accounted_def split: thread.split)
    ultimately show ?thesis using serial out works by (auto simp: explained_def call_order_append)
  next
    case (leaves ts i c s r s')
    obtain h where h: "holder ts h" using leaves assms(2) by (auto simp: exclusive_def)
    then have only: "ts ! k \<noteq> Inside d" if "k < length ts" "k \<noteq> i" for k d
      using that leaves by (auto simp: holder_def)
    have "sf = snd (complete c s)" using sf leaves by (simp add: settled_def)
    with leaves only have "settled y sf"
      by (auto simp: settled_def nth_list_update complete_leave)
    moreover have "outcome y k = outcome x k" if "k < length calls" for k
      using leaves only [of k] that acc complete_leave
      by (cases "k = i") (auto simp: outcome_def accounted_def split: thread.split)
    ultimately show ?thesis using serial out leaves by (auto simp: explained_def call_order_append)
  qed
qed

lemma run_explained:
  assumes "section_run P (map Calling calls, s) es y" and "cs_free P s"
  shows "accounted calls (call_order es) y \<and> explained calls (call_order es) s y"
  using assms
proof (induction "(map Calling calls :: ('a, 'c, 'r) thread list, s)" es y rule: section_run.induct)
  case run_start
  show ?case by (auto simp: accounted_def explained_def settled_def outcome_def)
next
  case (run_step es y e z)
  with exclusive_run [OF run_step(1)] accounted_step explained_step show ?case by blast
qed

text \<open>
  Every interleaving has the effect and the results of the calls made one after another, in
  the order in which they took the lock.
\<close>

lemma serializes:
  assumes "section_run P (map Calling calls, s) es (ts, s')" and "cs_free P s"
    and "\<And>t c. t \<in> set ts \<Longrightarrow> t \<noteq> Inside c"
  shows "\<exists>rs. one_by_one whole calls (call_order es) s = (rs, s') \<and> distinct (call_order es) \<and>
    set (call_order es) \<subseteq> {..<length calls} \<and> (\<forall>i < length calls. \<forall>r. ts ! i = Returned r \<longleftrightarrow> (i, r) \<in> set rs)"
proof -
  from run_explained [OF assms(1,2)] obtain rs sf where
    acc: "accounted calls (call_order es) (ts, s')" and
    serial: "one_by_one whole calls (call_order es) s = (rs, sf)" "settled (ts, s') sf" and
    out: "\<And>i r. i < length calls \<Longrightarrow> (i, r) \<in> set rs \<longleftrightarrow> outcome (ts, s') i = Some r"
    by (auto simp: explained_def)
  have none: "ts ! i \<noteq> Inside c" if "i < length ts" for i c
    using assms(3) that nth_mem by blast
  with serial(2) have "sf = s'" by (auto simp: settled_def)
  moreover have "ts ! i = Returned r \<longleftrightarrow> (i, r) \<in> set rs" if "i < length calls" for i r
    using out [OF that, of r] none [of i] that acc by (auto simp: outcome_def accounted_def split: thread.splits)
  ultimately show ?thesis using serial(1) acc by (auto simp: accounted_def)
qed

section \<open>No call waits for ever\<close>

definition thread_budget :: "('a, 'c, 'r) thread \<Rightarrow> nat" where
  "thread_budget t = (case t of Calling a \<Rightarrow> most + 2 | Inside c \<Rightarrow> budget c + 1 | Returned r \<Rightarrow> 0)"

definition work_left :: "('a, 'c, 'r) thread list \<Rightarrow> nat" where
  "work_left ts = sum_list (map thread_budget ts)"

lemma work_left_update:
  "i < length ts \<Longrightarrow> thread_budget t < thread_budget (ts ! i) \<Longrightarrow> work_left (ts[i := t]) < work_left ts"
  unfolding work_left_def
proof (induction ts arbitrary: i)
  case (Cons u us)
  then show ?case by (cases i) auto
qed simp

lemma step_decreases:
  assumes "section_step P x e y"
  shows "work_left (fst y) < work_left (fst x)"
  using assms
proof cases
  case (enters ts i a s c s')
  then show ?thesis using enter_budget [of a s c s'] by (simp add: work_left_update thread_budget_def)
next
  case (works ts i c s c' s')
  then show ?thesis using work_budget [of c s c' s'] by (simp add: work_left_update thread_budget_def)
qed (simp_all add: work_left_update thread_budget_def)

lemma runs_are_bounded:
  assumes "section_run P (map Calling calls, s) es y"
  shows "length es \<le> length calls * (most + 2)"
proof -
  have "length es + work_left (fst y) \<le> work_left (map Calling calls)"
    using assms
    by (induction "(map Calling calls :: ('a, 'c, 'r) thread list, s)" es y rule: section_run.induct)
      (auto dest: step_decreases)
  also have "work_left (map Calling calls :: ('a, 'c, 'r) thread list) = length calls * (most + 2)"
    by (induction calls) (simp_all add: work_left_def thread_budget_def)
  finally show ?thesis by simp
qed

lemma can_go_on:
  assumes "section_run P (map Calling calls, s) es (ts, s')" and "cs_free P s"
    and "alive (cs_crash P) ts" and "t \<in> set ts" "\<And>r. t \<noteq> Returned r"
  shows "\<exists>e y. section_step P (ts, s') e y"
proof -
  obtain h where h: "holder ts h" "cs_free P s' = (h = None)"
    using exclusive_run [OF assms(1,2)] assms(3) by (auto simp: exclusive_def)
  show ?thesis
  proof (cases h)
    case (Some i)
    with h obtain c where i: "i < length ts" "ts ! i = Inside c" by (auto simp: holder_def)
    obtain q s1 where "cs_work P c s' = (q, s1)" by fastforce
    with i assms(3) works [of P ts i c s'] leaves [of P ts i c s'] show ?thesis by (cases q) blast+
  next
    case None
    from assms(4) obtain i where i: "i < length ts" "ts ! i = t" by (auto simp: in_set_conv_nth)
    with h None assms(5) obtain a where a: "ts ! i = Calling a" by (cases t) (auto simp: holder_def)
    obtain c s1 where "cs_enter P a s' = (c, s1)" by fastforce
    with i(1) a h(2) None assms(3) refused [of P ts i a] enters [of P ts i a s'] show ?thesis
      by (cases "cs_refuse P a") blast+
  qed
qed

section \<open>Every order can happen\<close>

lemma alive_inside:
  assumes "alive crash ts"
  shows "alive crash (ts[i := Inside d])"
  using assms set_update_subset_insert [of ts i "Inside d"] by (fastforce simp: alive_def)

lemma alone_inside:
  assumes "alive (cs_crash P) ts" and "i < length ts" and "ts ! i = Inside c" and "complete c s = (r, s')"
  shows "\<exists>es. section_run P (ts, s) es (ts[i := Returned r], s')"
  using assms
proof (induction "budget c" arbitrary: c ts s rule: less_induct)
  case less
  obtain q s1 where work: "cs_work P c s = (q, s1)" by fastforce
  show ?case
  proof (cases q)
    case (Inl d)
    let ?ts = "ts[i := Inside d]"
    have "complete d s1 = (r, s')" using complete_work [OF work [unfolded Inl]] less.prems(4) by simp
    moreover have "alive (cs_crash P) ?ts" by (rule alive_inside [OF less.prems(1)])
    ultimately obtain es where "section_run P (?ts, s1) es (ts[i := Returned r], s')"
      using less.hyps [of d ?ts s1] work_budget [OF work [unfolded Inl]] less.prems(2) by fastforce
    from section_run_first [OF this works [OF less.prems(1-3) work [unfolded Inl]]] show ?thesis ..
  next
    case (Inr r')
    with complete_leave [OF work [unfolded Inr]] less.prems(4) have "cs_work P c s = (Inr r, s')"
      using work by simp
    with leaves [of P ts i c s r s'] less.prems show ?thesis
      using section_run.run_step [OF section_run.run_start] by blast
  qed
qed

lemma alone:
  assumes "alive (cs_crash P) ts" and "i < length ts" and "ts ! i = Calling a" and "cs_free P s"
    and "whole a s = (r, s')"
  shows "\<exists>es. section_run P (ts, s) es (ts[i := Returned r], s')"
proof (cases "cs_refuse P a")
  case None
  obtain c s1 where enter: "cs_enter P a s = (c, s1)" by fastforce
  let ?ts = "ts[i := Inside c]"
  have "complete c s1 = (r, s')" using whole_entered [OF None assms(4) enter] assms(5) by simp
  then obtain es where "section_run P (?ts, s1) es (ts[i := Returned r], s')"
    using alone_inside [OF alive_inside [OF assms(1)], of i i c c s1] assms(2) by auto
  from section_run_first [OF this enters [OF assms(1-3) None assms(4) enter]] show ?thesis ..
next
  case (Some q)
  with whole_refused [OF Some] assms(5) have "r = q" "s' = s" by simp_all
  with refused [of P ts i a q s] Some assms(1-3) show ?thesis
    using section_run.run_step [OF section_run.run_start] by blast
qed

section \<open>Invariants of the shared state\<close>

text \<open>
  What the section keeps, given what it keeps between calls (\<open>I\<close>) and at each stage
  (\<open>J\<close>): nobody else changes the state meanwhile.
\<close>

lemma section_invariant:
  assumes run: "section_run P (map Calling calls, s) es (ts, s')" and free: "cs_free P s" and start: "I s"
    and enter: "\<And>a c s s'. I s \<Longrightarrow> cs_enter P a s = (c, s') \<Longrightarrow> J c s'"
    and work: "\<And>c c' s s'. J c s \<Longrightarrow> cs_work P c s = (Inl c', s') \<Longrightarrow> J c' s'"
    and leave: "\<And>c r s s'. J c s \<Longrightarrow> cs_work P c s = (Inr r, s') \<Longrightarrow> I s'"
  shows "(\<exists>i < length ts. \<exists>c. ts ! i = Inside c \<and> J c s') \<or> I s'"
proof -
  define K where "K x \<longleftrightarrow> (\<exists>h. holder (fst x) h \<and>
    (case h of None \<Rightarrow> I (snd x) | Some i \<Rightarrow> \<exists>c. fst x ! i = Inside c \<and> J c (snd x)))" for x
  have "K y" if "section_run P x es y" and "x = (map Calling calls, s)" for x es y
    using that
  proof (induction rule: section_run.induct)
    case (run_start x)
    then show ?case using start by (auto simp: K_def holder_def intro!: exI [of _ None])
  next
    case (run_step x es y e z)
    from run_step obtain h where h: "holder (fst y) h" and
      k: "case h of None \<Rightarrow> I (snd y) | Some i \<Rightarrow> \<exists>c. fst y ! i = Inside c \<and> J c (snd y)"
      by (auto simp: K_def)
    from run_step(2) show ?case
    proof cases
      case (refused ts i a r s)
      then have "holder (ts[i := Returned r]) h" using h holder_update(3) [of ts h i r] by simp
      with refused h k show ?thesis
        by (auto simp: K_def nth_list_update split: option.splits intro!: exI [of _ h])
    next
      case (enters ts i a s c s')
      have "exclusive y" using exclusive_run [OF run_step(1) [unfolded run_step(4)] free] .
      with enters have "holder ts None" by (auto simp: exclusive_def)
      moreover from this h enters have "h = None" by (cases h) (auto simp: holder_def)
      ultimately show ?thesis using enters k holder_update(1) [of ts None i c] enter
        by (auto simp: K_def intro!: exI [of _ "Some i"])
    next
      case (works ts i c s c' s')
      with h have "h = Some i" by (auto simp: holder_def)
      with works h k holder_update(1) [of ts h i c'] work show ?thesis
        by (auto simp: K_def intro!: exI [of _ "Some i"])
    next
      case (leaves ts i c s r s')
      with h have "h = Some i" by (auto simp: holder_def)
      with leaves h k holder_update(2) [of ts h i r] leave show ?thesis
        by (auto simp: K_def intro!: exI [of _ None])
    qed
  qed
  from this [OF run refl] show ?thesis by (auto simp: K_def holder_def split: option.splits)
qed

end

end
