(* ===== verification/Nonce_Lock.thy ===== *)
theory Nonce_Lock
  imports Critical_Section Transactor
begin

text \<open>
  Concurrent transactions. Every message is routed by a goroutine of its own, so several
  calls of \<open>signAndSend\<close> (\<open>transactor/signAndSend/signAndSend.go\<close>) run at once and share
  \<open>nonceLock\<close> of \<open>EVMClient\<close>. Each call of the node is one step, and the steps of
  different goroutines interleave.
\<close>

section \<open>Sign and send, step by step\<close>

type_synonym transact_call = "address option \<times> bytes \<times> transact_options"

text \<open>Where a call of \<open>Transact\<close> stands, with what its local variables hold there.\<close>

datatype 'tx transact_stage =
    Asking_nonce nat                              \<comment> \<open>attempts left\<close>
  | Merging "int option"
  | Pricing "int option" transact_options
  | Building "int option" transact_options "int list"
  | Signing 'tx
  | Sending bytes 'tx
  | Awaiting hash nat                             \<comment> \<open>attempts left\<close>
  | Unlocking "hash result"                       \<comment> \<open>the deferred \<open>UnlockNonce\<close>\<close>

fun stage_of_result :: "('x \<Rightarrow> 'tx transact_stage) \<Rightarrow> 'x result \<Rightarrow> 'tx transact_stage" where
  "stage_of_result f (Ok x) = f x"
| "stage_of_result f (Err e) = Unlocking (Err e)"
| "stage_of_result f (Panic p) = Unlocking (Panic p)"

fun transact_work ::
  "merge_options \<Rightarrow> ('w, 'tx) sign_and_send \<Rightarrow> transact_call \<times> 'tx transact_stage \<Rightarrow> client_state \<times> 'w
   \<Rightarrow> (transact_call \<times> 'tx transact_stage + hash result) \<times> client_state \<times> 'w" where
  "transact_work mergo t (call, Asking_nonce 0) s = (Inl (call, Merging None), s)"
| "transact_work mergo t (call, Asking_nonce (Suc i)) (st, w) =
     (case rpc_pendingNonceAt (dispatcher t) (ClientFrom st) w of
        (Ok n, w') \<Rightarrow> (Inl (call, Merging (Some (uint n))), (st\<lparr>ClientNonce := Some (uint n)\<rparr>, w'))
      | (Err e, w') \<Rightarrow> (Inl (call, Asking_nonce i), (st, w'))
      | (Panic p, w') \<Rightarrow> (Inl (call, Unlocking (Panic p)), (st, w')))"
| "transact_work mergo t ((to, data, opts0), Merging n) s =
     (Inl ((to, data, opts0),
        stage_of_result (Pricing n) (MergeTransactionOptions mergo opts0 signAndSend_DefaultTransactionOptions)), s)"
| "transact_work mergo t (call, Pricing n opts) s =
     (case gas_prices t (GasPrice opts) s of
        (r, s') \<Rightarrow> (Inl (call, stage_of_result (Building n opts) r), s'))"
| "transact_work mergo t ((to, data, opts0), Building n opts gp) s =
     (Inl ((to, data, opts0),
        stage_of_result Signing
          (case n of None \<Rightarrow> Panic NilDereference
           | Some k \<Rightarrow> TxFabric t (big_uint64 k) to (Value opts) (GasLimit opts) gp data)), s)"
| "transact_work mergo t (call, Signing tx) (st, w) =
     (case rpc_chainID (dispatcher t) w of
        (Panic p, w1) \<Rightarrow> (Inl (call, Unlocking (Panic p)), (st, w1))
      | (r, w1) \<Rightarrow>
          (Inl (call, stage_of_result (\<lambda>(raw, tx'). Sending raw tx')
             (RawWithSignature (common t) tx (case r of Ok i \<Rightarrow> Some i | _ \<Rightarrow> None))), (st, w1)))"
| "transact_work mergo t (call, Sending raw tx) (st, w) =
     (case SendRawTransaction (dispatcher t) raw w of
        (r, w1) \<Rightarrow> (Inl (call, stage_of_result (\<lambda>_. Awaiting (TxHash (common t) tx) 50) r), (st, w1)))"
| "transact_work mergo t (call, Awaiting h 0) s = (Inl (call, Unlocking (Err (Error ''tx did not appear''))), s)"
| "transact_work mergo t (call, Awaiting h (Suc retry)) (st, w) =
     (case rpc_receipt (dispatcher t) h w of
        (Ok r, w') \<Rightarrow>
          (Inl (call, Unlocking
             (if ReceiptStatus r \<noteq> 1
              then Err (Error (''transaction failed on chain. Receipt status ''
                               @ show_nat (unat (ReceiptStatus r))))
              else Ok h)), (st, w'))
      | (Err e, w') \<Rightarrow> (Inl (call, Awaiting h retry), (st, w'))
      | (Panic p, w') \<Rightarrow> (Inl (call, Unlocking (Panic p)), (st, w')))"
| "transact_work mergo t (call, Unlocking r) (st, w) = (Inr r, (UnlockNonce st, w))"

definition is_panic :: "'x result \<Rightarrow> bool" where
  "is_panic r = (case r of Panic p \<Rightarrow> True | _ \<Rightarrow> False)"

definition transact_ops ::
  "merge_options \<Rightarrow> ('w, 'tx) sign_and_send
   \<Rightarrow> (transact_call, transact_call \<times> 'tx transact_stage, hash result, client_state \<times> 'w) section_ops" where
  "transact_ops mergo t =
     \<lparr> cs_refuse = (\<lambda>call. None), cs_free = (\<lambda>s. \<not> NonceLocked (fst s)),
       cs_enter = (\<lambda>call s. ((call, Asking_nonce 11), (LockNonce (fst s), snd s))),
       cs_work = transact_work mergo t, cs_crash = is_panic \<rparr>"

text \<open>What is left of a call at each stage, in terms of the calls it makes.\<close>

function transact_rest ::
  "merge_options \<Rightarrow> ('w, 'tx) sign_and_send \<Rightarrow> transact_call \<Rightarrow> 'tx transact_stage
   \<Rightarrow> client_state \<times> 'w \<Rightarrow> hash result \<times> client_state \<times> 'w" where
  "transact_rest mergo t c (Asking_nonce i) =
     s_bind (unsafe_nonce_loop (dispatcher t) i) (\<lambda>n. transact_rest mergo t c (Merging n))"
| "transact_rest mergo t c (Merging n) =
     s_bind (s_lift (MergeTransactionOptions mergo (snd (snd c)) signAndSend_DefaultTransactionOptions))
       (\<lambda>opts. transact_rest mergo t c (Pricing n opts))"
| "transact_rest mergo t c (Pricing n opts) =
     s_bind (gas_prices t (GasPrice opts)) (\<lambda>gp. transact_rest mergo t c (Building n opts gp))"
| "transact_rest mergo t c (Building n opts gp) =
     s_bind (s_lift (case n of None \<Rightarrow> Panic NilDereference | Some k \<Rightarrow> Ok (big_uint64 k))) (\<lambda>nonce.
     s_bind (s_lift (TxFabric t nonce (fst c) (Value opts) (GasLimit opts) gp (fst (snd c))))
       (\<lambda>tx. transact_rest mergo t c (Signing tx)))"
| "transact_rest mergo t c (Signing tx) =
     s_bind (on_world (SignAndSendTransaction (common t) (dispatcher t) tx))
       (\<lambda>h. transact_rest mergo t c (Awaiting h 50))"
| "transact_rest mergo t c (Sending raw tx) =
     s_bind (on_world (SendRawTransaction (dispatcher t) raw))
       (\<lambda>_. transact_rest mergo t c (Awaiting (TxHash (common t) tx) 50))"
| "transact_rest mergo t c (Awaiting h retry) =
     s_bind (on_world (wait_receipt (dispatcher t) h retry)) (\<lambda>_. s_return h)"
| "transact_rest mergo t c (Unlocking r) = s_lift r"
  by pat_completeness auto

fun stages_left :: "'tx transact_stage \<Rightarrow> nat" where
  "stages_left (Asking_nonce i) = i + 57"
| "stages_left (Merging n) = 56"
| "stages_left (Pricing n opts) = 55"
| "stages_left (Building n opts gp) = 54"
| "stages_left (Signing tx) = 53"
| "stages_left (Sending raw tx) = 52"
| "stages_left (Awaiting h retry) = retry + 1"
| "stages_left (Unlocking r) = 0"

termination transact_rest
  by (relation "measure (\<lambda>(mergo, t, c, x). stages_left x)") auto

definition transact_complete ::
  "merge_options \<Rightarrow> ('w, 'tx) sign_and_send \<Rightarrow> transact_call \<times> 'tx transact_stage
   \<Rightarrow> client_state \<times> 'w \<Rightarrow> hash result \<times> client_state \<times> 'w" where
  "transact_complete mergo t x s =
     (case transact_rest mergo t (fst x) (snd x) s of (r, st, w) \<Rightarrow> (r, UnlockNonce st, w))"

lemma retry_loops:
  "UnsafeNonce c = unsafe_nonce_loop c 11"
  "WaitAndReturnTxReceipt c h = wait_receipt c h 50"
  by (simp_all add: fun_eq_iff UnsafeNonce_def WaitAndReturnTxReceipt_def)

lemma transact_rest_start:
  "transact_rest mergo t (to, data, opts) (Asking_nonce 11) = nonce_locked_Transact mergo t to data opts"
  by (simp add: nonce_locked_Transact_def retry_loops)

lemma stage_of_result_stages:
  "(\<And>x. stages_left (f x) < n) \<Longrightarrow> 0 < n \<Longrightarrow> stages_left (stage_of_result f r) < n"
  by (cases r) auto

lemma transact_rest_result:
  "transact_rest mergo t c (stage_of_result f r) s =
     (case r of Ok x \<Rightarrow> transact_rest mergo t c (f x) s | Err e \<Rightarrow> (Err e, s) | Panic p \<Rightarrow> (Panic p, s))"
  by (cases r) auto

declare transact_rest.simps(1-7) [simp del]

lemma s_bind_on_world:
  "s_bind (on_world m) f (st, w) =
     (case m w of
        (Ok x, w') \<Rightarrow> f x (st, w')
      | (Err e, w') \<Rightarrow> (Err e, (st, w'))
      | (Panic p, w') \<Rightarrow> (Panic p, (st, w')))"
  by (auto simp: s_bind_def on_world_def split: prod.splits result.splits)

lemma transact_work_rest:
  assumes "transact_work mergo t (c, x) s = (Inl (c', x'), s')"
  shows "c' = c \<and> transact_rest mergo t c x s = transact_rest mergo t c x' s'"
proof -
  obtain st w where s: "s = (st, w)" by fastforce
  obtain to data opts0 where c: "c = (to, data, opts0)" by (metis surj_pair)
  show ?thesis
  proof (cases x)
    case (Asking_nonce i)
    with assms s show ?thesis
      by (cases i) (auto simp: transact_rest.simps(1) s_bind_def split: prod.splits result.splits)
  next
    case (Awaiting h i)
    with assms s show ?thesis
      by (cases i) (auto simp: transact_rest.simps(7) s_bind_on_world split: prod.splits result.splits)
  next
    case (Merging n)
    with assms c show ?thesis 
      by (auto simp: transact_rest.simps(2) s_bind_def transact_rest_result split: result.split)
  next
    case (Pricing n opts)
    with assms s show ?thesis
      by (auto simp: transact_rest.simps(3) s_bind_def transact_rest_result split: prod.splits result.split)
  next
    case (Building n opts gp)
    with assms c show ?thesis
      by (auto simp: transact_rest.simps(4) s_bind_def transact_rest_result split: result.split option.split)
  next
    case (Signing tx)
    with assms s show ?thesis
      by (auto simp: transact_rest.simps(5,6) transact_rest_result SignAndSendTransaction_def s_bind_def on_world_def Let_def
          split: prod.splits result.splits)
  next
    case (Sending raw tx)
    with assms s show ?thesis
      by (auto simp: transact_rest.simps(6) s_bind_on_world transact_rest_result split: prod.splits result.split)
  next
    case (Unlocking r)
    with assms s show ?thesis by simp
  qed
qed

lemma transact_work_locked:
  assumes "transact_work mergo t (c, x) s = (Inl (c', x'), s')"
  shows "NonceLocked (fst s') = NonceLocked (fst s) \<and> stages_left x' < stages_left x"
proof -
  obtain st w where s: "s = (st, w)" by fastforce
  obtain to data opts0 where c: "c = (to, data, opts0)" by (metis surj_pair)
  show ?thesis
  proof (cases x)
    case (Asking_nonce i)
    with assms s show ?thesis by (cases i) (auto split: prod.splits result.splits)
  next
    case (Awaiting h i)
    with assms s show ?thesis by (cases i) (auto split: prod.splits result.splits)
  next
    case (Pricing n opts)
    with assms s gas_prices_fst [of t "GasPrice opts" s] show ?thesis
      by (auto intro!: stage_of_result_stages split: prod.splits)
  qed (use assms s c in \<open>auto intro!: stage_of_result_stages split: prod.splits result.splits\<close>)
qed

lemma transact_work_return:
  assumes "transact_work mergo t (c, x) s = (Inr r, s')"
  shows "x = Unlocking r \<and> s' = (UnlockNonce (fst s), snd s)"
proof -
  obtain st w where s: "s = (st, w)" by fastforce
  obtain to data opts0 where c: "c = (to, data, opts0)" by (metis surj_pair)
  show ?thesis
  proof (cases x)
    case (Asking_nonce i)
    with assms s show ?thesis by (cases i) (auto split: prod.splits result.splits)
  next
    case (Awaiting h i)
    with assms s show ?thesis by (cases i) (auto split: prod.splits result.splits)
  qed (use assms s c in \<open>auto split: prod.splits result.splits\<close>)
qed

definition transact_alone ::
  "merge_options \<Rightarrow> ('w, 'tx) sign_and_send \<Rightarrow> transact_call \<Rightarrow> client_state \<times> 'w
   \<Rightarrow> hash result \<times> client_state \<times> 'w" where
  "transact_alone mergo t call = (case call of (to, data, opts) \<Rightarrow> signAndSend_Transact mergo t to data opts)"

interpretation nonce_lock: critical_section "transact_ops mergo t" "transact_alone mergo t"
  "transact_complete mergo t" "\<lambda>x. stages_left (snd x)" 68
  for mergo and t :: "('w, 'tx) sign_and_send"
proof (unfold_locales, goal_cases)
  case (2 c s c' s')
  with transact_work_locked [of mergo t "fst c" "snd c" s "fst c'" "snd c'" s'] show ?case
    by (simp add: transact_ops_def)
next
  case (3 c s r s')
  with transact_work_return [of mergo t "fst c" "snd c" s r s'] show ?case
    by (simp add: transact_ops_def UnlockNonce_def)
next
  case (5 a s c s')
  then show ?case
    by (auto simp: transact_ops_def transact_alone_def transact_complete_def signAndSend_Transact_def
        transact_rest_start split: prod.splits)
next
  case (6 c s c' s')
  with transact_work_rest [of mergo t "fst c" "snd c" s "fst c'" "snd c'" s'] show ?case
    by (simp add: transact_ops_def transact_complete_def)
next
  case (7 c s r s')
  with transact_work_return [of mergo t "fst c" "snd c" s r s'] show ?case
    by (cases s) (simp add: transact_ops_def transact_complete_def)
next
  case (9 c s c' s')
  with transact_work_locked [of mergo t "fst c" "snd c" s "fst c'" "snd c'" s'] show ?case
    by (simp add: transact_ops_def)
qed (auto simp: transact_ops_def LockNonce_def)

lemma not_alive_panic:
  assumes "\<not> alive is_panic ts"
  shows "\<exists>p. Returned (Panic p) \<in> set ts"
proof -
  from assms obtain x where "x \<in> set ts" "case x of Returned r \<Rightarrow> is_panic r | _ \<Rightarrow> False"
    by (auto simp: alive_def split: thread.splits)
  then show ?thesis by (auto simp: is_panic_def split: thread.splits result.splits)
qed

section \<open>Nonces on the node\<close>

text \<open>
  What is documented of a node and of an encoded transaction. \<open>accepted\<close> lists the nonces of
  the transactions the node took from the account \<open>own\<close>, in order. The pending nonce it
  reports for that account is above all of them, no query changes the list, and a send adds
  at most the nonce of the raw transaction, which is the one the fabric was given.
\<close>

definition node_counts ::
  "('w \<Rightarrow> u64 list) \<Rightarrow> (bytes \<Rightarrow> u64) \<Rightarrow> address \<Rightarrow> ('w, 'tx) sign_and_send \<Rightarrow> bool" where
  "node_counts accepted raw_nonce own t \<longleftrightarrow>
     (\<forall>w r w'. rpc_pendingNonceAt (dispatcher t) own w = (r, w') \<longrightarrow>
        accepted w' = accepted w \<and> (\<forall>n. r = Ok n \<longrightarrow> (\<forall>k \<in> set (accepted w). k < n))) \<and>
     (\<forall>w. accepted (snd (gasPriceClient t w)) = accepted w) \<and>
     (\<forall>w. accepted (snd (rpc_chainID (dispatcher t) w)) = accepted w) \<and>
     (\<forall>h w. accepted (snd (rpc_receipt (dispatcher t) h w)) = accepted w) \<and>
     (\<forall>raw w. accepted (snd (rpc_sendRaw (dispatcher t) raw w)) \<in> {accepted w, accepted w @ [raw_nonce raw]})"

definition raw_keeps_nonce :: "(bytes \<Rightarrow> u64) \<Rightarrow> ('w, 'tx) sign_and_send \<Rightarrow> bool" where
  "raw_keeps_nonce raw_nonce t \<longleftrightarrow>
     (\<forall>n to v g gp d tx cid raw tx'. TxFabric t n to v g gp d = Ok tx \<longrightarrow>
        RawWithSignature (common t) tx cid = Ok (raw, tx') \<longrightarrow> raw_nonce raw = n)"

text \<open>The nonce that a call inside the section is about to use is above all accepted ones.\<close>

definition fresh_nonce ::
  "('w \<Rightarrow> u64 list) \<Rightarrow> (bytes \<Rightarrow> u64) \<Rightarrow> ('w, 'tx) sign_and_send \<Rightarrow> 'tx transact_stage \<Rightarrow> 'w \<Rightarrow> bool" where
  "fresh_nonce accepted raw_nonce t x w \<longleftrightarrow>
     (case x of
        Merging (Some n) \<Rightarrow> \<forall>k \<in> set (accepted w). k < big_uint64 n
      | Pricing (Some n) opts \<Rightarrow> \<forall>k \<in> set (accepted w). k < big_uint64 n
      | Building (Some n) opts gp \<Rightarrow> \<forall>k \<in> set (accepted w). k < big_uint64 n
      | Signing tx \<Rightarrow> \<forall>cid raw tx'. RawWithSignature (common t) tx cid = Ok (raw, tx') \<longrightarrow>
                        (\<forall>k \<in> set (accepted w). k < raw_nonce raw)
      | Sending raw tx \<Rightarrow> \<forall>k \<in> set (accepted w). k < raw_nonce raw
      | _ \<Rightarrow> True)"

lemma fresh_nonce_result:
  "fresh_nonce accepted raw_nonce t (stage_of_result f r) w \<longleftrightarrow>
   (case r of Ok x \<Rightarrow> fresh_nonce accepted raw_nonce t (f x) w | _ \<Rightarrow> True)"
  by (cases r) (simp_all add: fresh_nonce_def)

lemma big_uint64_uint [simp]: "big_uint64 (uint n) = n"
  by (simp add: big_uint64_def)

lemma transact_work_fresh:
  assumes node: "node_counts accepted raw_nonce (ClientFrom (fst s)) t" and raw: "raw_keeps_nonce raw_nonce t"
    and "sorted_wrt (<) (accepted (snd s))" and "fresh_nonce accepted raw_nonce t x (snd s)"
    and "transact_work mergo t (c, x) s = (Inl (c', x'), s')"
  shows "sorted_wrt (<) (accepted (snd s')) \<and> fresh_nonce accepted raw_nonce t x' (snd s')"
proof -
  obtain st w where s: "s = (st, w)" by fastforce
  obtain to data opts0 where c: "c = (to, data, opts0)" by (metis surj_pair)
  have keeps: "gasPriceClient t w = (gp, w') \<Longrightarrow> accepted w' = accepted w"
    "rpc_chainID (dispatcher t) w = (cid, w') \<Longrightarrow> accepted w' = accepted w"
    "rpc_receipt (dispatcher t) h w = (q, w') \<Longrightarrow> accepted w' = accepted w" for gp cid h q w'
    using node unfolding node_counts_def by (metis snd_conv)+
  show ?thesis
  proof (cases x)
    case (Asking_nonce i)
    show ?thesis
    proof (cases i)
      case 0
      with assms(3-) s Asking_nonce show ?thesis by (auto simp: fresh_nonce_def)
    next
      case (Suc j)
      obtain r w' where q: "rpc_pendingNonceAt (dispatcher t) (ClientFrom st) w = (r, w')" by fastforce
      with node have "accepted w' = accepted w" "\<forall>n. r = Ok n \<longrightarrow> (\<forall>k \<in> set (accepted w). k < n)"
        unfolding node_counts_def s fst_conv by blast+
      with q assms(3-) s Asking_nonce Suc show ?thesis
        by (cases r) (auto simp: fresh_nonce_def)
    qed
  next
    case (Awaiting h i)
    with assms(3-) s keeps show ?thesis
      by (cases i) (auto simp: fresh_nonce_def split: prod.splits result.splits)
  next
    case (Merging n)
    with assms(3-) s c show ?thesis
      by (auto simp: fresh_nonce_result split: result.split) (auto simp: fresh_nonce_def split: option.split)
  next
    case (Pricing n opts)
    obtain gp w' where gp: "gas_prices t (GasPrice opts) s = (gp, st, w')" "accepted w' = accepted w"
    proof (cases "gas_prices t (GasPrice opts) s")
      case (fields gp st' w')
      moreover from this s gas_prices_fst [of t "GasPrice opts" s] have "st' = st" by simp
      moreover have "accepted w' = accepted w"
        using fields s keeps by (auto simp: gas_prices_def on_world_def split: option.splits if_splits prod.splits)
      ultimately show ?thesis using that by blast
    qed
    with assms(3-) s Pricing show ?thesis
      by (auto simp: fresh_nonce_result split: result.split) (auto simp: fresh_nonce_def split: option.split)
  next
    case (Building n opts gp)
    have "raw_nonce raw' = big_uint64 k"
      if "TxFabric t (big_uint64 k) to (Value opts) (GasLimit opts) gp data = Ok tx"
        "RawWithSignature (common t) tx cid = Ok (raw', tx')" for k tx cid raw' tx'
      using raw that unfolding raw_keeps_nonce_def by blast
    with Building assms(3-) s c show ?thesis
      by (cases n) (auto simp: fresh_nonce_result split: result.split, auto simp: fresh_nonce_def)
  next
    case (Signing tx)
    with assms(3-) s keeps show ?thesis
      by (auto simp: fresh_nonce_result split: prod.splits result.splits) (unfold fresh_nonce_def, auto, blast+)
  next
    case (Sending rawtx tx)
    obtain r w' where q: "rpc_sendRaw (dispatcher t) rawtx w = (r, w')" by fastforce
    with node have "accepted w' \<in> {accepted w, accepted w @ [raw_nonce rawtx]}"
      unfolding node_counts_def by (metis snd_conv)
    with q assms(3-) s Sending show ?thesis
      by (cases r) (auto simp: SendRawTransaction_def sorted_wrt_append fresh_nonce_def)
  next
    case (Unlocking r)
    with assms(3-) s show ?thesis by simp
  qed
qed

lemma transact_work_account:
  assumes "transact_work mergo t (c, x) s = (Inl (c', x'), s')"
  shows "ClientFrom (fst s') = ClientFrom (fst s)"
proof -
  obtain st w where s: "s = (st, w)" by fastforce
  obtain to data opts0 where c: "c = (to, data, opts0)" by (metis surj_pair)
  show ?thesis
  proof (cases x)
    case (Asking_nonce i)
    with assms s show ?thesis by (cases i) (auto split: prod.splits result.splits)
  next
    case (Pricing n opts)
    with assms s gas_prices_fst [of t "GasPrice opts" s] show ?thesis by (auto split: prod.splits)
  next
    case (Awaiting h i)
    with assms s show ?thesis by (cases i) (auto split: prod.splits result.splits)
  qed (use assms s c in \<open>auto split: prod.splits result.splits\<close>)
qed

section \<open>Two calls at once, on a node that counts\<close>

text \<open>The state of the node is what it accepted; its pending nonce is one more than the largest.\<close>

definition largest :: "u64 list \<Rightarrow> u64" where
  "largest ns = fold max ns 0"

definition counting_rpc :: "u64 list rpc" where
  "counting_rpc =
     \<lparr> rpc_getBlock = (\<lambda>_ _ w. (Ok (Header (Some 1)), w)),
       rpc_receipt = (\<lambda>h w. (Ok \<lparr>ReceiptStatus = 1, ReceiptTxHash = h\<rparr>, w)),
       rpc_filterLogs = (\<lambda>_ w. (Ok [], w)),
       rpc_pendingNonceAt = (\<lambda>_ w. (if w = [] then Ok 0
          else if largest w = - 1 then Err (Error ''nonce has max value'') else Ok (largest w + 1), w)),
       rpc_chainID = (\<lambda>w. (Ok 5, w)),
       rpc_baseFee = (\<lambda>w. (Ok None, w)),
       rpc_call = (\<lambda>_ _ w. (Ok [], w)),
       rpc_sendRaw = (\<lambda>raw w. (Ok (), w @ [word_of_nat (bytes_nat raw)])) \<rparr>"

text \<open>A raw transaction is here its nonce, and so is its hash.\<close>

definition counting_transactor :: "(u64 list, u64) sign_and_send" where
  "counting_transactor =
     \<lparr> TxFabric = (\<lambda>n to v g gp d. Ok n), gasPriceClient = (\<lambda>w. (Ok [7], w)),
       common = \<lparr> TxHash = ucast, RawWithSignature = (\<lambda>tx cid. Ok (nat_bytes (unat tx), tx)) \<rparr>,
       dispatcher = counting_rpc \<rparr>"

lemma largest_upper: "k \<in> set ns \<Longrightarrow> k \<le> largest ns"
  unfolding largest_def by (induction ns rule: rev_induct) (auto simp: le_max_iff_disj)

lemma above_largest:
  assumes "k \<in> set ns" and "largest ns \<noteq> - 1"
  shows "k < largest ns + 1"
proof -
  have "1 + largest ns \<noteq> 0"
    using assms(2) by (simp add: eq_neg_iff_add_eq_0 add.commute)
  with unatSuc [of "largest ns"] largest_upper [OF assms(1)] show ?thesis
    by (simp add: word_less_nat_alt word_le_nat_alt add.commute)
qed

lemma counting_node: "node_counts (\<lambda>w. w) (\<lambda>raw. word_of_nat (bytes_nat raw)) own counting_transactor"
  by (simp add: node_counts_def counting_transactor_def counting_rpc_def above_largest)

lemma counting_raw: "raw_keeps_nonce (\<lambda>raw. word_of_nat (bytes_nat raw)) counting_transactor"
  by (simp add: raw_keeps_nonce_def counting_transactor_def)

definition both_calls :: "transact_call list" where
  "both_calls = [(Some 2, [], no_options), (Some 3, [1], no_options)]"

text \<open>The second call takes the lock first.\<close>

definition one_through :: "nat \<Rightarrow> section_event list" where
  "one_through i =
     [Enters i, Works i, Works i, Works i, Works i, Works i, Works i, Works i, Leaves i]"

definition both_started :: "(transact_call, transact_call \<times> u64 transact_stage, hash result) thread list
    \<times> client_state \<times> u64 list" where
  "both_started = (map Calling both_calls, (example_client_state, [4]))"

definition both_returned :: "(transact_call, transact_call \<times> u64 transact_stage, hash result) thread list
    \<times> client_state \<times> u64 list" where
  "both_returned = ([Returned (Ok 6), Returned (Ok 5)], (example_client_state\<lparr>ClientNonce := Some 6\<rparr>, [4, 5, 6]))"

lemma both_run:
  "section_run (transact_ops example_merge counting_transactor) both_started
     (one_through 1 @ one_through 0) both_returned"
proof (rule perform_all_run)
  show "perform_all (transact_ops example_merge counting_transactor) (one_through 1 @ one_through 0) both_started
      = Some both_returned"
    by code_simp
qed

lemma example_unlocked: "\<not> NonceLocked example_client_state"
  by (simp add: example_client_state_def)

lemma transact_free: "cs_free (transact_ops mergo t) (st, w) = (\<not> NonceLocked st)"
  by (simp add: transact_ops_def)

section \<open>Properties\<close>

text \<open>
  C4: however the goroutines of one client interleave, the effect and the results are those
  of the calls made one after another, in the order in which they took the lock.
\<close>

theorem concurrent_transacts_serialize:
  assumes "section_run (transact_ops mergo t) (map Calling calls, (st, w)) es (ts, s')"
    and "\<not> NonceLocked st" and "\<And>x c. x \<in> set ts \<Longrightarrow> x \<noteq> Inside c"
  shows "\<exists>rs. one_by_one (\<lambda>(to, data, opts). signAndSend_Transact mergo t to data opts) calls
       (call_order es) (st, w) = (rs, s') \<and> distinct (call_order es) \<and>
     (\<forall>i < length calls. \<forall>r. ts ! i = Returned r \<longleftrightarrow> (i, r) \<in> set rs)"
proof -
  have "transact_alone mergo t = (\<lambda>(to, data, opts). signAndSend_Transact mergo t to data opts)"
    by (simp add: fun_eq_iff transact_alone_def)
  with nonce_lock.serializes [OF assms(1) _ assms(3)] assms(2) show ?thesis
    by (auto simp: transact_free)
qed

theorem concurrent_transacts_serialize_witness:
  "\<exists>rs. one_by_one (\<lambda>(to, data, opts). signAndSend_Transact example_merge counting_transactor to data opts)
       both_calls (call_order (one_through 1 @ one_through 0)) (example_client_state, [4])
       = (rs, (example_client_state\<lparr>ClientNonce := Some 6\<rparr>, [4, 5, 6])) \<and>
     call_order (one_through 1 @ one_through 0) = [1, 0] \<and> (1, Ok 5) \<in> set rs"
proof -
  have "\<exists>rs. one_by_one (\<lambda>(to, data, opts). signAndSend_Transact example_merge counting_transactor to data opts)
       both_calls (call_order (one_through 1 @ one_through 0)) (example_client_state, [4])
       = (rs, (example_client_state\<lparr>ClientNonce := Some 6\<rparr>, [4, 5, 6])) \<and>
     distinct (call_order (one_through 1 @ one_through 0)) \<and>
     (\<forall>i < length both_calls. \<forall>r. [Returned (Ok 6), Returned (Ok 5)] ! i =
        (Returned r :: (transact_call, transact_call \<times> u64 transact_stage, hash result) thread)
        \<longleftrightarrow> (i, r) \<in> set rs)"
    by (rule concurrent_transacts_serialize
        [OF both_run [unfolded both_started_def both_returned_def] example_unlocked]) auto
  moreover have "call_order (one_through 1 @ one_through 0) = [1, 0]" by (simp add: one_through_def)
  ultimately show ?thesis by (fastforce simp: both_calls_def)
qed

text \<open>
  C3: the transactions a node accepts from a relayer have strictly increasing nonces, so no
  two goroutines ever spend the same one, whatever the interleaving and whichever calls fail.
\<close>

theorem nonces_never_collide:
  assumes "section_run (transact_ops mergo t) (map Calling calls, (st, w)) es (ts, (st', w'))"
    and "\<not> NonceLocked st" and "node_counts accepted raw_nonce (ClientFrom st) t" and "raw_keeps_nonce raw_nonce t"
    and "sorted_wrt (<) (accepted w)"
  shows "sorted_wrt (<) (accepted w')"
proof -
  let ?I = "\<lambda>s. sorted_wrt (<) (accepted (snd s)) \<and> ClientFrom (fst s) = ClientFrom st"
  let ?J = "\<lambda>c s. ?I s \<and> fresh_nonce accepted raw_nonce t (snd c) (snd s)"
  have "(\<exists>i < length ts. \<exists>c. ts ! i = Inside c \<and> ?J c (st', w')) \<or> ?I (st', w')"
  proof (rule nonce_lock.section_invariant [where I = ?I and J = ?J, OF assms(1)], goal_cases)
    case (3 a c s s')
    then show ?case by (auto simp: transact_ops_def fresh_nonce_def LockNonce_def)
  next
    case (4 c c' s s')
    then show ?case
      using transact_work_fresh [OF _ assms(4), of accepted s "snd c" mergo "fst c" "fst c'" "snd c'" s']
        transact_work_account [of mergo t "fst c" "snd c" s "fst c'" "snd c'" s'] assms(3)
      by (simp add: transact_ops_def)
  next
    case (5 c r s s')
    then show ?case
      using transact_work_return [of mergo t "fst c" "snd c" s r s'] by (simp add: transact_ops_def UnlockNonce_def)
  qed (use assms(2,5) in \<open>simp_all add: transact_free\<close>)
  then show ?thesis by auto
qed

theorem nonces_never_collide_witness:
  "sorted_wrt (<) (snd (snd both_returned)) \<and> snd (snd both_returned) = [4, 5, 6]"
  using nonces_never_collide [OF both_run [unfolded both_started_def both_returned_def] example_unlocked
      counting_node counting_raw]
  by (simp add: both_returned_def)

text \<open>
  C15: no call waits for ever: a run has at most 70 steps for each call, and it can always go
  on until every call has returned, or one has panicked and ended the program. The lock is
  given back on every path.
\<close>

theorem transacts_never_stuck:
  assumes "section_run (transact_ops mergo t) (map Calling calls, (st, w)) es (ts, s')"
    and "\<not> NonceLocked st"
  shows "length es \<le> 70 * length calls \<and>
    ((\<exists>e y. section_step (transact_ops mergo t) (ts, s') e y) \<or>
     (\<forall>x \<in> set ts. \<exists>r. x = Returned r) \<or> (\<exists>p. Returned (Panic p) \<in> set ts))"
proof -
  have "alive (cs_crash (transact_ops mergo t)) ts = alive is_panic ts"
    by (simp add: transact_ops_def)
  then show ?thesis
    using nonce_lock.runs_are_bounded [OF assms(1)] nonce_lock.can_go_on [OF assms(1)] assms(2)
      not_alive_panic [of ts]
    by (auto simp: transact_free mult.commute)
qed

theorem transacts_never_stuck_witness:
  "length (one_through 1 @ one_through 0) \<le> 70 * length both_calls \<and>
   ((\<exists>e y. section_step (transact_ops example_merge counting_transactor) both_returned e y) \<or>
    (\<forall>x \<in> set (fst both_returned). \<exists>r. x = Returned r) \<or> (\<exists>p. Returned (Panic p) \<in> set (fst both_returned)))"
  using transacts_never_stuck [OF both_run [unfolded both_started_def both_returned_def] example_unlocked]
  by (simp add: both_returned_def)

end
