(* ===== verification/Forwarder_Lock.thy ===== *)
theory Forwarder_Lock
  imports Nonce_Lock Itx
begin

text \<open>
  Concurrent relayed transactions: several calls of \<open>ITXTransactor.Transact\<close> share the lock of
  one \<open>MinimalForwarder\<close> (\<open>transactor/itx/itx.go\<close>, \<open>minimalForwarder.go\<close>). Options are merged
  before the lock is taken, the nonce is kept in memory, and unlocking writes it to the store.
\<close>

section \<open>Relaying, step by step\<close>

datatype relay_stage =
    Getting_nonce
  | Packing int
  | Signing_relay int bytes
  | Relaying signed_relay_tx
  | Counting hash
  | Unlocking_relay "hash result"

text \<open>What a call keeps: its target and data, and the merged options.\<close>

fun relay_work ::
  "eth_lib \<Rightarrow> 's itx_transactor \<Rightarrow> transact_call \<times> relay_stage \<Rightarrow> fwd_state \<times> 's
   \<Rightarrow> (transact_call \<times> relay_stage + hash result) \<times> fwd_state \<times> 's" where
  "relay_work L I (call, Getting_nonce) s =
     (case fwd_UnsafeNonce L (forwarder I) s of
        (Ok nonce, s') \<Rightarrow> (Inl (call, Packing nonce), s')
      | (Err e, s') \<Rightarrow> (Inl (call, Unlocking_relay (Err e)), s')
      | (Panic p, s') \<Rightarrow> (Inl (call, Unlocking_relay (Panic p)), s'))"
| "relay_work L I ((to, data, opts), Packing nonce) s =
     (Inl ((to, data, opts),
        case ForwarderData L (forwarder I) to data (opts\<lparr>Nonce := Some nonce\<rparr>) of
          Ok forwarderData \<Rightarrow> Signing_relay nonce forwarderData
        | Err e \<Rightarrow> Unlocking_relay (Err e)
        | Panic p \<Rightarrow> Unlocking_relay (Panic p)), s)"
| "relay_work L I ((to, data, opts), Signing_relay nonce forwarderData) s =
     (Inl ((to, data, opts),
        case signRelayTx L I
               \<lparr> rt_to = ForwarderAddress (forwarder I), rt_data = forwarderData,
                 rt_opts = opts\<lparr>Nonce := Some nonce, GasLimit := increase_gas (GasLimit opts)\<rparr> \<rparr> of
          Ok signedTx \<Rightarrow> Relaying signedTx
        | Err e \<Rightarrow> Unlocking_relay (Err e)
        | Panic p \<Rightarrow> Unlocking_relay (Panic p)), s)"
| "relay_work L I (call, Relaying signedTx) s =
     (case on_world (sendTransaction I signedTx) s of
        (Ok h, s') \<Rightarrow> (Inl (call, Counting h), s')
      | (Err e, s') \<Rightarrow> (Inl (call, Unlocking_relay (Err e)), s')
      | (Panic p, s') \<Rightarrow> (Inl (call, Unlocking_relay (Panic p)), s'))"
| "relay_work L I (call, Counting h) s =
     (case fwd_UnsafeIncreaseNonce s of
        (Ok _, s') \<Rightarrow> (Inl (call, Unlocking_relay (Ok h)), s')
      | (Err e, s') \<Rightarrow> (Inl (call, Unlocking_relay (Err e)), s')
      | (Panic p, s') \<Rightarrow> (Inl (call, Unlocking_relay (Panic p)), s'))"
| "relay_work L I (call, Unlocking_relay r) s =
     (case fwd_UnlockNonce (forwarder I) s of
        (Panic p, s') \<Rightarrow> (Inr (Panic p), s')
      | (_, s') \<Rightarrow> (Inr r, s'))"

definition relay_options ::
  "merge_options \<Rightarrow> 's itx_transactor \<Rightarrow> transact_options \<Rightarrow> transact_options result" where
  "relay_options mergo I opts0 =
     r_bind (MergeTransactionOptions mergo opts0 itx_DefaultTransactionOptions)
       (\<lambda>opts. Ok (opts\<lparr>ChainID := Some (ChainId (forwarder I))\<rparr>))"

definition relay_refuse :: "merge_options \<Rightarrow> 's itx_transactor \<Rightarrow> transact_call \<Rightarrow> hash result option" where
  "relay_refuse mergo I call =
     (case relay_options mergo I (snd (snd call)) of
        Ok opts \<Rightarrow> None | Err e \<Rightarrow> Some (Err e) | Panic p \<Rightarrow> Some (Panic p))"

definition relay_enter ::
  "merge_options \<Rightarrow> 's itx_transactor \<Rightarrow> transact_call \<Rightarrow> fwd_state \<times> 's
   \<Rightarrow> (transact_call \<times> relay_stage) \<times> fwd_state \<times> 's" where
  "relay_enter mergo I call s =
     (((fst call, fst (snd call),
        case relay_options mergo I (snd (snd call)) of Ok opts \<Rightarrow> opts | _ \<Rightarrow> snd (snd call)),
       Getting_nonce), (fwd_LockNonce (fst s), snd s))"

definition relay_ops ::
  "merge_options \<Rightarrow> eth_lib \<Rightarrow> 's itx_transactor
   \<Rightarrow> (transact_call, transact_call \<times> relay_stage, hash result, fwd_state \<times> 's) section_ops" where
  "relay_ops mergo L I =
     \<lparr> cs_refuse = relay_refuse mergo I, cs_free = (\<lambda>s. \<not> FwdLocked (fst s)),
       cs_enter = relay_enter mergo I, cs_work = relay_work L I, cs_crash = is_panic \<rparr>"

fun relay_rest ::
  "eth_lib \<Rightarrow> 's itx_transactor \<Rightarrow> transact_call \<Rightarrow> relay_stage \<Rightarrow> fwd_state \<times> 's
   \<Rightarrow> hash result \<times> fwd_state \<times> 's" where
  "relay_rest L I c Getting_nonce = forward_locked L I (fst c) (fst (snd c)) (snd (snd c))"
| "relay_rest L I c (Packing nonce) =
     s_bind (s_lift (ForwarderData L (forwarder I) (fst c) (fst (snd c)) ((snd (snd c))\<lparr>Nonce := Some nonce\<rparr>)))
       (\<lambda>forwarderData.
     s_bind (s_lift (signRelayTx L I
               \<lparr> rt_to = ForwarderAddress (forwarder I), rt_data = forwarderData,
                 rt_opts = (snd (snd c))\<lparr>Nonce := Some nonce,
                   GasLimit := increase_gas (GasLimit (snd (snd c)))\<rparr> \<rparr>)) (\<lambda>signedTx.
     s_bind (on_world (sendTransaction I signedTx)) (\<lambda>h.
     s_bind fwd_UnsafeIncreaseNonce (\<lambda>_. s_return h))))"
| "relay_rest L I c (Signing_relay nonce forwarderData) =
     s_bind (s_lift (signRelayTx L I
               \<lparr> rt_to = ForwarderAddress (forwarder I), rt_data = forwarderData,
                 rt_opts = (snd (snd c))\<lparr>Nonce := Some nonce,
                   GasLimit := increase_gas (GasLimit (snd (snd c)))\<rparr> \<rparr>)) (\<lambda>signedTx.
     s_bind (on_world (sendTransaction I signedTx)) (\<lambda>h.
     s_bind fwd_UnsafeIncreaseNonce (\<lambda>_. s_return h)))"
| "relay_rest L I c (Relaying signedTx) =
     s_bind (on_world (sendTransaction I signedTx)) (\<lambda>h.
     s_bind fwd_UnsafeIncreaseNonce (\<lambda>_. s_return h))"
| "relay_rest L I c (Counting h) = s_bind fwd_UnsafeIncreaseNonce (\<lambda>_. s_return h)"
| "relay_rest L I c (Unlocking_relay r) = s_lift r"

definition relay_complete ::
  "eth_lib \<Rightarrow> 's itx_transactor \<Rightarrow> transact_call \<times> relay_stage \<Rightarrow> fwd_state \<times> 's
   \<Rightarrow> hash result \<times> fwd_state \<times> 's" where
  "relay_complete L I x s =
     (case relay_rest L I (fst x) (snd x) s of (r, s1) \<Rightarrow>
        (case fwd_UnlockNonce (forwarder I) s1 of
           (Panic p, s2) \<Rightarrow> (Panic p, s2)
         | (_, s2) \<Rightarrow> (r, s2)))"

fun relay_left :: "relay_stage \<Rightarrow> nat" where
  "relay_left Getting_nonce = 5"
| "relay_left (Packing n) = 4"
| "relay_left (Signing_relay n d) = 3"
| "relay_left (Relaying t) = 2"
| "relay_left (Counting h) = 1"
| "relay_left (Unlocking_relay r) = 0"

lemma relay_work_rest:
  "relay_work L I (c, x) s = (Inl (c', x'), s') \<Longrightarrow>
   c' = c \<and> relay_rest L I c x s = relay_rest L I c x' s' \<and> relay_left x' < relay_left x"
  by (cases x; cases c)
    (auto simp: forward_locked_def s_bind_def split: prod.splits result.splits)

lemma fwd_UnsafeNonce_locked: "FwdLocked (fst (snd (fwd_UnsafeNonce L F s))) = FwdLocked (fst s)"
  by (auto simp: fwd_UnsafeNonce_def s_bind_def on_world_def Let_def split: option.splits prod.splits result.splits)

lemma relay_work_locked:
  assumes "relay_work L I (c, x) s = (Inl (c', x'), s')"
  shows "FwdLocked (fst s') = FwdLocked (fst s)"
  using assms fwd_UnsafeNonce_locked [of L "forwarder I" s]
  by (cases x; cases c)
    (auto simp: on_world_def fwd_UnsafeIncreaseNonce_def split: prod.splits result.splits option.splits)

lemma relay_work_return:
  assumes "relay_work L I (c, x) s = (Inr r, s')"
  shows "relay_complete L I (c, x) s = (r, s') \<and> (\<not> is_panic r \<longrightarrow> \<not> FwdLocked (fst s'))"
  using assms
  by (cases x; cases c)
    (auto simp: relay_complete_def fwd_UnlockNonce_def is_panic_def split: prod.splits result.splits)

definition relay_alone ::
  "merge_options \<Rightarrow> eth_lib \<Rightarrow> 's itx_transactor \<Rightarrow> transact_call \<Rightarrow> fwd_state \<times> 's
   \<Rightarrow> hash result \<times> fwd_state \<times> 's" where
  "relay_alone mergo L I call = ITX_Transact mergo L I (fst call) (fst (snd call)) (snd (snd call))"

interpretation forwarder_lock: critical_section "relay_ops mergo L I" "relay_alone mergo L I"
  "relay_complete L I" "\<lambda>x. relay_left (snd x)" 5
  for mergo L and I :: "'s itx_transactor"
proof (unfold_locales, goal_cases)
  case (2 c s c' s')
  with relay_work_locked [of L I "fst c" "snd c" s "fst c'" "snd c'" s'] show ?case
    by (simp add: relay_ops_def)
next
  case (3 c s r s')
  with relay_work_return [of L I "fst c" "snd c" s r s'] show ?case by (simp add: relay_ops_def)
next
  case (4 a r s)
  then show ?case
    by (cases "MergeTransactionOptions mergo (snd (snd a)) itx_DefaultTransactionOptions")
      (auto simp: relay_ops_def relay_refuse_def relay_options_def relay_alone_def ITX_Transact_def
        split: prod.splits)
next
  case (5 a s c s')
  then show ?case
    by (cases "MergeTransactionOptions mergo (snd (snd a)) itx_DefaultTransactionOptions")
      (auto simp: relay_ops_def relay_refuse_def relay_enter_def relay_options_def relay_alone_def
        relay_complete_def ITX_Transact_def split: prod.splits result.splits)
next
  case (6 c s c' s')
  with relay_work_rest [of L I "fst c" "snd c" s "fst c'" "snd c'" s'] show ?case
    by (simp add: relay_ops_def relay_complete_def)
next
  case (7 c s r s')
  with relay_work_return [of L I "fst c" "snd c" s r s'] show ?case by (simp add: relay_ops_def)
next
  case (9 c s c' s')
  with relay_work_rest [of L I "fst c" "snd c" s "fst c'" "snd c'" s'] show ?case
    by (simp add: relay_ops_def)
qed (auto simp: relay_ops_def relay_enter_def fwd_LockNonce_def)

section \<open>Counting\<close>

lemma relay_free: "cs_free (relay_ops mergo L I) s = (\<not> FwdLocked (fst s))"
  by (simp add: relay_ops_def)

lemma relay_alone_counts:
  assumes "relay_alone mergo L I call s = (r, s')" and "FwdNonce (fst s) = Some n"
    and "\<not> FwdLocked (fst s)" and "\<And>p. r \<noteq> Panic p"
  shows "FwdNonce (fst s') = Some (if is_ok r then n + 1 else n) \<and> \<not> FwdLocked (fst s')"
proof -
  obtain to data opts st w st' w' where c: "call = (to, data, opts)" "s = (st, w)" "s' = (st', w')"
    by (metis surj_pair)
  show ?thesis
  proof (cases "mergo opts itx_DefaultTransactionOptions")
    case (Ok opts')
    with relay_counts [of st n mergo opts opts' L I to data w r st' w'] assms c show ?thesis
      by (simp add: relay_alone_def)
  qed (use assms c in \<open>auto simp: relay_alone_def ITX_Transact_def MergeTransactionOptions_def\<close>)
qed

lemma is_ok_iff: "is_ok r \<longleftrightarrow> (\<exists>x. r = Ok x)"
  by (cases r) auto

lemma relays_count:
  assumes "one_by_one (relay_alone mergo L I) calls is s = (rs, s')" and "FwdNonce (fst s) = Some n"
    and "\<not> FwdLocked (fst s)" and "\<And>i p. (i, Panic p) \<notin> set rs"
  shows "FwdNonce (fst s') = Some (n + int (length (filter (\<lambda>x. is_ok (snd x)) rs))) \<and> \<not> FwdLocked (fst s')"
  using assms
proof (induction "is" arbitrary: s n rs)
  case (Cons i "is")
  from Cons.prems(1) obtain r s1 rs' where one: "relay_alone mergo L I (calls ! i) s = (r, s1)"
    and rest: "one_by_one (relay_alone mergo L I) calls is s1 = (rs', s')" and rs: "rs = (i, r) # rs'"
    by (auto split: prod.splits)
  have no: "\<And>p. r \<noteq> Panic p" "\<And>i p. (i, Panic p) \<notin> set rs'" using Cons.prems(4) rs by auto
  from relay_alone_counts [OF one Cons.prems(2,3) no(1)] have
    "FwdNonce (fst s1) = Some (if is_ok r then n + 1 else n)" "\<not> FwdLocked (fst s1)" by simp_all
  from Cons.IH [OF rest this no(2)] rs show ?case by simp
qed simp

lemma length_filter_indexed:
  assumes "distinct (map fst rs)"
  shows "length (filter P rs) = card {i. \<exists>r. (i, r) \<in> set rs \<and> P (i, r)}"
proof -
  have "{i. \<exists>r. (i, r) \<in> set rs \<and> P (i, r)} = fst ` set (filter P rs)" by force
  moreover have "inj_on fst (set (filter P rs))"
    using assms by (auto simp: distinct_map intro: inj_on_subset)
  moreover have "distinct (filter P rs)" using assms by (simp add: distinct_map)
  ultimately show ?thesis by (metis card_image distinct_card)
qed

section \<open>Properties\<close>

text \<open>
  C16: goroutines that relay through one forwarder lose no count and count nothing twice: once
  none is inside the section, the forwarder nonce has advanced by the number of calls that
  succeeded, the lock is free, and the effect is that of some sequential order.
\<close>

theorem concurrent_relays_count_nonces:
  assumes "section_run (relay_ops mergo L I) (map Calling calls, s) es (ts, s')"
    and "FwdNonce (fst s) = Some n" and "\<not> FwdLocked (fst s)"
    and "\<And>x c. x \<in> set ts \<Longrightarrow> x \<noteq> Inside c" and "\<And>p. Returned (Panic p) \<notin> set ts"
  shows "FwdNonce (fst s') = Some (n + int (card {i. i < length calls \<and> (\<exists>h. ts ! i = Returned (Ok h))})) \<and>
    \<not> FwdLocked (fst s') \<and>
    (\<exists>rs. one_by_one (\<lambda>(to, data, opts). ITX_Transact mergo L I to data opts) calls (call_order es) s = (rs, s'))"
proof -
  from forwarder_lock.serializes [OF assms(1) _ assms(4)] assms(3) obtain rs where
    rs: "one_by_one (relay_alone mergo L I) calls (call_order es) s = (rs, s')" and
    order: "distinct (call_order es)" "set (call_order es) \<subseteq> {..<length calls}" and
    ts: "\<And>i r. i < length calls \<Longrightarrow> ts ! i = Returned r \<longleftrightarrow> (i, r) \<in> set rs"
    by (auto simp: relay_free)
  have fst_rs: "map fst rs = call_order es" using one_by_one_calls [OF rs] .
  then have index: "i < length calls" if "(i, r) \<in> set rs" for i r
    using that order(2) by (force simp flip: fst_rs)
  have "length ts = length calls" using section_run_length [OF assms(1)] by simp
  then have "(i, Panic p) \<notin> set rs" for i p
    using index ts assms(5) by (metis nth_mem)
  from relays_count [OF rs assms(2,3) this] have
    count: "FwdNonce (fst s') = Some (n + int (length (filter (\<lambda>x. is_ok (snd x)) rs))) \<and> \<not> FwdLocked (fst s')" .
  have "(\<exists>r. (i, r) \<in> set rs \<and> is_ok r) = (i < length calls \<and> (\<exists>h. ts ! i = Returned (Ok h)))" for i
    unfolding is_ok_iff using index ts by auto
  then have "length (filter (\<lambda>x. is_ok (snd x)) rs) = card {i. i < length calls \<and> (\<exists>h. ts ! i = Returned (Ok h))}"
    using length_filter_indexed [of rs "\<lambda>x. is_ok (snd x)"] order(1) fst_rs by simp
  moreover have "relay_alone mergo L I = (\<lambda>(to, data, opts). ITX_Transact mergo L I to data opts)"
    by (auto simp: fun_eq_iff relay_alone_def)
  ultimately show ?thesis using count rs by auto
qed

definition relay_calls :: "transact_call list" where
  "relay_calls = [(Some 3, [], no_options), (Some 3, [], no_options)]"

lemma both_relays_run:
  "\<exists>es. section_run (relay_ops example_merge L (example_itx memory_db))
     (map Calling relay_calls, (\<lparr>FwdNonce = Some 7, FwdLocked = False\<rparr>, Map.empty)) es
     ([Returned (Ok 9), Returned (Ok 9)],
      (\<lparr>FwdNonce = Some 9, FwdLocked = False\<rparr>, [nonce_key 5 \<mapsto> big_bytes_of 8, nonce_key 5 \<mapsto> big_bytes_of 9]))"
    (is "\<exists>es. section_run ?P ?x es ?z")
proof -
  let ?s1 = "(\<lparr>FwdNonce = Some 8, FwdLocked = False\<rparr>, [nonce_key 5 \<mapsto> big_bytes_of 8])"
  let ?ts1 = "[Calling (Some 3, [], no_options), Returned (Ok 9)]"
  have "alive is_panic (map Calling relay_calls)" "alive is_panic ?ts1"
    by (simp_all add: alive_def relay_calls_def is_panic_def)
  then have P: "alive (cs_crash ?P) (map Calling relay_calls)" "alive (cs_crash ?P) ?ts1"
    by (simp_all add: relay_ops_def)
  have "\<exists>es. section_run ?P ?x es ((map Calling relay_calls)[1 := Returned (Ok 9)], ?s1)"
    by (rule forwarder_lock.alone [OF P(1), where a = "(Some 3, [], no_options)"])
      (simp_all add: relay_calls_def relay_free relay_alone_def example_relays)
  then obtain es where es: "section_run ?P ?x es (?ts1, ?s1)"
    by (auto simp: relay_calls_def)
  have "\<exists>fs. section_run ?P (?ts1, ?s1) fs (?ts1[0 := Returned (Ok 9)],
      (\<lparr>FwdNonce = Some 9, FwdLocked = False\<rparr>, [nonce_key 5 \<mapsto> big_bytes_of 8, nonce_key 5 \<mapsto> big_bytes_of 9]))"
    by (rule forwarder_lock.alone [OF P(2), where a = "(Some 3, [], no_options)"]) (simp_all add: relay_free relay_alone_def example_relays)
  then obtain fs where "section_run ?P (?ts1, ?s1) fs ?z" by auto
  from section_run_trans [OF this es] show ?thesis ..
qed

theorem concurrent_relays_count_nonces_witness:
  "FwdNonce \<lparr>FwdNonce = Some 9, FwdLocked = False\<rparr> = Some (7 + int (card {i. i < length relay_calls \<and>
     (\<exists>h. [Returned (Ok 9), Returned (Ok 9)] ! i =
        (Returned (Ok h) :: (transact_call, transact_call \<times> relay_stage, hash result) thread))}))"
proof -
  from both_relays_run [of reference_lib] obtain es where run:
    "section_run (relay_ops example_merge reference_lib (example_itx memory_db))
     (map Calling relay_calls, (\<lparr>FwdNonce = Some 7, FwdLocked = False\<rparr>, Map.empty)) es
     ([Returned (Ok 9), Returned (Ok 9)],
      (\<lparr>FwdNonce = Some 9, FwdLocked = False\<rparr>, [nonce_key 5 \<mapsto> big_bytes_of 8, nonce_key 5 \<mapsto> big_bytes_of 9]))" ..
  from concurrent_relays_count_nonces [OF run, of 7] show ?thesis by auto
qed

end
