(* ===== verification/Pipeline.thy ===== *)
theory Pipeline
  imports Relayer Listener_Spec "HOL-Library.Multiset"
begin

text \<open>
  The goroutines of a running relayer. For every chain one goroutine listens and one runs
  \<open>PollEvents\<close> (\<open>chains/evm/chain.go\<close>, \<open>chains/substrate/chain.go\<close>): the listener offers its
  messages on a channel, \<open>PollEvents\<close> takes them one at a time and offers them to the
  relayer, whose loop (\<open>Start\<close> in \<open>relayer/relayer.go\<close>) starts a goroutine \<open>route\<close> for each.
  \<open>Run\<close> of the application waits for an error or a signal. All channels are unbuffered,
  so a message passes when sender and receiver meet, and closing \<open>stop\<close> lets every loop
  leave at its \<open>select\<close>, and only there. When \<open>Run\<close> returns the program ends, and with it
  every goroutine wherever it is.
\<close>

section \<open>Goroutines and channels\<close>

text \<open>
  What a listener does next: it goes on, offers a message on its channel, or panics.
  \<open>l_select\<close> holds where it looks at the \<open>stop\<close> channel.
\<close>

datatype 'l move = Goes 'l | Offers message 'l | Panics panic

record 'l listener_program =
  l_next :: "'l \<Rightarrow> 'l move"
  l_select :: "'l \<Rightarrow> bool"

datatype 'l producer = Listening 'l | Offering message 'l | Stopped 'l | Never_started

datatype poller = Polling | Forwarding message | Reporting error | Gone

text \<open>
  \<open>routing\<close> are the messages whose \<open>route\<close> has been launched and has not returned;
  \<open>run_error\<close> is the error \<open>Run\<close> has taken from the channel, after which it closes \<open>stop\<close>, and
  \<open>run_result\<close> is what it returned, if it did; \<open>received\<close> is a history of what the
  relayer's loop took, with the chain it came from, and \<open>routed\<close> one of the finished routes.
\<close>

record ('l, 's) relay_system =
  routines :: "('l producer \<times> poller) list"
  loop_running :: bool
  routing :: "message list"
  stop_closed :: bool
  run_error :: "error option"
  run_result :: "unit result option"
  crashed :: bool
  shared :: 's
  received :: "(nat \<times> message) list"
  routed :: "message list"

datatype relay_event =
    Advance nat
  | Offer nat
  | Hand_over nat
  | Deliver nat
  | Finish_route message
  | Report nat
  | Return
  | Signal
  | Quit_listening nat
  | Quit_polling nat
  | Quit_loop
  | Crash

text \<open>The program runs until a goroutine panics or \<open>Run\<close> returns.\<close>

definition running :: "('l, 's) relay_system \<Rightarrow> bool" where
  "running x \<longleftrightarrow> \<not> crashed x \<and> run_result x = None"

text \<open>
  One step of a running program, for the listeners \<open>progs\<close> and the effect \<open>rt\<close> of a route. A
  route takes effect when it returns.
\<close>

inductive relay_step ::
  "(nat \<Rightarrow> 'l listener_program) \<Rightarrow> (message \<Rightarrow> 's \<Rightarrow> unit result \<times> 's)
   \<Rightarrow> ('l, 's) relay_system \<Rightarrow> relay_event \<Rightarrow> ('l, 's) relay_system \<Rightarrow> bool"
  for progs :: "nat \<Rightarrow> 'l listener_program" and rt :: "message \<Rightarrow> 's \<Rightarrow> unit result \<times> 's" where
  advance: "\<lbrakk> running x; i < length (routines x); routines x ! i = (Listening l, p);
      l_select (progs i) l \<longrightarrow> \<not> stop_closed x; l_next (progs i) l = Goes l' \<rbrakk>
    \<Longrightarrow> relay_step progs rt x (Advance i) (x\<lparr>routines := (routines x)[i := (Listening l', p)]\<rparr>)"
| offer: "\<lbrakk> running x; i < length (routines x); routines x ! i = (Listening l, p);
      l_select (progs i) l \<longrightarrow> \<not> stop_closed x; l_next (progs i) l = Offers m l' \<rbrakk>
    \<Longrightarrow> relay_step progs rt x (Offer i) (x\<lparr>routines := (routines x)[i := (Offering m l', p)]\<rparr>)"
| hand_over: "\<lbrakk> running x; i < length (routines x); routines x ! i = (Offering m l, Polling) \<rbrakk>
    \<Longrightarrow> relay_step progs rt x (Hand_over i) (x\<lparr>routines := (routines x)[i := (Listening l, Forwarding m)]\<rparr>)"
| deliver: "\<lbrakk> running x; i < length (routines x); routines x ! i = (q, Forwarding m); loop_running x \<rbrakk>
    \<Longrightarrow> relay_step progs rt x (Deliver i)
          (x\<lparr>routines := (routines x)[i := (q, Polling)], routing := routing x @ [m],
             received := received x @ [(i, m)]\<rparr>)"
| finish_route: "\<lbrakk> running x; m \<in> set (routing x); rt m (shared x) = (Ok (), s') \<rbrakk>
    \<Longrightarrow> relay_step progs rt x (Finish_route m)
          (x\<lparr>routing := remove1 m (routing x), shared := s', routed := routed x @ [m]\<rparr>)"
| report: "\<lbrakk> running x; i < length (routines x); routines x ! i = (q, Reporting e); run_error x = None \<rbrakk>
    \<Longrightarrow> relay_step progs rt x (Report i)
          (x\<lparr>routines := (routines x)[i := (q, Gone)], run_error := Some e, stop_closed := True\<rparr>)"
| return_error: "\<lbrakk> running x; run_error x = Some e \<rbrakk>
    \<Longrightarrow> relay_step progs rt x Return (x\<lparr>run_result := Some (Err e)\<rparr>)"
| signal: "\<lbrakk> running x; run_error x = None \<rbrakk>
    \<Longrightarrow> relay_step progs rt x Signal (x\<lparr>run_result := Some (Ok ())\<rparr>)"
| quit_listening: "\<lbrakk> running x; i < length (routines x); routines x ! i = (Listening l, p);
      l_select (progs i) l; stop_closed x \<rbrakk>
    \<Longrightarrow> relay_step progs rt x (Quit_listening i) (x\<lparr>routines := (routines x)[i := (Stopped l, p)]\<rparr>)"
| quit_polling: "\<lbrakk> running x; i < length (routines x); routines x ! i = (q, Polling); stop_closed x \<rbrakk>
    \<Longrightarrow> relay_step progs rt x (Quit_polling i) (x\<lparr>routines := (routines x)[i := (q, Gone)]\<rparr>)"
| quit_loop: "\<lbrakk> running x; loop_running x; stop_closed x \<rbrakk>
    \<Longrightarrow> relay_step progs rt x Quit_loop (x\<lparr>loop_running := False\<rparr>)"
| listener_panics: "\<lbrakk> running x; i < length (routines x); routines x ! i = (Listening l, p);
      l_select (progs i) l \<longrightarrow> \<not> stop_closed x; l_next (progs i) l = Panics pn \<rbrakk>
    \<Longrightarrow> relay_step progs rt x Crash (x\<lparr>crashed := True\<rparr>)"
| route_panics: "\<lbrakk> running x; m \<in> set (routing x); rt m (shared x) = (Panic pn, s') \<rbrakk>
    \<Longrightarrow> relay_step progs rt x Crash (x\<lparr>crashed := True, shared := s'\<rparr>)"

inductive_cases relay_stepE: "relay_step progs rt x e y"

inductive relay_run ::
  "(nat \<Rightarrow> 'l listener_program) \<Rightarrow> (message \<Rightarrow> 's \<Rightarrow> unit result \<times> 's)
   \<Rightarrow> ('l, 's) relay_system \<Rightarrow> relay_event list \<Rightarrow> ('l, 's) relay_system \<Rightarrow> bool"
  for progs :: "nat \<Rightarrow> 'l listener_program" and rt :: "message \<Rightarrow> 's \<Rightarrow> unit result \<times> 's" where
  relay_start: "relay_run progs rt x [] x"
| relay_more: "relay_run progs rt x es y \<Longrightarrow> relay_step progs rt y e z \<Longrightarrow> relay_run progs rt x (es @ [e]) z"

text \<open>The steps as a function, panics left out, to run a given interleaving.\<close>

definition update_routine ::
  "nat \<Rightarrow> ('l producer \<times> poller \<Rightarrow> ('l producer \<times> poller) option) \<Rightarrow> ('l, 's) relay_system
   \<Rightarrow> ('l, 's) relay_system option" where
  "update_routine i f x =
     (if running x \<and> i < length (routines x)
      then map_option (\<lambda>r. x\<lparr>routines := (routines x)[i := r]\<rparr>) (f (routines x ! i)) else None)"

fun relay_perform ::
  "(nat \<Rightarrow> 'l listener_program) \<Rightarrow> (message \<Rightarrow> 's \<Rightarrow> unit result \<times> 's) \<Rightarrow> relay_event
   \<Rightarrow> ('l, 's) relay_system \<Rightarrow> ('l, 's) relay_system option" where
  "relay_perform progs rt (Advance i) x =
     update_routine i (\<lambda>r. case r of
         (Listening l, p) \<Rightarrow>
           (case l_next (progs i) l of
              Goes l' \<Rightarrow> if l_select (progs i) l \<and> stop_closed x then None else Some (Listening l', p)
            | _ \<Rightarrow> None)
       | _ \<Rightarrow> None) x"
| "relay_perform progs rt (Offer i) x =
     update_routine i (\<lambda>r. case r of
         (Listening l, p) \<Rightarrow>
           (case l_next (progs i) l of
              Offers m l' \<Rightarrow> if l_select (progs i) l \<and> stop_closed x then None else Some (Offering m l', p)
            | _ \<Rightarrow> None)
       | _ \<Rightarrow> None) x"
| "relay_perform progs rt (Hand_over i) x =
     update_routine i (\<lambda>r. case r of (Offering m l, Polling) \<Rightarrow> Some (Listening l, Forwarding m) | _ \<Rightarrow> None) x"
| "relay_perform progs rt (Deliver i) x =
     (case routines x ! i of
        (q, Forwarding m) \<Rightarrow>
          if loop_running x
          then map_option (\<lambda>y. y\<lparr>routing := routing x @ [m], received := received x @ [(i, m)]\<rparr>)
                 (update_routine i (\<lambda>r. Some (q, Polling)) x)
          else None
      | _ \<Rightarrow> None)"
| "relay_perform progs rt (Finish_route m) x =
     (if running x \<and> m \<in> set (routing x) then
        (case rt m (shared x) of
           (Ok _, s') \<Rightarrow> Some (x\<lparr>routing := remove1 m (routing x), shared := s', routed := routed x @ [m]\<rparr>)
         | _ \<Rightarrow> None)
      else None)"
| "relay_perform progs rt (Report i) x =
     (case routines x ! i of
        (q, Reporting e) \<Rightarrow>
          if run_error x = None
          then map_option (\<lambda>y. y\<lparr>run_error := Some e, stop_closed := True\<rparr>)
                 (update_routine i (\<lambda>r. Some (q, Gone)) x)
          else None
      | _ \<Rightarrow> None)"
| "relay_perform progs rt Return x =
     (case run_error x of
        Some e \<Rightarrow> if running x then Some (x\<lparr>run_result := Some (Err e)\<rparr>) else None
      | None \<Rightarrow> None)"
| "relay_perform progs rt Signal x =
     (if running x \<and> run_error x = None then Some (x\<lparr>run_result := Some (Ok ())\<rparr>) else None)"
| "relay_perform progs rt (Quit_listening i) x =
     update_routine i (\<lambda>r. case r of
         (Listening l, p) \<Rightarrow> if l_select (progs i) l \<and> stop_closed x then Some (Stopped l, p) else None
       | _ \<Rightarrow> None) x"
| "relay_perform progs rt (Quit_polling i) x =
     update_routine i (\<lambda>r. case r of
         (q, Polling) \<Rightarrow> if stop_closed x then Some (q, Gone) else None | _ \<Rightarrow> None) x"
| "relay_perform progs rt Quit_loop x =
     (if running x \<and> loop_running x \<and> stop_closed x then Some (x\<lparr>loop_running := False\<rparr>) else None)"
| "relay_perform progs rt Crash x = None"

fun relay_perform_all ::
  "(nat \<Rightarrow> 'l listener_program) \<Rightarrow> (message \<Rightarrow> 's \<Rightarrow> unit result \<times> 's) \<Rightarrow> relay_event list
   \<Rightarrow> ('l, 's) relay_system \<Rightarrow> ('l, 's) relay_system option" where
  "relay_perform_all progs rt [] x = Some x"
| "relay_perform_all progs rt (e # es) x =
     Option.bind (relay_perform progs rt e x) (relay_perform_all progs rt es)"

lemma relay_perform_step: "relay_perform progs rt e x = Some y \<Longrightarrow> relay_step progs rt x e y"
  by (cases e)
    (auto simp: update_routine_def split: if_splits prod.splits producer.splits poller.splits move.splits
      result.splits option.splits intro: relay_step.intros)

text \<open>How a relayer starts: each chain with its listener, or with the error it found instead.\<close>

definition starting :: "'l result list \<Rightarrow> 's \<Rightarrow> ('l, 's) relay_system" where
  "starting ls s =
     \<lparr> routines = map (\<lambda>r. case r of Ok l \<Rightarrow> (Listening l, Polling)
                            | Err e \<Rightarrow> (Never_started, Reporting e)
                            | Panic p \<Rightarrow> (Never_started, Gone)) ls,
       loop_running = True, routing = [], stop_closed = False, run_error = None, run_result = None,
       crashed = (\<exists>r \<in> set ls. case r of Panic p \<Rightarrow> True | _ \<Rightarrow> False), shared = s,
       received = [], routed = [] \<rparr>"

section \<open>Nothing lost, nothing twice\<close>

fun listener_state :: "'l producer \<Rightarrow> 'l option" where
  "listener_state (Listening l) = Some l"
| "listener_state (Offering m l) = Some l"
| "listener_state (Stopped l) = Some l"
| "listener_state Never_started = None"

fun in_flight :: "'l producer \<times> poller \<Rightarrow> message list" where
  "in_flight (q, p) =
     (case p of Forwarding m \<Rightarrow> [m] | _ \<Rightarrow> []) @ (case q of Offering m l \<Rightarrow> [m] | _ \<Rightarrow> [])"

definition received_from :: "nat \<Rightarrow> ('l, 's) relay_system \<Rightarrow> message list" where
  "received_from i x = map snd (filter (\<lambda>r. fst r = i) (received x))"

text \<open>The states a listener can come to, and with what offered on the way.\<close>

inductive comes_to :: "'l listener_program \<Rightarrow> 'l \<Rightarrow> message list \<Rightarrow> 'l \<Rightarrow> bool"
  for P :: "'l listener_program" where
  comes_start: "comes_to P l [] l"
| comes_goes: "comes_to P l ms l1 \<Longrightarrow> l_next P l1 = Goes l2 \<Longrightarrow> comes_to P l ms l2"
| comes_offers: "comes_to P l ms l1 \<Longrightarrow> l_next P l1 = Offers m l2 \<Longrightarrow> comes_to P l (ms @ [m]) l2"

text \<open>
  The conservation law of a chain: what its listener has offered is what the relayer has
  received from it, in the same order, and then what is in flight.
\<close>

fun conserving ::
  "'l listener_program \<Rightarrow> 'l result \<Rightarrow> message list \<Rightarrow> 'l producer \<times> poller \<Rightarrow> bool" where
  "conserving P start rec (q, p) =
     (case listener_state q of
        None \<Rightarrow> rec @ in_flight (q, p) = []
      | Some l \<Rightarrow> \<exists>l0. start = Ok l0 \<and> comes_to P l0 (rec @ in_flight (q, p)) l)"

definition conserved ::
  "(nat \<Rightarrow> 'l listener_program) \<Rightarrow> 'l result list \<Rightarrow> ('l, 's) relay_system \<Rightarrow> nat \<Rightarrow> bool" where
  "conserved progs ls x i \<longleftrightarrow> conserving (progs i) (ls ! i) (received_from i x) (routines x ! i)"

lemma received_from_simps [simp]:
  "received_from i (x\<lparr>routines := rs\<rparr>) = received_from i x"
  "received_from i (x\<lparr>routing := ms\<rparr>) = received_from i x"
  "received_from i (x\<lparr>crashed := b\<rparr>) = received_from i x"
  "received_from i (x\<lparr>shared := s\<rparr>) = received_from i x"
  "received_from i (x\<lparr>stop_closed := b\<rparr>) = received_from i x"
  "received_from i (x\<lparr>loop_running := b\<rparr>) = received_from i x"
  "received_from i (x\<lparr>run_error := err\<rparr>) = received_from i x"
  "received_from i (x\<lparr>run_result := r\<rparr>) = received_from i x"
  "received_from i (x\<lparr>routed := ms\<rparr>) = received_from i x"
  "received_from i (x\<lparr>received := h @ [(k, m)]\<rparr>) = map snd (filter (\<lambda>r. fst r = i) h) @ (if k = i then [m] else [])"
  "map snd (filter (\<lambda>r. fst r = i) (received x)) = received_from i x"
  by (simp_all add: received_from_def)

lemma relay_step_length: "relay_step progs rt x e y \<Longrightarrow> length (routines y) = length (routines x)"
  by (auto elim!: relay_stepE)

lemma conserved_step:
  assumes "relay_step progs rt x e y" and "i < length (routines x)" and "conserved progs ls x i"
  shows "conserved progs ls y i"
  using assms
proof cases
  case (advance k l p l')
  with assms show ?thesis
    by (cases "k = i") (auto simp: conserved_def intro: comes_goes)
next
  case (offer k l p m l')
  with assms show ?thesis
    by (cases "k = i") (auto simp: conserved_def intro: comes_offers simp flip: append_assoc)
next
  case (hand_over k m l)
  with assms show ?thesis
    by (cases "k = i") (auto simp: conserved_def)
next
  case (deliver k q m)
  with assms show ?thesis
    by (cases "k = i") (auto simp: conserved_def split: option.splits)
next
  case (report k q err)
  with assms show ?thesis
    by (cases "k = i") (auto simp: conserved_def split: option.splits)
next
  case (quit_listening k l p)
  with assms show ?thesis
    by (cases "k = i") (auto simp: conserved_def)
next
  case (quit_polling k q)
  with assms show ?thesis
    by (cases "k = i") (auto simp: conserved_def split: option.splits)
qed (auto simp: conserved_def split: option.splits)

lemma conserved_start:
  assumes "i < length ls"
  shows "conserved progs ls (starting ls s) i"
  using assms
  by (cases "ls ! i") (auto simp: conserved_def starting_def received_from_def intro: comes_start)

lemma conserved_run:
  assumes "relay_run progs rt (starting ls s) es x" and "i < length ls"
  shows "length (routines x) = length ls \<and> conserved progs ls x i"
  using assms(1)
proof (induction "starting ls s" es x rule: relay_run.induct)
  case relay_start
  then show ?case using conserved_start [OF assms(2)] by (simp add: starting_def)
next
  case (relay_more es y e z)
  then show ?case using relay_step_length conserved_step assms(2) by metis
qed

section \<open>Listeners\<close>

text \<open>
  The contract between a listener's goroutine and its polling loop as a function: from its
  \<open>select\<close> it is either through with a round of \<open>iterate\<close> when it is back there, or inside
  one, with \<open>rest\<close> still to do; and what it offers is what it counts as sent.
\<close>

locale listening =
  fixes P :: "'l listener_program"
    and iterate :: "'t \<Rightarrow> 'r result \<times> 't"
    and start :: "'t \<Rightarrow> 'l"
    and rest :: "'l \<Rightarrow> 'r result \<times> 't"
    and out :: "'l \<Rightarrow> message list"
  assumes select_start: "l_select P (start st)"
    and start_goes: "l_next P (start st) = Goes l' \<Longrightarrow>
      (\<exists>r st'. iterate st = (Ok r, st') \<and> l' = start st') \<or> (\<not> l_select P l' \<and> rest l' = iterate st)"
    and start_offers_nothing: "l_next P (start st) \<noteq> Offers m l'"
    and rest_goes: "\<lbrakk> \<not> l_select P l; l_next P l = Goes l' \<rbrakk> \<Longrightarrow>
      (\<exists>r st'. rest l = (Ok r, st') \<and> l' = start st') \<or> (\<not> l_select P l' \<and> rest l' = rest l)"
    and rest_offers: "\<lbrakk> \<not> l_select P l; l_next P l = Offers m l' \<rbrakk> \<Longrightarrow> \<not> l_select P l' \<and> rest l' = rest l"
    and out_goes: "l_next P l = Goes l' \<Longrightarrow> out l' = out l"
    and out_offers: "l_next P l = Offers m l' \<Longrightarrow> out l' = out l @ [m]"
begin

lemma next_round:
  "no_panic iterate n st \<Longrightarrow> iterate (run_state iterate n st) = (Ok r, st') \<Longrightarrow>
   no_panic iterate (Suc n) st \<and> run_state iterate (Suc n) st = st'"
proof (induction n arbitrary: st)
  case (Suc n)
  then obtain r1 st1 where it: "iterate st = (Ok r1, st1)" by (auto split: prod.splits result.splits)
  with Suc.IH [of st1] Suc.prems show ?case
    by (simp add: no_panic.simps(2) [of iterate "Suc n"] run_state.simps(2) [of iterate "Suc n"]
        del: no_panic.simps(2) run_state.simps(2)) (simp add: it)
qed simp

lemma comes_to_rounds:
  assumes "comes_to P (start st) ms l"
  shows "out l = out (start st) @ ms \<and>
    (\<exists>n. no_panic iterate n st \<and>
      (l = start (run_state iterate n st) \<or> (\<not> l_select P l \<and> rest l = iterate (run_state iterate n st))))"
  using assms
proof (induction "start st" ms l rule: comes_to.induct)
  case comes_start
  then show ?case by (auto intro!: exI [of _ 0])
next
  case (comes_goes ms l1 l2)
  then obtain n where n: "no_panic iterate n st"
    "l1 = start (run_state iterate n st) \<or> (\<not> l_select P l1 \<and> rest l1 = iterate (run_state iterate n st))"
    by blast
  have "(\<exists>r st'. iterate (run_state iterate n st) = (Ok r, st') \<and> l2 = start st') \<or>
      (\<not> l_select P l2 \<and> rest l2 = iterate (run_state iterate n st))"
    using n(2) start_goes rest_goes comes_goes.hyps(3) by metis
  with next_round [OF n(1)] n(1) comes_goes out_goes show ?case by metis
next
  case (comes_offers ms l1 m l2)
  then obtain n where n: "no_panic iterate n st"
    "l1 = start (run_state iterate n st) \<or> (\<not> l_select P l1 \<and> rest l1 = iterate (run_state iterate n st))"
    by blast
  then have "\<not> l_select P l2 \<and> rest l2 = iterate (run_state iterate n st)"
    using start_offers_nothing rest_offers comes_offers.hyps(3) by metis
  with n(1) comes_offers out_offers show ?case by (metis append_assoc)
qed

text \<open>
  In a running relayer: when the listener of chain \<open>i\<close> is back at its \<open>select\<close>, it has made
  some number of rounds, and the relayer has received all it sent but at most one message.
\<close>

lemma rounds_received:
  assumes "relay_run progs rt (starting ls s) es x" and "i < length ls" and "progs i = P"
    and "ls ! i = Ok (start st)" and "out (start st) = []"
    and "fst (routines x ! i) \<in> {Listening l, Stopped l}" and "l_select P l"
  shows "\<exists>n hand. no_panic iterate n st \<and> l = start (run_state iterate n st) \<and> length hand \<le> Suc 0 \<and>
    out l = received_from i x @ hand"
proof -
  obtain q p where qp: "routines x ! i = (q, p)" by fastforce
  with assms(6) have q: "q = Listening l \<or> q = Stopped l" by auto
  with conserved_run [OF assms(1,2)] assms(3,4) qp have
    come: "comes_to P (start st) (received_from i x @ in_flight (q, p)) l"
    by (auto simp: conserved_def)
  from comes_to_rounds [OF this] assms(5,7) obtain n where
    "no_panic iterate n st" "l = start (run_state iterate n st)" "out l = received_from i x @ in_flight (q, p)"
    by auto
  moreover have "length (in_flight (q, p)) \<le> Suc 0" using q by (cases p) auto
  ultimately show ?thesis by blast
qed

end

section \<open>Stopping\<close>

text \<open>
  \<open>stop\<close> is closed exactly when \<open>Run\<close> has taken an error, one that some chain reported at its
  start, and \<open>Run\<close> returns no other; a signal closes nothing. The relayer's loop and, for a
  chain that started, \<open>PollEvents\<close> run until then.
\<close>

definition stop_invariant :: "'l result list \<Rightarrow> ('l, 's) relay_system \<Rightarrow> bool" where
  "stop_invariant ls x \<longleftrightarrow>
     stop_closed x = (run_error x \<noteq> None) \<and> (loop_running x \<or> stop_closed x) \<and>
     (\<forall>i < length ls. \<forall>e. snd (routines x ! i) = Reporting e \<longrightarrow> ls ! i = Err e) \<and>
     (\<forall>e. run_error x = Some e \<longrightarrow> (\<exists>i < length ls. ls ! i = Err e)) \<and>
     (\<forall>e. run_result x = Some (Err e) \<longrightarrow> run_error x = Some e) \<and>
     (\<forall>i < length ls. \<forall>l. ls ! i = Ok l \<longrightarrow> \<not> stop_closed x \<longrightarrow>
        snd (routines x ! i) = Polling \<or> (\<exists>m. snd (routines x ! i) = Forwarding m))"

lemma stop_invariant_step:
  assumes "relay_step progs rt x e y" and "length (routines x) = length ls" and "stop_invariant ls x"
  shows "stop_invariant ls y"
  using assms
  by cases (auto simp: stop_invariant_def nth_list_update running_def split: if_splits) +

lemma stop_invariant_run:
  assumes "relay_run progs rt (starting ls s) es x"
  shows "length (routines x) = length ls \<and> stop_invariant ls x"
  using assms
proof (induction "starting ls s" es x rule: relay_run.induct)
  case relay_start
  show ?case by (auto simp: starting_def stop_invariant_def split: result.splits)
next
  case (relay_more es y e z)
  then show ?case using relay_step_length stop_invariant_step by metis
qed

section \<open>Routes\<close>

text \<open>Each received message is being routed or has been, once.\<close>

lemma routes_account_step:
  assumes "relay_step progs rt x e y" and "mset (map snd (received x)) = mset (routing x) + mset (routed x)"
  shows "mset (map snd (received y)) = mset (routing y) + mset (routed y)"
  using assms by cases (auto simp: insert_DiffM)

lemma routes_account:
  assumes "relay_run progs rt (starting ls s) es x"
  shows "mset (map snd (received x)) = mset (routing x) + mset (routed x)"
  using assms
proof (induction "starting ls s" es x rule: relay_run.induct)
  case relay_start
  show ?case by (simp add: starting_def)
qed (rule routes_account_step)

lemma relay_run_one: "relay_step progs rt x e y \<Longrightarrow> relay_run progs rt x [e] y"
  using relay_more [OF relay_start] by fastforce

lemma relay_run_trans:
  assumes "relay_run progs rt y fs z" and "relay_run progs rt x es y"
  shows "relay_run progs rt x (es @ fs) z"
  using assms
proof (induction rule: relay_run.induct)
  case (relay_more y fs y' e z)
  then show ?case using relay_run.relay_more [of progs rt x "es @ fs" y' e z] by simp
qed simp

lemma relay_perform_all_run: "relay_perform_all progs rt es x = Some y \<Longrightarrow> relay_run progs rt x es y"
proof (induction es arbitrary: x)
  case (Cons e es)
  then obtain z where "relay_perform progs rt e x = Some z" "relay_perform_all progs rt es z = Some y"
    by (auto simp: bind_eq_Some_conv)
  with Cons.IH relay_run_trans [OF _ relay_run_one [OF relay_perform_step]] show ?case by fastforce
qed (simp add: relay_start)

end
