(* ===== verification/Fair_Runs.thy ===== *)
theory Fair_Runs
  imports Pipeline
begin

text \<open>
  Infinite runs of the goroutines of \<open>Pipeline\<close>. A scheduler that is fair lets two goroutines
  that can meet on a channel for ever do so at some time, and a \<open>route\<close> that has been
  launched return at some time. Under it every message that a listener has sent reaches the
  relayer and is routed, unless the program ends.
\<close>

section \<open>Infinite runs and fairness\<close>

text \<open>The state at each time, and the step taken then, if one is.\<close>

definition relay_path ::
  "(nat \<Rightarrow> 'l listener_program) \<Rightarrow> (message \<Rightarrow> 's \<Rightarrow> unit result \<times> 's) \<Rightarrow> ('l, 's) relay_system
   \<Rightarrow> (nat \<Rightarrow> ('l, 's) relay_system) \<Rightarrow> (nat \<Rightarrow> relay_event option) \<Rightarrow> bool" where
  "relay_path progs rt x xs es \<longleftrightarrow>
     xs 0 = x \<and>
     (\<forall>n. case es n of None \<Rightarrow> xs (Suc n) = xs n | Some e \<Rightarrow> relay_step progs rt (xs n) e (xs (Suc n)))"

definition some_enabled ::
  "(nat \<Rightarrow> 'l listener_program) \<Rightarrow> (message \<Rightarrow> 's \<Rightarrow> unit result \<times> 's) \<Rightarrow> relay_event set
   \<Rightarrow> ('l, 's) relay_system \<Rightarrow> bool" where
  "some_enabled progs rt E x \<longleftrightarrow> (\<exists>e\<in>E. \<exists>y. relay_step progs rt x e y)"

text \<open>Weak fairness to a set of steps: it is not possible for ever without being taken.\<close>

definition weakly_fair ::
  "(nat \<Rightarrow> 'l listener_program) \<Rightarrow> (message \<Rightarrow> 's \<Rightarrow> unit result \<times> 's) \<Rightarrow> (nat \<Rightarrow> ('l, 's) relay_system)
   \<Rightarrow> (nat \<Rightarrow> relay_event option) \<Rightarrow> relay_event set \<Rightarrow> bool" where
  "weakly_fair progs rt xs es E \<longleftrightarrow>
     (\<forall>n. (\<forall>k\<ge>n. some_enabled progs rt E (xs k)) \<longrightarrow> (\<exists>k\<ge>n. \<exists>e\<in>E. es k = Some e))"

definition fair_scheduler ::
  "(nat \<Rightarrow> 'l listener_program) \<Rightarrow> (message \<Rightarrow> 's \<Rightarrow> unit result \<times> 's) \<Rightarrow> (nat \<Rightarrow> ('l, 's) relay_system)
   \<Rightarrow> (nat \<Rightarrow> relay_event option) \<Rightarrow> bool" where
  "fair_scheduler progs rt xs es \<longleftrightarrow>
     (\<forall>i. weakly_fair progs rt xs es {Hand_over i} \<and> weakly_fair progs rt xs es {Deliver i}) \<and>
     (\<forall>m. weakly_fair progs rt xs es {Finish_route m, Crash})"

text \<open>What stays possible until it is taken is taken.\<close>

lemma fair_taken:
  assumes "weakly_fair progs rt xs es E" and "P n"
    and enabled: "\<And>k. n \<le> k \<Longrightarrow> P k \<Longrightarrow> some_enabled progs rt E (xs k)"
    and stable: "\<And>k. n \<le> k \<Longrightarrow> P k \<Longrightarrow> (\<forall>e\<in>E. es k \<noteq> Some e) \<Longrightarrow> P (Suc k)"
  shows "\<exists>k\<ge>n. P k \<and> (\<exists>e\<in>E. es k = Some e)"
proof (rule ccontr)
  assume never: "\<not> ?thesis"
  have "P k" if "n \<le> k" for k
    using that
  proof (induction k rule: dec_induct)
    case (step k)
    with never stable show ?case by blast
  qed (rule assms(2))
  with enabled assms(1) never show False unfolding weakly_fair_def by blast
qed

section \<open>Runs that do not end\<close>

text \<open>The program has ended, or is about to: \<open>Run\<close> has taken an error.\<close>

definition ending :: "('l, 's) relay_system \<Rightarrow> bool" where
  "ending x \<longleftrightarrow> \<not> running x \<or> stop_closed x"

lemma path_run:
  assumes "relay_path progs rt x xs es"
  shows "\<exists>fs. relay_run progs rt x fs (xs n)"
proof (induction n)
  case 0
  then show ?case using assms relay_start by (auto simp: relay_path_def)
next
  case (Suc n)
  from assms have "case es n of None \<Rightarrow> xs (Suc n) = xs n | Some e \<Rightarrow> relay_step progs rt (xs n) e (xs (Suc n))"
    by (simp add: relay_path_def)
  with Suc relay_more show ?case by (cases "es n") fastforce+
qed

text \<open>What a listener has offered, in order: received by the relayer or still in flight.\<close>

definition offered :: "nat \<Rightarrow> ('l, 's) relay_system \<Rightarrow> message list" where
  "offered i x = received_from i x @ in_flight (routines x ! i)"

text \<open>A step that meets nobody's message at chain \<open>i\<close> leaves what is in flight there.\<close>

lemma forwarding_step:
  assumes "relay_step progs rt x e y" and "i < length (routines x)"
    and "snd (routines x ! i) = Forwarding m" and "e \<noteq> Deliver i"
  shows "snd (routines y ! i) = Forwarding m \<and> received_from i y = received_from i x"
  using assms
proof cases
  case (hand_over k m' l)
  with assms show ?thesis by (cases "k = i") auto
next
  case (deliver k q m')
  with assms show ?thesis by (cases "k = i") auto
next
  case (report k q err)
  with assms show ?thesis by (cases "k = i") auto
next
  case (quit_polling k q)
  with assms show ?thesis by (cases "k = i") auto
qed (auto simp: nth_list_update split: if_splits)

lemma offering_step:
  assumes "relay_step progs rt x e y" and "i < length (routines x)"
    and "routines x ! i = (Offering m l, Polling)" and "e \<noteq> Hand_over i" and "\<not> stop_closed x"
  shows "routines y ! i = (Offering m l, Polling) \<and> received_from i y = received_from i x"
  using assms by cases (auto simp: nth_list_update split: if_splits)

lemma deliver_step:
  assumes "relay_step progs rt x (Deliver i) y"
  shows "length (received_from i y) = Suc (length (received_from i x))"
  using assms by cases auto

lemma hand_over_step:
  assumes "relay_step progs rt x (Hand_over i) y"
  shows "\<exists>m. snd (routines y ! i) = Forwarding m \<and> received_from i y = received_from i x"
  using assms by cases auto

lemma offered_step:
  assumes "relay_step progs rt x e y" and "i < length (routines x)"
  shows "\<exists>ms. offered i y = offered i x @ ms"
  using assms
proof cases
  case (advance k l p l')
  with assms show ?thesis by (cases "k = i") (auto simp: offered_def)
next
  case (offer k l p m l')
  with assms show ?thesis by (cases "k = i") (auto simp: offered_def)
next
  case (hand_over k m l)
  with assms show ?thesis by (cases "k = i") (auto simp: offered_def)
next
  case (deliver k q m)
  with assms show ?thesis by (cases "k = i") (auto simp: offered_def)
next
  case (report k q err)
  with assms show ?thesis by (cases "k = i") (auto simp: offered_def)
next
  case (quit_listening k l p)
  with assms show ?thesis by (cases "k = i") (auto simp: offered_def)
next
  case (quit_polling k q)
  with assms show ?thesis by (cases "k = i") (auto simp: offered_def)
qed (auto simp: offered_def)

lemma routed_step:
  assumes "relay_step progs rt x e y" and "m \<in> set (routing x)" and "e \<noteq> Finish_route m"
  shows "m \<in> set (routing y)"
  using assms by cases (auto simp: in_set_remove1)

lemma finish_step: "relay_step progs rt x (Finish_route m) y \<Longrightarrow> routed y = routed x @ [m]"
  by (cases rule: relay_step.cases) auto

lemma crash_step: "relay_step progs rt x Crash y \<Longrightarrow> \<not> running y"
  by (cases rule: relay_step.cases) (auto simp: running_def)

lemma routed_grows:
  assumes "relay_step progs rt x e y"
  shows "mset (routed x) \<subseteq># mset (routed y) \<and> mset (received x) \<subseteq># mset (received y)"
  using assms by cases auto

section \<open>Every message is received\<close>

text \<open>A fair run from the start that never comes to its end, with routes that only log their errors.\<close>

definition lasting ::
  "(nat \<Rightarrow> 'l listener_program) \<Rightarrow> (message \<Rightarrow> 's \<Rightarrow> unit result \<times> 's) \<Rightarrow> 'l result list \<Rightarrow> 's
   \<Rightarrow> (nat \<Rightarrow> ('l, 's) relay_system) \<Rightarrow> (nat \<Rightarrow> relay_event option) \<Rightarrow> bool" where
  "lasting progs rt ls s xs es \<longleftrightarrow>
     relay_path progs rt (starting ls s) xs es \<and> fair_scheduler progs rt xs es \<and>
     (\<forall>k. \<not> ending (xs k)) \<and> (\<forall>m t e. fst (rt m t) \<noteq> Err e)"

lemma lasting_step:
  assumes "lasting progs rt ls s xs es"
  shows "xs (Suc n) = xs n \<or> (\<exists>e. es n = Some e \<and> relay_step progs rt (xs n) e (xs (Suc n)))"
    and "es n = Some e \<Longrightarrow> relay_step progs rt (xs n) e (xs (Suc n))"
proof -
  from assms have "case es n of None \<Rightarrow> xs (Suc n) = xs n | Some e \<Rightarrow> relay_step progs rt (xs n) e (xs (Suc n))"
    by (simp add: lasting_def relay_path_def)
  then show "xs (Suc n) = xs n \<or> (\<exists>e. es n = Some e \<and> relay_step progs rt (xs n) e (xs (Suc n)))"
    and "es n = Some e \<Longrightarrow> relay_step progs rt (xs n) e (xs (Suc n))"
    by (auto split: option.splits)
qed

lemma lasting_fair:
  assumes "lasting progs rt ls s xs es"
  shows "weakly_fair progs rt xs es {Hand_over i}" "weakly_fair progs rt xs es {Deliver i}"
    "weakly_fair progs rt xs es {Finish_route m, Crash}"
  using assms by (auto simp: lasting_def fair_scheduler_def)

lemma lasting_state:
  assumes "lasting progs rt ls s xs es"
  shows "running (xs n)" "\<not> stop_closed (xs n)" "loop_running (xs n)" "length (routines (xs n)) = length ls"
    "i < length ls \<Longrightarrow> ls ! i = Ok l \<Longrightarrow>
       snd (routines (xs n) ! i) = Polling \<or> (\<exists>m. snd (routines (xs n) ! i) = Forwarding m)"
    "mset (map snd (received (xs n))) = mset (routing (xs n)) + mset (routed (xs n))"
proof -
  from assms have "relay_path progs rt (starting ls s) xs es" by (simp add: lasting_def)
  from path_run [OF this] obtain fs where run: "relay_run progs rt (starting ls s) fs (xs n)" by blast
  from assms show alive: "running (xs n)" "\<not> stop_closed (xs n)" by (simp_all add: lasting_def ending_def)
  from stop_invariant_run [OF run] alive show "loop_running (xs n)" "length (routines (xs n)) = length ls"
    "i < length ls \<Longrightarrow> ls ! i = Ok l \<Longrightarrow>
       snd (routines (xs n) ! i) = Polling \<or> (\<exists>m. snd (routines (xs n) ! i) = Forwarding m)"
    by (auto simp: stop_invariant_def)
  from routes_account [OF run] show
    "mset (map snd (received (xs n))) = mset (routing (xs n)) + mset (routed (xs n))" .
qed

lemma forwarded_received:
  assumes "lasting progs rt ls s xs es" and "i < length ls" and "snd (routines (xs n) ! i) = Forwarding m"
  shows "\<exists>k\<ge>n. length (received_from i (xs n)) < length (received_from i (xs k))"
proof -
  define P where "P k \<longleftrightarrow> snd (routines (xs k) ! i) = Forwarding m \<and>
      received_from i (xs k) = received_from i (xs n)" for k
  note state = lasting_state [OF assms(1)]
  have "some_enabled progs rt {Deliver i} (xs k)" if "P k" for k
  proof -
    from that have "snd (routines (xs k) ! i) = Forwarding m" by (simp add: P_def)
    then obtain q where "routines (xs k) ! i = (q, Forwarding m)" by (metis prod.collapse)
    from deliver [OF state(1) _ this state(3)] state(4) [of k] assms(2) show ?thesis
      by (auto simp: some_enabled_def)
  qed
  moreover have "P (Suc k)" if "P k" "\<forall>e\<in>{Deliver i}. es k \<noteq> Some e" for k
    using lasting_step(1) [OF assms(1), of k] forwarding_step [of progs rt "xs k" _ "xs (Suc k)" i m]
      that state(4) [of k] assms(2) unfolding P_def by fastforce
  moreover have "P n" using assms(3) by (simp add: P_def)
  ultimately obtain k where k: "n \<le> k" "P k" "es k = Some (Deliver i)"
    using fair_taken [OF lasting_fair(2) [OF assms(1)], of P n] by blast
  from deliver_step [OF lasting_step(2) [OF assms(1) k(3)]] k(1,2) show ?thesis
    by (intro exI [of _ "Suc k"]) (simp add: P_def)
qed

lemma flight_received:
  assumes "lasting progs rt ls s xs es" and "i < length ls" and "ls ! i = Ok l0"
    and "in_flight (routines (xs n) ! i) \<noteq> []"
  shows "\<exists>k\<ge>n. length (received_from i (xs n)) < length (received_from i (xs k))"
proof (cases "\<exists>m. snd (routines (xs n) ! i) = Forwarding m")
  case True
  with forwarded_received [OF assms(1,2)] show ?thesis by blast
next
  case False
  note state = lasting_state [OF assms(1)]
  obtain q p where qp: "routines (xs n) ! i = (q, p)" by fastforce
  with False state(5) [OF assms(2,3), of n] have "p = Polling" by auto
  with qp assms(4) obtain m l where start: "routines (xs n) ! i = (Offering m l, Polling)"
    by (cases q) auto
  define P where "P k \<longleftrightarrow> routines (xs k) ! i = (Offering m l, Polling) \<and>
      received_from i (xs k) = received_from i (xs n)" for k
  have "some_enabled progs rt {Hand_over i} (xs k)" if "P k" for k
    using hand_over [OF state(1) [of k], of i m l] that state(4) [of k] assms(2)
    by (auto simp: some_enabled_def P_def)
  moreover have "P (Suc k)" if "P k" "\<forall>e\<in>{Hand_over i}. es k \<noteq> Some e" for k
    using lasting_step(1) [OF assms(1), of k] offering_step [of progs rt "xs k" _ "xs (Suc k)" i m l]
      that state(2,4) [of k] assms(2) unfolding P_def by fastforce
  moreover have "P n" using start by (simp add: P_def)
  ultimately obtain k where k: "n \<le> k" "P k" "es k = Some (Hand_over i)"
    using fair_taken [OF lasting_fair(1) [OF assms(1)], of P n] by blast
  from hand_over_step [OF lasting_step(2) [OF assms(1) k(3)]] k(2) obtain m' where
    "snd (routines (xs (Suc k)) ! i) = Forwarding m'" "received_from i (xs (Suc k)) = received_from i (xs n)"
    by (auto simp: P_def)
  with forwarded_received [OF assms(1,2)] k(1) show ?thesis by (metis Suc_leD le_trans)
qed

lemma offered_grows:
  assumes "lasting progs rt ls s xs es" and "i < length ls" and "n \<le> k"
  shows "\<exists>ms. offered i (xs k) = offered i (xs n) @ ms"
  using assms(3)
proof (induction k rule: dec_induct)
  case (step k)
  then obtain ms where "offered i (xs k) = offered i (xs n) @ ms" by blast
  moreover have "\<exists>ms. offered i (xs (Suc k)) = offered i (xs k) @ ms"
    using lasting_step(1) [OF assms(1), of k] offered_step [of progs rt "xs k" _ "xs (Suc k)" i]
      lasting_state(4) [OF assms(1), of k] assms(2) by fastforce
  ultimately show ?case by auto
qed simp

lemma offered_received:
  assumes "lasting progs rt ls s xs es" and "i < length ls" and "ls ! i = Ok l0"
  shows "\<exists>k\<ge>n. \<exists>ms. received_from i (xs k) = offered i (xs n) @ ms"
proof -
  have "\<exists>k'\<ge>n. length (offered i (xs n)) \<le> length (received_from i (xs k'))" if "n \<le> k" for k
    using that
  proof (induction "length (offered i (xs n)) - length (received_from i (xs k))" arbitrary: k rule: less_induct)
    case less
    show ?case
    proof (cases "length (offered i (xs n)) \<le> length (received_from i (xs k))")
      case False
      from offered_grows [OF assms(1,2) less.prems] obtain ms where
        "received_from i (xs k) @ in_flight (routines (xs k) ! i) = offered i (xs n) @ ms"
        by (auto simp: offered_def)
      then have "length (received_from i (xs k)) + length (in_flight (routines (xs k) ! i))
          = length (offered i (xs n)) + length ms" by (metis length_append)
      with False have "in_flight (routines (xs k) ! i) \<noteq> []" by auto
      from flight_received [OF assms this] obtain k' where
        "k \<le> k'" "length (received_from i (xs k)) < length (received_from i (xs k'))" by blast
      with less.hyps [of k'] less.prems False show ?thesis by fastforce
    qed (use less.prems in blast)
  qed
  then obtain k where k: "n \<le> k" "length (offered i (xs n)) \<le> length (received_from i (xs k))" by blast
  from offered_grows [OF assms(1,2) k(1)] obtain ms where
    "received_from i (xs k) @ in_flight (routines (xs k) ! i) = offered i (xs n) @ ms"
    by (auto simp: offered_def)
  with k(2) have "received_from i (xs k) = offered i (xs n) @ drop (length (offered i (xs n))) (received_from i (xs k))"
    by (metis append_eq_append_conv_if append_take_drop_id)
  with k(1) show ?thesis by blast
qed

section \<open>Every message is routed\<close>

lemma routed_later:
  assumes "lasting progs rt ls s xs es" and "n \<le> k"
  shows "mset (routed (xs n)) \<subseteq># mset (routed (xs k)) \<and> mset (received (xs n)) \<subseteq># mset (received (xs k))"
  using assms(2)
proof (induction k rule: dec_induct)
  case (step k)
  have "mset (routed (xs k)) \<subseteq># mset (routed (xs (Suc k))) \<and> mset (received (xs k)) \<subseteq># mset (received (xs (Suc k)))"
    using lasting_step(1) [OF assms(1), of k] by (auto dest: routed_grows)
  then show ?case
    by (elim conjE) (intro conjI subset_mset.order_trans [OF conjunct1 [OF step.IH]]
        subset_mset.order_trans [OF conjunct2 [OF step.IH]])
qed simp

lemma route_finishes:
  assumes "lasting progs rt ls s xs es" and "m \<in> set (routing (xs n))"
  shows "\<exists>k\<ge>n. count (mset (routed (xs n))) m < count (mset (routed (xs k))) m"
proof -
  note state = lasting_state [OF assms(1)]
  define P where "P k \<longleftrightarrow> m \<in> set (routing (xs k))" for k
  have "some_enabled progs rt {Finish_route m, Crash} (xs k)" if "P k" for k
  proof -
    obtain r t where r: "rt m (shared (xs k)) = (r, t)" by fastforce
    with assms(1) have "r \<noteq> Err e" for e unfolding lasting_def by (metis fst_conv)
    then show ?thesis
      using finish_route [OF state(1), of m k rt t progs] route_panics [OF state(1), of m k rt _ t progs] r that
      by (cases r) (auto simp: some_enabled_def P_def)
  qed
  moreover have "P (Suc k)" if "P k" "\<forall>e\<in>{Finish_route m, Crash}. es k \<noteq> Some e" for k
    using lasting_step(1) [OF assms(1), of k] routed_step [of progs rt "xs k" _ "xs (Suc k)" m] that
    unfolding P_def by fastforce
  moreover have "P n" using assms(2) by (simp add: P_def)
  ultimately have "\<exists>k\<ge>n. P k \<and> (\<exists>e\<in>{Finish_route m, Crash}. es k = Some e)"
    by (intro fair_taken [OF lasting_fair(3) [OF assms(1)]])
  then obtain k e where k: "n \<le> k" "e \<in> {Finish_route m, Crash}" "es k = Some e" by blast
  note step = lasting_step(2) [OF assms(1) k(3)]
  have "e \<noteq> Crash" using step state(1) crash_step by blast
  with k(2) step have "e = Finish_route m" by simp
  from finish_step [OF step [unfolded this]] have
    "count (mset (routed (xs (Suc k)))) m = Suc (count (mset (routed (xs k))) m)" by simp
  moreover have "count (mset (routed (xs n))) m \<le> count (mset (routed (xs k))) m"
    by (rule mset_subset_eq_count [OF conjunct1 [OF routed_later [OF assms(1) k(1)]]])
  ultimately have "count (mset (routed (xs n))) m < count (mset (routed (xs (Suc k)))) m" by linarith
  with k(1) show ?thesis by (intro exI [of _ "Suc k"]) simp
qed

lemma add_mset_subseteq:
  assumes "M \<subseteq># R" and "count M m < count R m"
  shows "add_mset m M \<subseteq># R"
proof (rule mset_subset_eqI)
  fix a
  show "count (add_mset m M) a \<le> count R a"
    using mset_subset_eq_count [OF assms(1), of a] assms(2) by auto
qed

lemma received_routed:
  assumes "lasting progs rt ls s xs es" and "M \<subseteq># mset (map snd (received (xs n)))"
  shows "\<exists>k\<ge>n. M \<subseteq># mset (routed (xs k))"
  using assms(2)
proof (induction M)
  case (add m M)
  then have "M \<subseteq># mset (map snd (received (xs n)))" by (auto dest: mset_subset_eq_insertD)
  with add.IH obtain k where k: "n \<le> k" "M \<subseteq># mset (routed (xs k))" by blast
  show ?case
  proof (cases "count M m < count (mset (routed (xs k))) m")
    case True
    with k show ?thesis by (intro exI [of _ k] conjI add_mset_subseteq)
  next
    case False
    have "mset (map snd (received (xs n))) \<subseteq># mset (map snd (received (xs k)))"
      using routed_later [OF assms(1) k(1)] by (metis image_mset_subseteq_mono mset_map)
    with add.prems have "add_mset m M \<subseteq># mset (routing (xs k)) + mset (routed (xs k))"
      unfolding lasting_state(6) [OF assms(1), symmetric] by (rule subset_mset.order_trans)
    from mset_subset_eq_count [OF this, of m] have
      "Suc (count M m) \<le> count (mset (routing (xs k))) m + count (mset (routed (xs k))) m"
      by (simp only: count_add_mset count_union if_True simp_thms)
    with False have "0 < count (mset (routing (xs k))) m" by linarith
    then have "m \<in> set (routing (xs k))" by (metis count_greater_zero_iff set_mset_mset)
    from route_finishes [OF assms(1) this] obtain k' where
      k': "k \<le> k'" "count (mset (routed (xs k))) m < count (mset (routed (xs k'))) m" by blast
    have "M \<subseteq># mset (routed (xs k'))"
      using k(2) conjunct1 [OF routed_later [OF assms(1) k'(1)]] by (rule subset_mset.order_trans)
    moreover have "count M m < count (mset (routed (xs k'))) m"
      using mset_subset_eq_count [OF k(2), of m] k'(2) by linarith
    ultimately have "add_mset m M \<subseteq># mset (routed (xs k'))" by (rule add_mset_subseteq)
    with le_trans [OF k(1) k'(1)] show ?thesis by blast
  qed
qed auto

lemma offered_routed:
  assumes "lasting progs rt ls s xs es" and "i < length ls" and "ls ! i = Ok l0"
  shows "\<exists>k\<ge>n. mset (offered i (xs n)) \<subseteq># mset (routed (xs k))"
proof -
  from offered_received [OF assms] obtain k ms where
    k: "n \<le> k" "received_from i (xs k) = offered i (xs n) @ ms" by blast
  have "mset (received_from i (xs k)) \<subseteq># mset (map snd (received (xs k)))"
    unfolding received_from_def mset_map by (intro image_mset_subseteq_mono) (simp add: mset_filter)
  with k(2) have "mset (offered i (xs n)) \<subseteq># mset (map snd (received (xs k)))"
    by (metis mset_append mset_subset_eq_add_left subset_mset.order_trans)
  from received_routed [OF assms(1) this] k(1) show ?thesis by (meson order_trans)
qed

section \<open>Runs that come to rest\<close>

text \<open>A finite run that ends where nothing more must happen, as an infinite one.\<close>

lemma ending_step: "relay_step progs rt x e y \<Longrightarrow> running x \<and> (stop_closed x \<longrightarrow> stop_closed y)"
  by (cases rule: relay_step.cases) auto

lemma path_ending:
  assumes "relay_path progs rt x xs es" and "ending (xs k)"
  shows "ending (xs (j + k))"
proof (induction j)
  case (Suc j)
  from assms(1) have
    "case es (j + k) of None \<Rightarrow> xs (Suc (j + k)) = xs (j + k)
     | Some e \<Rightarrow> relay_step progs rt (xs (j + k)) e (xs (Suc (j + k)))" by (simp add: relay_path_def)
  with Suc show ?case by (auto simp: ending_def dest: ending_step split: option.splits)
qed (simp add: assms(2))

definition settled_path ::
  "(nat \<Rightarrow> 'l listener_program) \<Rightarrow> (message \<Rightarrow> 's \<Rightarrow> unit result \<times> 's) \<Rightarrow> ('l, 's) relay_system
   \<Rightarrow> relay_event list \<Rightarrow> nat \<Rightarrow> ('l, 's) relay_system" where
  "settled_path progs rt x evs n = the (relay_perform_all progs rt (take n evs) x)"

lemma relay_perform_all_append:
  "relay_perform_all progs rt (es @ fs) x
   = Option.bind (relay_perform_all progs rt es x) (relay_perform_all progs rt fs)"
  by (induction es arbitrary: x) (simp_all split: Option.bind_split)

lemma settled_path_end:
  assumes "relay_perform_all progs rt evs x = Some y" and "length evs \<le> n"
  shows "settled_path progs rt x evs n = y"
  using assms by (simp add: settled_path_def)

lemma settled_path_is_path:
  assumes "relay_perform_all progs rt evs x = Some y"
  shows "relay_path progs rt x (settled_path progs rt x evs) (\<lambda>n. if n < length evs then Some (evs ! n) else None)"
proof -
  have "relay_step progs rt (settled_path progs rt x evs n) (evs ! n) (settled_path progs rt x evs (Suc n))"
    if "n < length evs" for n
  proof -
    from that have "evs = take n evs @ evs ! n # drop (Suc n) evs" by (simp add: id_take_nth_drop)
    with assms have "relay_perform_all progs rt (take n evs @ evs ! n # drop (Suc n) evs) x = Some y" by simp
    then obtain u v where "relay_perform_all progs rt (take n evs) x = Some u"
      "relay_perform progs rt (evs ! n) u = Some v"
      by (auto simp: relay_perform_all_append bind_eq_Some_conv)
    with that show ?thesis
      by (simp add: settled_path_def take_Suc_conv_app_nth relay_perform_all_append relay_perform_step)
  qed
  moreover have "settled_path progs rt x evs (Suc n) = settled_path progs rt x evs n" if "length evs \<le> n" for n
    using that by (simp add: settled_path_def)
  ultimately show ?thesis by (simp add: relay_path_def) (simp add: settled_path_def)
qed

lemma settled_path_fair:
  assumes "relay_perform_all progs rt evs x = Some y"
    and "\<And>i. \<not> some_enabled progs rt {Hand_over i} y" "\<And>i. \<not> some_enabled progs rt {Deliver i} y"
    and "\<And>m. \<not> some_enabled progs rt {Finish_route m, Crash} y"
  shows "fair_scheduler progs rt (settled_path progs rt x evs) es"
proof -
  have "weakly_fair progs rt (settled_path progs rt x evs) es E" if "\<not> some_enabled progs rt E y" for E
    unfolding weakly_fair_def
    using that settled_path_end [OF assms(1)] by (metis nle_le)
  with assms(2-4) show ?thesis by (simp add: fair_scheduler_def)
qed

end
