(* ===== verification/Running_Relayer.thy ===== *)
theory Running_Relayer
  imports Fair_Runs App Substrate_Writer
begin

text \<open>
  The relayer of the example application, running: the goroutines of the EVM listener
  (\<open>chains/evm/listener/listener.go\<close>) and of the substrate listener
  (\<open>chains/substrate/listener/listener.go\<close>) cut at the calls that may block, \<open>PollEvents\<close> up to
  its loop, and \<open>Run\<close> (\<open>e2e/evm-evm/example/app/app.go\<close>) from the start of the relayer to the
  end of the program. The properties follow deposits from the chain to the routes.
\<close>

section \<open>The EVM listener as a goroutine\<close>

text \<open>Inside a round: the logs still to handle, and the range they are from.\<close>

datatype evm_stage = Selecting | Handling "deposit_logs_enriched list" int int

fun evm_next ::
  "'w evm_listener \<Rightarrow> 'w key_value \<Rightarrow> int \<Rightarrow> u8 \<Rightarrow> evm_stage \<times> 'w listen_state
   \<Rightarrow> (evm_stage \<times> 'w listen_state) move" where
  "evm_next l db blockDelay domainID (Selecting, st) =
     (case chain_LatestBlock l (world st) of
        (Panic p, w) \<Rightarrow> Panics p
      | (Err e, w) \<Rightarrow> Goes (Selecting, st\<lparr>world := w\<rparr>)
      | (Ok head, w) \<Rightarrow>
         let start = (case startBlock st of None \<Rightarrow> head | Some s \<Rightarrow> s);
             st1 = st\<lparr>startBlock := Some start, world := w\<rparr>
         in
         (case block_window head start blockDelay of
            None \<Rightarrow> Goes (Selecting, st1)
          | Some endBlock \<Rightarrow>
             (case chain_FetchDepositLogs l (bridgeAddress l) start endBlock w of
                (Panic p, w2) \<Rightarrow> Panics p
              | (Err e, w2) \<Rightarrow> Goes (Selecting, st1\<lparr>world := w2\<rparr>)
              | (Ok logs, w2) \<Rightarrow> Goes (Handling logs start endBlock, st1\<lparr>world := w2\<rparr>))))"
| "evm_next l db blockDelay domainID (Handling (x # xs) start endBlock, st) =
     (case eventHandler l domainID (DestinationDomainID x) (LogDepositNonce x) (ResourceID x)
             (LogData x) (HandlerResponse x) (LogDepositTxHash x) (LogDepositBlock x) (world st) of
        (Ok m, w) \<Rightarrow> Offers m (Handling xs start endBlock, st\<lparr>sent := sent st @ [m], world := w\<rparr>)
      | (Err e, w) \<Rightarrow> Goes (Handling xs start endBlock, st\<lparr>world := w\<rparr>)
      | (Panic p, w) \<Rightarrow> Panics p)"
| "evm_next l db blockDelay domainID (Handling [] start endBlock, st) =
     (case finish_range db domainID start endBlock st of
        (Panic p, st') \<Rightarrow> Panics p
      | (_, st') \<Rightarrow> Goes (Selecting, st'))"

definition evm_program ::
  "'w evm_listener \<Rightarrow> 'w key_value \<Rightarrow> int \<Rightarrow> u8 \<Rightarrow> (evm_stage \<times> 'w listen_state) listener_program" where
  "evm_program l db blockDelay domainID =
     \<lparr> l_next = evm_next l db blockDelay domainID, l_select = (\<lambda>x. fst x = Selecting) \<rparr>"

fun evm_rest ::
  "'w evm_listener \<Rightarrow> 'w key_value \<Rightarrow> int \<Rightarrow> u8 \<Rightarrow> evm_stage \<times> 'w listen_state
   \<Rightarrow> (int \<times> int) option result \<times> 'w listen_state" where
  "evm_rest l db delay d (Selecting, st) = listen_iteration l db delay d st"
| "evm_rest l db delay d (Handling xs s e, st) =
     s_bind (handle_logs l d xs) (\<lambda>_. finish_range db d s e) st"

interpretation evm_listening: listening "evm_program l db delay d" "listen_iteration l db delay d"
  "Pair Selecting" "evm_rest l db delay d" "\<lambda>x. sent (snd x)"
  for l :: "'w evm_listener" and db delay d
proof (unfold_locales, goal_cases)
  case (2 st l')
  then show ?case
    by (auto simp: evm_program_def listen_iteration_def Let_def
        split: prod.splits result.splits option.splits)
next
  case (4 x y)
  obtain stage st where "x = (stage, st)" by fastforce
  then obtain xs s e where x: "x = (Handling xs s e, st)" using 4 by (cases stage) (auto simp: evm_program_def)
  show ?case
    using 4 x by (cases xs) (auto simp: evm_program_def s_bind_def split: prod.splits result.splits)
next
  case (5 x m y)
  obtain stage st where "x = (stage, st)" by fastforce
  then obtain xs s e where x: "x = (Handling xs s e, st)" using 5 by (cases stage) (auto simp: evm_program_def)
  show ?case
    using 5 x by (cases xs) (auto simp: evm_program_def s_bind_def split: prod.splits result.splits)
next
  case (6 x y)
  then show ?case
    by (auto simp: evm_program_def Let_def elim!: evm_next.elims
        split: prod.splits result.splits option.splits dest!: finish_range_Ok)
next
  case (7 x m y)
  then show ?case
    by (auto simp: evm_program_def Let_def elim!: evm_next.elims
        split: prod.splits result.splits option.splits)
qed (auto simp: evm_program_def Let_def split: prod.splits result.splits option.splits)

section \<open>The substrate listener as a goroutine\<close>

datatype substrate_stage = At_select | Sending_block "message list" int

fun substrate_next ::
  "'w substrate_listener \<Rightarrow> 'w key_value \<Rightarrow> u8 \<Rightarrow> substrate_stage \<times> 'w listen_state
   \<Rightarrow> (substrate_stage \<times> 'w listen_state) move" where
  "substrate_next l db domainID (At_select, st) =
     (case GetHeaderLatest (sl_client l) (world st) of
        (Panic p, w) \<Rightarrow> Panics p
      | (Err e, w) \<Rightarrow> Goes (At_select, st\<lparr>world := w\<rparr>)
      | (Ok number, w) \<Rightarrow>
         let start = (case startBlock st of None \<Rightarrow> uint number | Some s \<Rightarrow> s);
             st1 = st\<lparr>startBlock := Some start, world := w\<rparr>
         in
         if start > uint number then Goes (At_select, st1)
         else
           (case GetBlockHash (sl_client l) (big_uint64 start) w of
              (Panic p, w2) \<Rightarrow> Panics p
            | (Err e, w2) \<Rightarrow> Goes (At_select, st1\<lparr>world := w2\<rparr>)
            | (Ok hash, w2) \<Rightarrow>
               (case GetBlockEvents (sl_client l) hash w2 of
                  (Panic p, w3) \<Rightarrow> Panics p
                | (Err e, w3) \<Rightarrow> Goes (At_select, st1\<lparr>world := w3\<rparr>)
                | (Ok evts, w3) \<Rightarrow>
                   (case handleEvents l domainID evts w3 of
                      (Panic p, w4) \<Rightarrow> Panics p
                    | (r, w4) \<Rightarrow> Goes (Sending_block (block_messages r) start, st1\<lparr>world := w4\<rparr>)))))"
| "substrate_next l db domainID (Sending_block (m # ms) start, st) =
     Offers m (Sending_block ms start, st\<lparr>sent := sent st @ [m]\<rparr>)"
| "substrate_next l db domainID (Sending_block [] start, st) =
     (case finish_block db domainID start [] st of
        (Panic p, st') \<Rightarrow> Panics p
      | (_, st') \<Rightarrow> Goes (At_select, st'))"

definition substrate_program ::
  "'w substrate_listener \<Rightarrow> 'w key_value \<Rightarrow> u8 \<Rightarrow> (substrate_stage \<times> 'w listen_state) listener_program" where
  "substrate_program l db domainID =
     \<lparr> l_next = substrate_next l db domainID, l_select = (\<lambda>x. fst x = At_select) \<rparr>"

fun substrate_rest ::
  "'w substrate_listener \<Rightarrow> 'w key_value \<Rightarrow> u8 \<Rightarrow> substrate_stage \<times> 'w listen_state
   \<Rightarrow> int option result \<times> 'w listen_state" where
  "substrate_rest l db d (At_select, st) = substrate_iteration l db d st"
| "substrate_rest l db d (Sending_block ms s, st) = finish_block db d s ms st"

interpretation substrate_listening: listening "substrate_program l db d" "substrate_iteration l db d"
  "Pair At_select" "substrate_rest l db d" "\<lambda>x. sent (snd x)"
  for l :: "'w substrate_listener" and db d
proof (unfold_locales, goal_cases)
  case (2 st l')
  then show ?case
    by (auto simp: substrate_program_def substrate_iteration_def Let_def
        split: prod.splits result.splits if_splits)
next
  case (4 x y)
  obtain stage st where "x = (stage, st)" by fastforce
  then obtain xs s where x: "x = (Sending_block xs s, st)" using 4 by (cases stage) (auto simp: substrate_program_def)
  show ?case
    using 4 x by (cases xs) (auto simp: substrate_program_def split: prod.splits result.splits dest: finish_block_cases)
next
  case (5 x m y)
  obtain stage st where "x = (stage, st)" by fastforce
  then obtain xs s where x: "x = (Sending_block xs s, st)" using 5 by (cases stage) (auto simp: substrate_program_def)
  show ?case
    using 5 x by (cases xs) (auto simp: substrate_program_def finish_block_def split: prod.splits result.splits)
next
  case (6 x y)
  then show ?case
    by (auto simp: substrate_program_def Let_def elim!: substrate_next.elims
        split: prod.splits result.splits if_splits dest!: finish_block_cases)
next
  case (7 x m y)
  then show ?case
    by (auto simp: substrate_program_def Let_def elim!: substrate_next.elims
        split: prod.splits result.splits if_splits)
qed (auto simp: substrate_program_def Let_def split: prod.splits result.splits if_splits)

section \<open>The chains and the application, running\<close>

text \<open>The first part of \<open>PollEvents\<close>: where the listener of a chain starts, or its error.\<close>

definition poll_start :: "('l, 'w) evm_chain \<Rightarrow> 'l \<Rightarrow> (evm_stage \<times> 'l listen_state) result" where
  "poll_start c w =
     (let g = GeneralChainConfig (chain_config c) in
      r_bind (DomainID c) (\<lambda>i.
        case GetStartBlock (blockstore c) i (StartBlock (chain_config c)) (cfg_LatestBlock g)
               (cfg_FreshStart g) w of
          (Ok start, w') \<Rightarrow> Ok (Selecting, \<lparr> startBlock = start, sent = [], world = w' \<rparr>)
        | (Err e, _) \<Rightarrow> Err (Wrap ''error '' e '' on getting last stored block'')
        | (Panic p, _) \<Rightarrow> Panic p))"

text \<open>The listener that \<open>PollEvents\<close> starts.\<close>

definition chain_program :: "('l, 'w) evm_chain \<Rightarrow> (evm_stage \<times> 'l listen_state) listener_program" where
  "chain_program c =
     evm_program (listener c) (blockstore c) (BlockConfirmations (chain_config c)) (app_domain c)"

text \<open>
  \<open>Run\<close> once the relayer is set up: it starts the relayer with its chains and then waits. \<open>wl\<close>
  is what each chain finds when it starts to poll.
\<close>

definition app_start ::
  "(('l, 'w) evm_chain \<times> 'w voter_state) list \<Rightarrow> (nat \<Rightarrow> 'l)
   \<Rightarrow> (evm_stage \<times> 'l listen_state, nat \<Rightarrow> 'w voter_state) relay_system" where
  "app_start cs wl =
     starting (map (\<lambda>k. poll_start (fst (cs ! k)) (wl k)) [0..<length cs]) (\<lambda>k. snd (cs ! k))"

definition app_run ::
  "eth_lib \<Rightarrow> (('l, 'w) evm_chain \<times> 'w voter_state) list \<Rightarrow> (nat \<Rightarrow> 'l) \<Rightarrow> relay_event list
   \<Rightarrow> (evm_stage \<times> 'l listen_state, nat \<Rightarrow> 'w voter_state) relay_system \<Rightarrow> bool" where
  "app_run L cs wl es x \<longleftrightarrow>
     relay_run (\<lambda>k. chain_program (fst (cs ! k))) (route (fst (start_chains (app_relayer L cs))))
       (app_start cs wl) es x"

text \<open>An infinite run of the relayer, and a fair one.\<close>

definition app_path ::
  "eth_lib \<Rightarrow> (('l, 'w) evm_chain \<times> 'w voter_state) list \<Rightarrow> (nat \<Rightarrow> 'l)
   \<Rightarrow> (nat \<Rightarrow> (evm_stage \<times> 'l listen_state, nat \<Rightarrow> 'w voter_state) relay_system)
   \<Rightarrow> (nat \<Rightarrow> relay_event option) \<Rightarrow> bool" where
  "app_path L cs wl xs es \<longleftrightarrow>
     relay_path (\<lambda>k. chain_program (fst (cs ! k))) (route (fst (start_chains (app_relayer L cs))))
       (app_start cs wl) xs es"

definition app_fair ::
  "eth_lib \<Rightarrow> (('l, 'w) evm_chain \<times> 'w voter_state) list
   \<Rightarrow> (nat \<Rightarrow> (evm_stage \<times> 'l listen_state, nat \<Rightarrow> 'w voter_state) relay_system)
   \<Rightarrow> (nat \<Rightarrow> relay_event option) \<Rightarrow> bool" where
  "app_fair L cs xs es \<longleftrightarrow>
     fair_scheduler (\<lambda>k. chain_program (fst (cs ! k))) (route (fst (start_chains (app_relayer L cs)))) xs es"

lemma poll_start_PollEvents:
  assumes "poll_start c w = Ok (Selecting, st)"
  shows "PollEvents c n w = Ok (ListenToEvents (listener c) (blockstore c) (BlockConfirmations (chain_config c))
      (app_domain c) n st) \<and> sent st = []"
  using assms
  by (cases "DomainID c")
    (auto simp: poll_start_def PollEvents_def app_domain_def Let_def split: prod.splits result.splits)

lemma poll_start_cases:
  "poll_start c w = Ok x \<Longrightarrow> fst x = Selecting \<and> sent (snd x) = []"
  by (cases "DomainID c") (auto simp: poll_start_def Let_def split: prod.splits result.splits)

lemma app_start_nth:
  "k < length cs \<Longrightarrow> map (\<lambda>k. poll_start (fst (cs ! k)) (wl k)) [0..<length cs] ! k = poll_start (fst (cs ! k)) (wl k)"
  by simp

section \<open>Properties\<close>

text \<open>
  C2: the relayer receives every deposit. In a running relayer, when the listener of chain
  \<open>i\<close> is back at its \<open>select\<close> with \<open>s1\<close> as its next block, what the relayer has received
  from it, and at most one message that \<open>PollEvents\<close> still holds, are exactly the messages of
  the accepted deposits of the blocks from the first one up to \<open>s1\<close>: each once, in the order
  of the chain, whatever fails and whatever the other goroutines do.
\<close>

theorem relayer_receives_every_deposit:
  assumes "app_run L cs wl es x" and "i < length cs"
    and "poll_start (fst (cs ! i)) (wl i) = Ok (Selecting, st)" and "startBlock st = Some s0"
    and "answers_from chain h (listener (fst (cs ! i))) (app_domain (fst (cs ! i)))"
    and "fst (routines x ! i) \<in> {Listening (Selecting, st'), Stopped (Selecting, st')}"
  shows "\<exists>s1 hand. startBlock st' = Some s1 \<and> s0 \<le> s1 \<and> length hand \<le> 1 \<and>
    received_from i x @ hand = accepted_messages h (concat (map chain [s0..s1 - 1]))"
proof -
  let ?P = "chain_program (fst (cs ! i))"
  have "sent st = []" using poll_start_cases [OF assms(3)] by simp
  with evm_listening.rounds_received [OF assms(1) [unfolded app_run_def app_start_def], of i "listener (fst (cs ! i))"
      "blockstore (fst (cs ! i))" "BlockConfirmations (chain_config (fst (cs ! i)))" "app_domain (fst (cs ! i))"
      st "(Selecting, st')"] assms(2,3,6)
  obtain n hand where "no_panic (listen_iteration (listener (fst (cs ! i))) (blockstore (fst (cs ! i)))
      (BlockConfirmations (chain_config (fst (cs ! i)))) (app_domain (fst (cs ! i)))) n st"
    and "st' = run_state (listen_iteration (listener (fst (cs ! i))) (blockstore (fst (cs ! i)))
      (BlockConfirmations (chain_config (fst (cs ! i)))) (app_domain (fst (cs ! i)))) n st"
    and "length hand \<le> 1" "sent st' = received_from i x @ hand"
    by (auto simp: chain_program_def evm_program_def)
  with evm_run_scans [OF assms(5,4) this(1,2)] \<open>sent st = []\<close> show ?thesis by auto
qed

text \<open>In a fair infinite run that does not end, what a listener has sent is routed.\<close>

lemma sent_is_routed:
  assumes "app_path L cs wl xs es" and "app_fair L cs xs es" and "\<And>k. \<not> ending (xs k)" and "i < length cs"
    and "poll_start (fst (cs ! i)) (wl i) = Ok (Selecting, st0)"
    and "listener_state (fst (routines (xs n) ! i)) = Some (stage, st)"
  shows "\<exists>k\<ge>n. mset (sent st) \<subseteq># mset (routed (xs k))"
proof -
  let ?ls = "map (\<lambda>k. poll_start (fst (cs ! k)) (wl k)) [0..<length cs]"
  note path = assms(1) [unfolded app_path_def app_start_def]
  from assms(3) path assms(2) have "lasting (\<lambda>k. chain_program (fst (cs ! k)))
      (route (fst (start_chains (app_relayer L cs)))) ?ls (\<lambda>k. snd (cs ! k)) xs es"
    by (simp add: lasting_def app_fair_def route_no_error)
  from offered_routed [OF this, of i _ n] assms(4,5) obtain k where
    k: "n \<le> k" "mset (offered i (xs n)) \<subseteq># mset (routed (xs k))" by auto
  from path_run [OF path] obtain fs where "relay_run (\<lambda>k. chain_program (fst (cs ! k)))
      (route (fst (start_chains (app_relayer L cs)))) (starting ?ls (\<lambda>k. snd (cs ! k))) fs (xs n)" by blast
  from conserved_run [OF this, of i] assms(4-6) have
    "comes_to (chain_program (fst (cs ! i))) (Selecting, st0) (offered i (xs n)) (stage, st)"
    by (cases "routines (xs n) ! i") (auto simp: conserved_def offered_def)
  from evm_listening.comes_to_rounds [OF this [unfolded chain_program_def]] have
    "sent st = sent st0 @ offered i (xs n)" by simp
  with poll_start_cases [OF assms(5)] k show ?thesis by auto
qed

text \<open>
  C14: every message a listener has sent is routed. In any infinite run of the relayer whose
  scheduler is fair, which lets two goroutines meet on a channel if they can meet there for
  ever and lets a launched route return, what the listener of a chain has sent at some
  time, each message as often as it was sent, has been received by the relayer and its route
  has returned at some later time; unless a goroutine panics, \<open>Run\<close> returns, or \<open>stop\<close> is
  closed. No goroutine waits for another one in a circle, whatever else goes on.
\<close>

theorem every_sent_message_is_routed:
  assumes "app_path L cs wl xs es" and "app_fair L cs xs es" and "i < length cs"
    and "poll_start (fst (cs ! i)) (wl i) = Ok (Selecting, st0)"
    and "listener_state (fst (routines (xs n) ! i)) = Some (stage, st)"
  shows "(\<exists>k. crashed (xs k) \<or> run_result (xs k) \<noteq> None \<or> stop_closed (xs k)) \<or>
    (\<exists>k\<ge>n. mset (sent st) \<subseteq># mset (routed (xs k)))"
proof (cases "\<exists>k. ending (xs k)")
  case False
  with sent_is_routed [OF assms(1,2) _ assms(3-5)] show ?thesis by blast
qed (auto simp: ending_def running_def)

text \<open>
  C5: every deposit is routed. In such a run, when the listener of a chain is at its \<open>select\<close>
  with \<open>s1\<close> as its next block, every deposit of the blocks from the first one up to \<open>s1\<close> that
  the handler accepts is routed at some later time, unless the call of the handler for this
  very deposit failed; or the program ends or is about to.
\<close>

theorem every_deposit_is_routed:
  assumes "app_path L cs wl xs es" and "app_fair L cs xs es" and "i < length cs"
    and "poll_start (fst (cs ! i)) (wl i) = Ok (Selecting, st0)" and "startBlock st0 = Some s0"
    and "records_refusals chain h refused (listener (fst (cs ! i))) (blockstore (fst (cs ! i)))
           (app_domain (fst (cs ! i)))"
    and "fst (routines (xs n) ! i) = Listening (Selecting, st)"
  shows "(\<exists>k. crashed (xs k) \<or> run_result (xs k) \<noteq> None \<or> stop_closed (xs k)) \<or>
    (\<exists>s1 k. startBlock st = Some s1 \<and> n \<le> k \<and>
      (\<forall>b x m. s0 \<le> b \<longrightarrow> b < s1 \<longrightarrow> x \<in> set (chain b) \<longrightarrow> h x = Ok m \<longrightarrow>
         m \<in> set (routed (xs k)) \<or> x \<in> refused (world st)))"
proof (cases "\<exists>k. ending (xs k)")
  case False
  with sent_is_routed [OF assms(1,2) _ assms(3,4), of n Selecting st] assms(7) obtain k where
    k: "n \<le> k" "mset (sent st) \<subseteq># mset (routed (xs k))" by auto
  let ?c = "fst (cs ! i)"
  let ?it = "listen_iteration (listener ?c) (blockstore ?c) (BlockConfirmations (chain_config ?c)) (app_domain ?c)"
  from path_run [OF assms(1) [unfolded app_path_def app_start_def], of n] obtain fs where
    "relay_run (\<lambda>k. chain_program (fst (cs ! k))) (route (fst (start_chains (app_relayer L cs))))
      (starting (map (\<lambda>k. poll_start (fst (cs ! k)) (wl k)) [0..<length cs]) (\<lambda>k. snd (cs ! k))) fs (xs n)"
    by blast
  from evm_listening.rounds_received [OF this, of i "listener ?c" "blockstore ?c"
      "BlockConfirmations (chain_config ?c)" "app_domain ?c" st0 "(Selecting, st)"] assms(3,4,7)
    poll_start_cases [OF assms(4)]
  obtain r where r: "no_panic ?it r st0" "st = run_state ?it r st0"
    by (auto simp: chain_program_def evm_program_def)
  from evm_run_settled [OF assms(6,5) r(1), folded r(2)] obtain s1 where
    s1: "startBlock st = Some s1" "list_all (settled_log h refused st) (concat (map chain [s0..s1 - 1]))"
    by (auto simp: scanned_settled_def)
  have "set (sent st) \<subseteq> set (routed (xs k))" using set_mset_mono [OF k(2)] by simp
  moreover have "settled_log h refused st x" if "s0 \<le> b" "b < s1" "x \<in> set (chain b)" for b x
    using s1(2) that by (auto simp: list_all_iff)
  ultimately show ?thesis using s1(1) k(1) unfolding settled_log_def by blast
qed (auto simp: ending_def running_def)


section \<open>An example run\<close>

definition demo_blocks :: "int \<Rightarrow> deposit_logs_enriched list" where
  "demo_blocks b = (if b = 10 then [example_log 2, example_log 9] else [])"

text \<open>One chain with domain 1, whose block 10 has one good and one bad deposit.\<close>

definition demo_listener :: "(bytes \<rightharpoonup> bytes) evm_listener" where
  "demo_listener = truthful demo_blocks (\<lambda>_ dst _ _ _ _ _ _.
     if dst = 2 then Ok example_message else Err (Error ''no handler''))
     (example_listener\<lparr>chain_LatestBlock := \<lambda>w. (Ok 20, w)\<rparr>)"

definition demo_config :: evm_config where
  "demo_config = evm_config_of example_flags example_raw_config"

definition demo_chain :: "(bytes \<rightharpoonup> bytes, nat) evm_chain" where
  "demo_chain = NewEVMChain demo_listener
     (writer (chain_of reference_lib relay_abi (LVLDB memory_db) demo_config relay_env))
     (LVLDB memory_db) demo_config"

definition demo_chains :: "((bytes \<rightharpoonup> bytes, nat) evm_chain \<times> nat voter_state) list" where
  "demo_chains = [(demo_chain, NewVoter 0)]"

definition demo_state :: "int \<Rightarrow> message list \<Rightarrow> (bytes \<rightharpoonup> bytes) \<Rightarrow> (bytes \<rightharpoonup> bytes) listen_state" where
  "demo_state s ms w = \<lparr> startBlock = Some s, sent = ms, world = w \<rparr>"

lemma demo_start: "poll_start demo_chain Map.empty = Ok (Selecting, demo_state 7 [] Map.empty)"
  by (simp add: poll_start_def demo_chain_def NewEVMChain_def DomainID_def demo_config_def evm_config_of_def
      example_raw_config_def example_general_config_def example_flags_def ParseFlags_def GetStartBlock_def
      GetLastStoredBlock_def memory_defs s_bind_def demo_state_def Let_def big_set_bytes_def bytes_nat_def)

lemma demo_program:
  "chain_program demo_chain = evm_program demo_listener (LVLDB memory_db) 3 1" "app_domain demo_chain = 1"
  "listener demo_chain = demo_listener"
  by (simp_all add: chain_program_def demo_chain_def NewEVMChain_def demo_config_def evm_config_of_def
      example_raw_config_def app_domain_def DomainID_def example_general_config_def ParseFlags_def Let_def)

text \<open>The relayer takes the message of block 10, and the listener stores block 17.\<close>

definition demo_events :: "relay_event list" where
  "demo_events = [Advance 0, Offer 0, Hand_over 0, Deliver 0, Advance 0, Advance 0]"

definition demo_final ::
  "(evm_stage \<times> (bytes \<rightharpoonup> bytes) listen_state, nat \<Rightarrow> nat voter_state) relay_system" where
  "demo_final =
     \<lparr> routines = [(Listening (Selecting, demo_state 18 [example_message] [block_key 1 \<mapsto> big_bytes_of 17]), Polling)],
       loop_running = True, routing = [example_message], stop_closed = False, run_error = None, run_result = None,
       crashed = False, shared = (\<lambda>k. snd (demo_chains ! k)), received = [(0, example_message)], routed = [] \<rparr>"

lemma demo_steps:
  "evm_next demo_listener (LVLDB memory_db) 3 1 (Selecting, demo_state 7 [] Map.empty)
   = Goes (Handling [example_log 2, example_log 9] 7 17, demo_state 7 [] Map.empty)"
  "evm_next demo_listener (LVLDB memory_db) 3 1 (Handling [example_log 2, example_log 9] 7 17, demo_state 7 [] Map.empty)
   = Offers example_message (Handling [example_log 9] 7 17, demo_state 7 [example_message] Map.empty)"
  "evm_next demo_listener (LVLDB memory_db) 3 1 (Handling [example_log 9] 7 17, demo_state 7 [example_message] Map.empty)
   = Goes (Handling [] 7 17, demo_state 7 [example_message] Map.empty)"
  "evm_next demo_listener (LVLDB memory_db) 3 1 (Handling [] 7 17, demo_state 7 [example_message] Map.empty)
   = Goes (Selecting, demo_state 18 [example_message] [block_key 1 \<mapsto> big_bytes_of 17])"
  by (simp_all add: demo_listener_def truthful_def example_listener_def demo_state_def block_window_def
      demo_blocks_def upto.simps example_log_def finish_range_def StoreBlock_def memory_defs)

lemmas demo_evaluation = app_start_def starting_def demo_start demo_program update_routine_def evm_program_def
  demo_steps running_def

lemma demo_run: "app_run reference_lib demo_chains (\<lambda>_. Map.empty) demo_events demo_final"
  unfolding app_run_def
  by (rule relay_perform_all_run)
    (simp add: demo_events_def demo_chains_def demo_evaluation demo_final_def del: evm_next.simps)

lemma demo_answers: "answers_from demo_blocks (log_message (\<lambda>_ dst _ _ _ _ _ _.
    if dst = 2 then Ok example_message else Err (Error ''no handler'')) 1) demo_listener 1"
  unfolding demo_listener_def by (rule truthful_answers)

theorem relayer_receives_every_deposit_witness:
  "\<exists>s1 hand. startBlock (demo_state 18 [example_message] [block_key 1 \<mapsto> big_bytes_of 17]) = Some s1 \<and>
     7 \<le> s1 \<and> length hand \<le> 1 \<and>
     received_from 0 demo_final @ hand = accepted_messages (log_message (\<lambda>_ dst _ _ _ _ _ _.
       if dst = 2 then Ok example_message else Err (Error ''no handler'')) 1) (concat (map demo_blocks [7..s1 - 1]))"
  by (rule relayer_receives_every_deposit [where cs = demo_chains and i = 0, OF demo_run])
    (simp_all add: demo_chains_def demo_start demo_program demo_answers demo_final_def, simp add: demo_state_def)

lemma demo_route:
  "route (fst (start_chains (app_relayer reference_lib demo_chains))) example_message s = (Ok (), s)"
  by (simp add: app_relayer_def route_started demo_chains_def app_chain_def demo_program example_message_def)

lemma demo_continues:
  assumes "relay_perform_all (\<lambda>k. chain_program (fst (demo_chains ! k)))
      (route (fst (start_chains (app_relayer reference_lib demo_chains)))) es demo_final = Some y"
  shows "app_run reference_lib demo_chains (\<lambda>_. Map.empty) (demo_events @ es) y"
  using relay_run_trans [OF relay_perform_all_run [OF assms] demo_run [unfolded app_run_def]]
  by (simp add: app_run_def)

text \<open>After that the route returns, and nothing more must happen.\<close>

abbreviation demo_programs :: "nat \<Rightarrow> (evm_stage \<times> (bytes \<rightharpoonup> bytes) listen_state) listener_program" where
  "demo_programs k \<equiv> chain_program (fst (demo_chains ! k))"

abbreviation demo_routes :: "message \<Rightarrow> (nat \<Rightarrow> nat voter_state) \<Rightarrow> unit result \<times> (nat \<Rightarrow> nat voter_state)" where
  "demo_routes \<equiv> route (fst (start_chains (app_relayer reference_lib demo_chains)))"

definition demo_rest ::
  "(evm_stage \<times> (bytes \<rightharpoonup> bytes) listen_state, nat \<Rightarrow> nat voter_state) relay_system" where
  "demo_rest = demo_final\<lparr>routing := [], routed := [example_message]\<rparr>"

lemma demo_rests:
  "relay_perform_all demo_programs demo_routes (demo_events @ [Finish_route example_message])
     (app_start demo_chains (\<lambda>_. Map.empty)) = Some demo_rest"
proof -
  have "relay_perform_all demo_programs demo_routes demo_events (app_start demo_chains (\<lambda>_. Map.empty)) = Some demo_final"
    by (simp add: demo_events_def demo_chains_def demo_evaluation demo_final_def del: evm_next.simps)
  then show ?thesis
    by (simp add: relay_perform_all_append demo_route) (simp add: demo_final_def demo_rest_def running_def)
qed

lemma demo_idle:
  "evm_next demo_listener (LVLDB memory_db) 3 1 (Selecting, demo_state 18 ms w) = Goes (Selecting, demo_state 18 ms w)"
  by (simp add: demo_listener_def truthful_def example_listener_def demo_state_def block_window_def)

lemma demo_at_rest:
  "\<not> some_enabled demo_programs demo_routes {Hand_over i} demo_rest"
  "\<not> some_enabled demo_programs demo_routes {Deliver i} demo_rest"
  "\<not> some_enabled demo_programs demo_routes {Finish_route m, Crash} demo_rest"
  by (auto simp: some_enabled_def demo_rest_def demo_final_def demo_chains_def demo_program evm_program_def
      demo_idle simp del: evm_next.simps elim!: relay_stepE)

definition demo_path ::
  "nat \<Rightarrow> (evm_stage \<times> (bytes \<rightharpoonup> bytes) listen_state, nat \<Rightarrow> nat voter_state) relay_system" where
  "demo_path = settled_path demo_programs demo_routes (app_start demo_chains (\<lambda>_. Map.empty))
     (demo_events @ [Finish_route example_message])"

definition demo_steps_taken :: "nat \<Rightarrow> relay_event option" where
  "demo_steps_taken n = (if n < length (demo_events @ [Finish_route example_message])
     then Some ((demo_events @ [Finish_route example_message]) ! n) else None)"

lemma demo_path_app: "app_path reference_lib demo_chains (\<lambda>_. Map.empty) demo_path demo_steps_taken"
  unfolding app_path_def demo_path_def demo_steps_taken_def [abs_def] by (rule settled_path_is_path [OF demo_rests])

lemma demo_path_fair: "app_fair reference_lib demo_chains demo_path demo_steps_taken"
  unfolding app_fair_def demo_path_def by (rule settled_path_fair [OF demo_rests demo_at_rest])

lemma demo_path_rest: "demo_path (7 + k) = demo_rest"
  unfolding demo_path_def by (rule settled_path_end [OF demo_rests]) (simp add: demo_events_def)

lemma demo_never_ends: "\<not> ending (demo_path k)"
proof -
  have "\<not> ending demo_rest" by (simp add: ending_def running_def demo_rest_def demo_final_def)
  then show ?thesis
    using path_ending [OF demo_path_app [unfolded app_path_def], of k 7] unfolding demo_path_rest by blast
qed

theorem every_sent_message_is_routed_witness:
  "\<exists>k\<ge>7. {#example_message#} \<subseteq># mset (routed (demo_path k))"
proof -
  have "listener_state (fst (routines (demo_path 7) ! 0))
      = Some (Selecting, demo_state 18 [example_message] [block_key 1 \<mapsto> big_bytes_of 17])"
    using demo_path_rest [of 0] by (simp add: demo_rest_def demo_final_def)
  then show ?thesis
    using every_sent_message_is_routed [OF demo_path_app demo_path_fair, of 0 "demo_state 7 [] Map.empty" 7] demo_never_ends
    by (auto simp: demo_chains_def demo_start ending_def running_def demo_state_def)
qed

theorem every_deposit_is_routed_witness:
  "\<exists>k\<ge>7. example_message \<in> set (routed (demo_path k))"
proof -
  let ?h = "log_message (\<lambda>_ dst _ _ _ _ _ _. if dst = 2 then Ok example_message else Err (Error ''no handler'')) 1"
  let ?st = "demo_state 18 [example_message] [block_key 1 \<mapsto> big_bytes_of 17]"
  have records: "records_refusals demo_blocks ?h (\<lambda>w. {}) demo_listener db 1" for db :: "(bytes \<rightharpoonup> bytes) key_value"
    using demo_answers by (auto simp: records_refusals_def answers_from_def) (metis fst_conv)
  have accepted: "7 \<le> (10::int)" "example_log 2 \<in> set (demo_blocks 10)" "?h (example_log 2) = Ok example_message"
    by (simp_all add: demo_blocks_def log_message_def example_log_def)
  have "(\<exists>k. crashed (demo_path k) \<or> run_result (demo_path k) \<noteq> None \<or> stop_closed (demo_path k)) \<or>
    (\<exists>s1 k. startBlock ?st = Some s1 \<and> 7 \<le> k \<and>
      (\<forall>b x m. 7 \<le> b \<longrightarrow> b < s1 \<longrightarrow> x \<in> set (demo_blocks b) \<longrightarrow> ?h x = Ok m \<longrightarrow>
         m \<in> set (routed (demo_path k)) \<or> x \<in> {}))"
    by (rule every_deposit_is_routed [where cs = demo_chains and i = 0 and st = ?st
          and ?st0.0 = "demo_state 7 [] Map.empty" and refused = "\<lambda>w. {}", OF demo_path_app demo_path_fair])
      (use demo_path_rest [of 0] records in \<open>simp_all add: demo_chains_def demo_start demo_program demo_state_def
         demo_rest_def demo_final_def\<close>)
  moreover have "\<not> (crashed (demo_path k) \<or> run_result (demo_path k) \<noteq> None \<or> stop_closed (demo_path k))" for k
    using demo_never_ends [of k] by (auto simp: ending_def running_def)
  ultimately obtain s1 k where k: "startBlock ?st = Some s1" "7 \<le> k"
    "\<And>b x m. 7 \<le> b \<Longrightarrow> b < s1 \<Longrightarrow> x \<in> set (demo_blocks b) \<Longrightarrow> ?h x = Ok m \<Longrightarrow> m \<in> set (routed (demo_path k))"
    by blast
  from k(1) have "s1 = 18" by (simp add: demo_state_def)
  with k(2) k(3) [OF _ _ accepted(2,3)] show ?thesis by auto
qed

text \<open>
  A restart can lose a deposit. The block store advances when a message has been handed
  over, not when it has been voted for: a signal can end \<open>Run\<close> while the message of block 10
  is still being routed, with block 17 stored, and the next start scans from block 17 on.
\<close>

theorem signal_loses_deposit:
  "\<exists>es x st st'. app_run reference_lib demo_chains (\<lambda>_. Map.empty) es x \<and> run_result x = Some (Ok ()) \<and>
     received x = [(0, example_message)] \<and> routed x = [] \<and>
     fst (routines x ! 0) = Listening (Selecting, st) \<and>
     poll_start (fst (demo_chains ! 0)) (world st) = Ok (Selecting, st') \<and> startBlock st' = Some 17"
proof -
  have "app_run reference_lib demo_chains (\<lambda>_. Map.empty) (demo_events @ [Signal])
      (demo_final\<lparr>run_result := Some (Ok ())\<rparr>)"
    by (rule demo_continues) (simp add: demo_final_def running_def)
  moreover have "poll_start demo_chain [block_key 1 \<mapsto> big_bytes_of 17]
      = Ok (Selecting, demo_state 17 [] [block_key 1 \<mapsto> big_bytes_of 17])"
    by (simp add: poll_start_def demo_chain_def NewEVMChain_def DomainID_def demo_config_def evm_config_of_def
        example_raw_config_def example_general_config_def example_flags_def ParseFlags_def GetStartBlock_def
        GetLastStoredBlock_def memory_defs s_bind_def demo_state_def Let_def big_set_bytes_def big_bytes_of_def)
  ultimately show ?thesis
    by (intro exI [of _ "demo_events @ [Signal]"] exI [of _ "demo_final\<lparr>run_result := Some (Ok ())\<rparr>"]
        exI [of _ "demo_state 18 [example_message] [block_key 1 \<mapsto> big_bytes_of 17]"]
        exI [of _ "demo_state 17 [] [block_key 1 \<mapsto> big_bytes_of 17]"])
      (simp add: demo_final_def demo_chains_def demo_state_def)
qed

section \<open>A substrate chain\<close>

text \<open>
  The node of \<open>flaky_reader\<close> with a listener from block 4 on: its first answer is refused,
  then block 4 is read and its transfer sent.
\<close>

definition transfer_four :: message where
  "transfer_four = substrate_message 2 (eft_Destination (example_fungible 4)) (eft_DepositNonce (example_fungible 4))
     (eft_ResourceId (example_fungible 4))
     [Bytes_val (nat_bytes (eft_Amount (example_fungible 4))), Bytes_val (eft_Recipient (example_fungible 4))]"

lemma substrate_demo_steps:
  "substrate_next flaky_substrate counter_store 2 (At_select, flaky_state 4 [] 0) = Goes (At_select, flaky_state 4 [] 1)"
  "substrate_next flaky_substrate counter_store 2 (At_select, flaky_state 4 [] 1)
   = Goes (Sending_block [transfer_four] 4, flaky_state 4 [] 4)"
  "substrate_next flaky_substrate counter_store 2 (Sending_block [transfer_four] 4, flaky_state 4 [] 4)
   = Offers transfer_four (Sending_block [] 4, flaky_state 4 [transfer_four] 4)"
  "substrate_next flaky_substrate counter_store 2 (Sending_block [] 4, flaky_state 4 [transfer_four] 4)
   = Goes (At_select, flaky_state 5 [transfer_four] 4)"
  by (simp_all add: flaky_substrate_def RegisterSubscription_def transfer_four_def
      NewSubstrateListener_def flaky_reader_def flaky_state_def flaky_blocks_def no_events_def handleEvents_def
      handle_group_def substrate_handler_at_def FungibleTransferHandler_def finish_block_def
      FungibleTransfer_def NonFungibleTransfer_def GenericTransfer_def
      StoreBlock_def counter_store_def block_messages_def big_uint64_def s_bind_def Let_def)

definition substrate_demo_final :: "(substrate_stage \<times> nat listen_state, unit) relay_system" where
  "substrate_demo_final =
     \<lparr> routines = [(Listening (At_select, flaky_state 5 [transfer_four] 4), Polling)],
       loop_running = True, routing = [transfer_four], stop_closed = False, run_error = None, run_result = None,
       crashed = False, shared = (), received = [(0, transfer_four)], routed = [] \<rparr>"

lemma substrate_demo_run:
  "relay_run (\<lambda>k. substrate_program flaky_substrate counter_store 2) (\<lambda>m s. (Ok (), s))
     (starting [Ok (At_select, flaky_state 4 [] 0)] ())
     [Advance 0, Advance 0, Offer 0, Hand_over 0, Deliver 0, Advance 0] substrate_demo_final"
  by (rule relay_perform_all_run)
    (simp add: starting_def update_routine_def substrate_program_def substrate_demo_steps substrate_demo_steps [unfolded One_nat_def] running_def
      substrate_demo_final_def del: substrate_next.simps)


end
