(* ===== verification/Command_Tree.thy ===== *)
theory Command_Tree
  imports Cli_Base
begin

text \<open>
  Trees of commands, as the packages of \<open>chains/evm/cli\<close> build them from \<open>cobra.Command\<close>
  literals, the hook every subcommand shares (\<open>util/cli.go\<close>), and what the code relies on
  of cobra: in which order it calls the functions of the command that a command line names.
\<close>

section \<open>Commands\<close>

text \<open>
  A command over the state \<open>'s\<close> of the program. \<open>PersistentPreRunE\<close> is nil, the closure that
  calls \<open>CallPersistentPreRun\<close>, or a hook of the command's own, which gets the path of names to the
  command it is called with. \<open>PreRun\<close> goes on, ends the program, or never returns.
  \<open>LateRequired\<close> are the flags that \<open>Args\<close> itself marks as required.
\<close>

datatype 's hook = No_hook | Calls_parent | Own_hook "string list \<Rightarrow> 's \<Rightarrow> unit result \<times> 's"

datatype pre_run = Go_on | Exits | Never_returns

datatype 's command = Command
  (Use: string)
  (Flags: command_flags)
  (PersistentPreRunE: "'s hook")
  (PreRun: "string list \<Rightarrow> 's \<Rightarrow> pre_run \<times> 's")
  (Args: "'s \<Rightarrow> unit result \<times> 's")
  (RunE: "(string list \<Rightarrow> 's \<Rightarrow> unit result \<times> 's) option")
  (LateRequired: "'s \<Rightarrow> string list")
  (Subcommands: "'s command list")

definition no_pre_run :: "string list \<Rightarrow> 's \<Rightarrow> pre_run \<times> 's" where
  "no_pre_run names s = (Go_on, s)"

definition no_args :: "'s \<Rightarrow> unit result \<times> 's" where
  "no_args = s_return ()"

text \<open>A command with its parents, itself first; the names on the way to it.\<close>

definition path_names :: "'s command list \<Rightarrow> string list" where
  "path_names path = rev (map Use path)"

text \<open>The hook of the parent, with the parent as its command.\<close>

fun CallPersistentPreRun :: "'s command list \<Rightarrow> 's \<Rightarrow> unit result \<times> 's" where
  "CallPersistentPreRun (cmd # parent # rest) s =
     (case PersistentPreRunE parent of
        No_hook \<Rightarrow> (Ok (), s)
      | Calls_parent \<Rightarrow> CallPersistentPreRun (parent # rest) s
      | Own_hook f \<Rightarrow> f (path_names (parent # rest)) s)"
| "CallPersistentPreRun path s = (Ok (), s)"

text \<open>\<open>AddCommand\<close>: subcommands that could be built, in order; the first panic is the program's.\<close>

fun add_commands :: "'s command result list \<Rightarrow> 's command list result" where
  "add_commands [] = Ok []"
| "add_commands (c # cs) = r_bind c (\<lambda>x. r_bind (add_commands cs) (\<lambda>xs. Ok (x # xs)))"

section \<open>What cobra does with a command line\<close>

fun find_command :: "'s command list \<Rightarrow> string list \<Rightarrow> 's command list option" where
  "find_command [] names = None"
| "find_command path [] = Some path"
| "find_command (c # rest) (n # names) =
     (case find (\<lambda>s. Use s = n) (Subcommands c) of
        None \<Rightarrow> None
      | Some s \<Rightarrow> find_command (s # c # rest) names)"

text \<open>The hook of the command, or of the nearest parent that has one, called with the command.\<close>

fun nearest_hook :: "'s command list \<Rightarrow> 's hook" where
  "nearest_hook [] = No_hook"
| "nearest_hook (c # rest) =
     (case PersistentPreRunE c of No_hook \<Rightarrow> nearest_hook rest | h \<Rightarrow> h)"

definition run_hook :: "'s command list \<Rightarrow> 's \<Rightarrow> unit result \<times> 's" where
  "run_hook path s =
     (case nearest_hook path of
        No_hook \<Rightarrow> (Ok (), s)
      | Calls_parent \<Rightarrow> CallPersistentPreRun path s
      | Own_hook f \<Rightarrow> f (path_names path) s)"

text \<open>How a command line ends.\<close>

datatype ending = Ended "unit result" | Exited | Hangs

definition missing_flag :: error where
  "missing_flag = Error ''required flag(s) not set''"

definition documented_calls ::
  "'s command list \<Rightarrow> string list \<Rightarrow> 's \<Rightarrow> ending \<times> 's" where
  "documented_calls path given s =
     (case path of
        [] \<Rightarrow> (Ended (Ok ()), s)
      | c # rest \<Rightarrow>
         (case s_bind (Args c) (\<lambda>_. run_hook path) s of
            (Ok _, s1) \<Rightarrow>
              (case PreRun c (path_names path) s1 of
                 (Exits, s2) \<Rightarrow> (Exited, s2)
               | (Never_returns, s2) \<Rightarrow> (Hangs, s2)
               | (Go_on, s2) \<Rightarrow>
                   if \<not> set (required (Flags c) @ LateRequired c s2) \<subseteq> set given
                   then (Ended (Err missing_flag), s2)
                   else
                     (case RunE c of
                        None \<Rightarrow> (Ended (Ok ()), s2)
                      | Some run \<Rightarrow> (case run (path_names path) s2 of (r, s3) \<Rightarrow> (Ended r, s3))))
          | (r, s1) \<Rightarrow> (Ended r, s1)))"

text \<open>
  \<open>cobra\<close> executes a root command for the names of a command line and the flags that were
  given. Its documentation says in which order the functions of the command are called, and
  that the first error ends it. The order of the check of the required flags is that of
  version 1.2.1, which \<open>go.mod\<close> asks for.
\<close>

type_synonym 's cobra = "'s command \<Rightarrow> string list \<Rightarrow> string list \<Rightarrow> 's \<Rightarrow> ending \<times> 's"

definition cobra_documented :: "'s cobra \<Rightarrow> bool" where
  "cobra_documented cobra \<longleftrightarrow>
     (\<forall>main names path given s.
        find_command [main] names = Some path \<longrightarrow> RunE (hd path) \<noteq> None \<longrightarrow>
        cobra main names given s = documented_calls path given s)"

definition reference_cobra :: "'s cobra" where
  "reference_cobra main names given s =
     (case find_command [main] names of
        Some path \<Rightarrow> documented_calls path given s
      | None \<Rightarrow> (Ended (Err (Error ''unknown command'')), s))"

lemma reference_cobra_documented: "cobra_documented reference_cobra"
  by (simp add: cobra_documented_def reference_cobra_def)

section \<open>Commands of a group\<close>

text \<open>
  What the commands of a group must do for the hook of the group to work: they leave the
  hook to the group, can be run, and none of their functions changes \<open>globals\<close>; and what is needed for a
  command line to have no effect before its checks: only \<open>PreRun\<close> and \<open>RunE\<close> change
  \<open>effects\<close>.
\<close>

definition group_member :: "('s \<Rightarrow> 'g) \<Rightarrow> ('s \<Rightarrow> 'n) \<Rightarrow> 's command \<Rightarrow> bool" where
  "group_member globals effects c \<longleftrightarrow>
     (PersistentPreRunE c = Calls_parent \<or> PersistentPreRunE c = No_hook) \<and>
     (\<forall>s. globals (snd (Args c s)) = globals s \<and> effects (snd (Args c s)) = effects s) \<and>
     (\<forall>names s. globals (snd (PreRun c names s)) = globals s) \<and>
     (\<exists>run. RunE c = Some run \<and> (\<forall>names s. globals (snd (run names s)) = globals s))"

text \<open>
  A command line of a group that succeeds, or has any effect, has passed the checks of its
  arguments and the hook of its group, and ran with what the hook left.
\<close>

lemma group_command_line:
  assumes "documented_calls (c # G # rest) given s = (r, s')"
    and "r = Ended (Ok ()) \<or> effects s' \<noteq> effects s"
    and "PersistentPreRunE G = Own_hook f" and "group_member globals effects c"
    and "\<And>names s. effects (snd (f names s)) = effects s"
  shows "\<exists>s1. Args c s = (Ok (), s1) \<and>
    (\<exists>s2. f (path_names (if PersistentPreRunE c = Calls_parent then G # rest else c # G # rest)) s1 = (Ok (), s2) \<and>
       globals s' = globals s2)"
proof -
  let ?names = "path_names (if PersistentPreRunE c = Calls_parent then G # rest else c # G # rest)"
  have hook: "run_hook (c # G # rest) s1 = f ?names s1" for s1
    using assms(3,4) by (auto simp: run_hook_def group_member_def)
  obtain r1 s1 where args: "Args c s = (r1, s1)" by fastforce
  obtain r2 s2 where f: "f ?names s1 = (r2, s2)" by fastforce
  have same: "effects s1 = effects s" "effects s2 = effects s1"
    using args f assms(4) assms(5) [of ?names s1] by (auto simp: group_member_def dest: spec [of _ s])
  have ok: "r1 = Ok () \<and> r2 = Ok ()"
  proof (rule ccontr)
    assume "\<not> (r1 = Ok () \<and> r2 = Ok ())"
    with assms(1) args f hook have "r \<noteq> Ended (Ok ()) \<and> (s' = s1 \<or> s' = s2)"
      by (cases r1; cases r2) (auto simp: documented_calls_def s_bind_def)
    with same assms(2) show False by auto
  qed
  obtain q s3 where pre: "PreRun c (path_names (c # G # rest)) s2 = (q, s3)" by fastforce
  with assms(4) have "globals s3 = globals s2" by (metis group_member_def snd_conv)
  moreover have "globals s' = globals s3"
    using assms(1,4) args f hook ok pre
    by (auto simp: documented_calls_def s_bind_def group_member_def split: pre_run.splits if_splits option.splits prod.splits)
      (metis snd_conv)+
  ultimately show ?thesis using args f ok by auto
qed

end
