(* ===== verification/Cli_Tree.thy ===== *)
theory Cli_Tree
  imports Command_Tree Cli_Spec
begin

text \<open>
  The whole command line: the variables of its packages, the commands they declare, and the
  tree that \<open>chains/evm/cli/cli.go\<close> and \<open>e2e/evm-evm/example/cmd/cmd.go\<close> put together. A
  definition that builds a command is named after the variable of the code; building it
  binds its flags, as \<open>init\<close> of its package does, and that can panic. Help texts are left out.
\<close>

section \<open>The state of the program\<close>

text \<open>
  Of each package its flag variables, and its copy of the global flags; the flags of the deploy
  command, which its arguments extend; the node.
\<close>

record ('k, 'w) package_vars =
  admin_v :: admin_vars
  admin_g :: "'k global_flags"
  bridge_v :: bridge_vars
  bridge_g :: "'k global_flags"
  erc20_v :: erc20_vars
  erc20_g :: "'k global_flags"
  erc721_v :: erc721_vars
  erc721_g :: "'k global_flags"
  centrifuge_v :: centrifuge_vars
  centrifuge_g :: "'k global_flags"
  account_v :: account_vars
  account_g :: "'k global_flags"
  utils_v :: utils_vars
  deploy_v :: deploy_vars
  deploy_flags :: command_flags
  node :: "'w cli_state"

definition zero_globals :: "'k global_flags" where
  "zero_globals = \<lparr> g_url = [], g_gasLimit = 0, g_gasPrice = None, g_sender = None, g_prepare = False \<rparr>"

text \<open>
  What is outside: the flags of the command at a path, as cobra parsed them, by name and as
  the log shows them; the log files and the time; keys and key files; the terminal.
\<close>

record ('k, 'rpc, 'f, 'w) program_env =
  pe_cli :: "('k, 'rpc, 'w) cli_env"
  pe_crypto :: "'k crypto_lib"
  pe_ring :: "'k test_key_ring"
  pe_flags :: "string list \<Rightarrow> flag_reader"
  pe_flagset :: "string list \<Rightarrow> (string \<times> string) list"
  pe_log :: "('f, 'w) log_files"
  pe_quote :: "string \<Rightarrow> string"
  pe_now :: string
  pe_files :: "'w file_lib"
  pe_random :: "bytes result"
  pe_generated :: "'k result"
  pe_lower :: "string \<Rightarrow> string"
  pe_stdin :: "string list"
  pe_BlockByNumber :: "('k, 'rpc) evm_client \<Rightarrow> int \<Rightarrow> 'w cli_state \<Rightarrow> hash list result \<times> 'w cli_state"

type_synonym ('k, 'rpc, 'f, 'w) command_of = "('k, 'rpc, 'f, 'w) program_env \<Rightarrow> ('k, 'w) package_vars command result"

section \<open>What commands share\<close>

text \<open>\<open>PreRun\<close>: a line in the log, with the name of the command and all its flags.\<close>

definition log_call ::
  "('k, 'rpc, 'f, 'w) program_env \<Rightarrow> string list \<Rightarrow> ('k, 'w) package_vars \<Rightarrow> pre_run \<times> ('k, 'w) package_vars" where
  "log_call P names s =
     (Go_on, s\<lparr>node := (fst (node s),
        LoggerMetadata (pe_log P) (pe_quote P) (pe_now P) (last names) (pe_flagset P names) (snd (node s)))\<rparr>)"

definition confirm_and_log ::
  "('k, 'rpc, 'f, 'w) program_env \<Rightarrow> string list \<Rightarrow> ('k, 'w) package_vars \<Rightarrow> pre_run \<times> ('k, 'w) package_vars" where
  "confirm_and_log P names s =
     (case confirmTransfer (pe_lower P) (pe_stdin P) of
        Some True \<Rightarrow> log_call P names s
      | Some False \<Rightarrow> (Exits, s)
      | None \<Rightarrow> (Never_returns, s))"

text \<open>\<open>PersistentPreRunE\<close> of a package: its copy of the global flags, also after an error.\<close>

definition failed_globals :: "'k global_flags" where
  "failed_globals = zero_globals\<lparr>g_gasLimit := word_of_int DefaultGasLimit\<rparr>"

definition group_hook ::
  "('k, 'rpc, 'f, 'w) program_env
   \<Rightarrow> (('k global_flags \<Rightarrow> 'k global_flags) \<Rightarrow> ('k, 'w) package_vars \<Rightarrow> ('k, 'w) package_vars)
   \<Rightarrow> ('k global_flags \<Rightarrow> 'k global_flags \<Rightarrow> 'k global_flags)
   \<Rightarrow> string list \<Rightarrow> ('k, 'w) package_vars \<Rightarrow> unit result \<times> ('k, 'w) package_vars" where
  "group_hook P upd keep names s =
     (case GlobalFlagValues (pe_crypto P) (pe_ring P) (pe_flags P names) of
        Ok g \<Rightarrow> (Ok (), upd (keep g) s)
      | Err e \<Rightarrow> (Err (Wrap ''could not get global flags: '' e ''''), upd (keep failed_globals) s)
      | Panic p \<Rightarrow> (Panic p, s))"

text \<open>\<open>Args\<close> on the variables of a package, and \<open>RunE\<close>, whose result is only printed.\<close>

definition args_on ::
  "('s \<Rightarrow> 'v) \<Rightarrow> (('v \<Rightarrow> 'v) \<Rightarrow> 's \<Rightarrow> 's) \<Rightarrow> ('v \<Rightarrow> unit result \<times> 'v) \<Rightarrow> 's \<Rightarrow> unit result \<times> 's" where
  "args_on get upd f s = (case f (get s) of (r, v) \<Rightarrow> (r, upd (\<lambda>_. v) s))"

definition run_on ::
  "(('k, 'w) package_vars \<Rightarrow> 'k global_flags) \<Rightarrow> (('k, 'w) package_vars \<Rightarrow> 'v)
   \<Rightarrow> ('k, 'rpc, 'f, 'w) program_env
   \<Rightarrow> (('k, 'rpc, 'w) cli_env \<Rightarrow> 'k global_flags \<Rightarrow> 'v \<Rightarrow> 'w cli_state \<Rightarrow> 'a result \<times> 'w cli_state)
   \<Rightarrow> string list \<Rightarrow> ('k, 'w) package_vars \<Rightarrow> unit result \<times> ('k, 'w) package_vars" where
  "run_on getg getv P run names s =
     (case run (pe_cli P) (getg s) (getv s) (node s) of
        (r, n) \<Rightarrow> (r_bind r (\<lambda>_. Ok ()), s\<lparr>node := n\<rparr>))"

text \<open>\<open>senderKeyPair.CommonAddress()\<close> while the arguments are processed.\<close>

definition sender_address ::
  "('k, 'rpc, 'f, 'w) program_env \<Rightarrow> 'k global_flags \<Rightarrow> address option" where
  "sender_address P g =
     (case g_sender g of
        Some (Secp256k1_pair k) \<Rightarrow> Some (PubkeyToAddress (env_signer (pe_cli P)) k)
      | _ \<Rightarrow> None)"

text \<open>The account and utility commands that are not a transaction.\<close>

definition run_import ::
  "('k, 'rpc, 'f, 'w) program_env \<Rightarrow> string list \<Rightarrow> ('k, 'w) package_vars \<Rightarrow> unit result \<times> ('k, 'w) package_vars" where
  "run_import P names s =
     (case importPrivKey (pe_crypto P) (pe_files P) (pe_random P) (account_v s) (snd (node s)) of
        (r, w) \<Rightarrow> (r_bind r (\<lambda>_. Ok ()), s\<lparr>node := (fst (node s), w)\<rparr>))"

definition run_generate ::
  "('k, 'rpc, 'f, 'w) program_env \<Rightarrow> string list \<Rightarrow> ('k, 'w) package_vars \<Rightarrow> unit result \<times> ('k, 'w) package_vars" where
  "run_generate P names s = (r_bind (generateKeyPair (pe_crypto P) (pe_generated P)) (\<lambda>_. Ok ()), s)"

text \<open>The utility commands read the global flags themselves, from their own flags.\<close>

definition with_global_flags ::
  "('k, 'rpc, 'f, 'w) program_env \<Rightarrow> string list \<Rightarrow> ('k global_flags \<Rightarrow> 's \<Rightarrow> unit result \<times> 's)
   \<Rightarrow> 's \<Rightarrow> unit result \<times> 's" where
  "with_global_flags P names run s =
     (case GlobalFlagValues (pe_crypto P) (pe_ring P) (pe_flags P names) of
        Ok g \<Rightarrow> run g s
      | Err e \<Rightarrow> (Err (Wrap ''could not get global flags: '' e ''''), s)
      | Panic p \<Rightarrow> (Panic p, s))"

definition run_simulate ::
  "('k, 'rpc, 'f, 'w) program_env \<Rightarrow> string list \<Rightarrow> ('k, 'w) package_vars \<Rightarrow> unit result \<times> ('k, 'w) package_vars" where
  "run_simulate P names =
     with_global_flags P names (\<lambda>g s. run_on (\<lambda>_. g) utils_v P SimulateCmd names s)"

definition run_hash_list ::
  "('k, 'rpc, 'f, 'w) program_env \<Rightarrow> string list \<Rightarrow> ('k, 'w) package_vars \<Rightarrow> unit result \<times> ('k, 'w) package_vars" where
  "run_hash_list P names =
     with_global_flags P names (\<lambda>g s.
       case HashListCmd (pe_cli P) (pe_BlockByNumber P) g (utils_v s) (node s) of
         ((hashes, r), n) \<Rightarrow> (r, s\<lparr>node := n\<rparr>))"

text \<open>
  The deploy command has no hook; \<open>DeployCLI\<close> reads the global flags. When its arguments are
  rejected the program ends, and what they changed is lost.
\<close>

definition deploy_args ::
  "('k, 'rpc, 'f, 'w) program_env \<Rightarrow> ('k, 'w) package_vars \<Rightarrow> unit result \<times> ('k, 'w) package_vars" where
  "deploy_args P s =
     (case deploy_Args (env_lib (pe_cli P)) (deploy_v s) (deploy_flags s) of
        Ok (fl, v) \<Rightarrow> (Ok (), s\<lparr>deploy_v := v, deploy_flags := fl\<rparr>)
      | Err e \<Rightarrow> (Err e, s)
      | Panic p \<Rightarrow> (Panic p, s))"

definition CallDeployCLI ::
  "('k, 'rpc, 'f, 'w) program_env \<Rightarrow> string list \<Rightarrow> ('k, 'w) package_vars \<Rightarrow> unit result \<times> ('k, 'w) package_vars" where
  "CallDeployCLI P names s =
     (case DeployCLI (pe_cli P) (pe_crypto P) (pe_ring P) (pe_flags P names) (deploy_v s) (node s) of
        (r, n) \<Rightarrow> (r_bind r (\<lambda>_. Ok ()), s\<lparr>node := n\<rparr>))"

definition DeployEVM :: "('k, 'rpc, 'f, 'w) command_of" where
  "DeployEVM P =
     Ok (Command ''deploy'' (BindDeployEVMFlags no_flags) No_hook (log_call P) (deploy_args P)
           (Some (CallDeployCLI P)) (\<lambda>s. required (deploy_flags s)) [])"

section \<open>Administration\<close>

definition addAdminCmd :: "('k, 'rpc, 'f, 'w) command_of" where
  "addAdminCmd P =
     r_bind (BindAddAdminFlags no_flags) (\<lambda>fl. Ok (
        Command ''add-admin'' fl Calls_parent (log_call P)
          (args_on admin_v admin_v_update (addAdmin_Args (env_lib (pe_cli P))))
          (Some (run_on admin_g admin_v P (\<lambda>E g. addAdmin))) (\<lambda>_. []) []))"

definition addRelayerCmd :: "('k, 'rpc, 'f, 'w) command_of" where
  "addRelayerCmd P =
     r_bind (BindAddRelayerFlags no_flags) (\<lambda>fl. Ok (
        Command ''add-relayer'' fl Calls_parent (log_call P)
          (args_on admin_v admin_v_update (addRelayer_Args (env_lib (pe_cli P))))
          (Some (run_on admin_g admin_v P addRelayer_RunE)) (\<lambda>_. []) []))"

definition isRelayerCmd :: "('k, 'rpc, 'f, 'w) command_of" where
  "isRelayerCmd P =
     r_bind (BindIsRelayerFlags no_flags) (\<lambda>fl. Ok (
        Command ''is-relayer'' fl Calls_parent (log_call P)
          (args_on admin_v admin_v_update (isRelayer_Args (env_lib (pe_cli P))))
          (Some (run_on admin_g admin_v P isRelayer_RunE)) (\<lambda>_. []) []))"

definition pauseCmd :: "('k, 'rpc, 'f, 'w) command_of" where
  "pauseCmd P =
     r_bind (BindPauseFlags no_flags) (\<lambda>fl. Ok (
        Command ''pause'' fl Calls_parent (log_call P)
          (args_on admin_v admin_v_update (pause_Args (env_lib (pe_cli P))))
          (Some (run_on admin_g admin_v P pause_RunE)) (\<lambda>_. []) []))"

definition removeAdminCmd :: "('k, 'rpc, 'f, 'w) command_of" where
  "removeAdminCmd P =
     r_bind (BindRemoveAdminFlags no_flags) (\<lambda>fl. Ok (
        Command ''remove-admin'' fl Calls_parent (log_call P)
          (args_on admin_v admin_v_update (removeAdmin_Args (env_lib (pe_cli P))))
          (Some (run_on admin_g admin_v P (\<lambda>E g. removeAdmin))) (\<lambda>_. []) []))"

definition removeRelayerCmd :: "('k, 'rpc, 'f, 'w) command_of" where
  "removeRelayerCmd P =
     r_bind (BindRemoveRelayerFlags no_flags) (\<lambda>fl. Ok (
        Command ''remove-relayer'' fl Calls_parent (log_call P)
          (args_on admin_v admin_v_update (removeRelayer_Args (env_lib (pe_cli P))))
          (Some (run_on admin_g admin_v P (\<lambda>E g. removeRelayer))) (\<lambda>_. []) []))"

definition setFeeCmd :: "('k, 'rpc, 'f, 'w) command_of" where
  "setFeeCmd P =
     r_bind (BindSetFeeFlags no_flags) (\<lambda>fl. Ok (
        Command ''set-fee'' fl Calls_parent (log_call P)
          (args_on admin_v admin_v_update (setFee_Args (env_lib (pe_cli P))))
          (Some (run_on admin_g admin_v P (\<lambda>E g. setFee))) (\<lambda>_. []) []))"

definition setThresholdCmd :: "('k, 'rpc, 'f, 'w) command_of" where
  "setThresholdCmd P =
     r_bind (BindSetThresholdFlags no_flags) (\<lambda>fl. Ok (
        Command ''set-threshold'' fl Calls_parent (log_call P)
          (args_on admin_v admin_v_update (setThreshold_Args (env_lib (pe_cli P))))
          (Some (run_on admin_g admin_v P setThreshold_RunE)) (\<lambda>_. []) []))"

definition getThresholdCmd :: "('k, 'rpc, 'f, 'w) command_of" where
  "getThresholdCmd P =
     r_bind (BindGetThresholdFlags no_flags) (\<lambda>fl. Ok (
        Command ''get-threshold'' fl Calls_parent (log_call P)
          (args_on admin_v admin_v_update (getThreshold_Args (env_lib (pe_cli P))))
          (Some (run_on admin_g admin_v P getThreshold_RunE)) (\<lambda>_. []) []))"

definition unpauseCmd :: "('k, 'rpc, 'f, 'w) command_of" where
  "unpauseCmd P =
     r_bind (BindUnpauseFlags no_flags) (\<lambda>fl. Ok (
        Command ''unpause'' fl Calls_parent (log_call P)
          (args_on admin_v admin_v_update (unpause_Args (env_lib (pe_cli P))))
          (Some (run_on admin_g admin_v P unpause_RunE)) (\<lambda>_. []) []))"

definition withdrawCmd :: "('k, 'rpc, 'f, 'w) command_of" where
  "withdrawCmd P =
     r_bind (BindWithdrawFlags no_flags) (\<lambda>fl. Ok (
        Command ''withdraw'' fl Calls_parent (log_call P)
          (args_on admin_v admin_v_update (withdraw_Args (env_lib (pe_cli P)) (env_floats (pe_cli P))))
          (Some (run_on admin_g admin_v P withdraw_RunE)) (\<lambda>_. []) []))"

definition setDepositNonceCmd :: "('k, 'rpc, 'f, 'w) command_of" where
  "setDepositNonceCmd P =
     r_bind (BindSetDepositNonceFlags no_flags) (\<lambda>fl. Ok (
        Command ''set-deposit-nonce'' fl Calls_parent (log_call P)
          (args_on admin_v admin_v_update (setDepositNonce_Args (env_lib (pe_cli P))))
          (Some (run_on admin_g admin_v P setDepositNonce_RunE)) (\<lambda>_. []) []))"

definition AdminCmd :: "('k, 'rpc, 'f, 'w) command_of" where
  "AdminCmd P =
     r_bind (add_commands
       [addAdminCmd P, addRelayerCmd P, isRelayerCmd P, pauseCmd P, removeAdminCmd P,
        removeRelayerCmd P, setFeeCmd P, setThresholdCmd P, getThresholdCmd P, unpauseCmd P,
        withdrawCmd P, setDepositNonceCmd P]) (\<lambda>subs.
       Ok (Command ''admin'' no_flags (Own_hook (group_hook P admin_g_update (\<lambda>g old. g))) no_pre_run no_args None (\<lambda>_. []) subs))"

section \<open>Bridge\<close>

definition cancelProposalCmd :: "('k, 'rpc, 'f, 'w) command_of" where
  "cancelProposalCmd P =
     r_bind (BindCancelProposalFlags no_flags) (\<lambda>fl. Ok (
        Command ''cancel-proposal'' fl Calls_parent (log_call P)
          (args_on bridge_v bridge_v_update (cancelProposal_Args (env_lib (pe_cli P))))
          (Some (run_on bridge_g bridge_v P (\<lambda>E g. cancelProposal))) (\<lambda>_. []) []))"

definition queryProposalCmd :: "('k, 'rpc, 'f, 'w) command_of" where
  "queryProposalCmd P =
     r_bind (BindQueryProposalFlags no_flags) (\<lambda>fl. Ok (
        Command ''query-proposal'' fl Calls_parent (log_call P)
          (args_on bridge_v bridge_v_update (queryProposal_Args (env_lib (pe_cli P))))
          (Some (run_on bridge_g bridge_v P (\<lambda>E g. queryProposal))) (\<lambda>_. []) []))"

definition queryResourceCmd :: "('k, 'rpc, 'f, 'w) command_of" where
  "queryResourceCmd P =
     r_bind (BindQueryResourceFlags no_flags) (\<lambda>fl. Ok (
        Command ''query-resource'' fl Calls_parent (log_call P)
          (args_on bridge_v bridge_v_update (queryResource_Args (env_lib (pe_cli P))))
          (Some (run_on bridge_g bridge_v P (\<lambda>E g. queryResource))) (\<lambda>_. []) []))"

definition registerGenericResourceCmd :: "('k, 'rpc, 'f, 'w) command_of" where
  "registerGenericResourceCmd P =
     r_bind (BindRegisterGenericResourceFlags no_flags) (\<lambda>fl. Ok (
        Command ''register-generic-resource'' fl Calls_parent (log_call P)
          (args_on bridge_v bridge_v_update (registerGenericResource_Args (env_lib (pe_cli P))))
          (Some (run_on bridge_g bridge_v P registerGenericResource_RunE)) (\<lambda>_. []) []))"

definition registerResourceCmd :: "('k, 'rpc, 'f, 'w) command_of" where
  "registerResourceCmd P =
     r_bind (BindRegisterResourceFlags no_flags) (\<lambda>fl. Ok (
        Command ''register-resource'' fl Calls_parent (log_call P)
          (args_on bridge_v bridge_v_update (registerResource_Args (env_lib (pe_cli P))))
          (Some (run_on bridge_g bridge_v P registerResource_RunE)) (\<lambda>_. []) []))"

definition setBurnCmd :: "('k, 'rpc, 'f, 'w) command_of" where
  "setBurnCmd P =
     r_bind (BindSetBurnFlags no_flags) (\<lambda>fl. Ok (
        Command ''set-burn'' fl Calls_parent (log_call P)
          (args_on bridge_v bridge_v_update (setBurn_Args (env_lib (pe_cli P))))
          (Some (run_on bridge_g bridge_v P setBurn_RunE)) (\<lambda>_. []) []))"

definition voteProposalCmd :: "('k, 'rpc, 'f, 'w) command_of" where
  "voteProposalCmd P =
     r_bind (BindVoteProposalCmdFlags no_flags) (\<lambda>fl. Ok (
        Command ''vote-proposal'' fl Calls_parent (log_call P)
          (args_on bridge_v bridge_v_update (voteProposal_Args (env_lib (pe_cli P)) (env_Hex2Bytes (pe_cli P))))
          (Some (run_on bridge_g bridge_v P voteProposal_RunE)) (\<lambda>_. []) []))"

definition BridgeCmd :: "('k, 'rpc, 'f, 'w) command_of" where
  "BridgeCmd P =
     r_bind (add_commands
       [cancelProposalCmd P, queryProposalCmd P, queryResourceCmd P, registerGenericResourceCmd P,
        registerResourceCmd P, setBurnCmd P, voteProposalCmd P]) (\<lambda>subs.
       Ok (Command ''bridge'' no_flags (Own_hook (group_hook P bridge_g_update (\<lambda>g old. g))) no_pre_run no_args None (\<lambda>_. []) subs))"

section \<open>ERC20\<close>

definition erc20_addMinterCmd :: "('k, 'rpc, 'f, 'w) command_of" where
  "erc20_addMinterCmd P =
     r_bind (erc20_BindAddMinterFlags no_flags) (\<lambda>fl. Ok (
        Command ''add-minter'' fl Calls_parent (log_call P)
          (args_on erc20_v erc20_v_update (erc20_addMinter_Args (env_lib (pe_cli P))))
          (Some (run_on erc20_g erc20_v P erc20_addMinter_RunE)) (\<lambda>_. []) []))"

definition getAllowanceCmd :: "('k, 'rpc, 'f, 'w) command_of" where
  "getAllowanceCmd P =
     r_bind (BindGetAllowanceFlags no_flags) (\<lambda>fl. Ok (
        Command ''get-allowance'' fl Calls_parent (log_call P)
          (args_on erc20_v erc20_v_update (getAllowance_Args (env_lib (pe_cli P))))
          (Some (run_on erc20_g erc20_v P getAllowance_RunE)) (\<lambda>_. []) []))"

definition erc20_approveCmd :: "('k, 'rpc, 'f, 'w) command_of" where
  "erc20_approveCmd P =
     r_bind (erc20_BindApproveFlags no_flags) (\<lambda>fl. Ok (
        Command ''approve'' fl Calls_parent (log_call P)
          (args_on erc20_v erc20_v_update (erc20_approve_Args (env_lib (pe_cli P)) (env_floats (pe_cli P))))
          (Some (run_on erc20_g erc20_v P erc20_approve_RunE)) (\<lambda>_. []) []))"

definition balanceCmd :: "('k, 'rpc, 'f, 'w) command_of" where
  "balanceCmd P =
     r_bind (BindBalanceFlags no_flags) (\<lambda>fl. Ok (
        Command ''balance'' fl Calls_parent (log_call P)
          (args_on erc20_v erc20_v_update (balance_Args (env_lib (pe_cli P))))
          (Some (run_on erc20_g erc20_v P balance_RunE)) (\<lambda>_. []) []))"

definition erc20_depositCmd :: "('k, 'rpc, 'f, 'w) command_of" where
  "erc20_depositCmd P =
     r_bind (erc20_BindDepositFlags no_flags) (\<lambda>fl. Ok (
        Command ''deposit'' fl Calls_parent (log_call P)
          (args_on erc20_v erc20_v_update (erc20_deposit_Args (env_lib (pe_cli P)) (env_floats (pe_cli P))))
          (Some (run_on erc20_g erc20_v P erc20_deposit_RunE)) (\<lambda>_. []) []))"

definition erc20_mintCmd :: "('k, 'rpc, 'f, 'w) command_of" where
  "erc20_mintCmd P =
     r_bind (erc20_BindMintFlags no_flags) (\<lambda>fl. Ok (
        Command ''mint'' fl Calls_parent (log_call P)
          (\<lambda>s. args_on erc20_v erc20_v_update (erc20_mint_Args (env_lib (pe_cli P)) (env_floats (pe_cli P)) (sender_address P (erc20_g s))) s)
          (Some (run_on erc20_g erc20_v P erc20_mint_RunE)) (\<lambda>_. []) []))"

definition ERC20Cmd :: "('k, 'rpc, 'f, 'w) command_of" where
  "ERC20Cmd P =
     r_bind (add_commands
       [erc20_addMinterCmd P, getAllowanceCmd P, erc20_approveCmd P, balanceCmd P,
        erc20_depositCmd P, erc20_mintCmd P]) (\<lambda>subs.
       Ok (Command ''erc20'' no_flags (Own_hook (group_hook P erc20_g_update (\<lambda>g old. g))) no_pre_run no_args None (\<lambda>_. []) subs))"

section \<open>ERC721\<close>

definition erc721_mintCmd :: "('k, 'rpc, 'f, 'w) command_of" where
  "erc721_mintCmd P =
     r_bind (erc721_BindMintFlags no_flags) (\<lambda>fl. Ok (
        Command ''mint'' fl Calls_parent (log_call P)
          (\<lambda>s. args_on erc721_v erc721_v_update (erc721_mint_Args (env_lib (pe_cli P)) (sender_address P (erc721_g s))) s)
          (Some (run_on erc721_g erc721_v P erc721_mint_RunE)) (\<lambda>_. []) []))"

definition erc721_approveCmd :: "('k, 'rpc, 'f, 'w) command_of" where
  "erc721_approveCmd P =
     r_bind (erc721_BindApproveFlags no_flags) (\<lambda>fl. Ok (
        Command ''approve'' fl Calls_parent (log_call P)
          (args_on erc721_v erc721_v_update (erc721_approve_Args (env_lib (pe_cli P))))
          (Some (run_on erc721_g erc721_v P erc721_approve_RunE)) (\<lambda>_. []) []))"

definition ownerCmd :: "('k, 'rpc, 'f, 'w) command_of" where
  "ownerCmd P =
     r_bind (BindOwnerFlags no_flags) (\<lambda>fl. Ok (
        Command ''owner'' fl Calls_parent (log_call P)
          (args_on erc721_v erc721_v_update (owner_Args (env_lib (pe_cli P))))
          (Some (run_on erc721_g erc721_v P owner_RunE)) (\<lambda>_. []) []))"

definition erc721_depositCmd :: "('k, 'rpc, 'f, 'w) command_of" where
  "erc721_depositCmd P =
     r_bind (erc721_BindDepositFlags no_flags) (\<lambda>fl. Ok (
        Command ''deposit'' fl Calls_parent (log_call P)
          (args_on erc721_v erc721_v_update (erc721_deposit_Args (env_lib (pe_cli P))))
          (Some (run_on erc721_g erc721_v P erc721_deposit_RunE)) (\<lambda>_. []) []))"

definition erc721_addMinterCmd :: "('k, 'rpc, 'f, 'w) command_of" where
  "erc721_addMinterCmd P =
     r_bind (erc721_BindAddMinterFlags no_flags) (\<lambda>fl. Ok (
        Command ''add-minter'' fl Calls_parent (log_call P)
          (args_on erc721_v erc721_v_update (erc721_addMinter_Args (env_lib (pe_cli P))))
          (Some (run_on erc721_g erc721_v P erc721_addMinter_RunE)) (\<lambda>_. []) []))"

definition ERC721Cmd :: "('k, 'rpc, 'f, 'w) command_of" where
  "ERC721Cmd P =
     r_bind (add_commands
       [erc721_mintCmd P, erc721_approveCmd P, ownerCmd P, erc721_depositCmd P,
        erc721_addMinterCmd P]) (\<lambda>subs.
       Ok (Command ''erc721'' no_flags (Own_hook (group_hook P erc721_g_update (\<lambda>g old. g))) no_pre_run no_args None (\<lambda>_. []) subs))"

section \<open>Centrifuge\<close>

definition centrifuge_deployCmd :: "('k, 'rpc, 'f, 'w) command_of" where
  "centrifuge_deployCmd P =
     Ok (Command ''deploy'' no_flags Calls_parent (log_call P)
          no_args
          (Some (run_on centrifuge_g centrifuge_v P (\<lambda>E g v. centrifuge_deploy_RunE E g))) (\<lambda>_. []) [])"

definition getHashCmd :: "('k, 'rpc, 'f, 'w) command_of" where
  "getHashCmd P =
     r_bind (BindGetHashFlags no_flags) (\<lambda>fl. Ok (
        Command ''get-hash'' fl Calls_parent (log_call P)
          (args_on centrifuge_v centrifuge_v_update (getHash_Args (env_lib (pe_cli P))))
          (Some (run_on centrifuge_g centrifuge_v P getHash_RunE)) (\<lambda>_. []) []))"

definition CentrifugeCmd :: "('k, 'rpc, 'f, 'w) command_of" where
  "CentrifugeCmd P =
     r_bind (add_commands
       [centrifuge_deployCmd P, getHashCmd P]) (\<lambda>subs.
       Ok (Command ''centrifuge'' no_flags (Own_hook (group_hook P centrifuge_g_update (\<lambda>g old. g\<lparr>g_gasLimit := g_gasLimit old\<rparr>))) no_pre_run no_args None (\<lambda>_. []) subs))"

section \<open>Accounts\<close>

definition importPrivKeyCmd :: "('k, 'rpc, 'f, 'w) command_of" where
  "importPrivKeyCmd P =
     r_bind (BindImportPrivKeyFlags no_flags) (\<lambda>fl. Ok (
        Command ''import'' fl No_hook no_pre_run
          (args_on account_v account_v_update importPrivKey_Args)
          (Some (run_import P)) (\<lambda>_. []) []))"

definition generateKeyPairCmd :: "('k, 'rpc, 'f, 'w) command_of" where
  "generateKeyPairCmd P =
     Ok (Command ''generate'' no_flags No_hook (log_call P)
          no_args
          (Some (run_generate P)) (\<lambda>_. []) [])"

definition transferBaseCurrencyCmd :: "('k, 'rpc, 'f, 'w) command_of" where
  "transferBaseCurrencyCmd P =
     r_bind (BindTransferBaseCurrencyFlags no_flags) (\<lambda>fl. Ok (
        Command ''transfer'' fl Calls_parent (confirm_and_log P)
          (args_on account_v account_v_update (transfer_Args (env_lib (pe_cli P)) (env_floats (pe_cli P))))
          (Some (run_on account_g account_v P transfer_RunE)) (\<lambda>_. []) []))"

definition AccountRootCMD :: "('k, 'rpc, 'f, 'w) command_of" where
  "AccountRootCMD P =
     r_bind (add_commands
       [importPrivKeyCmd P, generateKeyPairCmd P, transferBaseCurrencyCmd P]) (\<lambda>subs.
       Ok (Command ''accounts'' no_flags (Own_hook (group_hook P account_g_update (\<lambda>g old. g\<lparr>g_prepare := g_prepare old\<rparr>))) no_pre_run no_args None (\<lambda>_. []) subs))"

section \<open>Utilities\<close>

definition simulateCmd :: "('k, 'rpc, 'f, 'w) command_of" where
  "simulateCmd P =
     r_bind (BindSimulateFlags no_flags) (\<lambda>fl. Ok (
        Command ''simulate'' fl No_hook (log_call P)
          (args_on utils_v utils_v_update (simulate_Args (pe_cli P)))
          (Some (run_simulate P)) (\<lambda>_. []) []))"

definition hashListCmd :: "('k, 'rpc, 'f, 'w) command_of" where
  "hashListCmd P =
     r_bind (BindHashListFlags no_flags) (\<lambda>fl. Ok (
        Command ''hash-list'' fl No_hook (log_call P)
          no_args
          (Some (run_hash_list P)) (\<lambda>_. []) []))"

definition UtilsCmd :: "('k, 'rpc, 'f, 'w) command_of" where
  "UtilsCmd P =
     r_bind (add_commands
       [simulateCmd P, hashListCmd P]) (\<lambda>subs.
       Ok (Command ''utils'' no_flags No_hook no_pre_run no_args None (\<lambda>_. []) subs))"

section \<open>The tree\<close>

definition EvmRootCLI :: "('k, 'rpc, 'f, 'w) command_of" where
  "EvmRootCLI P =
     r_bind (add_commands
       [DeployEVM P, AdminCmd P, BridgeCmd P, ERC20Cmd P, ERC721Cmd P, CentrifugeCmd P,
        AccountRootCMD P, UtilsCmd P]) (\<lambda>subs.
       Ok (Command ''evm-cli'' (BindEVMCLIFlags no_flags) No_hook (log_call P) no_args
             (Some (\<lambda>names. s_return ())) (\<lambda>_. []) subs))"

definition LocalSetupCmd :: "('k, 'rpc, 'f, 'w) command_of" where
  "LocalSetupCmd P =
     Ok (Command ''local-setup'' no_flags No_hook no_pre_run no_args
           (Some (\<lambda>names s.
              case localSetup (pe_cli P) (pe_crypto P) (pe_ring P) (snd (node s)) of
                (r, w) \<Rightarrow> (r_bind r (\<lambda>_. Ok ()), s\<lparr>node := (fst (node s), w)\<rparr>))) (\<lambda>_. []) [])"

text \<open>The flags of the relayer itself, \<open>flags/flags.go\<close>.\<close>

definition BindFlags :: "command_flags \<Rightarrow> command_flags" where
  "BindFlags rootCMD = declare_flags
     [(''config'', String_flag ''.''), (''blockstore'', String_flag ''./lvldbdata''),
      (''fresh'', Bool_flag False), (''latest'', Bool_flag False),
      (''keystore'', String_flag ''./keys''), (''testkey'', String_flag '''')] rootCMD"

text \<open>The command of the relayer, with \<open>run_app\<close> for \<open>app.Run\<close>, and the root of the program.\<close>

definition runCMD :: "('s \<Rightarrow> unit result \<times> 's) \<Rightarrow> 's command" where
  "runCMD run_app =
     Command ''run'' (BindFlags no_flags) No_hook no_pre_run no_args (Some (\<lambda>names. run_app)) (\<lambda>_. []) []"

definition rootCMD ::
  "(('k, 'w) package_vars \<Rightarrow> unit result \<times> ('k, 'w) package_vars) \<Rightarrow> ('k, 'rpc, 'f, 'w) command_of" where
  "rootCMD run_app P =
     r_bind (add_commands [Ok (runCMD run_app), EvmRootCLI P, LocalSetupCmd P]) (\<lambda>subs.
       Ok (Command '''' no_flags No_hook no_pre_run no_args None (\<lambda>_. []) subs))"

section \<open>Building the tree\<close>

text \<open>The flags of a command, once bound.\<close>

definition bound :: "(command_flags \<Rightarrow> command_flags result) \<Rightarrow> command_flags" where
  "bound bind = (case bind no_flags of Ok fl \<Rightarrow> fl | _ \<Rightarrow> no_flags)"

lemma bound_list:
  "list_all (\<lambda>bind. \<exists>cmd. bind no_flags = Ok cmd \<and> Q bind cmd) binds \<Longrightarrow>
   list_all (\<lambda>bind. bind no_flags = Ok (bound bind)) binds"
  by (auto simp: list_all_iff bound_def dest!: bspec)

lemmas bound_flags = bound_list [OF commands_declare_their_flags, unfolded list.pred_inject]

lemmas built_commands =
    addAdminCmd_def addRelayerCmd_def isRelayerCmd_def pauseCmd_def removeAdminCmd_def
    removeRelayerCmd_def setFeeCmd_def setThresholdCmd_def getThresholdCmd_def unpauseCmd_def
    withdrawCmd_def setDepositNonceCmd_def cancelProposalCmd_def queryProposalCmd_def
    queryResourceCmd_def registerGenericResourceCmd_def registerResourceCmd_def setBurnCmd_def
    voteProposalCmd_def erc20_addMinterCmd_def getAllowanceCmd_def erc20_approveCmd_def
    balanceCmd_def erc20_depositCmd_def erc20_mintCmd_def erc721_mintCmd_def erc721_approveCmd_def
    ownerCmd_def erc721_depositCmd_def erc721_addMinterCmd_def centrifuge_deployCmd_def
    getHashCmd_def importPrivKeyCmd_def generateKeyPairCmd_def transferBaseCurrencyCmd_def
    simulateCmd_def hashListCmd_def

lemma member_functions:
  "node (snd (args_on get upd f s)) = node (upd (\<lambda>_. snd (f (get s))) s)"
  "getg (snd (args_on get upd f s)) = getg (upd (\<lambda>_. snd (f (get s))) s)"
  "snd (no_args s) = s" "snd (no_pre_run names s) = s"
  by (simp_all add: args_on_def no_args_def s_return_def no_pre_run_def split: prod.splits)

text \<open>Only the node is changed by what runs after the checks.\<close>

definition node_only :: "(('k, 'w) package_vars \<Rightarrow> 'x \<times> ('k, 'w) package_vars) \<Rightarrow> bool" where
  "node_only f \<longleftrightarrow> (\<forall>s. (snd (f s))\<lparr>node := node s\<rparr> = s)"

lemma node_only_steps:
  "node_only (log_call P names)" "node_only (confirm_and_log P names)" "node_only (no_pre_run names)"
  "node_only (run_on getg getv P run names)" "node_only (run_import P names)" "node_only (run_generate P names)"
  by (auto simp: node_only_def log_call_def confirm_and_log_def run_on_def run_import_def run_generate_def
      no_pre_run_def split: prod.splits option.splits bool.splits)

lemma node_only_globals:
  assumes "node_only f"
  shows "admin_g (snd (f s)) = admin_g s" "bridge_g (snd (f s)) = bridge_g s" "erc20_g (snd (f s)) = erc20_g s"
    "erc721_g (snd (f s)) = erc721_g s" "centrifuge_g (snd (f s)) = centrifuge_g s"
    "account_g (snd (f s)) = account_g s"
proof -
  from assms have "s = (snd (f s))\<lparr>node := node s\<rparr>" by (simp add: node_only_def)
  moreover have "admin_g (x\<lparr>node := n\<rparr>) = admin_g x" "bridge_g (x\<lparr>node := n\<rparr>) = bridge_g x"
    "erc20_g (x\<lparr>node := n\<rparr>) = erc20_g x" "erc721_g (x\<lparr>node := n\<rparr>) = erc721_g x"
    "centrifuge_g (x\<lparr>node := n\<rparr>) = centrifuge_g x" "account_g (x\<lparr>node := n\<rparr>) = account_g x" for x n
    by simp_all
  ultimately show "admin_g (snd (f s)) = admin_g s" "bridge_g (snd (f s)) = bridge_g s"
    "erc20_g (snd (f s)) = erc20_g s" "erc721_g (snd (f s)) = erc721_g s"
    "centrifuge_g (snd (f s)) = centrifuge_g s" "account_g (snd (f s)) = account_g s"
    by metis+
qed

lemmas member_simps = member_functions group_member_def node_only_globals [OF node_only_steps(1)]
  node_only_globals [OF node_only_steps(2)] node_only_globals [OF node_only_steps(4)]
  node_only_globals [OF node_only_steps(5)] node_only_globals [OF node_only_steps(6)]

lemma admin_group:
  "\<exists>cs. AdminCmd P = Ok (Command ''admin'' no_flags (Own_hook (group_hook P admin_g_update
       (\<lambda>g old. g))) no_pre_run no_args None (\<lambda>_. []) cs) \<and>
     list_all (group_member admin_g node) cs"
  by (simp add: AdminCmd_def built_commands bound_flags member_simps)

lemma bridge_group:
  "\<exists>cs. BridgeCmd P = Ok (Command ''bridge'' no_flags (Own_hook (group_hook P bridge_g_update
       (\<lambda>g old. g))) no_pre_run no_args None (\<lambda>_. []) cs) \<and>
     list_all (group_member bridge_g node) cs"
  by (simp add: BridgeCmd_def built_commands bound_flags member_simps)

lemma erc20_group:
  "\<exists>cs. ERC20Cmd P = Ok (Command ''erc20'' no_flags (Own_hook (group_hook P erc20_g_update
       (\<lambda>g old. g))) no_pre_run no_args None (\<lambda>_. []) cs) \<and>
     list_all (group_member erc20_g node) cs"
  by (simp add: ERC20Cmd_def built_commands bound_flags member_simps)

lemma erc721_group:
  "\<exists>cs. ERC721Cmd P = Ok (Command ''erc721'' no_flags (Own_hook (group_hook P erc721_g_update
       (\<lambda>g old. g))) no_pre_run no_args None (\<lambda>_. []) cs) \<and>
     list_all (group_member erc721_g node) cs"
  by (simp add: ERC721Cmd_def built_commands bound_flags member_simps)

lemma centrifuge_group:
  "\<exists>cs. CentrifugeCmd P = Ok (Command ''centrifuge'' no_flags (Own_hook (group_hook P centrifuge_g_update
       (\<lambda>g old. g\<lparr>g_gasLimit := g_gasLimit old\<rparr>))) no_pre_run no_args None (\<lambda>_. []) cs) \<and>
     list_all (group_member centrifuge_g node) cs"
  by (simp add: CentrifugeCmd_def built_commands bound_flags member_simps)

lemma account_group:
  "\<exists>cs. AccountRootCMD P = Ok (Command ''accounts'' no_flags (Own_hook (group_hook P account_g_update
       (\<lambda>g old. g\<lparr>g_prepare := g_prepare old\<rparr>))) no_pre_run no_args None (\<lambda>_. []) cs) \<and>
     list_all (group_member account_g node) cs"
  by (simp add: AccountRootCMD_def built_commands bound_flags member_simps)

lemma utils_group: "\<exists>cs. UtilsCmd P = Ok (Command ''utils'' no_flags No_hook no_pre_run no_args None (\<lambda>_. []) cs)"
  by (simp add: UtilsCmd_def built_commands bound_flags)

lemma rootCMD_tree:
  "\<exists>main E G1 G2 G3 G4 G5 G6 U. rootCMD run_app P = Ok main \<and>
     AdminCmd P = Ok G1 \<and> BridgeCmd P = Ok G2 \<and> ERC20Cmd P = Ok G3 \<and> ERC721Cmd P = Ok G4 \<and>
     CentrifugeCmd P = Ok G5 \<and> AccountRootCMD P = Ok G6 \<and> UtilsCmd P = Ok U \<and>
     Use main = '''' \<and> Subcommands main = [runCMD run_app, E] @ (case LocalSetupCmd P of Ok l \<Rightarrow> [l] | _ \<Rightarrow> []) \<and>
     PersistentPreRunE main = No_hook \<and> Use E = ''evm-cli'' \<and> PersistentPreRunE E = No_hook \<and>
     map Ok (Subcommands E) = [DeployEVM P, Ok G1, Ok G2, Ok G3, Ok G4, Ok G5, Ok G6, Ok U]"
  using admin_group [of P] bridge_group [of P] erc20_group [of P] erc721_group [of P] centrifuge_group [of P]
    account_group [of P] utils_group [of P]
  by (auto simp: rootCMD_def EvmRootCLI_def LocalSetupCmd_def DeployEVM_def)

end
