(* ===== verification/Cli_Lines.thy ===== *)
theory Cli_Lines
  imports Cli_Tree
begin

text \<open>
  What happens to a command line: which hook runs before a command of the tree, that nothing
  outside is reached before arguments and global flags were accepted, and that the flag \<open>prepare\<close>
  keeps every command that is one transaction from sending it.
\<close>

section \<open>Command lines of a group\<close>

definition command_groups :: "string list" where
  "command_groups = [''admin'', ''bridge'', ''erc20'', ''erc721'', ''centrifuge'', ''accounts'']"

definition package_globals :: "string \<Rightarrow> ('k, 'w) package_vars \<Rightarrow> 'k global_flags" where
  "package_globals grp s =
     (if grp = ''admin'' then admin_g s else if grp = ''bridge'' then bridge_g s
      else if grp = ''erc20'' then erc20_g s else if grp = ''erc721'' then erc721_g s
      else if grp = ''centrifuge'' then centrifuge_g s else account_g s)"

text \<open>The two packages that leave out one of the global flags.\<close>

definition kept_globals :: "string \<Rightarrow> 'k global_flags \<Rightarrow> 'k global_flags \<Rightarrow> 'k global_flags" where
  "kept_globals grp g old =
     (if grp = ''centrifuge'' then g\<lparr>g_gasLimit := g_gasLimit old\<rparr>
      else if grp = ''accounts'' then g\<lparr>g_prepare := g_prepare old\<rparr> else g)"

lemma find_member: "find P xs = Some x \<Longrightarrow> list_all Q xs \<Longrightarrow> P x \<and> Q x"
  by (auto simp: find_Some_iff list_all_length)

definition group_command :: "string \<Rightarrow> ('k, 'rpc, 'f, 'w) command_of" where
  "group_command grp =
     (if grp = ''admin'' then AdminCmd else if grp = ''bridge'' then BridgeCmd
      else if grp = ''erc20'' then ERC20Cmd else if grp = ''erc721'' then ERC721Cmd
      else if grp = ''centrifuge'' then CentrifugeCmd else AccountRootCMD)"

lemma in_group:
  assumes "rootCMD run_app P = Ok main" and "grp \<in> set command_groups"
  shows "\<exists>E G. group_command grp P = Ok G \<and> path_names [G, E, main] = ['''', ''evm-cli'', grp] \<and>
    find_command [main] [''evm-cli'', grp, leaf] =
      map_option (\<lambda>c. [c, G, E, main]) (find (\<lambda>s. Use s = leaf) (Subcommands G))"
proof -
  obtain cs1 cs2 cs3 cs4 cs5 cs6 cs7 where groups:
    "AdminCmd P = Ok (Command ''admin'' no_flags (Own_hook (group_hook P admin_g_update (\<lambda>g old. g)))
       no_pre_run no_args None (\<lambda>_. []) cs1)"
    "BridgeCmd P = Ok (Command ''bridge'' no_flags (Own_hook (group_hook P bridge_g_update (\<lambda>g old. g)))
       no_pre_run no_args None (\<lambda>_. []) cs2)"
    "ERC20Cmd P = Ok (Command ''erc20'' no_flags (Own_hook (group_hook P erc20_g_update (\<lambda>g old. g)))
       no_pre_run no_args None (\<lambda>_. []) cs3)"
    "ERC721Cmd P = Ok (Command ''erc721'' no_flags (Own_hook (group_hook P erc721_g_update (\<lambda>g old. g)))
       no_pre_run no_args None (\<lambda>_. []) cs4)"
    "CentrifugeCmd P = Ok (Command ''centrifuge'' no_flags (Own_hook (group_hook P centrifuge_g_update
       (\<lambda>g old. g\<lparr>g_gasLimit := g_gasLimit old\<rparr>))) no_pre_run no_args None (\<lambda>_. []) cs5)"
    "AccountRootCMD P = Ok (Command ''accounts'' no_flags (Own_hook (group_hook P account_g_update
       (\<lambda>g old. g\<lparr>g_prepare := g_prepare old\<rparr>))) no_pre_run no_args None (\<lambda>_. []) cs6)"
    "UtilsCmd P = Ok (Command ''utils'' no_flags No_hook no_pre_run no_args None (\<lambda>_. []) cs7)"
    using admin_group [of P] bridge_group [of P] erc20_group [of P] erc721_group [of P] centrifuge_group [of P]
      account_group [of P] utils_group [of P] by metis
  have main: "main = (case rootCMD run_app P of Ok m \<Rightarrow> m)" using assms(1) by simp
  define E where "E = (case EvmRootCLI P of Ok m \<Rightarrow> m)"
  have E: "EvmRootCLI P = Ok E" "Subcommands E = map (\<lambda>r. case r of Ok m \<Rightarrow> m) [DeployEVM P, AdminCmd P, BridgeCmd P, ERC20Cmd P, ERC721Cmd P, CentrifugeCmd P,
      AccountRootCMD P, UtilsCmd P]" "Use E = ''evm-cli''"
    by (simp_all add: EvmRootCLI_def E_def groups DeployEVM_def)
  have "find_command [main] [''evm-cli'', grp, leaf] = find_command [E, main] [grp, leaf]"
    by (simp add: main rootCMD_def E LocalSetupCmd_def runCMD_def)
  moreover have "find_command [E, main] [grp, leaf] =
    (case find (\<lambda>s. Use s = grp) (Subcommands E) of None \<Rightarrow> None
     | Some G \<Rightarrow> map_option (\<lambda>c. [c, G, E, main]) (find (\<lambda>s. Use s = leaf) (Subcommands G)))"
    by (auto split: option.split)
  moreover from assms(2) have "find (\<lambda>s. Use s = grp) (Subcommands E) = Some (case group_command grp P of Ok G \<Rightarrow> G) \<and>
    (\<exists>G. group_command grp P = Ok G)"
    by (auto simp: command_groups_def group_command_def E groups DeployEVM_def)
  moreover have "Use main = ''''" "Use E = ''evm-cli''"
    by (simp_all add: main rootCMD_def E LocalSetupCmd_def runCMD_def)
  moreover have "(case group_command grp P of Ok G \<Rightarrow> Use G) = grp"
    using assms(2) by (auto simp: command_groups_def group_command_def groups)
  ultimately show ?thesis by (auto simp: path_names_def)
qed


lemma group_hooks:
  assumes "grp \<in> set command_groups" and "group_command grp P = Ok G"
  shows "\<exists>upd. PersistentPreRunE G = Own_hook (group_hook P upd (kept_globals grp)) \<and>
    list_all (group_member (package_globals grp) node) (Subcommands G) \<and>
    (\<forall>f s. package_globals grp (upd f s) = f (package_globals grp s) \<and> node (upd f s) = node s)"
proof -
  have fields: "package_globals ''admin'' = admin_g" "package_globals ''bridge'' = bridge_g"
    "package_globals ''erc20'' = erc20_g" "package_globals ''erc721'' = erc721_g"
    "package_globals ''centrifuge'' = centrifuge_g" "package_globals ''accounts'' = account_g"
    "kept_globals ''admin'' = (\<lambda>g old. g)" "kept_globals ''bridge'' = (\<lambda>g old. g)"
    "kept_globals ''erc20'' = (\<lambda>g old. g)" "kept_globals ''erc721'' = (\<lambda>g old. g)"
    "kept_globals ''centrifuge'' = (\<lambda>g old. g\<lparr>g_gasLimit := g_gasLimit old\<rparr>)"
    "kept_globals ''accounts'' = (\<lambda>g old. g\<lparr>g_prepare := g_prepare old\<rparr>)"
    by (simp_all add: fun_eq_iff package_globals_def kept_globals_def)
  from assms(1) have "grp = ''admin'' \<or> grp = ''bridge'' \<or> grp = ''erc20'' \<or> grp = ''erc721'' \<or>
    grp = ''centrifuge'' \<or> grp = ''accounts''" by (simp add: command_groups_def)
  then show ?thesis
  proof (elim disjE, goal_cases)
    case 1
    with assms(2) admin_group [of P] show ?thesis
      by (clarsimp simp: group_command_def fields) (rule exI [of _ admin_g_update], simp)
  next
    case 2
    with assms(2) bridge_group [of P] show ?thesis
      by (clarsimp simp: group_command_def fields) (rule exI [of _ bridge_g_update], simp)
  next
    case 3
    with assms(2) erc20_group [of P] show ?thesis
      by (clarsimp simp: group_command_def fields) (rule exI [of _ erc20_g_update], simp)
  next
    case 4
    with assms(2) erc721_group [of P] show ?thesis
      by (clarsimp simp: group_command_def fields) (rule exI [of _ erc721_g_update], simp)
  next
    case 5
    with assms(2) centrifuge_group [of P] show ?thesis
      by (clarsimp simp: group_command_def fields) (rule exI [of _ centrifuge_g_update], simp)
  next
    case 6
    with assms(2) account_group [of P] show ?thesis
      by (clarsimp simp: group_command_def fields) (rule exI [of _ account_g_update], simp)
  qed
qed

lemma group_hook_node:
  assumes "\<And>f s. node (upd f s) = node s"
  shows "node (snd (group_hook P upd keep names s)) = node s"
  by (simp add: group_hook_def assms split: result.splits)

text \<open>
  C29: a command line of one of the six groups that succeeds, or reaches the node, a file or the log
  at all, has passed the checks of its arguments, and its package holds the global flags of that
  command line.
\<close>

theorem commands_run_checked:
  assumes "cobra_documented cobra" and "rootCMD run_app P = Ok main" and "grp \<in> set command_groups"
    and "find_command [main] [''evm-cli'', grp, leaf] = Some (c # G # rest)"
    and "cobra main [''evm-cli'', grp, leaf] given s = (r, s')"
    and "r = Ended (Ok ()) \<or> node s' \<noteq> node s"
  shows "fst (Args c s) = Ok () \<and>
    (\<exists>g. GlobalFlagValues (pe_crypto P) (pe_ring P)
        (pe_flags P (path_names (if PersistentPreRunE c = Calls_parent then G # rest else c # G # rest))) = Ok g \<and>
      package_globals grp s' = kept_globals grp g (package_globals grp s))"
proof -
  from in_group [OF assms(2,3), of leaf] obtain E G' where "group_command grp P = Ok G'" and
    "map_option (\<lambda>c. [c, G', E, main]) (find (\<lambda>s. Use s = leaf) (Subcommands G')) = Some (c # G # rest)"
    using assms(4) by metis
  then have G: "group_command grp P = Ok G" and c: "find (\<lambda>s. Use s = leaf) (Subcommands G) = Some c" by auto
  from group_hooks [OF assms(3) G] obtain upd where
    hook: "PersistentPreRunE G = Own_hook (group_hook P upd (kept_globals grp))" and
    members: "list_all (group_member (package_globals grp) node) (Subcommands G)" and
    upd: "\<And>f s. package_globals grp (upd f s) = f (package_globals grp s)" "\<And>f s. node (upd f s) = node s" by auto
  have member: "group_member (package_globals grp) node c" using find_member [OF c members] ..
  then have "documented_calls (c # G # rest) given s = (r, s')"
    using assms(1,4,5) by (auto simp: cobra_documented_def group_member_def)
  from group_command_line [OF this assms(6) hook member] upd(2) obtain s1 s2 where
    "Args c s = (Ok (), s1)" and
    "group_hook P upd (kept_globals grp)
       (path_names (if PersistentPreRunE c = Calls_parent then G # rest else c # G # rest)) s1 = (Ok (), s2)" and
    "package_globals grp s' = package_globals grp s2"
    by (metis group_hook_node)
  moreover have "package_globals grp (snd (Args c s)) = package_globals grp s"
    using member by (simp add: group_member_def)
  ultimately show ?thesis by (auto simp: group_hook_def upd split: result.splits)
qed


section \<open>Preparing\<close>

text \<open>The command lines that are one transaction, and what makes a command one of them.\<close>

definition transaction_lines :: "(string \<times> string list) list" where
  "transaction_lines =
     [(''admin'', [''add-relayer'', ''pause'', ''unpause'', ''set-deposit-nonce'', ''set-threshold'', ''withdraw'']),
      (''bridge'', [''register-generic-resource'', ''register-resource'', ''set-burn'']),
      (''erc20'', [''approve'', ''deposit'', ''mint'']), (''erc721'', [''approve'', ''deposit'', ''mint''])]"

definition prepares_transaction ::
  "('k, 'rpc, 'f, 'w) program_env \<Rightarrow> 'k global_flags \<Rightarrow> (('k, 'w) package_vars \<Rightarrow> 'k global_flags)
   \<Rightarrow> ('k, 'w) package_vars command \<Rightarrow> bool" where
  "prepares_transaction P g globals c \<longleftrightarrow>
     PersistentPreRunE c = Calls_parent \<and> PreRun c = log_call P \<and>
     (\<exists>run. RunE c = Some run \<and>
        (\<forall>names s. globals s = g \<longrightarrow>
           (\<exists>f. run names s = (case f (node s) of (r, n) \<Rightarrow> (r, s\<lparr>node := n\<rparr>)) \<and> prepares (pe_cli P) (g_url g) f)))"

lemma prepares_run_on:
  assumes "\<And>v. prepares (pe_cli P) (g_url g) (run (pe_cli P) g v)"
  shows "\<forall>names s. globals s = g \<longrightarrow>
    (\<exists>f. run_on globals vars P run names s = (case f (node s) of (r, n) \<Rightarrow> (r, s\<lparr>node := n\<rparr>)) \<and>
      prepares (pe_cli P) (g_url g) f)"
proof (intro allI impI exI conjI)
  fix names s
  assume g: "globals s = g"
  have "r_bind r (\<lambda>_. Ok ()) = r" for r :: "unit result" by (cases r) auto
  then show "run_on globals vars P run names s =
      (case run (pe_cli P) g (vars s) (node s) of (r, n) \<Rightarrow> (r, s\<lparr>node := n\<rparr>))"
    by (simp add: run_on_def g)
  show "prepares (pe_cli P) (g_url g) (run (pe_cli P) g (vars s))" by (rule assms)
qed

lemma transaction_groups:
  assumes "g_prepare g" and "(grp, leaves) \<in> set transaction_lines" and "group_command grp P = Ok G"
  shows "list_all (\<lambda>leaf. \<exists>c. find (\<lambda>c. Use c = leaf) (Subcommands G) = Some c \<and>
    prepares_transaction P g (package_globals grp) c) leaves"
proof -
  have fields: "package_globals ''admin'' = admin_g" "package_globals ''bridge'' = bridge_g"
    "package_globals ''erc20'' = erc20_g" "package_globals ''erc721'' = erc721_g"
    by (simp_all add: fun_eq_iff package_globals_def)
  note runs = prepared_runs [OF assms(1), of "pe_cli P", unfolded list.pred_inject]
  note facts = built_commands bound_flags prepares_transaction_def group_command_def fields prepares_run_on runs
  from assms(2) show ?thesis
    unfolding transaction_lines_def set_simps insert_iff prod.inject empty_iff
  proof (elim disjE conjE, goal_cases)
    case 1
    with assms(3) show ?case by (auto simp: AdminCmd_def facts)
  next
    case 2
    with assms(3) show ?case by (auto simp: BridgeCmd_def facts)
  next
    case 3
    with assms(3) show ?case by (auto simp: ERC20Cmd_def facts)
  next
    case 4
    with assms(3) show ?case by (auto simp: ERC721Cmd_def facts)
  qed simp
qed


lemma prepared_line:
  assumes "documented_calls (c # G # rest) given s = (r, s')"
    and "PersistentPreRunE G = Own_hook (group_hook P upd keep)" and "group_member globals node c"
    and "\<And>f s. globals (upd f s) = f (globals s)" "\<And>f s. node (upd f s) = node s"
    and "GlobalFlagValues (pe_crypto P) (pe_ring P) (pe_flags P (path_names (G # rest))) = Ok g"
    and "\<And>old. keep g old = g" and "prepares_transaction P g globals c"
  defines "logged \<equiv> snd (node (snd (log_call P (path_names (c # G # rest)) s)))"
  shows "(snd (node s') = snd (node s) \<or> only_prints (pe_cli P) (g_url g) logged (snd (node s'))) \<and>
    (r = Ended (Ok ()) \<longrightarrow>
      (\<exists>to data. snd (node s') = env_print (pe_cli P) to data (snd (env_dial (pe_cli P) (g_url g) logged))))"
proof -
  let ?names = "path_names (c # G # rest)"
  from assms(8) obtain run where c: "PersistentPreRunE c = Calls_parent" "PreRun c = log_call P" "RunE c = Some run"
    and run: "\<And>names s. globals s = g \<Longrightarrow>
      \<exists>f. run names s = (case f (node s) of (r, n) \<Rightarrow> (r, s\<lparr>node := n\<rparr>)) \<and> prepares (pe_cli P) (g_url g) f"
    by (auto simp: prepares_transaction_def)
  obtain r1 s1 where args: "Args c s = (r1, s1)" by fastforce
  with assms(3) have s1: "globals s1 = globals s" "node s1 = node s" by (auto simp: group_member_def dest: spec [of _ s])
  let ?s2 = "upd (keep g) s1"
  have hook: "run_hook (c # G # rest) s1 = (Ok (), ?s2)"
    using c(1) assms(2,6) by (simp add: run_hook_def group_hook_def)
  have s2: "globals ?s2 = g" "node ?s2 = node s" by (simp_all add: assms(4,5,7) s1)
  obtain s3 where s3: "log_call P ?names ?s2 = (Go_on, s3)" "snd (node s3) = logged"
    by (simp add: log_call_def logged_def s2)
  have "globals s3 = g" using assms(3) c(2) s2(1) s3(1) by (metis group_member_def snd_conv)
  from run [OF this] obtain f where f: "run ?names s3 = (case f (node s3) of (r, n) \<Rightarrow> (r, s3\<lparr>node := n\<rparr>))"
    and prep: "prepares (pe_cli P) (g_url g) f" by blast
  obtain q st w where fs: "f (fst (node s3), logged) = (q, (st, w))" by (metis surj_pair)
  with prep have only: "only_prints (pe_cli P) (g_url g) logged w \<and>
    (q = Ok () \<longrightarrow> (\<exists>to data. w = env_print (pe_cli P) to data (snd (env_dial (pe_cli P) (g_url g) logged))))"
    unfolding prepares_def by blast
  have self: "only_prints (pe_cli P) (g_url g) logged logged" by (simp add: only_prints_def)
  from s3(2) fs have ran: "run ?names s3 = (q, s3\<lparr>node := (st, w)\<rparr>)" using f by (metis prod.collapse prod.case)
  show ?thesis
  proof (cases r1)
    case (Ok u)
    then have "s_bind (Args c) (\<lambda>_. run_hook (c # G # rest)) s = (Ok (), ?s2)"
      using args hook by (simp add: s_bind_def)
    then have "documented_calls (c # G # rest) given s =
      (if \<not> set (required (Flags c) @ LateRequired c s3) \<subseteq> set given then (Ended (Err missing_flag), s3)
       else (Ended q, s3\<lparr>node := (st, w)\<rparr>))"
      by (simp add: documented_calls_def c s3(1) ran)
    with assms(1) have "s' = s3 \<and> r \<noteq> Ended (Ok ()) \<or> r = Ended q \<and> snd (node s') = w"
      by (auto split: if_splits)
    with only self s3(2) show ?thesis by auto
  qed (use assms(1) args s1 in \<open>auto simp: documented_calls_def s_bind_def\<close>)
qed

text \<open>
  C28: a command line of the tree that is one transaction, with the flag \<open>prepare\<close>, sends nothing: it
  does nothing at all, or it writes its line to the log, dials the node and prints the calldata,
  exactly once when it succeeds.
\<close>

theorem prepared_command_lines_send_nothing:
  assumes "cobra_documented cobra" and "rootCMD run_app P = Ok main"
    and "(grp, leaves) \<in> set transaction_lines" and "leaf \<in> set leaves"
    and "GlobalFlagValues (pe_crypto P) (pe_ring P) (pe_flags P ['''', ''evm-cli'', grp]) = Ok g" and "g_prepare g"
    and "cobra main [''evm-cli'', grp, leaf] given s = (r, s')"
  defines "logged \<equiv> snd (node (snd (log_call P ['''', ''evm-cli'', grp, leaf] s)))"
  shows "(snd (node s') = snd (node s) \<or> only_prints (pe_cli P) (g_url g) logged (snd (node s'))) \<and>
    (r = Ended (Ok ()) \<longrightarrow>
      (\<exists>to data. snd (node s') = env_print (pe_cli P) to data (snd (env_dial (pe_cli P) (g_url g) logged))))"
proof -
  have "list_all (\<lambda>(grp, leaves). grp \<in> set command_groups \<and>
      (\<forall>g old :: 'a global_flags. kept_globals grp g old = g)) transaction_lines"
    by (simp add: transaction_lines_def command_groups_def kept_globals_def)
  with assms(3) have grp: "grp \<in> set command_groups" and kept: "kept_globals grp g' old = g'"
    for g' old :: "'a global_flags" by (auto simp only: list_all_iff prod.case)
  from in_group [OF assms(2) grp, of leaf] obtain E G where G: "group_command grp P = Ok G" and
    found: "find_command [main] [''evm-cli'', grp, leaf] =
      map_option (\<lambda>c. [c, G, E, main]) (find (\<lambda>s. Use s = leaf) (Subcommands G))" and
    names: "path_names [G, E, main] = ['''', ''evm-cli'', grp]" by blast
  from transaction_groups [OF assms(6,3) G] assms(4) obtain c where
    c: "find (\<lambda>c. Use c = leaf) (Subcommands G) = Some c" "prepares_transaction P g (package_globals grp) c"
    by (auto simp: list_all_iff)
  from group_hooks [OF grp G] obtain upd where
    hook: "PersistentPreRunE G = Own_hook (group_hook P upd (kept_globals grp))" and
    members: "list_all (group_member (package_globals grp) node) (Subcommands G)" and
    upd: "\<And>f s. package_globals grp (upd f s) = f (package_globals grp s)" "\<And>f s. node (upd f s) = node s" by auto
  have member: "group_member (package_globals grp) node c" and "Use c = leaf" using find_member [OF c(1) members] by auto
  then have "path_names [c, G, E, main] = ['''', ''evm-cli'', grp, leaf]"
    using names by (simp add: path_names_def)
  moreover have "documented_calls [c, G, E, main] given s = (r, s')"
    using found c(1) member assms(1,7) by (auto simp: cobra_documented_def group_member_def)
  from prepared_line [OF this hook member upd _ kept c(2)]
  have "GlobalFlagValues (pe_crypto P) (pe_ring P) (pe_flags P (path_names [G, E, main])) = Ok g \<Longrightarrow>
    (snd (node s') = snd (node s) \<or> only_prints (pe_cli P) (g_url g)
       (snd (node (snd (log_call P (path_names [c, G, E, main]) s)))) (snd (node s'))) \<and>
    (r = Ended (Ok ()) \<longrightarrow> (\<exists>to data. snd (node s') = env_print (pe_cli P) to data
       (snd (env_dial (pe_cli P) (g_url g) (snd (node (snd (log_call P (path_names [c, G, E, main]) s))))))))"
    by blast
  ultimately show ?thesis using assms(5) unfolding names logged_def by simp
qed

section \<open>An example program\<close>

text \<open>Its world is what was printed; its log cannot be opened; the flag \<open>prepare\<close> is given.\<close>

type_synonym printed = "(address option \<times> bytes) list"

definition no_files :: "'s file_lib" where
  "no_files =
     \<lparr> path_Abs = Ok, path_Clean = (\<lambda>s. s), ReadFile = (\<lambda>f s. (Err (Error ''no file''), s)),
       CreateExclusive = (\<lambda>f s. (Err (Error ''read-only''), s)), WriteFile = (\<lambda>f d s. (Err (Error ''read-only''), s)),
       NotExist = (\<lambda>f s. True), Mkdir = (\<lambda>f s. (Err (Error ''read-only''), s)),
       json_Marshal = (\<lambda>ks. Ok []), json_Unmarshal = (\<lambda>d. Err (Error ''no json'')), Getenv = (\<lambda>_. []),
       ask_password = (\<lambda>msg s. ([], s)) \<rparr>"

definition example_reader :: flag_reader where
  "example_reader =
     \<lparr> GetString = (\<lambda>n. Ok (if n = ''url'' then ''ws://localhost:8545'' else [])),
       GetUint64 = (\<lambda>n. Ok (if n = ''gas-limit'' then 6721975 else 0)), GetBool = (\<lambda>n. Ok True) \<rparr>"

definition example_program :: "(nat, unit, unit, printed) program_env" where
  "example_program =
     \<lparr> pe_cli = example_cli_env, pe_crypto = example_crypto,
       pe_ring = \<lparr> EthereumKeys = (\<lambda>_. Some (Secp256k1_pair 1)), SubstrateKeys = (\<lambda>_. None) \<rparr>,
       pe_flags = (\<lambda>_. example_reader), pe_flagset = (\<lambda>_. []),
       pe_log = \<lparr> OpenAppend = (\<lambda>_ w. (Err (Error ''read-only''), w)), WriteString = (\<lambda>_ _ w. (Ok (), w)),
         ConfigureLogger = (\<lambda>_ w. w) \<rparr>,
       pe_quote = (\<lambda>s. s), pe_now = [], pe_files = no_files, pe_random = Ok [], pe_generated = Ok 1,
       pe_lower = (\<lambda>s. s), pe_stdin = [''n''], pe_BlockByNumber = (\<lambda>_ _ s. (Ok [], s)) \<rparr>"

definition example_vars :: "(nat, printed) package_vars" where
  "example_vars =
     \<lparr> admin_v = example_withdrawal, admin_g = zero_globals, bridge_v = example_bridge_vars,
       bridge_g = zero_globals, erc20_v = example_deposit, erc20_g = zero_globals, erc721_v = example_erc721,
       erc721_g = zero_globals,
       centrifuge_v = \<lparr> ce_Hash = [], ce_Address = [], ce_StoreAddr = 0, ce_ByteHash = 0 \<rparr>,
       centrifuge_g = zero_globals,
       account_v = \<lparr> ac_PrivateKey = [], ac_Pass = [], ac_Recipient = [], ac_Amount = [], ac_Decimals = 0,
         ac_RecipientAddress = 0, ac_WeiAmount = 0 \<rparr>,
       account_g = zero_globals,
       utils_v = \<lparr> ut_BlockNumber = [], ut_Blocks = [], ut_TxHash = [], ut_FromAddress = [], ut_txHash = 0,
         ut_fromAddr = 0 \<rparr>,
       deploy_v = example_deploy True, deploy_flags = BindDeployEVMFlags no_flags,
       node = (new_client_state 0, []) \<rparr>"

lemma example_globals:
  "GlobalFlagValues (pe_crypto example_program) (pe_ring example_program) (pe_flags example_program names)
   = Ok example_global_flags"
  by (simp add: GlobalFlagValues_def example_program_def example_reader_def defineSender_def example_global_flags_def)

lemma example_logged: "log_call example_program names s = (Go_on, s)"
  by (cases s) (simp add: log_call_def example_program_def LoggerMetadata_def)

lemma example_pause_run:
  "\<exists>st to data. pause_RunE example_cli_env example_global_flags v (new_client_state 0, [])
     = (Ok (), (st, [(to, data)]))"
  by (simp add: pause_RunE_def on_bridge_def with_transactor_def example_global_flags_def
      example_InitializeClient InitializeTransactor_def PauseCmd_def Pause_def ExecuteTransaction_def
      PackMethod_def Transact_def prepare_Transact_def NewBridgeContract_def NewContract_def s_bind_def
      s_return_def s_lift_def example_cli_env_simps print_prepared_def)

lemma example_pause_args:
  "\<exists>v. pause_Args (env_lib (pe_cli example_program)) example_withdrawal = (Ok (), v)"
  by (simp add: example_program_def example_cli_env_def pause_Args_def checked_args_def ValidatePauseFlags_def
      check_address_def example_withdrawal_def reference_lib_def s_bind_def s_lift_def)

lemma pause_found:
  assumes "AdminCmd P = Ok G"
  shows "\<exists>c. find (\<lambda>s. Use s = ''pause'') (Subcommands G) = Some c \<and> pauseCmd P = Ok c"
  using assms by (auto simp: AdminCmd_def built_commands bound_flags)

text \<open>The command line \<open>evm-cli admin pause --bridge ... --prepare\<close>.\<close>

lemma example_pause_line:
  "\<exists>main c G rest s' to data. rootCMD no_args example_program = Ok main \<and>
     find_command [main] [''evm-cli'', ''admin'', ''pause''] = Some (c # G # rest) \<and>
     reference_cobra main [''evm-cli'', ''admin'', ''pause''] [''bridge''] example_vars = (Ended (Ok ()), s') \<and>
     snd (node s') = [(to, data)]"
proof -
  let ?P = example_program
  obtain main where main: "rootCMD no_args ?P = Ok main" using rootCMD_tree [of no_args ?P] by blast
  have "''admin'' \<in> set command_groups" by (simp add: command_groups_def)
  from in_group [OF main this, of "''pause''"] obtain E G where G: "group_command ''admin'' ?P = Ok G" and
    found: "find_command [main] [''evm-cli'', ''admin'', ''pause''] =
      map_option (\<lambda>c. [c, G, E, main]) (find (\<lambda>s. Use s = ''pause'') (Subcommands G))" by blast
  from G have admin: "AdminCmd ?P = Ok G" by (simp add: group_command_def)
  from pause_found [OF this] obtain c where c: "find (\<lambda>s. Use s = ''pause'') (Subcommands G) = Some c"
    and "pauseCmd ?P = Ok c" by blast
  then have pause: "c = Command ''pause'' (bound BindPauseFlags) Calls_parent (log_call ?P)
      (args_on admin_v admin_v_update (pause_Args (env_lib (pe_cli ?P)))) (Some (run_on admin_g admin_v ?P pause_RunE))
      (\<lambda>_. []) []"
    by (simp add: pauseCmd_def bound_flags)
  have G_hook: "PersistentPreRunE G = Own_hook (group_hook ?P admin_g_update (\<lambda>g old. g))"
    using admin admin_group [of ?P] by auto
  obtain v where v: "pause_Args (env_lib (pe_cli ?P)) example_withdrawal = (Ok (), v)"
    using example_pause_args by blast
  obtain st to data where ran: "pause_RunE example_cli_env example_global_flags v (new_client_state 0, [])
     = (Ok (), (st, [(to, data)]))" using example_pause_run by blast
  let ?s = "example_vars\<lparr>admin_v := v, admin_g := example_global_flags\<rparr>"
  have "documented_calls [c, G, E, main] [''bridge''] example_vars = (Ended (Ok ()), ?s\<lparr>node := (st, [(to, data)])\<rparr>)"
  proof -
    have "Args c example_vars = (Ok (), example_vars\<lparr>admin_v := v\<rparr>)"
      by (simp add: pause args_on_def example_vars_def v)
    moreover have "run_hook [c, G, E, main] (example_vars\<lparr>admin_v := v\<rparr>) = (Ok (), ?s)"
      by (simp add: run_hook_def pause G_hook group_hook_def example_globals)
    moreover have "run_on admin_g admin_v ?P pause_RunE names ?s = (Ok (), ?s\<lparr>node := (st, [(to, data)])\<rparr>)" for names
      using ran by (simp add: run_on_def example_vars_def example_program_def)
    moreover have "required (Flags c) = [''bridge'']"
      by (simp add: pause bound_def BindPauseFlags_def declare_flags_def no_flags_def)
    ultimately show ?thesis
      by (simp add: documented_calls_def pause example_logged s_bind_def)
  qed
  then show ?thesis
    using main found c by (auto simp: reference_cobra_def)
qed

theorem prepared_command_lines_send_nothing_witness:
  "\<exists>main s' to data. rootCMD no_args example_program = Ok main \<and>
     reference_cobra main [''evm-cli'', ''admin'', ''pause''] [''bridge''] example_vars = (Ended (Ok ()), s') \<and>
     snd (node s') = [(to, data)]"
proof -
  from example_pause_line obtain main s' where main: "rootCMD no_args example_program = Ok main"
    and ran: "reference_cobra main [''evm-cli'', ''admin'', ''pause''] [''bridge''] example_vars = (Ended (Ok ()), s')"
    by blast
  have "\<exists>to data. snd (node s') = env_print (pe_cli example_program) to data
      (snd (env_dial (pe_cli example_program) (g_url example_global_flags)
        (snd (node (snd (log_call example_program ['''', ''evm-cli'', ''admin'', ''pause''] example_vars))))))"
    using prepared_command_lines_send_nothing [OF reference_cobra_documented main _ _ example_globals _ ran,
        of "[''add-relayer'', ''pause'', ''unpause'', ''set-deposit-nonce'', ''set-threshold'', ''withdraw'']"]
    by (simp add: transaction_lines_def example_global_flags_def)
  then have "\<exists>to data. snd (node s') = [(to, data)]"
    by (simp add: example_logged) (simp add: example_program_def example_cli_env_simps example_vars_def)
  with main ran show ?thesis by blast
qed

theorem commands_run_checked_witness:
  "\<exists>main s'. rootCMD no_args example_program = Ok main \<and>
     reference_cobra main [''evm-cli'', ''admin'', ''pause''] [''bridge''] example_vars = (Ended (Ok ()), s') \<and>
     admin_g s' = example_global_flags"
proof -
  from example_pause_line obtain main c G rest s' where main: "rootCMD no_args example_program = Ok main"
    and found: "find_command [main] [''evm-cli'', ''admin'', ''pause''] = Some (c # G # rest)"
    and ran: "reference_cobra main [''evm-cli'', ''admin'', ''pause''] [''bridge''] example_vars = (Ended (Ok ()), s')"
    by blast
  from commands_run_checked [OF reference_cobra_documented main _ found ran]
  have "admin_g s' = example_global_flags"
    by (simp add: command_groups_def example_globals package_globals_def kept_globals_def)
  with main ran show ?thesis by blast
qed

end
