(* ===== verification/Telemetry.thy ===== *)
theory Telemetry
  imports Relayer
begin

text \<open>
  The metrics the relayer reports to, \<open>opentelemetry/\<close>: setting up the OpenTelemetry
  counter, counting a deposit, and the console variant, which logs the text of
  the message (\<open>Message.String\<close> of \<open>relayer/message\<close>). The OpenTelemetry library and URL
  parsing are parameters.
\<close>

section \<open>The text of a message\<close>

definition upper_hex_digit :: "nat \<Rightarrow> char" where
  "upper_hex_digit n = char_of (if n < 10 then 48 + n else 55 + n)"

text \<open>The verb \<open>%X\<close> on bytes, on an array of bytes and on a payload.\<close>

definition upper_hex :: "bytes \<Rightarrow> string" where
  "upper_hex bs = concat (map (\<lambda>b. [upper_hex_digit (unat b div 16), upper_hex_digit (unat b mod 16)]) bs)"

text \<open>\<open>fmt_other\<close> is what the verb makes of a value of another type.\<close>

fun iface_text :: "(string \<Rightarrow> string) \<Rightarrow> iface \<Rightarrow> string" where
  "iface_text fmt_other (Bytes_val bs) = upper_hex bs"
| "iface_text fmt_other (Other_val t) = fmt_other t"

fun spaced :: "string list \<Rightarrow> string" where
  "spaced [] = []"
| "spaced [s] = s"
| "spaced (s # ss) = s @ '' '' @ spaced ss"

definition message_String :: "(string \<Rightarrow> string) \<Rightarrow> message \<Rightarrow> string" where
  "message_String fmt_other m =
     ''Source: '' @ show_nat (unat (Source m)) @ '', Destination: '' @ show_nat (unat (Destination m))
     @ '', DepositNonce: '' @ show_nat (unat (DepositNonce m))
     @ '', ResourceId: '' @ upper_hex (hash_bytes (ResourceId m))
     @ '', Payload: ['' @ spaced (map (iface_text fmt_other) (Payload m))
     @ ''], Type: '' @ Type m"

section \<open>OpenTelemetry\<close>

record collector_url =
  url_Scheme :: string
  url_Host :: string
  url_Path :: string

datatype metric_option = WithURLPath string | WithEndpoint string | WithInsecure

text \<open>
  The library: exporters, controllers and counters of types \<open>'exp\<close>, \<open>'cont\<close>, \<open>'counter\<close>.
  A controller is made with the cumulative processor of its exporter and becomes the
  program's meter provider.
\<close>

record ('exp, 'cont, 'counter, 'w) otel_lib =
  url_Parse :: "string \<Rightarrow> collector_url result"
  otlp_New :: "metric_option list \<Rightarrow> 'w \<Rightarrow> 'exp result \<times> 'w"
  set_provider :: "'exp \<Rightarrow> 'w \<Rightarrow> 'cont \<times> 'w"
  cont_Start :: "'cont \<Rightarrow> 'w \<Rightarrow> unit result \<times> 'w"
  NewInt64Counter :: "'cont \<Rightarrow> string \<Rightarrow> string \<Rightarrow> string \<Rightarrow> 'w \<Rightarrow> 'counter result \<times> 'w"
    \<comment> \<open>the meter's name, the counter's name and description\<close>
  counter_Add :: "'counter \<Rightarrow> int \<Rightarrow> 'w \<Rightarrow> 'w"

record 'counter chainbridge_metrics =
  DepositEventCount :: 'counter

text \<open>\<open>metric.Must\<close> turns the error of a registration into a panic.\<close>

definition must :: "'a result \<times> 'w \<Rightarrow> 'a result \<times> 'w" where
  "must r = (case r of (Err e, w) \<Rightarrow> (Panic Raised, w) | _ \<Rightarrow> r)"

definition NewChainbridgeMetrics ::
  "('exp, 'cont, 'counter, 'w) otel_lib \<Rightarrow> 'cont \<Rightarrow> string \<Rightarrow> 'w
   \<Rightarrow> 'counter chainbridge_metrics result \<times> 'w" where
  "NewChainbridgeMetrics O' cont meter =
     s_bind (\<lambda>w. must (NewInt64Counter O' cont meter ''chainbridge.DepositEventCount''
                         ''Number of deposit events across all chains'' w))
       (\<lambda>c. s_return \<lparr> DepositEventCount = c \<rparr>)"

definition initOpenTelemetryMetrics ::
  "('exp, 'cont, 'counter, 'w) otel_lib \<Rightarrow> metric_option list \<Rightarrow> 'w
   \<Rightarrow> 'counter chainbridge_metrics result \<times> 'w" where
  "initOpenTelemetryMetrics O' opts =
     s_bind (otlp_New O' opts) (\<lambda>exp w.
       let (cont, w') = set_provider O' exp w
       in s_bind (cont_Start O' cont) (\<lambda>_. NewChainbridgeMetrics O' cont ''chainbridge'') w')"

text \<open>Without its metrics an \<open>OpenTelemetry\<close> has a nil pointer.\<close>

record 'counter open_telemetry =
  ot_metrics :: "'counter chainbridge_metrics option"

definition metric_options :: "collector_url \<Rightarrow> metric_option list" where
  "metric_options u =
     [WithURLPath (url_Path u), WithEndpoint (url_Host u)]
     @ (if url_Scheme u = ''http'' then [WithInsecure] else [])"

text \<open>On an error an empty \<open>OpenTelemetry\<close>, not nil, is returned beside it.\<close>

definition NewOpenTelemetry ::
  "('exp, 'cont, 'counter, 'w) otel_lib \<Rightarrow> string \<Rightarrow> 'w
   \<Rightarrow> ('counter open_telemetry \<times> error option) result \<times> 'w" where
  "NewOpenTelemetry O' collectorRawURL w =
     (case s_bind (s_lift (url_Parse O' collectorRawURL))
             (\<lambda>u. initOpenTelemetryMetrics O' (metric_options u)) w of
        (Ok m, w') \<Rightarrow> (Ok (\<lparr> ot_metrics = Some m \<rparr>, None), w')
      | (Err e, w') \<Rightarrow> (Ok (\<lparr> ot_metrics = None \<rparr>, Some e), w')
      | (Panic p, w') \<Rightarrow> (Panic p, w'))"

definition TrackDepositMessage ::
  "('exp, 'cont, 'counter, 'w) otel_lib \<Rightarrow> 'counter open_telemetry \<Rightarrow> message \<Rightarrow> 'w \<Rightarrow> unit result \<times> 'w"
where
  "TrackDepositMessage O' t m w =
     (case ot_metrics t of
        None \<Rightarrow> (Panic NilDereference, w)
      | Some c \<Rightarrow> (Ok (), counter_Add O' (DepositEventCount c) 1 w))"

text \<open>The console: \<open>log_Info\<close> writes a line to the log.\<close>

definition console_TrackDepositMessage ::
  "(string \<Rightarrow> 'w \<Rightarrow> 'w) \<Rightarrow> (string \<Rightarrow> string) \<Rightarrow> message \<Rightarrow> 'w \<Rightarrow> 'w" where
  "console_TrackDepositMessage log_Info fmt_other m w =
     log_Info (''Deposit message: '' @ message_String fmt_other m) w"

section \<open>Log set-up\<close>

text \<open>The global logger of \<open>logger/logger.go\<close>: a level, and the writers that get every line.\<close>

record ('level, 'writer) global_logger =
  global_level :: 'level
  multi_writer :: "'writer list"
  with_timestamp :: bool

definition ConfigureLogger ::
  "'level \<Rightarrow> 'writer list \<Rightarrow> ('level, 'writer) global_logger \<Rightarrow> ('level, 'writer) global_logger" where
  "ConfigureLogger l writers g =
     g\<lparr> global_level := l, multi_writer := writers, with_timestamp := True \<rparr>"

section \<open>Lemmas\<close>

lemma NewOpenTelemetry_cases:
  assumes "NewOpenTelemetry O' raw w = (Ok (t, err), w')"
  shows "ot_metrics t = None \<longleftrightarrow> err \<noteq> None"
  using assms by (auto simp: NewOpenTelemetry_def split: prod.splits result.splits)

text \<open>
  An OpenTelemetry that was created without an error counts and never panics; one whose
  creation reported an error ends the program at the first message that is tracked.
\<close>

theorem telemetry_needs_its_error_checked:
  assumes "NewOpenTelemetry O' raw w = (Ok (t, err), w')"
  shows "fst (TrackDepositMessage O' t m s) = (if err = None then Ok () else Panic NilDereference)"
  using NewOpenTelemetry_cases [OF assms] by (auto simp: TrackDepositMessage_def split: option.split)

text \<open>What a counter promises: it reads what has been added to it.\<close>

definition counter_documented ::
  "('exp, 'cont, 'counter, 'w) otel_lib \<Rightarrow> 'counter \<Rightarrow> ('w \<Rightarrow> int) \<Rightarrow> bool" where
  "counter_documented O' c reading \<longleftrightarrow> (\<forall>n w. reading (counter_Add O' c n w) = reading w + n)"

definition keeps_reading :: "('w \<Rightarrow> int) \<Rightarrow> ('w \<Rightarrow> 'a \<times> 'w) \<Rightarrow> bool" where
  "keeps_reading reading f \<longleftrightarrow> (\<forall>w. reading (snd (f w)) = reading w)"

lemma keeps_reading_bind:
  assumes "keeps_reading reading f" and "\<And>x. keeps_reading reading (g x)"
  shows "keeps_reading reading (s_bind f g)"
  using assms unfolding keeps_reading_def s_bind_def
  by (auto split: prod.splits result.splits) (metis snd_conv)+

lemma run_processors_keep:
  assumes "\<And>p m. p \<in> set ps \<Longrightarrow> keeps_reading reading (p m)"
  shows "keeps_reading reading (run_processors ps m)"
  using assms
proof (induction ps arbitrary: m)
  case Nil
  then show ?case by (simp add: keeps_reading_def)
next
  case (Cons p ps)
  have "run_processors (p # ps) m = s_bind (p m) (run_processors ps)"
    by (auto simp: s_bind_def fun_eq_iff split: prod.splits result.splits)
  with Cons show ?case by (auto intro!: keeps_reading_bind)
qed

lemma logged_snd [simp]: "snd (logged x) = snd x"
  by (auto simp: logged_def split: prod.splits result.splits)

lemma route_counts:
  assumes "reading (metrics r m s) = reading s + 1"
    and "\<And>c m. registered_chain r d = Some c \<Longrightarrow> keeps_reading reading (rc_Write c m)"
    and "\<And>p m. p \<in> set (messageProcessors r) \<Longrightarrow> keeps_reading reading (p m)"
    and "d = Destination m"
  shows "reading (snd (route r m s)) = reading s + 1"
proof (cases "registered_chain r d")
  case (Some c)
  have "keeps_reading reading (s_bind (run_processors (messageProcessors r) m) (rc_Write c))"
    using assms(2) [OF Some] assms(3) by (intro keeps_reading_bind run_processors_keep)
  then show ?thesis
    using assms(1,4) Some by (simp add: route_def Let_def keeps_reading_def)
qed (use assms in \<open>simp add: route_def\<close>)

lemma serve_counts:
  assumes "\<And>m s. reading (snd (route r m s)) = reading s + 1" and "fst (serve r ms s) = Ok ()"
  shows "reading (snd (serve r ms s)) = reading s + int (length ms)"
  using assms(2)
proof (induction ms arbitrary: s)
  case (Cons m ms)
  obtain q s' where routed: "route r m s = (q, s')" by fastforce
  with Cons show ?case using assms(1) [of m s] by (cases q) auto
qed simp

lemma registered_started:
  assumes "registered_chain (fst (start_chains (NewRelayer cs track ps))) d = Some c"
  shows "c \<in> set cs"
proof -
  have "relayedChains (NewRelayer cs track ps) = cs" by (simp add: NewRelayer_def)
  with assms have "find (\<lambda>c. rc_DomainID c = d) (rev cs) = Some c"
    by (simp add: start_chains_def chain_registry.register_all_find option.map_ident)
  then obtain i where "i < length (rev cs)" "c = rev cs ! i" unfolding find_Some_iff by blast
  then have "c \<in> set (rev cs)" using nth_mem by metis
  then show ?thesis by simp
qed

section \<open>Properties\<close>

text \<open>
  The deposit counter counts the messages the relayer takes from its chains: whatever
  becomes of a message afterwards, no such chain, a processor that fails, a write that fails,
  it is counted, and counted once.
\<close>

theorem deposit_counter_counts_messages:
  assumes "NewOpenTelemetry O' raw w = (Ok (t, None), w')" and "ot_metrics t = Some c"
    and "counter_documented O' (DepositEventCount c) reading"
    and "\<And>c m. c \<in> set cs \<Longrightarrow> keeps_reading reading (rc_Write c m)"
    and "\<And>p m. p \<in> set ps \<Longrightarrow> keeps_reading reading (p m)"
    and "Start (NewRelayer cs (\<lambda>m s. snd (TrackDepositMessage O' t m s)) ps) ms s = (Ok (), s')"
  shows "reading s' = reading s + int (length ms)"
proof -
  define r where "r = fst (start_chains (NewRelayer cs (\<lambda>m s. snd (TrackDepositMessage O' t m s)) ps))"
  have "metrics r = (\<lambda>m s. snd (TrackDepositMessage O' t m s))" and procs: "messageProcessors r = ps"
    by (simp_all add: r_def start_chains_def addRelayedChain_keeps) (simp_all add: NewRelayer_def)
  then have count: "reading (metrics r m s) = reading s + 1" for m s
    using assms(2,3) by (simp add: TrackDepositMessage_def counter_documented_def)
  have "keeps_reading reading (rc_Write c m)" if "registered_chain r d = Some c" for c m d
    using that assms(4) by (auto simp: r_def dest: registered_started)
  then have "reading (snd (route r m s)) = reading s + 1" for m s
    by (intro route_counts [where reading = reading and d = "Destination m"] count)
      (auto simp: procs assms(5))
  from serve_counts [OF this, of ms s] assms(6) show ?thesis
    by (simp add: Start_def flip: r_def)
qed

end
