(* ===== verification/E2e_Wait.thy ===== *)
theory E2e_Wait
  imports Evm_Client
begin

text \<open>
  Waiting for the execution of a proposal, \<open>e2e/evm/util.go\<close>: the end-to-end tests subscribe
  to the proposal events of a bridge and wait, at a \<open>select\<close>, for one with the status
  executed. What the channels deliver, in the order the \<open>select\<close> takes it, is a list.
\<close>

datatype wait_event =
    Log_arrived bytes
  | Subscription_error "error option"
  | Timer_fired

text \<open>
  \<open>unpack_status\<close> is the third value of the unpacked event. Without a result the loop still
  waits when the list ends.
\<close>

fun wait_executed :: "(bytes \<Rightarrow> u8 result) \<Rightarrow> wait_event list \<Rightarrow> unit result option" where
  "wait_executed unpack_status [] = None"
| "wait_executed unpack_status (Log_arrived d # es) =
     (case unpack_status d of
        Err e \<Rightarrow> Some (Err e)
      | Panic p \<Rightarrow> Some (Panic p)
      | Ok status \<Rightarrow> if IsExecuted status then Some (Ok ()) else wait_executed unpack_status es)"
| "wait_executed unpack_status (Subscription_error (Some e) # es) = Some (Err e)"
| "wait_executed unpack_status (Subscription_error None # es) = wait_executed unpack_status es"
| "wait_executed unpack_status (Timer_fired # es) =
     Some (Err (Error ''test timed out waiting for ProposalCreated event''))"

text \<open>
  An error of \<open>LatestBlock\<close> is dropped: the query then has no start block. \<open>subscribe\<close> takes
  the start block, the contract and the topic, and answers with what will be delivered.
\<close>

definition WaitForProposalExecuted ::
  "eth_lib \<Rightarrow> (int \<Rightarrow> string) \<Rightarrow> 'w rpc
   \<Rightarrow> (int option \<Rightarrow> address \<Rightarrow> hash \<Rightarrow> 'w \<Rightarrow> wait_event list result \<times> 'w)
   \<Rightarrow> unit result \<Rightarrow> (bytes \<Rightarrow> u8 result) \<Rightarrow> address \<Rightarrow> 'w \<Rightarrow> unit result option \<times> 'w" where
  "WaitForProposalExecuted L encode_big c subscribe parsed_abi unpack_status bridge w =
     (case LatestBlock encode_big c w of
        (Panic p, w1) \<Rightarrow> (Some (Panic p), w1)
      | (latest, w1) \<Rightarrow>
         (let startBlock = (case latest of Ok n \<Rightarrow> Some n | _ \<Rightarrow> None) in
          case subscribe startBlock bridge (keccak256 L (string_bytes ProposalEvent_sig)) w1 of
            (Err e, w2) \<Rightarrow> (Some (Err e), w2)
          | (Panic p, w2) \<Rightarrow> (Some (Panic p), w2)
          | (Ok es, w2) \<Rightarrow>
             (case parsed_abi of
                Err e \<Rightarrow> (Some (Err e), w2)
              | Panic p \<Rightarrow> (Some (Panic p), w2)
              | Ok _ \<Rightarrow> (wait_executed unpack_status es, w2))))"

text \<open>What the loop passes over: other statuses, and a subscription that closed without an error.\<close>

definition passed_over :: "(bytes \<Rightarrow> u8 result) \<Rightarrow> wait_event \<Rightarrow> bool" where
  "passed_over unpack_status ev =
     (case ev of
        Log_arrived d \<Rightarrow> (case unpack_status d of Ok status \<Rightarrow> \<not> IsExecuted status | _ \<Rightarrow> False)
      | Subscription_error e \<Rightarrow> e = None
      | Timer_fired \<Rightarrow> False)"

lemma wait_executed_step:
  "wait_executed unpack_status (ev # es) =
     (if passed_over unpack_status ev then wait_executed unpack_status es
      else wait_executed unpack_status [ev])"
  by (cases "(unpack_status, ev # es)" rule: wait_executed.cases)
    (auto simp: passed_over_def split: result.splits)

lemma not_passed_over:
  "\<not> passed_over unpack_status ev \<Longrightarrow> wait_executed unpack_status [ev] = Some (Ok ()) \<longleftrightarrow>
   (\<exists>d status. ev = Log_arrived d \<and> unpack_status d = Ok status \<and> IsExecuted status)"
  by (cases "(unpack_status, [ev])" rule: wait_executed.cases)
    (auto simp: passed_over_def split: result.splits)

definition executed_first :: "(bytes \<Rightarrow> u8 result) \<Rightarrow> wait_event list \<Rightarrow> bool" where
  "executed_first unpack_status es \<longleftrightarrow>
     (\<exists>xs d status ys. es = xs @ Log_arrived d # ys \<and> list_all (passed_over unpack_status) xs \<and>
        unpack_status d = Ok status \<and> IsExecuted status)"

lemma executed_first_Nil: "\<not> executed_first unpack_status []"
  by (simp add: executed_first_def)

lemma executed_first_Cons:
  "executed_first unpack_status (ev # es) \<longleftrightarrow>
   (\<exists>d status. ev = Log_arrived d \<and> unpack_status d = Ok status \<and> IsExecuted status) \<or>
   passed_over unpack_status ev \<and> executed_first unpack_status es"
    (is "?lhs \<longleftrightarrow> ?now \<or> ?later")
proof
  assume ?lhs
  then obtain xs d status ys where split: "ev # es = xs @ Log_arrived d # ys"
    and "list_all (passed_over unpack_status) xs" "unpack_status d = Ok status" "IsExecuted status"
    unfolding executed_first_def by blast
  then show "?now \<or> ?later"
    by (cases xs) (auto simp: executed_first_def)
next
  assume "?now \<or> ?later"
  then show ?lhs
  proof
    assume ?now
    then obtain d status where "ev # es = [] @ Log_arrived d # es"
      "unpack_status d = Ok status" "IsExecuted status" by auto
    then show ?lhs unfolding executed_first_def by (metis list.pred_inject(1))
  next
    assume later: ?later
    then obtain xs d status ys where "es = xs @ Log_arrived d # ys"
      "list_all (passed_over unpack_status) xs" "unpack_status d = Ok status" "IsExecuted status"
      unfolding executed_first_def by blast
    with later show ?lhs unfolding executed_first_def
      by (intro exI [of _ "ev # xs"] exI [of _ d] exI [of _ status] exI [of _ ys]) simp
  qed
qed

text \<open>
  The wait succeeds exactly when an event with the status executed arrives and everything
  delivered before it is passed over; it does not ask which proposal was executed.
\<close>

theorem wait_succeeds_iff_executed:
  "wait_executed unpack_status es = Some (Ok ()) \<longleftrightarrow> executed_first unpack_status es"
proof (induction es)
  case (Cons ev es)
  show ?case
  proof (cases "passed_over unpack_status ev")
    case True
    then have "\<not> (\<exists>d status. ev = Log_arrived d \<and> unpack_status d = Ok status \<and> IsExecuted status)"
      by (auto simp: passed_over_def)
    with True Cons.IH show ?thesis
      by (subst wait_executed_step) (simp only: executed_first_Cons if_True simp_thms)
  next
    case False
    then show ?thesis
      by (subst wait_executed_step) (simp only: executed_first_Cons not_passed_over if_False simp_thms)
  qed
qed (simp add: executed_first_Nil)

end
