(* ===== verification/Spec2Isabelle.thy ===== *)
theory Spec2Isabelle
  imports Handler_Registry Deposit_Codec Store Evm_Client Evm_Listener Evm_Contracts Evm_Voter
    Gas_Pricer Transactor Itx Config Evm_Chain Substrate_Listener Substrate_Writer
    Message_Processors Relayer Keystore Client_Setup Listener_Spec Cli_Spec App
    Forwarder_Lock Running_Relayer Cli_Lines Telemetry E2e_Wait
begin

text \<open>
  \<^bold>\<open>A model of the ChainBridge relayer.\<close>

  The program relays asset transfers between chains. A user deposits at the bridge
  contract of one chain; the relayer of that chain's listener reads the deposit log,
  turns it into a message, routes it to the chain of its destination, and the writer of
  that chain votes for the proposal the message describes. Every theory models one part
  of the Go code; a definition has the name of the function or type it models wherever
  Isabelle allows it, and otherwise one that says which part of the function it is.

  \<^bold>\<open>The theories and the code.\<close>

  \<^item> \<open>Bridge_Prelude\<close>: machine integers, byte strings, big integers and their byte
    encodings; the result of a Go function (\<open>Ok\<close>, \<open>Err\<close> for an \<open>error\<close>, \<open>Panic\<close> for a
    run-time panic), alone and over a state. \<open>Handler_Registry\<close>: the contract of the five
    handler registries. \<open>Ethereum_Lib\<close>: go-ethereum's functions as a parameter.
  \<^item> \<open>Message\<close>: \<open>relayer/message\<close> and the status tests of \<open>util/events.go\<close>.
  \<^item> \<open>Deposit_Codec\<close>: \<open>calls/contracts/deposit\<close> (calldata of a deposit), the event handlers
    of \<open>listener/event-handler.go\<close> (calldata to message), the message handlers of
    \<open>voter/message-handler.go\<close> (message to proposal) and \<open>voter/proposal\<close>.
  \<^item> \<open>Store\<close>: \<open>store\<close> and \<open>lvldb\<close>, the last scanned block and the next nonce of a chain in
    one LevelDB database.
  \<^item> \<open>Evm_Client\<close>: \<open>calls/evmclient\<close>, the node client with its nonce lock, the receipt poll
    and the deposit logs. \<open>Evm_Contracts\<close>: the contract wrappers of \<open>calls/contracts\<close>.
    \<open>Gas_Pricer\<close>: \<open>calls/evmgaspricer\<close>. \<open>Transactor\<close>: \<open>calls/evmtransaction\<close> and
    \<open>calls/transactor\<close>. \<open>Itx\<close>: the relayed transactions of \<open>calls/transactor/itx\<close>.
  \<^item> \<open>Evm_Listener\<close>: \<open>chains/evm/listener\<close>. \<open>Evm_Voter\<close>: \<open>chains/evm/voter\<close>. \<open>Config\<close>:
    \<open>config\<close>. \<open>Evm_Chain\<close>: \<open>chains/evm/chain.go\<close>, which wires them.
  \<^item> \<open>Substrate_Events\<close>: the events of a block, \<open>chains/substrate/events.go\<close>.
    \<open>Substrate_Listener\<close>, \<open>Substrate_Writer\<close>: the rest of \<open>chains/substrate\<close>.
  \<^item> \<open>Message_Processors\<close>, \<open>Relayer\<close>: \<open>relayer\<close>. \<open>Telemetry\<close>: the metrics the relayer reports
    to, \<open>opentelemetry\<close>, the text of a message, and \<open>logger\<close>. \<open>Keystore\<close>: \<open>crypto\<close>,
    \<open>sender\<close> and \<open>keystore\<close>. \<open>E2e_Wait\<close>: how the end-to-end tests wait for an execution.
    \<open>Client_Setup\<close>: how a node client gets its key and its node. \<open>App\<close>: the example relayer
    of \<open>e2e/evm-evm/example/app\<close>, which puts chains and relayer together.
  \<^item> \<open>Pipeline\<close>, \<open>Fair_Runs\<close>, \<open>Running_Relayer\<close>: the same application running, as goroutines
    that meet at channels: the listeners, \<open>PollEvents\<close> of every chain, the loop and the routes
    of the relayer, and the wait of \<open>Run\<close>, with whose return every goroutine ends;
    \<open>Fair_Runs\<close> has its infinite runs under a fair scheduler.
  \<^item> \<open>Critical_Section\<close>, \<open>Nonce_Lock\<close>, \<open>Forwarder_Lock\<close>: goroutines that share a mutex, and
    the two transactors whose calls interleave around one.
  \<^item> \<open>Listener_Spec\<close>: the abstract scanner of the blocks, what the listeners promise by it, and
    when they make progress.
  \<^item> \<open>Amounts\<close>: \<open>calls/util.go\<close>, with the floating-point arithmetic it goes through.
  \<^item> The command line, \<open>chains/evm/cli\<close>: \<open>Cli_Base\<close> (\<open>flags\<close>, \<open>initialize\<close>, \<open>logger\<close>),
    \<open>Cli_Admin\<close> (\<open>admin\<close>), \<open>Cli_Bridge\<close> (\<open>bridge\<close>, \<open>centrifuge\<close>), \<open>Cli_Tokens\<close> (\<open>erc20\<close>,
    \<open>erc721\<close>, \<open>account\<close>), \<open>Cli_Deploy\<close> (\<open>deploy\<close>, \<open>local\<close>), \<open>Cli_Utils\<close> (\<open>utils\<close>). The
    variables of a package are a record; a command is its functions \<open>Bind\<close>, \<open>Validate\<close>,
    \<open>Process\<close> and the call, composed to \<open>_Args\<close> and \<open>_RunE\<close> as its \<open>Args\<close> and \<open>RunE\<close> do.
    \<open>Cli_Spec\<close>: what holds of the commands together. \<open>Command_Tree\<close>, \<open>Cli_Tree\<close>: the commands
    as values, the tree they form (\<open>cli.go\<close>, the group files, \<open>util/cli.go\<close>, \<open>flags/flags.go\<close>,
    \<open>cmd.go\<close>), and what cobra does with a command line. \<open>Cli_Lines\<close>: what holds of any
    command line.

  \<^bold>\<open>State and effects.\<close> What a function calls outside the code, nodes, databases, files,
  is a parameter: a record of functions on a world \<open>'s\<close> that each call may change. State
  the code keeps in a struct that changes is a record passed through (\<open>listen_state\<close>,
  \<open>voter_state\<close>, \<open>fwd_state\<close>, the nonce and lock of the client). Mutexes are flags, so that
  a path that leaves one locked can be seen. Interfaces of the code are records of
  functions, filled by the components as the code wires them.

  \<^bold>\<open>Contracts.\<close> \<open>handler_registry\<close> has the law of a registry, that a lookup finds the last
  registration, and is interpreted for the event handlers, the message handlers, both
  substrate registries and the relayer's chains. \<open>kv_store\<close> is what the block and nonce
  stores rely on and \<open>leveldb\<close> what LevelDB documents; a \<open>sublocale\<close> shows that the provider
  turns the second into the first. \<open>asset_codec\<close> is what the event and message handler of
  an asset type promise together; it is interpreted for ERC20, ERC721 and generic
  transfers, and what it gives end to end is proved once. \<open>critical_section\<close> is what a
  locked function keeps; its lemmas about interleavings serve the nonce lock and the
  forwarder lock. \<open>scanning_loop\<close> is a loop whose rounds are steps of the scanner,
  \<open>advancing_loop\<close> one that passes blocks whenever the node answers. \<open>listening\<close> is what a listener cut into steps shares with its rounds;
  both listeners are interpretations.

  \<^bold>\<open>Loops and bounds.\<close> Loops that count are recursion on the count that is left: 50
  receipt polls, 11 nonce queries, 41 status checks, 6 vote simulations, 5 attempts of a
  substrate vote; the numbers are those of the code, and \<open>should_vote_polls\<close>, for one,
  shows that a loop returns. Loops that run until the program stops (the listeners, the
  relayer, the tracker of pending votes) are runs of any number of rounds, and what is
  proved of them holds for all of these. The proofs about calldata assume lengths below
  \<open>2 ^ 61\<close>, which no Go slice exceeds.

  \<^bold>\<open>What is shown.\<close>

  \<^item> The whole way: \<open>deposit_is_relayed_to_vote\<close> composes the chains a configuration is set
    up to, the listener, the relayer and the voter: the transaction sent at the destination
    votes for exactly the deposit that was logged; \<open>typed_deposit_reaches_proposal\<close> starts
    from the amount a user types.
  \<^item> Transfers arrive unchanged: \<open>deposit_reaches_destination\<close> and its two companions over
    configured chains, on the round trips of \<open>Deposit_Codec\<close>; between EVM and substrate
    chains in both directions; \<open>message_routed_to_destination\<close> for the relayer between
    them; the amounts the processors convert.
  \<^item> Nothing is skipped: both listeners scan every block once and in order, only confirmed
    blocks, and a restart leaves no gap (\<open>restart_loses_no_block\<close>); one bad log loses only
    itself, one failed message does not stop the relayer. The EVM listener refines an
    abstract scanner (\<open>evm_listener_refines_scanner\<close>), where a handler's answer depends on
    the log alone. Both listeners get past every block once the node has answered often
    enough, and then nothing is missing but the deposits whose own handler call failed
    (\<open>every_deposit_is_sent\<close>) and, on a substrate chain, the blocks whose update of the
    metadata failed (\<open>substrate_listener_refines_scanner\<close>, \<open>substrate_block_all_or_nothing\<close>).
  \<^item> Votes: a vote is cast only for a proposal that wants it (\<open>vote_only_if_wanted\<close>), the
    keys and hashes a vote is found by; on a substrate chain one message has at most one
    vote accepted, or five when the answers to the submissions are lost and the node does
    not show the vote (\<open>substrate_votes_at_most_once\<close>).
  \<^item> Nonces, fees, keys, configuration: what the transactors, the forwarder, the gas
    pricers, the key files and the accepted configurations guarantee.
  \<^item> Commands: no command line has an effect before its checks (\<open>commands_run_checked\<close>); a
    prepared command sends nothing and prints once; amounts are off by no more
    than their 53 bits; deployments come in an order in which handlers know their bridge.
  \<^item> Where the code falls short of what it means to do, the theorem says exactly how: the
    ERC721 handler on short calldata, proposal identifiers modulo 256, the pending-vote
    counter after a deletion or a lost update, a missing nonce, substrate messages without
    a type, a substrate block that cannot be decoded, a password prompt nobody can answer,
    substrate votes that all fail, withdrawals by token, destinations beyond a byte, a
    bridge address that does not parse, keys in the log, a deposit lost at a restart.
  \<^item> Interleavings: a running relayer receives every deposit once and in order
    (\<open>relayer_receives_every_deposit\<close>, \<open>substrate_transfers_received\<close>), and under a fair
    scheduler what a listener has sent is routed at some later time, unless the program ends
    (\<open>every_sent_message_is_routed\<close>, \<open>every_deposit_is_routed\<close>); concurrent transactions behave as if sent one after another
    (\<open>concurrent_transacts_serialize\<close>), never share a nonce and never wait for ever.

  \<^bold>\<open>Not modelled.\<close> Of the command line, cobra and viper themselves: in which order cobra
  calls the functions of a command is the hypothesis \<open>cobra_documented\<close>, the values of the
  flags are parameters, and the binding of flags to viper is left out, as it only calls
  the library. Of \<open>big.Float\<close>, negative numbers of decimals and literals that are not decimal.
  Methods of the node client that only hand a call on to the RPC library. What the
  OpenTelemetry library does with a counter. The test cases of the end-to-end tests, mocks,
  unit tests and commented-out bodies; the contract ABIs and byte code. Time is
  not modelled: sleeping and durations only order the calls. A route of the running relayer
  is one step, taken when it returns, and nothing is claimed of the state that interleaved
  routes leave: how they interleave at the locks is the subject of \<open>Nonce_Lock\<close> and
  \<open>Forwarder_Lock\<close>, and what becomes of the pending-vote map, which has no lock, of the steps
  \<open>tracker_step\<close>. That a launched route returns is part of the fairness assumed. A command line
  whose flags cannot be parsed, and \<open>--help\<close>, are cobra's and never reach the code.
\<close>

section \<open>From deposit to proposal\<close>

text \<open>
  End to end, over two configured chains: when the source bridge reports an ERC20
  handler for the resource of a deposit and the destination bridge does too, the source
  chain's listener turns the log of \<open>ConstructErc20DepositData\<close> calldata into a message,
  and the destination chain's voter turns that message into a proposal whose data is
  exactly the calldata.
\<close>

theorem deposit_reaches_destination:
  assumes "left_pad_documented L" and "padded_big_documented L"
    and "0 \<le> amount" and "amount < 2 ^ 256"
    and "20 \<le> length recipient" and "length recipient < 2 ^ 61" and "length resp \<noteq> 32"
    and "GetHandlerAddressForResourceID L A (listener_bridge L A srcConfig srcEnv) rid w = (Ok a, w1)"
    and "configured L a (Erc20Handlers srcConfig)"
    and "\<not> configured L a (Erc721Handlers srcConfig @ GenericHandlers srcConfig)"
    and "GetHandlerAddressForResourceID L A (voter_bridge L A dstConfig dstEnv) rid v = (Ok b, v1)"
    and "configured L b (Erc20Handlers dstConfig)"
    and "\<not> configured L b (Erc721Handlers dstConfig @ GenericHandlers dstConfig)"
  shows "\<exists>m. HandleEvent (fst (default_handlers L A srcConfig srcEnv)) src dst n rid
        (ConstructErc20DepositData L recipient amount, spare) resp tx blk w = (Ok m, w1) \<and>
     HandleMessage L (snd (default_handlers L A dstConfig dstEnv)) m v =
       (Ok (NewProposal src n rid (ConstructErc20DepositData L recipient amount) b
              (hex_to_address L (Bridge dstConfig)) tx blk), v1)"
proof -
  from assms(1-7) have "erc20_deposited L (ConstructErc20DepositData L recipient amount) resp"
    by (auto simp: erc20_deposited_def)
  from erc20_codec.reaches_destination [OF this, where E = "fst (default_handlers L A srcConfig srcEnv)"
      and M = "snd (default_handlers L A dstConfig dstEnv)"]
  show ?thesis using assms(8-) by (simp add: default_handlers_contracts default_registries)
qed

text \<open>
  C6: the same for ERC721 deposits, token, recipient and metadata, between handlers
  configured as ERC721 and not as generic handlers.
\<close>

theorem erc721_deposit_reaches_destination:
  assumes "left_pad_documented L" and "padded_big_documented L"
    and "0 \<le> tokenId" and "tokenId < 2 ^ 256" and "length recipient + length metadata < 2 ^ 62"
    and "GetHandlerAddressForResourceID L A (listener_bridge L A srcConfig srcEnv) rid w = (Ok a, w1)"
    and "configured L a (Erc721Handlers srcConfig)" and "\<not> configured L a (GenericHandlers srcConfig)"
    and "GetHandlerAddressForResourceID L A (voter_bridge L A dstConfig dstEnv) rid v = (Ok b, v1)"
    and "configured L b (Erc721Handlers dstConfig)" and "\<not> configured L b (GenericHandlers dstConfig)"
  shows "\<exists>m. HandleEvent (fst (default_handlers L A srcConfig srcEnv)) src dst n rid
        (ConstructErc721DepositData L recipient tokenId metadata, spare) resp tx blk w = (Ok m, w1) \<and>
     HandleMessage L (snd (default_handlers L A dstConfig dstEnv)) m v =
       (Ok (NewProposal src n rid (ConstructErc721DepositData L recipient tokenId metadata) b
              (hex_to_address L (Bridge dstConfig)) tx blk), v1)"
proof -
  from assms(1-5) have
    "erc721_deposited L (ConstructErc721DepositData L recipient tokenId metadata) resp"
    by (auto simp: erc721_deposited_def)
  from erc721_codec.reaches_destination [OF this, where E = "fst (default_handlers L A srcConfig srcEnv)"
      and M = "snd (default_handlers L A dstConfig dstEnv)"]
  show ?thesis using assms(6-) by (simp add: default_handlers_contracts default_registries)
qed

text \<open>
  The same for generic deposits, whatever the metadata, between handlers configured
  as generic ones.
\<close>

theorem generic_deposit_reaches_destination:
  assumes "left_pad_documented L" and "padded_big_documented L" and "length metadata < 2 ^ 62"
    and "GetHandlerAddressForResourceID L A (listener_bridge L A srcConfig srcEnv) rid w = (Ok a, w1)"
    and "configured L a (GenericHandlers srcConfig)"
    and "GetHandlerAddressForResourceID L A (voter_bridge L A dstConfig dstEnv) rid v = (Ok b, v1)"
    and "configured L b (GenericHandlers dstConfig)"
  shows "\<exists>m. HandleEvent (fst (default_handlers L A srcConfig srcEnv)) src dst n rid
        (ConstructGenericDepositData L metadata, spare) resp tx blk w = (Ok m, w1) \<and>
     HandleMessage L (snd (default_handlers L A dstConfig dstEnv)) m v =
       (Ok (NewProposal src n rid (ConstructGenericDepositData L metadata) b
              (hex_to_address L (Bridge dstConfig)) tx blk), v1)"
proof -
  from assms(1-3) have "generic_deposited L (ConstructGenericDepositData L metadata) resp"
    by (auto simp: generic_deposited_def)
  from generic_codec.reaches_destination [OF this, where E = "fst (default_handlers L A srcConfig srcEnv)"
      and M = "snd (default_handlers L A dstConfig dstEnv)"]
  show ?thesis using assms(4-) by (simp add: default_handlers_contracts default_registries)
qed

definition example_bridge_abi :: abi_lib where
  "example_bridge_abi =
     example_abi\<lparr>convert_address := \<lambda>_. Ok (hex_to_address reference_lib ''0x20'')\<rparr>"

definition example_config :: evm_config where
  "example_config = evm_config_of example_flags example_raw_config"

lemma example_config_handlers:
  "configured reference_lib (hex_to_address reference_lib ''0x20'') (Erc20Handlers example_config)"
  "\<not> configured reference_lib (hex_to_address reference_lib ''0x20'')
      (Erc721Handlers example_config @ GenericHandlers example_config)"
  by (simp_all add: example_config_def evm_config_of_def example_raw_config_def reference_lib_def
      string_bytes_def bytes_nat_def)

lemma example_bridge_address:
  "GetHandlerAddressForResourceID reference_lib example_bridge_abi
     (listener_bridge reference_lib example_bridge_abi example_config example_env) 5 w
   = (Ok (hex_to_address reference_lib ''0x20''), w)"
  "GetHandlerAddressForResourceID reference_lib example_bridge_abi
     (voter_bridge reference_lib example_bridge_abi example_config example_env) 5 v
   = (Ok (hex_to_address reference_lib ''0x20''), v)"
  by (simp_all add: GetHandlerAddressForResourceID_def call_for_def contract_call_def PackMethod_def
      UnpackResult_def listener_bridge_def voter_bridge_def NewBridgeContract_def NewContract_def
      example_bridge_abi_def example_abi_def example_env_def s_bind_def index_at_def)

theorem deposit_reaches_destination_witness:
  "\<exists>m. HandleEvent (fst (default_handlers reference_lib example_bridge_abi example_config example_env))
        1 2 7 5 (ConstructErc20DepositData reference_lib (replicate 20 9) 1000, []) [] 3 4 Map.empty
      = (Ok m, Map.empty) \<and>
     HandleMessage reference_lib
       (snd (default_handlers reference_lib example_bridge_abi example_config example_env)) m (NewVoter 0)
      = (Ok (NewProposal 1 7 5 (ConstructErc20DepositData reference_lib (replicate 20 9) 1000)
               (hex_to_address reference_lib ''0x20'')
               (hex_to_address reference_lib (Bridge example_config)) 3 4), NewVoter 0)"
  by (rule deposit_reaches_destination [OF _ _ _ _ _ _ _ example_bridge_address(1)
        example_config_handlers example_bridge_address(2) example_config_handlers]) simp_all

definition example_721_config :: evm_config where
  "example_721_config = example_config\<lparr>Erc721Handlers := [''0x20'']\<rparr>"

definition example_generic_config :: evm_config where
  "example_generic_config = example_config\<lparr>GenericHandlers := [''0x20'']\<rparr>"

lemma example_other_configs:
  "configured reference_lib (hex_to_address reference_lib ''0x20'') (Erc721Handlers example_721_config)"
  "\<not> configured reference_lib (hex_to_address reference_lib ''0x20'') (GenericHandlers example_721_config)"
  "configured reference_lib (hex_to_address reference_lib ''0x20'') (GenericHandlers example_generic_config)"
  using example_config_handlers(2)
  by (simp_all add: example_721_config_def example_generic_config_def)

lemma example_other_bridges:
  "listener_bridge reference_lib example_bridge_abi example_721_config example_env
   = listener_bridge reference_lib example_bridge_abi example_config example_env"
  "voter_bridge reference_lib example_bridge_abi example_721_config example_env
   = voter_bridge reference_lib example_bridge_abi example_config example_env"
  "listener_bridge reference_lib example_bridge_abi example_generic_config example_env
   = listener_bridge reference_lib example_bridge_abi example_config example_env"
  "voter_bridge reference_lib example_bridge_abi example_generic_config example_env
   = voter_bridge reference_lib example_bridge_abi example_config example_env"
  by (simp_all add: listener_bridge_def voter_bridge_def example_721_config_def
      example_generic_config_def)

theorem erc721_deposit_reaches_destination_witness:
  "\<exists>m. HandleEvent (fst (default_handlers reference_lib example_bridge_abi example_721_config example_env))
        1 2 7 5 (ConstructErc721DepositData reference_lib (replicate 20 9) 1000 [1, 2], []) [] 3 4 Map.empty
      = (Ok m, Map.empty) \<and>
     HandleMessage reference_lib
       (snd (default_handlers reference_lib example_bridge_abi example_721_config example_env)) m (NewVoter 0)
      = (Ok (NewProposal 1 7 5 (ConstructErc721DepositData reference_lib (replicate 20 9) 1000 [1, 2])
               (hex_to_address reference_lib ''0x20'')
               (hex_to_address reference_lib (Bridge example_721_config)) 3 4), NewVoter 0)"
  by (rule erc721_deposit_reaches_destination [OF _ _ _ _ _ _ example_other_configs(1,2) _
        example_other_configs(1,2)]) (simp_all add: example_other_bridges example_bridge_address)

theorem generic_deposit_reaches_destination_witness:
  "\<exists>m. HandleEvent (fst (default_handlers reference_lib example_bridge_abi example_generic_config example_env))
        1 2 7 5 (ConstructGenericDepositData reference_lib [1, 2, 3], []) [] 3 4 Map.empty
      = (Ok m, Map.empty) \<and>
     HandleMessage reference_lib
       (snd (default_handlers reference_lib example_bridge_abi example_generic_config example_env)) m (NewVoter 0)
      = (Ok (NewProposal 1 7 5 (ConstructGenericDepositData reference_lib [1, 2, 3])
               (hex_to_address reference_lib ''0x20'')
               (hex_to_address reference_lib (Bridge example_generic_config)) 3 4), NewVoter 0)"
  by (rule generic_deposit_reaches_destination [OF _ _ _ _ example_other_configs(3) _
        example_other_configs(3)]) (simp_all add: example_other_bridges example_bridge_address)

section \<open>Between EVM and substrate chains\<close>

text \<open>
  C22: a fungible transfer of a substrate chain becomes, on an EVM chain that has the
  resource configured under an ERC20 handler, a proposal with the data of an ERC20 deposit
  of the same amount to the same recipient.
\<close>

theorem substrate_transfer_reaches_evm:
  assumes "left_pad_documented L" and "padded_big_documented L"
    and "eft_Amount evt < 2 ^ 256" and "length (eft_Recipient evt) < 2 ^ 62"
    and "GetHandlerAddressForResourceID L A (voter_bridge L A config env) (eft_ResourceId evt) v = (Ok b, v1)"
    and "configured L b (Erc20Handlers config)"
    and "\<not> configured L b (Erc721Handlers config @ GenericHandlers config)"
  shows "\<exists>m p. FungibleTransferHandler src (Fungible_event evt) = Ok m \<and>
     Destination m = eft_Destination evt \<and>
     HandleMessage L (snd (default_handlers L A config env)) m v = (Ok p, v1) \<and>
     p_Data p = ConstructErc20DepositData L (eft_Recipient evt) (int (eft_Amount evt)) \<and>
     p_Source p = src \<and> p_DepositNonce p = eft_DepositNonce evt \<and> p_ResourceId p = eft_ResourceId evt"
proof -
  from default_registries [of L A config env b] assms(6,7)
  have h: "message_handler_at (snd (default_handlers L A config env)) b = Some (ERC20MessageHandler L)"
    by simp
  have amount: "eft_Amount evt < 256 ^ 32" using assms(3) by simp
  note recipient = small_length_less [OF assms(4)]
  note pads = left_pad_be_bytes [OF assms(1) amount] left_pad_be_bytes [OF assms(1) recipient]
    padded_big_be_bytes [OF assms(2) amount] padded_big_be_bytes [OF assms(2) recipient]
  show ?thesis
    using assms(5) h
    by (simp add: FungibleTransferHandler_def substrate_message_def HandleMessage_def
        default_handlers_contracts MatchAddressWithHandlerFunc_def ERC20MessageHandler_Ok
        NewProposal_def ConstructErc20DepositData_def pads)
qed

theorem substrate_transfer_reaches_evm_witness:
  "\<exists>m p. FungibleTransferHandler 1 (Fungible_event (example_fungible 7)) = Ok m \<and> Destination m = 1 \<and>
     HandleMessage reference_lib
       (snd (default_handlers reference_lib example_bridge_abi example_config example_env)) m (NewVoter 0)
      = (Ok p, NewVoter 0) \<and>
     p_Data p = ConstructErc20DepositData reference_lib (replicate 20 9) 1000"
  using substrate_transfer_reaches_evm [of reference_lib "example_fungible 7", OF _ _ _ _ _
      example_config_handlers, of example_bridge_abi example_env "NewVoter 0" "NewVoter 0" 1]
    example_bridge_address(2) [of "NewVoter 0"]
  by (simp add: example_fungible_def) blast

text \<open>
  C23: an ERC20 deposit of an EVM chain becomes, in a substrate writer with the fungible
  handler registered, the arguments of a transfer of the same amount to the account of the
  same recipient.
\<close>

theorem evm_deposit_reaches_substrate:
  assumes "padded_big_documented L"
    and "0 \<le> amount" and "amount < 2 ^ 256"
    and "20 \<le> length recipient" and "length recipient < 2 ^ 62" and "length resp \<noteq> 32"
    and "GetHandlerAddressForResourceID L A (listener_bridge L A config env) rid w = (Ok a, w1)"
    and "configured L a (Erc20Handlers config)"
    and "\<not> configured L a (Erc721Handlers config @ GenericHandlers config)"
    and "proposal_handler_at wr FungibleTransfer = Some (CreateFungibleProposal S)"
  shows "\<exists>m h. HandleEvent (fst (default_handlers L A config env)) src dst n rid
        (ConstructErc20DepositData L recipient amount, spare) resp tx blk w = (Ok m, w1) \<and>
     proposal_handler_at wr (Type m) = Some h \<and>
     h m = Ok [Arg_AccountID (NewAccountID S recipient), Arg_U128 amount]"
proof -
  obtain n' where n': "amount = int n'" using assms(2) nonneg_int_cases by blast
  with assms(3) have small: "n' < 2 ^ 256" by simp
  from default_registries [of L A config env a] assms(8,9)
  have e: "event_handler_at (fst (default_handlers L A config env)) a = Some Erc20EventHandler"
    by simp
  have "Payload m = [Bytes_val (be_bytes 32 n'), Bytes_val recipient] \<Longrightarrow>
      CreateFungibleProposal S m = Ok [Arg_AccountID (NewAccountID S recipient), Arg_U128 amount]" for m
    using small
    by (simp add: CreateFungibleProposal_def assert_bytes_def index_at_def big_set_bytes_def
        bytes_nat_be_bytes n')
  then show ?thesis
    using assms(7,10) e erc20_deposit_message [OF assms(1) small assms(4-6)]
    by (auto simp: HandleEvent_def default_handlers_contracts match_event_handler_def n')
qed

theorem evm_deposit_reaches_substrate_witness:
  "\<exists>m h. HandleEvent (fst (default_handlers reference_lib example_bridge_abi example_config example_env))
        1 2 7 5 (ConstructErc20DepositData reference_lib (replicate 20 9) 1000, []) [] 3 4 Map.empty
      = (Ok m, Map.empty) \<and>
     proposal_handler_at example_writer (Type m) = Some h \<and>
     h m = Ok [Arg_AccountID (NewAccountID example_sub_lib (replicate 20 9)), Arg_U128 1000]"
  by (rule evm_deposit_reaches_substrate [OF _ _ _ _ _ _ example_bridge_address(1)
        example_config_handlers]) (simp_all add: example_writer_def)

text \<open>
  No message of a substrate listener can be voted on by a substrate writer: the
  handlers leave the message's type empty, and without a handler registered for the empty
  type the vote is refused.
\<close>

theorem substrate_messages_untyped:
  assumes "h \<in> {FungibleTransferHandler, NonFungibleTransferHandler, GenericTransferHandler}"
    and "h src evt = Ok m" and "proposal_handler_at wr '''' = None"
  shows "substrate_VoteProposal S wr m st =
    (Err (Error ''no corresponding substrate handler found for message type ''), st)"
proof -
  have "Type m = ''''"
    using assms(1,2)
    by (auto simp: FungibleTransferHandler_def NonFungibleTransferHandler_def
        GenericTransferHandler_def substrate_message_def split: substrate_event.splits)
  with assms(3) show ?thesis by (simp add: substrate_VoteProposal_def)
qed

theorem substrate_messages_untyped_witness:
  "\<exists>m. FungibleTransferHandler 1 (Fungible_event (example_fungible 7)) = Ok m \<and>
     substrate_VoteProposal example_sub_lib example_writer m 0 =
       (Err (Error ''no corresponding substrate handler found for message type ''), 0)"
proof -
  obtain m where m: "FungibleTransferHandler 1 (Fungible_event (example_fungible 7)) = Ok m"
    by (simp add: FungibleTransferHandler_def)
  have "proposal_handler_at example_writer '''' = None"
    by (simp add: example_writer_def FungibleTransfer_def)
  from substrate_messages_untyped [of FungibleTransferHandler, OF _ m this] m show ?thesis by simp
qed

end
